(* ===== verification/Prelude.thy ===== *)
theory Prelude
  imports Main "HOL-Library.Multiset" "HOL-Library.Monad_Syntax"
    "HOL-Library.Char_ord" "HOL-Library.List_Lexorder"
begin

text \<open>
  The parts of Rust and of its standard library that every component of the program uses:
  64-bit integers in the wrapping arithmetic of a release build, results, the panics of
  \<^verbatim>\<open>expect\<close>, \<^verbatim>\<open>unwrap\<close> and \<^verbatim>\<open>assert!\<close>, the ordered maps and sets
  (\<^verbatim>\<open>BTreeMap\<close>, \<^verbatim>\<open>BTreeSet\<close>) and the vector operations \<^verbatim>\<open>position\<close> and
  \<^verbatim>\<open>swap_remove\<close>.

  Conventions of the whole development:
  \<^item> a Rust function that can panic returns an \<^typ>\<open>'a option\<close>, and \<^term>\<open>None\<close> is the
    panic (the panic hook of the dealer and the foreign function boundary of the client both
    end the process there, so nothing observes a state after it);
  \<^item> a \<^verbatim>\<open>Result<T, E>\<close> is the sum \<open>'e + 'a\<close>, with \<^term>\<open>Inl\<close> for \<^verbatim>\<open>Err\<close>;
  \<^item> \<^verbatim>\<open>i64\<close>, \<^verbatim>\<open>i32\<close> and \<^verbatim>\<open>u32\<close> values are \<^typ>\<open>int\<close>, every arithmetic operation on
    them followed by the wrap of its width;
  \<^item> a \<^verbatim>\<open>BTreeMap\<close> is the list of its entries in ascending order of the keys, which is the
    order in which Rust iterates over it.
\<close>

named_theorems i64_simps "arithmetic that stays inside the range of a 64-bit integer"
named_theorems btree_simps "lookups after updates of an ordered map"

section \<open>Machine integers\<close>

definition i64_min :: int where "i64_min = - (2 ^ 63)"
definition i64_max :: int where "i64_max = 2 ^ 63 - 1"

definition in_i64 :: "int \<Rightarrow> bool" where
  "in_i64 x \<longleftrightarrow> i64_min \<le> x \<and> x \<le> i64_max"

definition wrap_i64 :: "int \<Rightarrow> int" where
  "wrap_i64 x = (x + 2 ^ 63) mod 2 ^ 64 - 2 ^ 63"

definition i64_add :: "int \<Rightarrow> int \<Rightarrow> int" where "i64_add a b = wrap_i64 (a + b)"
definition i64_sub :: "int \<Rightarrow> int \<Rightarrow> int" where "i64_sub a b = wrap_i64 (a - b)"
definition i64_mul :: "int \<Rightarrow> int \<Rightarrow> int" where "i64_mul a b = wrap_i64 (a * b)"
definition i64_neg :: "int \<Rightarrow> int" where "i64_neg a = wrap_i64 (- a)"
definition i64_abs :: "int \<Rightarrow> int" where "i64_abs a = wrap_i64 \<bar>a\<bar>"

text \<open>Division truncates towards zero and panics on a zero divisor and on overflow.\<close>

definition i64_div :: "int \<Rightarrow> int \<Rightarrow> int option" where
  "i64_div a b =
     (if b = 0 \<or> (a = i64_min \<and> b = - 1) then None
      else Some (sgn a * sgn b * (\<bar>a\<bar> div \<bar>b\<bar>)))"

text \<open>The sum of an iterator of \<^verbatim>\<open>i64\<close>.\<close>

definition i64_sum :: "int list \<Rightarrow> int" where
  "i64_sum xs = fold (\<lambda>x acc. i64_add acc x) xs 0"

definition wrap_u64 :: "int \<Rightarrow> int" where "wrap_u64 x = x mod 2 ^ 64"
definition wrap_u32 :: "int \<Rightarrow> int" where "wrap_u32 x = x mod 2 ^ 32"
definition wrap_i32 :: "int \<Rightarrow> int" where "wrap_i32 x = (x + 2 ^ 31) mod 2 ^ 32 - 2 ^ 31"
definition wrap_u8 :: "int \<Rightarrow> int" where "wrap_u8 x = x mod 2 ^ 8"

text \<open>The sum of an iterator of \<^verbatim>\<open>u64\<close>, and \<^verbatim>\<open>checked_sub\<close>.\<close>

definition u64_sum :: "int list \<Rightarrow> int" where
  "u64_sum xs = fold (\<lambda>x acc. wrap_u64 (acc + x)) xs 0"

definition u64_checked_sub :: "int \<Rightarrow> int \<Rightarrow> int option" where
  "u64_checked_sub a b = (if b \<le> a then Some (a - b) else None)"

text \<open>A vector of bytes is a list of characters: a \<^typ>\<open>char\<close> has the 256 values of a \<^verbatim>\<open>u8\<close>.\<close>

type_synonym bytes = string

lemma wrap_i64_id [i64_simps]: "in_i64 x \<Longrightarrow> wrap_i64 x = x"
  by (simp add: wrap_i64_def in_i64_def i64_min_def i64_max_def)

lemma wrap_i64_range: "in_i64 (wrap_i64 x)"
proof -
  have "0 \<le> (x + 2 ^ 63) mod 2 ^ 64" and "(x + 2 ^ 63) mod 2 ^ 64 < (2 ^ 64 :: int)"
    by simp_all
  then show ?thesis by (simp add: wrap_i64_def in_i64_def i64_min_def i64_max_def)
qed

lemma i64_add_id [i64_simps]: "in_i64 (a + b) \<Longrightarrow> i64_add a b = a + b"
  and i64_sub_id [i64_simps]: "in_i64 (a - b) \<Longrightarrow> i64_sub a b = a - b"
  and i64_mul_id [i64_simps]: "in_i64 (a * b) \<Longrightarrow> i64_mul a b = a * b"
  and i64_neg_id [i64_simps]: "in_i64 (- a) \<Longrightarrow> i64_neg a = - a"
  and i64_abs_id [i64_simps]: "in_i64 \<bar>a\<bar> \<Longrightarrow> i64_abs a = \<bar>a\<bar>"
  by (simp_all add: i64_add_def i64_sub_def i64_mul_def i64_neg_def i64_abs_def i64_simps)

lemma in_i64_between: "in_i64 a \<Longrightarrow> in_i64 b \<Longrightarrow> a \<le> x \<Longrightarrow> x \<le> b \<Longrightarrow> in_i64 x"
  by (simp add: in_i64_def)

lemma in_i64_nonneg: "0 \<le> x \<Longrightarrow> x \<le> i64_max \<Longrightarrow> in_i64 x"
  by (simp add: in_i64_def i64_min_def i64_max_def)

lemma fold_i64_add:
  assumes "\<forall>x \<in> set xs. 0 \<le> x" and "0 \<le> acc" and "acc + sum_list xs \<le> i64_max"
  shows "fold (\<lambda>x acc. i64_add acc x) xs acc = acc + sum_list xs"
  using assms
proof (induction xs arbitrary: acc)
  case Nil
  then show ?case by simp
next
  case (Cons x xs)
  from Cons.prems have nn: "0 \<le> sum_list xs" by (auto intro: sum_list_nonneg)
  with Cons.prems have "in_i64 (acc + x)" by (intro in_i64_nonneg) auto
  with Cons show ?case by (simp add: i64_simps add.assoc)
qed

lemma i64_sum_id [i64_simps]:
  "\<forall>x \<in> set xs. 0 \<le> x \<Longrightarrow> sum_list xs \<le> i64_max \<Longrightarrow> i64_sum xs = sum_list xs"
  by (simp add: i64_sum_def fold_i64_add)

definition in_u64 :: "int \<Rightarrow> bool" where
  "in_u64 x \<longleftrightarrow> 0 \<le> x \<and> x < 2 ^ 64"

lemma wrap_u64_id [i64_simps]: "in_u64 x \<Longrightarrow> wrap_u64 x = x"
  by (simp add: wrap_u64_def in_u64_def)

lemma wrap_u64_range: "in_u64 (wrap_u64 x)"
  by (simp add: wrap_u64_def in_u64_def)

lemma wrap_u64_idem [simp]: "wrap_u64 (wrap_u64 x + y) = wrap_u64 (x + y)"
  by (simp add: wrap_u64_def mod_add_left_eq)

lemma fold_u64_add: "fold (\<lambda>x acc. wrap_u64 (acc + x)) xs acc =
    (if xs = [] then acc else wrap_u64 (acc + sum_list xs))"
  by (induction xs arbitrary: acc) (auto simp: add.assoc)

lemma u64_sum_eq: "u64_sum xs = wrap_u64 (sum_list xs)"
proof (cases xs)
  case Nil
  then show ?thesis by (simp add: u64_sum_def wrap_u64_def)
next
  case (Cons x ys)
  then show ?thesis unfolding u64_sum_def fold_u64_add by simp
qed

section \<open>Panics\<close>

definition rust_assert :: "bool \<Rightarrow> unit option" where
  "rust_assert b = (if b then Some () else None)"

lemma rust_assert_simps [simp]: "rust_assert True = Some ()" "rust_assert False = None"
  by (simp_all add: rust_assert_def)

lemma rust_assert_Some [simp]: "rust_assert b = Some u \<longleftrightarrow> b"
  by (simp add: rust_assert_def)

text \<open>\<^verbatim>\<open>Result::expect\<close> panics on \<^verbatim>\<open>Err\<close>.\<close>

fun expect_ok :: "'e + 'a \<Rightarrow> 'a option" where
  "expect_ok (Inl e) = None"
| "expect_ok (Inr x) = Some x"

fun res_ok :: "'e + 'a \<Rightarrow> 'a option" where
  "res_ok (Inl e) = None"
| "res_ok (Inr x) = Some x"

fun is_ok :: "'e + 'a \<Rightarrow> bool" where
  "is_ok (Inl e) = False"
| "is_ok (Inr x) = True"

text \<open>A loop over a list whose body can panic.\<close>

fun foldM :: "('a \<Rightarrow> 's \<Rightarrow> 's option) \<Rightarrow> 'a list \<Rightarrow> 's \<Rightarrow> 's option" where
  "foldM f [] s = Some s"
| "foldM f (x # xs) s = (case f x s of None \<Rightarrow> None | Some s' \<Rightarrow> foldM f xs s')"

lemma foldM_invariant:
  assumes "foldM f xs s = Some t" and "P s"
    and "\<And>x s s'. x \<in> set xs \<Longrightarrow> P s \<Longrightarrow> f x s = Some s' \<Longrightarrow> P s'"
  shows "P t"
  using assms
proof (induction xs arbitrary: s)
  case Nil
  then show ?case by simp
next
  case (Cons x xs)
  from Cons.prems(1) obtain s' where s': "f x s = Some s'" and t: "foldM f xs s' = Some t"
    by (auto split: option.splits)
  have "P s'" by (rule Cons.prems(3)[of x s]) (use Cons.prems(2) s' in simp_all)
  with t show ?case
  proof (rule Cons.IH)
    show "P b" if "y \<in> set xs" "P a" "f y a = Some b" for y a b
      by (rule Cons.prems(3)[of y a]) (use that in simp_all)
  qed
qed

lemma bind_SomeE:
  assumes "Option.bind m f = Some y"
  obtains x where "m = Some x" "f x = Some y"
  using assms by (auto simp: bind_eq_Some_conv)

lemma expect_ok_Some [simp]: "expect_ok r = Some x \<longleftrightarrow> r = Inr x"
  by (cases r) auto

text \<open>A loop that logs what it does extends the log by what the runs of its body log.\<close>

lemma foldM_relation:
  assumes "foldM f xs s = Some t" and "\<And>s. R s s"
    and "\<And>a b c. R a b \<Longrightarrow> R b c \<Longrightarrow> R a c"
    and "\<And>x s s'. x \<in> set xs \<Longrightarrow> f x s = Some s' \<Longrightarrow> R s s'"
  shows "R s t"
  by (rule foldM_invariant[where P = "R s", OF assms(1)]) (use assms(2-4) in blast)+

section \<open>Ordered maps\<close>

type_synonym ('k, 'v) btree = "('k \<times> 'v) list"

definition bt_wf :: "('k::linorder, 'v) btree \<Rightarrow> bool" where
  "bt_wf m \<longleftrightarrow> sorted_wrt (<) (map fst m)"

definition bt_get :: "('k, 'v) btree \<Rightarrow> 'k \<Rightarrow> 'v option" where
  "bt_get m k = map_of m k"

fun bt_insert :: "'k::linorder \<Rightarrow> 'v \<Rightarrow> ('k, 'v) btree \<Rightarrow> ('k, 'v) btree" where
  "bt_insert k v [] = [(k, v)]"
| "bt_insert k v ((k', v') # m) =
     (if k < k' then (k, v) # (k', v') # m
      else if k = k' then (k, v) # m
      else (k', v') # bt_insert k v m)"

definition bt_remove :: "'k \<Rightarrow> ('k, 'v) btree \<Rightarrow> ('k, 'v) btree" where
  "bt_remove k m = filter (\<lambda>e. fst e \<noteq> k) m"

definition bt_keys :: "('k, 'v) btree \<Rightarrow> 'k list" where
  "bt_keys m = map fst m"

definition bt_values :: "('k, 'v) btree \<Rightarrow> 'v list" where
  "bt_values m = map snd m"

definition bt_contains :: "('k, 'v) btree \<Rightarrow> 'k \<Rightarrow> bool" where
  "bt_contains m k \<longleftrightarrow> bt_get m k \<noteq> None"

definition bt_map_values :: "('v \<Rightarrow> 'w) \<Rightarrow> ('k, 'v) btree \<Rightarrow> ('k, 'w) btree" where
  "bt_map_values f m = map (\<lambda>(k, v). (k, f v)) m"

definition bt_from_list :: "('k::linorder \<times> 'v) list \<Rightarrow> ('k, 'v) btree" where
  "bt_from_list xs = fold (\<lambda>(k, v) m. bt_insert k v m) xs []"

text \<open>
  The contract that the clients of a map rely on, and what \<^verbatim>\<open>BTreeMap\<close> promises beyond it: the
  keys come in ascending order.
\<close>

locale finite_map =
  fixes empty :: "'m"
    and get :: "'m \<Rightarrow> 'k \<Rightarrow> 'v option"
    and insert :: "'k \<Rightarrow> 'v \<Rightarrow> 'm \<Rightarrow> 'm"
    and remove :: "'k \<Rightarrow> 'm \<Rightarrow> 'm"
    and keys :: "'m \<Rightarrow> 'k list"
    and wf :: "'m \<Rightarrow> bool"
  assumes get_empty: "get empty k = None"
    and get_insert: "get (insert k v m) k' = (if k' = k then Some v else get m k')"
    and get_remove: "get (remove k m) k' = (if k' = k then None else get m k')"
    and keys_get: "k \<in> set (keys m) \<longleftrightarrow> get m k \<noteq> None"
    and keys_distinct: "wf m \<Longrightarrow> distinct (keys m)"
    and wf_empty: "wf empty"
    and wf_insert: "wf m \<Longrightarrow> wf (insert k v m)"
    and wf_remove: "wf m \<Longrightarrow> wf (remove k m)"
begin

lemma keys_insert: "set (keys (insert k v m)) = Set.insert k (set (keys m))"
  by (auto simp: keys_get get_insert split: if_splits)

lemma keys_remove: "set (keys (remove k m)) = set (keys m) - {k}"
  by (auto simp: keys_get get_remove split: if_splits)

lemma get_fold_remove: "get (fold remove ks m) k = (if k \<in> set ks then None else get m k)"
  by (induction ks arbitrary: m) (auto simp: get_remove)

lemma wf_fold_remove: "wf m \<Longrightarrow> wf (fold remove ks m)"
  by (induction ks arbitrary: m) (auto simp: wf_remove)

lemma get_fold_insert:
  "get (fold (\<lambda>x m. insert (f x) (g x) m) xs m) k =
     (case find (\<lambda>x. f x = k) (rev xs) of None \<Rightarrow> get m k | Some x \<Rightarrow> Some (g x))"
proof (induction xs arbitrary: m)
  case Nil
  then show ?case by simp
next
  case (Cons x xs)
  have app: "find P (ys @ zs) = (case find P ys of None \<Rightarrow> find P zs | r \<Rightarrow> r)" for P and ys zs :: "'d list"
    by (induction ys) auto
  show ?case by (simp add: Cons app get_insert split: option.splits)
qed

lemma wf_fold_insert: "wf m \<Longrightarrow> wf (fold (\<lambda>x m. insert (f x) (g x) m) xs m)"
  by (induction xs arbitrary: m) (auto simp: wf_insert)

end

locale ordered_map = finite_map +
  assumes keys_ascending: "wf m \<Longrightarrow> sorted_wrt (<) (keys m)"

lemma bt_get_Cons [simp]: "bt_get ((k, v) # m) x = (if x = k then Some v else bt_get m x)"
  by (simp add: bt_get_def)

lemma bt_get_Nil [simp]: "bt_get [] x = None"
  by (simp add: bt_get_def)

lemma bt_get_insert [btree_simps]:
  "bt_get (bt_insert k v m) x = (if x = k then Some v else bt_get m x)"
  by (induction k v m rule: bt_insert.induct) auto

lemma bt_get_remove [btree_simps]:
  "bt_get (bt_remove k m) x = (if x = k then None else bt_get m x)"
  by (induction m) (auto simp: bt_remove_def)

lemma bt_get_map_values [btree_simps]: "bt_get (bt_map_values f m) x = map_option f (bt_get m x)"
  by (induction m) (auto simp: bt_map_values_def)

lemma keys_bt_insert: "set (map fst (bt_insert k v m)) = insert k (set (map fst m))"
  by (induction k v m rule: bt_insert.induct) auto

lemma set_bt_insert: "set (bt_insert k v m) \<subseteq> insert (k, v) (set m)"
  by (induction k v m rule: bt_insert.induct) auto

lemma bt_wf_insert: "bt_wf m \<Longrightarrow> bt_wf (bt_insert k v m)"
proof (induction k v m rule: bt_insert.induct)
  case (1 k v)
  then show ?case by (simp add: bt_wf_def)
next
  case (2 k v k' v' m)
  then show ?case
    using keys_bt_insert[of k v m] by (auto simp: bt_wf_def)
qed

interpretation btm: ordered_map "[] :: ('k::linorder \<times> 'v) list" bt_get bt_insert bt_remove bt_keys bt_wf
proof
  show "bt_wf (bt_remove k m)" if "bt_wf m" for k and m :: "('k \<times> 'v) list"
  proof -
    have "map fst (bt_remove k m) = filter (\<lambda>x. x \<noteq> k) (map fst m)"
      by (simp add: bt_remove_def filter_map comp_def)
    with that show ?thesis by (simp add: bt_wf_def sorted_wrt_filter)
  qed
  show "(k \<in> set (bt_keys m)) = (bt_get m k \<noteq> None)" for k and m :: "('k \<times> 'v) list"
    by (auto simp: bt_keys_def bt_get_def map_of_eq_None_iff)
  show "bt_wf (bt_insert k v m)" if "bt_wf m" for k v and m :: "('k \<times> 'v) list"
    using that by (rule bt_wf_insert)
  show "distinct (bt_keys m)" if "bt_wf m" for m :: "('k \<times> 'v) list"
    using that by (simp add: bt_wf_def bt_keys_def strict_sorted_iff)
qed (simp_all add: btree_simps bt_keys_def bt_wf_def)

declare btm.get_fold_remove [btree_simps]

lemma bt_get_in_set: "bt_get m k = Some v \<Longrightarrow> (k, v) \<in> set m"
  by (simp add: bt_get_def map_of_SomeD)

lemma bt_get_wf_iff: "bt_wf m \<Longrightarrow> bt_get m k = Some v \<longleftrightarrow> (k, v) \<in> set m"
  using strict_sorted_imp_sorted by (fastforce simp: bt_wf_def bt_get_def strict_sorted_iff
      intro!: map_of_is_SomeI dest: map_of_SomeD)

lemma bt_wf_map_values [simp]: "bt_wf (bt_map_values f m) = bt_wf m"
  by (simp add: bt_wf_def bt_map_values_def comp_def case_prod_beta)

text \<open>
  A \<^verbatim>\<open>BTreeSet\<close> is a \<^typ>\<open>'a set\<close> where only membership is observed, and a
  \<^verbatim>\<open>BTreeMap\<close> to unit where it is iterated.
\<close>

section \<open>Vectors\<close>

fun position :: "('a \<Rightarrow> bool) \<Rightarrow> 'a list \<Rightarrow> nat option" where
  "position P [] = None"
| "position P (x # xs) = (if P x then Some 0 else map_option Suc (position P xs))"

text \<open>\<^verbatim>\<open>swap_remove(i)\<close> takes element \<^term>\<open>i\<close> out and moves the last element to its place.\<close>

definition swap_remove :: "nat \<Rightarrow> 'a list \<Rightarrow> ('a \<times> 'a list) option" where
  "swap_remove i xs =
     (if i < length xs then Some (xs ! i, butlast (xs[i := last xs])) else None)"

lemma position_Some:
  "position P xs = Some i \<Longrightarrow> i < length xs \<and> P (xs ! i)"
  by (induction xs arbitrary: i) (auto split: if_splits)

lemma position_None: "position P xs = None \<longleftrightarrow> (\<forall>x \<in> set xs. \<not> P x)"
  by (induction xs) auto

lemma mset_butlast_update:
  assumes "i < length xs"
  shows "add_mset (xs ! i) (mset (butlast (xs[i := last xs]))) = mset xs"
proof -
  from assms have ne: "xs \<noteq> []" by auto
  have "last (xs[i := last xs]) = last xs"
    using assms ne by (cases "i = length xs - 1") (auto simp: last_conv_nth nth_list_update)
  moreover have "mset (xs[i := last xs]) = add_mset (last xs) (mset xs - {# xs ! i #})"
    using assms by (simp add: mset_update)
  moreover have "xs[i := last xs] \<noteq> []" using ne by simp
  ultimately have "add_mset (last xs) (mset (butlast (xs[i := last xs]))) =
      add_mset (last xs) (mset xs - {# xs ! i #})"
    by (metis append_butlast_last_id mset.simps(2) mset_append add_mset_add_single mset.simps(1))
  then have "mset (butlast (xs[i := last xs])) = mset xs - {# xs ! i #}" by simp
  then show ?thesis using assms by (simp add: insert_DiffM)
qed

lemma swap_remove_mset:
  "swap_remove i xs = Some (x, ys) \<Longrightarrow> x = xs ! i \<and> add_mset x (mset ys) = mset xs"
  by (auto simp: swap_remove_def mset_butlast_update split: if_splits)

end
