(* ===== verification/F64.thy ===== *)
theory F64
  imports Complex_Main Prelude "HOL-Library.Log_Nat"
begin

text \<open>
  The \<^verbatim>\<open>f64\<close> type of Rust: IEEE 754 binary64 with round-to-nearest-even.  A finite value
  is the rational number it denotes (\<open>F_fin r\<close>, every rational the operations return has the
  form \<open>m * 2 powi e\<close> with \<open>\<bar>m\<bar> \<le> 2 ^ 53\<close> and \<open>-1074 \<le> e\<close>), apart from the negative zero,
  which is a value of its own.  The operations compute: the exponent of a rational is found
  from the bit lengths of its numerator and denominator, so a concrete expression is
  evaluated by the kernel.
\<close>

named_theorems f64_simps "operations on finite floating point values"

datatype f64 = F_nan | F_inf bool | F_nzero | F_fin rat

section \<open>Rounding\<close>

definition ilog2 :: "rat \<Rightarrow> int" where
  "ilog2 r = (let (p, q) = quotient_of r; k = bitlen p - bitlen q
              in if 2 powi k \<le> r then k else k - 1)"

text \<open>Nearest integer, ties to even.\<close>

definition rne :: "rat \<Rightarrow> int" where
  "rne x = (let f = \<lfloor>x\<rfloor>; d = x - of_int f
            in if d < 1 / 2 then f else if 1 / 2 < d then f + 1
               else if even f then f else f + 1)"

text \<open>Exponent of the last place of a positive rational, and the rounded magnitude.\<close>

definition ulp_exp :: "rat \<Rightarrow> int" where
  "ulp_exp r = max (ilog2 r - 52) (- 1074)"

definition fl :: "rat \<Rightarrow> rat" where
  "fl r = (let e = ulp_exp r in of_int (rne (r / 2 powi e)) * 2 powi e)"

definition f_zero :: "bool \<Rightarrow> f64" where
  "f_zero neg = (if neg then F_nzero else F_fin 0)"

text \<open>
  The double nearest to \<^term>\<open>r\<close>; \<^term>\<open>neg\<close> is the sign an exact zero result takes.  The
  largest finite double is \<open>(2 ^ 53 - 1) * 2 powi 971\<close>.
\<close>

definition f64_of_rat :: "bool \<Rightarrow> rat \<Rightarrow> f64" where
  "f64_of_rat neg r =
     (if r = 0 then f_zero neg
      else let e = ulp_exp \<bar>r\<bar>; m = rne (\<bar>r\<bar> / 2 powi e)
        in if 971 < e \<or> (e = 971 \<and> 2 ^ 53 \<le> m) then F_inf (r < 0)
           else if m = 0 then f_zero (r < 0)
           else F_fin (if r < 0 then - (of_int m * 2 powi e) else of_int m * 2 powi e))"

text \<open>A decimal literal of the source.\<close>

definition f64_lit :: "rat \<Rightarrow> f64" where
  "f64_lit r = f64_of_rat False r"

section \<open>Operations\<close>

fun f_neg_bit :: "f64 \<Rightarrow> bool" where
  "f_neg_bit F_nan = False"
| "f_neg_bit (F_inf s) = s"
| "f_neg_bit F_nzero = True"
| "f_neg_bit (F_fin r) = (r < 0)"

fun f_is_fin :: "f64 \<Rightarrow> bool" where
  "f_is_fin F_nzero = True"
| "f_is_fin (F_fin r) = True"
| "f_is_fin x = False"

fun f_val :: "f64 \<Rightarrow> rat" where
  "f_val (F_fin r) = r"
| "f_val x = 0"

fun f64_neg :: "f64 \<Rightarrow> f64" where
  "f64_neg F_nan = F_nan"
| "f64_neg (F_inf s) = F_inf (\<not> s)"
| "f64_neg F_nzero = F_fin 0"
| "f64_neg (F_fin r) = (if r = 0 then F_nzero else F_fin (- r))"

fun f64_abs :: "f64 \<Rightarrow> f64" where
  "f64_abs F_nan = F_nan"
| "f64_abs (F_inf s) = F_inf False"
| "f64_abs F_nzero = F_fin 0"
| "f64_abs (F_fin r) = F_fin \<bar>r\<bar>"

fun f64_add :: "f64 \<Rightarrow> f64 \<Rightarrow> f64" where
  "f64_add F_nan y = F_nan"
| "f64_add x F_nan = F_nan"
| "f64_add (F_inf s) (F_inf t) = (if s = t then F_inf s else F_nan)"
| "f64_add (F_inf s) y = F_inf s"
| "f64_add x (F_inf t) = F_inf t"
| "f64_add F_nzero F_nzero = F_nzero"
| "f64_add x y = f64_of_rat False (f_val x + f_val y)"

definition f64_sub :: "f64 \<Rightarrow> f64 \<Rightarrow> f64" where
  "f64_sub x y = f64_add x (f64_neg y)"

fun f64_mul :: "f64 \<Rightarrow> f64 \<Rightarrow> f64" where
  "f64_mul F_nan y = F_nan"
| "f64_mul x F_nan = F_nan"
| "f64_mul (F_inf s) (F_inf t) = F_inf (s \<noteq> t)"
| "f64_mul (F_inf s) y = (if f_val y = 0 then F_nan else F_inf (s \<noteq> f_neg_bit y))"
| "f64_mul x (F_inf t) = (if f_val x = 0 then F_nan else F_inf (f_neg_bit x \<noteq> t))"
| "f64_mul x y = f64_of_rat (f_neg_bit x \<noteq> f_neg_bit y) (f_val x * f_val y)"

fun f64_div :: "f64 \<Rightarrow> f64 \<Rightarrow> f64" where
  "f64_div F_nan y = F_nan"
| "f64_div x F_nan = F_nan"
| "f64_div (F_inf s) (F_inf t) = F_nan"
| "f64_div (F_inf s) y = F_inf (s \<noteq> f_neg_bit y)"
| "f64_div x (F_inf t) = f_zero (f_neg_bit x \<noteq> t)"
| "f64_div x y =
     (if f_val y = 0
      then if f_val x = 0 then F_nan else F_inf (f_neg_bit x \<noteq> f_neg_bit y)
      else f64_of_rat (f_neg_bit x \<noteq> f_neg_bit y) (f_val x / f_val y))"

text \<open>Comparisons: every comparison with a NaN is false, and the two zeros are equal.\<close>

fun f64_lt :: "f64 \<Rightarrow> f64 \<Rightarrow> bool" where
  "f64_lt F_nan y = False"
| "f64_lt x F_nan = False"
| "f64_lt (F_inf s) (F_inf t) = (s \<and> \<not> t)"
| "f64_lt (F_inf s) y = s"
| "f64_lt x (F_inf t) = (\<not> t)"
| "f64_lt x y = (f_val x < f_val y)"

fun f64_eq :: "f64 \<Rightarrow> f64 \<Rightarrow> bool" where
  "f64_eq F_nan y = False"
| "f64_eq x F_nan = False"
| "f64_eq (F_inf s) (F_inf t) = (s = t)"
| "f64_eq (F_inf s) y = False"
| "f64_eq x (F_inf t) = False"
| "f64_eq x y = (f_val x = f_val y)"

definition f64_le :: "f64 \<Rightarrow> f64 \<Rightarrow> bool" where
  "f64_le x y = (f64_lt x y \<or> f64_eq x y)"

text \<open>\<^verbatim>\<open>f64::min\<close> and \<^verbatim>\<open>f64::max\<close> return the other argument when one is a NaN.\<close>

definition f64_min :: "f64 \<Rightarrow> f64 \<Rightarrow> f64" where
  "f64_min x y = (if x = F_nan then y else if y = F_nan then x else if f64_lt y x then y else x)"

definition f64_max :: "f64 \<Rightarrow> f64 \<Rightarrow> f64" where
  "f64_max x y = (if x = F_nan then y else if y = F_nan then x else if f64_lt x y then y else x)"

text \<open>\<^verbatim>\<open>f64::MAX\<close>.\<close>

definition f64_MAX :: f64 where
  "f64_MAX = F_fin ((2 ^ 53 - 1) * 2 powi 971)"

text \<open>\<^verbatim>\<open>v as f64\<close> of an integer.\<close>

definition f64_of_int :: "int \<Rightarrow> f64" where
  "f64_of_int n = f64_of_rat False (of_int n)"

text \<open>
  \<^verbatim>\<open>f64::round\<close>: to the nearest integer, ties away from zero.  A finite double with a
  fractional part is below \<open>2 ^ 52\<close>, so the result is itself a double.
\<close>

definition round_away :: "rat \<Rightarrow> int" where
  "round_away r = (if r < 0 then - \<lfloor>1 / 2 - r\<rfloor> else \<lfloor>r + 1 / 2\<rfloor>)"

fun f64_round :: "f64 \<Rightarrow> f64" where
  "f64_round (F_fin r) =
     (let n = round_away r in if n = 0 then f_zero (r < 0) else F_fin (of_int n))"
| "f64_round x = x"

text \<open>\<^verbatim>\<open>x as i64\<close>: truncates, saturates at the ends of the range, and maps NaN to 0.\<close>

definition rat_trunc :: "rat \<Rightarrow> int" where
  "rat_trunc r = (if r < 0 then - \<lfloor>- r\<rfloor> else \<lfloor>r\<rfloor>)"

fun f64_as_i64 :: "f64 \<Rightarrow> int" where
  "f64_as_i64 F_nan = 0"
| "f64_as_i64 (F_inf s) = (if s then i64_min else i64_max)"
| "f64_as_i64 F_nzero = 0"
| "f64_as_i64 (F_fin r) = max i64_min (min i64_max (rat_trunc r))"

text \<open>\<^verbatim>\<open>x as u64\<close>.\<close>

fun f64_as_u64 :: "f64 \<Rightarrow> int" where
  "f64_as_u64 (F_inf s) = (if s then 0 else 2 ^ 64 - 1)"
| "f64_as_u64 (F_fin r) = max 0 (min (2 ^ 64 - 1) (rat_trunc r))"
| "f64_as_u64 x = 0"

lemma f64_as_u64_range: "in_u64 (f64_as_u64 x)"
  by (cases x) (auto simp: in_u64_def)

section \<open>Rounding to the nearest double: error, monotonicity, exactness\<close>

lemma ilog2_bounds:
  assumes "0 < r"
  shows "2 powi (ilog2 r) \<le> r" and "r < 2 powi (ilog2 r + 1)"
proof -
  obtain p q where pq: "quotient_of r = (p, q)" by (cases "quotient_of r")
  have q: "0 < q" using pq by (rule quotient_of_denom_pos)
  have r: "r = of_int p / of_int q" using pq by (rule quotient_of_div)
  with assms q have p: "0 < p" by (simp add: zero_less_divide_iff)
  have two: "(2::rat) powi (bitlen n) = 2 ^ nat (bitlen n)" if "0 < n" for n
    using bitlen_nonneg[of n] by (simp add: power_int_def)
  have ub: "rat_of_int n < 2 powi bitlen n" if "0 < n" for n
  proof -
    have "n < 2 ^ nat (bitlen n)" using bitlen_bounds[OF that] by simp
    then have "rat_of_int n < rat_of_int (2 ^ nat (bitlen n))" by (simp only: of_int_less_iff)
    then show ?thesis by (simp add: two[OF that])
  qed
  have lb: "2 powi (bitlen n - 1) \<le> rat_of_int n" if "0 < n" for n
  proof -
    have "2 ^ nat (bitlen n - 1) \<le> n" using bitlen_bounds[OF that] by simp
    then have "rat_of_int (2 ^ nat (bitlen n - 1)) \<le> rat_of_int n" by (simp only: of_int_le_iff)
    moreover have "0 \<le> bitlen n - 1"
      using bitlen_bounds[OF that] that bitlen_nonneg[of n] by (cases "bitlen n = 0") simp_all
    ultimately show ?thesis by (simp add: power_int_def)
  qed
  let ?k = "bitlen p - bitlen q"
  have "r < 2 powi (bitlen p) / 2 powi (bitlen q - 1)"
    unfolding r using ub[OF p] lb[OF q] p q by (intro frac_less) simp_all
  also have "\<dots> = 2 powi (?k + 1)"
    by (simp add: power_int_diff power_int_add)
  finally have up: "r < 2 powi (?k + 1)" .
  have "2 powi (?k - 1) = 2 powi (bitlen p - 1) / (2 powi bitlen q :: rat)"
    by (simp add: power_int_diff)
  also have "\<dots> \<le> r"
    unfolding r using lb[OF p] ub[OF q] p q by (intro frac_le) simp_all
  finally have lo: "2 powi (?k - 1) \<le> r" .
  have il: "ilog2 r = (if 2 powi ?k \<le> r then ?k else ?k - 1)"
    by (simp add: ilog2_def pq)
  show "2 powi (ilog2 r) \<le> r" using lo by (simp add: il)
  show "r < 2 powi (ilog2 r + 1)" using up by (auto simp: il not_le)
qed

lemma rne_error: "\<bar>rat_of_int (rne x) - x\<bar> \<le> 1 / 2"
proof -
  have "rat_of_int \<lfloor>x\<rfloor> \<le> x" and "x < rat_of_int \<lfloor>x\<rfloor> + 1"
    using floor_correct[of x] by simp_all
  then show ?thesis unfolding rne_def Let_def by (auto simp: abs_le_iff)
qed

lemma rne_of_int [simp]: "rne (of_int n) = n"
  by (simp add: rne_def)

lemma rne_mono: "x \<le> y \<Longrightarrow> rne x \<le> rne y"
proof -
  assume xy: "x \<le> y"
  have b: "rat_of_int \<lfloor>x\<rfloor> \<le> x" "x < rat_of_int \<lfloor>x\<rfloor> + 1"
    "rat_of_int \<lfloor>y\<rfloor> \<le> y" "y < rat_of_int \<lfloor>y\<rfloor> + 1"
    using floor_correct[of x] floor_correct[of y] by simp_all
  have fl: "\<lfloor>x\<rfloor> \<le> \<lfloor>y\<rfloor>" using xy by (rule floor_mono)
  show ?thesis
  proof (cases "\<lfloor>x\<rfloor> = \<lfloor>y\<rfloor>")
    case True
    with xy show ?thesis by (auto simp: rne_def Let_def)
  next
    case False
    with fl have "\<lfloor>x\<rfloor> + 1 \<le> \<lfloor>y\<rfloor>" by simp
    moreover have "rne x \<le> \<lfloor>x\<rfloor> + 1" and "\<lfloor>y\<rfloor> \<le> rne y" by (auto simp: rne_def Let_def)
    ultimately show ?thesis by linarith
  qed
qed

lemma powi2_pos [simp]: "0 < (2::rat) powi e"
  by (simp add: power_int_def)

lemma powi2_mono: "a \<le> b \<Longrightarrow> (2::rat) powi a \<le> 2 powi b"
  by (rule power_int_increasing) simp_all

text \<open>Absolute error of half a unit in the last place.\<close>

lemma fl_error_ulp: "0 < r \<Longrightarrow> \<bar>fl r - r\<bar> \<le> 2 powi (ulp_exp r) / 2"
proof -
  let ?e = "ulp_exp r"
  have "fl r - r = (of_int (rne (r / 2 powi ?e)) - r / 2 powi ?e) * 2 powi ?e"
    by (simp add: fl_def Let_def left_diff_distrib)
  then have "\<bar>fl r - r\<bar> = \<bar>of_int (rne (r / 2 powi ?e)) - r / 2 powi ?e\<bar> * 2 powi ?e"
    by (simp add: abs_mult)
  also have "\<dots> \<le> (1 / 2) * 2 powi ?e"
    by (intro mult_right_mono rne_error) (simp add: less_imp_le)
  finally show ?thesis by simp
qed

text \<open>
  The standard model of floating point arithmetic: in the normal range one rounding changes
  a value by at most the fraction \<open>2 powi (-53)\<close> of it.
\<close>

lemma fl_error_rel:
  assumes "2 powi (- 1022) \<le> r"
  shows "\<bar>fl r - r\<bar> \<le> r * (1 / 2 ^ 53)"
proof -
  have r: "0 < r" using assms by (rule less_le_trans[OF powi2_pos])
  have "- 1022 < ilog2 r + 1"
  proof (rule ccontr)
    assume "\<not> ?thesis"
    then have "(2::rat) powi (ilog2 r + 1) \<le> 2 powi (- 1022)" by (intro powi2_mono) simp
    with ilog2_bounds(2)[OF r] assms show False by simp
  qed
  then have e: "ulp_exp r = ilog2 r - 52" by (simp add: ulp_exp_def)
  have "\<bar>fl r - r\<bar> \<le> 2 powi (ilog2 r - 52) / 2"
    using fl_error_ulp[OF r] by (simp add: e)
  also have "\<dots> = 2 powi (ilog2 r) * (1 / 2 ^ 53)"
    by (simp add: power_int_diff)
  also have "\<dots> \<le> r * (1 / 2 ^ 53)"
    using ilog2_bounds(1)[OF r] by (intro mult_right_mono) simp_all
  finally show ?thesis .
qed

lemma ilog2_unique: "2 powi k \<le> r \<Longrightarrow> r < 2 powi (k + 1) \<Longrightarrow> ilog2 r = k"
proof -
  assume a: "2 powi k \<le> r" "r < 2 powi (k + 1)"
  then have r: "0 < r" by (meson less_le_trans powi2_pos)
  have "\<not> k + 1 \<le> ilog2 r"
    using ilog2_bounds(1)[OF r] a(2) powi2_mono[of "k + 1" "ilog2 r"] by linarith
  moreover have "\<not> ilog2 r + 1 \<le> k"
    using ilog2_bounds(2)[OF r] a(1) powi2_mono[of "ilog2 r + 1" k] by linarith
  ultimately show ?thesis by simp
qed

lemma ilog2_mono: "0 < r \<Longrightarrow> r \<le> s \<Longrightarrow> ilog2 r \<le> ilog2 s"
proof (rule ccontr)
  assume a: "0 < r" "r \<le> s" and "\<not> ilog2 r \<le> ilog2 s"
  then have "(2::rat) powi (ilog2 s + 1) \<le> 2 powi (ilog2 r)" by (intro powi2_mono) simp
  with ilog2_bounds(1)[of r] ilog2_bounds(2)[of s] a show False by linarith
qed

lemma ulp_exp_mono: "0 < r \<Longrightarrow> r \<le> s \<Longrightarrow> ulp_exp r \<le> ulp_exp s"
  using ilog2_mono[of r s] by (simp add: ulp_exp_def)

lemma div_powi_int:
  assumes "e \<le> k"
  shows "(2::rat) powi k / 2 powi e = of_int (2 ^ nat (k - e))"
proof -
  have "(2::rat) powi k / 2 powi e = 2 powi (k - e)" by (simp add: power_int_diff)
  then show ?thesis using assms by (simp add: power_int_def)
qed

text \<open>A power of two between the two bounds it meets is not crossed by rounding.\<close>

lemma fl_le_powi:
  assumes "0 < r" "r \<le> 2 powi k" "ulp_exp r \<le> k"
  shows "fl r \<le> 2 powi k"
proof -
  let ?e = "ulp_exp r"
  have "r / 2 powi ?e \<le> of_int (2 ^ nat (k - ?e))"
    unfolding div_powi_int[OF assms(3), symmetric]
    using assms by (intro divide_right_mono) (simp_all add: less_imp_le)
  then have "rne (r / 2 powi ?e) \<le> 2 ^ nat (k - ?e)"
    using rne_mono by (metis rne_of_int)
  then have "rat_of_int (rne (r / 2 powi ?e)) \<le> of_int (2 ^ nat (k - ?e))"
    by (simp only: of_int_le_iff)
  then have "fl r \<le> of_int (2 ^ nat (k - ?e)) * 2 powi ?e"
    by (simp add: fl_def Let_def mult_right_mono less_imp_le)
  then show ?thesis unfolding div_powi_int[OF assms(3), symmetric] by simp
qed

lemma powi_le_fl:
  assumes "0 < r" "2 powi k \<le> r" "ulp_exp r \<le> k"
  shows "2 powi k \<le> fl r"
proof -
  let ?e = "ulp_exp r"
  have "of_int (2 ^ nat (k - ?e)) \<le> r / 2 powi ?e"
    unfolding div_powi_int[OF assms(3), symmetric]
    using assms by (intro divide_right_mono) (simp_all add: less_imp_le)
  then have "2 ^ nat (k - ?e) \<le> rne (r / 2 powi ?e)"
    using rne_mono by (metis rne_of_int)
  then have "rat_of_int (2 ^ nat (k - ?e)) \<le> of_int (rne (r / 2 powi ?e))"
    by (simp only: of_int_le_iff)
  then have "of_int (2 ^ nat (k - ?e)) * 2 powi ?e \<le> fl r"
    by (simp add: fl_def Let_def mult_right_mono less_imp_le)
  then show ?thesis unfolding div_powi_int[OF assms(3), symmetric] by simp
qed

lemma fl_mono:
  assumes "0 < r" "r \<le> s"
  shows "fl r \<le> fl s"
proof (cases "ulp_exp r = ulp_exp s")
  case True
  have "rne (r / 2 powi ulp_exp r) \<le> rne (s / 2 powi ulp_exp r)"
    using assms by (intro rne_mono divide_right_mono) (simp_all add: less_imp_le)
  then have "rat_of_int (rne (r / 2 powi ulp_exp r)) \<le> of_int (rne (s / 2 powi ulp_exp r))"
    by (simp only: of_int_le_iff)
  then show ?thesis
    by (simp add: fl_def Let_def True[symmetric] mult_right_mono less_imp_le)
next
  case False
  with ulp_exp_mono[OF assms] have lt: "ulp_exp r < ulp_exp s" by simp
  have s: "0 < s" using assms by simp
  from lt have es: "ulp_exp s = ilog2 s - 52" by (auto simp: ulp_exp_def max_def split: if_splits)
  let ?k = "ilog2 s"
  have "ilog2 r + 1 \<le> ?k" using lt es by (auto simp: ulp_exp_def max_def split: if_splits)
  then have "r \<le> 2 powi ?k"
    using ilog2_bounds(2)[OF assms(1)] powi2_mono[of "ilog2 r + 1" ?k] by linarith
  then have "fl r \<le> 2 powi ?k" using assms(1) lt es by (intro fl_le_powi) simp_all
  also have "\<dots> \<le> fl s" using s es ilog2_bounds(1)[OF s] by (intro powi_le_fl) simp_all
  finally show ?thesis .
qed

text \<open>Integers up to \<open>2 ^ 53\<close> are doubles.\<close>

lemma fl_int:
  assumes "0 < n" "n < 2 ^ 53"
  shows "fl (of_int n) = of_int n"
proof -
  have n: "0 < rat_of_int n" using assms by simp
  have "rat_of_int n < rat_of_int (2 ^ 53)" using assms by (simp only: of_int_less_iff)
  then have "rat_of_int n < 2 powi 53" by simp
  then have "\<not> 53 \<le> ilog2 (of_int n)"
    using ilog2_bounds(1)[OF n] powi2_mono[of 53 "ilog2 (of_int n)"] by linarith
  then have e: "ulp_exp (of_int n) \<le> 0" by (simp add: ulp_exp_def)
  let ?e = "ulp_exp (of_int n)"
  have "rat_of_int n / 2 powi ?e = of_int n * (2 powi 0 / 2 powi ?e)" by simp
  also have "\<dots> = of_int (n * 2 ^ nat (0 - ?e))" using div_powi_int[OF e] by simp
  finally have "rne (of_int n / 2 powi ?e) = n * 2 ^ nat (0 - ?e)" by (simp only: rne_of_int)
  then have "fl (of_int n) = of_int n / 2 powi ?e * 2 powi ?e"
    using \<open>rat_of_int n / 2 powi ?e = _\<close> unfolding fl_def Let_def
    by (metis \<open>rat_of_int n / 2 powi ?e = of_int n * (2 powi 0 / 2 powi ?e)\<close> \<open>of_int n * (2 powi 0 / 2 powi ?e) = of_int (n * 2 ^ nat (0 - ?e))\<close>)
  then show ?thesis by simp
qed


section \<open>Operations on values of moderate size\<close>

text \<open>
  Amounts, prices and rates stay far from the ends of the range; there every operation is
  the exact operation followed by one \<^const>\<open>fl\<close>.
\<close>

definition f_safe :: "rat \<Rightarrow> bool" where
  "f_safe r \<longleftrightarrow> 1 / 2 ^ 100 \<le> r \<and> r \<le> 2 ^ 100"

lemma f_safe_pos: "f_safe r \<Longrightarrow> 0 < r"
  by (auto simp: f_safe_def intro: less_le_trans[rotated])

lemma f_safe_normal: "f_safe r \<Longrightarrow> 2 powi (- 1022) \<le> r"
proof -
  assume "f_safe r"
  then have "2 powi (- 100) \<le> r" by (simp add: f_safe_def power_int_def power_one_over)
  then show ?thesis using powi2_mono[of "- 1022" "- 100"] by linarith
qed

lemma fl_lower: "f_safe r \<Longrightarrow> r * (1 - 1 / 2 ^ 53) \<le> fl r"
  and fl_upper: "f_safe r \<Longrightarrow> fl r \<le> r * (1 + 1 / 2 ^ 53)"
  using fl_error_rel[OF f_safe_normal, of r] unfolding abs_le_iff
  by (simp_all add: algebra_simps)

lemma fl_pos: "f_safe r \<Longrightarrow> 0 < fl r"
  using fl_lower[of r] f_safe_pos[of r] by (auto intro: less_le_trans[rotated])

lemma ilog2_safe: "f_safe r \<Longrightarrow> ilog2 r \<le> 100"
proof (rule ccontr)
  assume s: "f_safe r" and "\<not> ilog2 r \<le> 100"
  then have "(2::rat) powi 101 \<le> 2 powi (ilog2 r)" by (intro powi2_mono) simp
  with ilog2_bounds(1)[OF f_safe_pos[OF s]] s show False by (simp add: f_safe_def)
qed

lemma f64_of_rat_safe [f64_simps]: "f_safe r \<Longrightarrow> f64_of_rat neg r = F_fin (fl r)"
proof -
  assume s: "f_safe r"
  have r: "0 < r" using s by (rule f_safe_pos)
  have e: "ulp_exp r < 971" using ilog2_safe[OF s] by (simp add: ulp_exp_def)
  have "rne (r / 2 powi ulp_exp r) \<noteq> 0"
    using fl_pos[OF s] by (auto simp: fl_def Let_def)
  then show ?thesis using r e by (simp add: f64_of_rat_def fl_def Let_def)
qed

lemma f64_mul_safe [f64_simps]:
  "0 < x \<Longrightarrow> 0 < y \<Longrightarrow> f_safe (x * y) \<Longrightarrow> f64_mul (F_fin x) (F_fin y) = F_fin (fl (x * y))"
  by (simp add: f64_simps)

lemma f64_div_safe [f64_simps]:
  "0 < x \<Longrightarrow> 0 < y \<Longrightarrow> f_safe (x / y) \<Longrightarrow> f64_div (F_fin x) (F_fin y) = F_fin (fl (x / y))"
  by (simp add: f64_simps)

lemma f64_of_int_exact [f64_simps]:
  assumes "0 < n" "n < 2 ^ 53"
  shows "f64_of_int n = F_fin (of_int n)"
proof -
  have "rat_of_int 1 \<le> rat_of_int n" and "rat_of_int n \<le> rat_of_int (2 ^ 53)"
    using assms by (simp_all only: of_int_le_iff)
  then have "f_safe (of_int n)" by (simp add: f_safe_def)
  then show ?thesis by (simp add: f64_of_int_def f64_simps fl_int[OF assms])
qed

lemma f64_of_int_0 [f64_simps]: "f64_of_int 0 = F_fin 0"
  by (simp add: f64_of_int_def f64_of_rat_def f_zero_def)

lemma round_away_error: "\<bar>rat_of_int (round_away r) - r\<bar> \<le> 1 / 2"
proof -
  have "rat_of_int \<lfloor>r + 1 / 2\<rfloor> \<le> r + 1 / 2 \<and> r + 1 / 2 < rat_of_int \<lfloor>r + 1 / 2\<rfloor> + 1"
    and "rat_of_int \<lfloor>1 / 2 - r\<rfloor> \<le> 1 / 2 - r \<and> 1 / 2 - r < rat_of_int \<lfloor>1 / 2 - r\<rfloor> + 1"
    using floor_correct[of "r + 1 / 2"] floor_correct[of "1 / 2 - r"] by simp_all
  then show ?thesis unfolding round_away_def abs_le_iff by (cases "r < 0") (simp_all, linarith+)
qed

lemma round_away_mono: "0 \<le> r \<Longrightarrow> r \<le> s \<Longrightarrow> round_away r \<le> round_away s"
  by (auto simp: round_away_def intro: floor_mono)

lemma round_away_unique: "\<bar>rat_of_int n - r\<bar> < 1 / 2 \<Longrightarrow> round_away r = n"
proof -
  assume a: "\<bar>rat_of_int n - r\<bar> < 1 / 2"
  with round_away_error[of r] have "\<bar>rat_of_int (round_away r) - rat_of_int n\<bar> < 1"
    by (simp only: abs_le_iff abs_less_iff) linarith
  then have "\<bar>rat_of_int (round_away r - n)\<bar> < rat_of_int 1" by simp
  then have "\<bar>round_away r - n\<bar> < 1" by linarith
  then show ?thesis by simp
qed

lemma round_away_nonneg: "0 \<le> r \<Longrightarrow> 0 \<le> round_away r"
  by (simp add: round_away_def)

lemma rat_trunc_of_int [simp]: "rat_trunc (of_int n) = n"
proof -
  have "\<lfloor>- rat_of_int n\<rfloor> = - n" by (metis floor_of_int of_int_minus)
  then show ?thesis by (simp add: rat_trunc_def)
qed

lemma as_i64_round [f64_simps]:
  "in_i64 (round_away r) \<Longrightarrow> f64_as_i64 (f64_round (F_fin r)) = round_away r"
  by (simp add: Let_def f_zero_def in_i64_def rat_trunc_def)

end
