(* ===== verification/Common_Types.thy ===== *)
theory Common_Types
  imports F64
begin

text \<open>
  \<^verbatim>\<open>sideswap_common/src/types.rs\<close>: amounts in satoshi and their conversion to and from
  floating point bitcoin values, the network and server fees, the largest order a balance
  pays for, the conversions between bitcoin and asset amounts, the environments and the check
  of the known asset identifiers.  An \<^verbatim>\<open>Amount\<close> is its \<^verbatim>\<open>i64\<close>.
\<close>

type_synonym amount = int

section \<open>Amounts\<close>

definition COIN :: int where "COIN = 100000000"

definition from_bitcoin :: "f64 \<Rightarrow> amount" where
  "from_bitcoin value = f64_as_i64 (f64_round (f64_mul value (f64_of_int COIN)))"

definition to_bitcoin :: "amount \<Rightarrow> f64" where
  "to_bitcoin a = f64_div (f64_of_int a) (f64_of_int COIN)"

definition amount_add :: "amount \<Rightarrow> amount \<Rightarrow> amount" where "amount_add = i64_add"
definition amount_sub :: "amount \<Rightarrow> amount \<Rightarrow> amount" where "amount_sub = i64_sub"

record TxOut =
  txo_txid :: string
  txo_vout :: int

section \<open>Environments and known assets\<close>

datatype Env = Prod | Staging | Regtest | Local

record EnvData =
  env_host :: string
  env_port :: int
  env_use_tls :: bool
  env_name :: string
  env_mainnet :: bool
  env_bitcoin_asset_id :: string

definition ENV_PROD :: EnvData where
  "ENV_PROD = \<lparr>env_host = ''api.sideswap.io'', env_port = 443, env_use_tls = True, env_name = ''prod'', env_mainnet = True,
     env_bitcoin_asset_id = ''6f0279e9ed041c3d710a9f57d0c02928416460c4b722ae3457a11eec381c526d''\<rparr>"

definition ENV_STAGING :: EnvData where
  "ENV_STAGING = \<lparr>env_host = ''api-test.sideswap.io'', env_port = 443, env_use_tls = True, env_name = ''staging'', env_mainnet = True,
     env_bitcoin_asset_id = ''6f0279e9ed041c3d710a9f57d0c02928416460c4b722ae3457a11eec381c526d''\<rparr>"

definition ENV_REGTEST :: EnvData where
  "ENV_REGTEST = \<lparr>env_host = ''api-regtest.sideswap.io'', env_port = 443, env_use_tls = True, env_name = ''regtest'', env_mainnet = False,
     env_bitcoin_asset_id = ''2e16b12daf1244332a438e829ca7ce209195f8e1c54199770cd8b327710a8ab2''\<rparr>"

definition ENV_LOCAL :: EnvData where
  "ENV_LOCAL = \<lparr>env_host = ''192.168.71.50'', env_port = 4001, env_use_tls = False, env_name = ''local'', env_mainnet = False,
     env_bitcoin_asset_id = ''2684bbac0fa7ad544ec8eee43c35156346e5d641d24a4b9d5d8f183e3f2d8fb9''\<rparr>"

fun env_data :: "Env \<Rightarrow> EnvData" where
  "env_data Prod = ENV_PROD"
| "env_data Staging = ENV_STAGING"
| "env_data Regtest = ENV_REGTEST"
| "env_data Local = ENV_LOCAL"

definition is_mainnet :: "Env \<Rightarrow> bool" where "is_mainnet e = env_mainnet (env_data e)"

definition TICKER_LBTC :: string where "TICKER_LBTC = ''L-BTC''"
definition TICKER_USDT :: string where "TICKER_USDT = ''USDt''"
definition TICKER_EURX :: string where "TICKER_EURX = ''EURx''"
definition TICKER_LCAD :: string where "TICKER_LCAD = ''LCAD''"
definition TICKER_AUDL :: string where "TICKER_AUDL = ''AUDL''"

definition known_asset_id :: "bool \<Rightarrow> string \<Rightarrow> string option" where
  "known_asset_id mainnet ticker =
     (if mainnet \<and> ticker = TICKER_LBTC
      then Some ''6f0279e9ed041c3d710a9f57d0c02928416460c4b722ae3457a11eec381c526d''
      else if mainnet \<and> ticker = TICKER_USDT
      then Some ''ce091c998b83c78bb71a632313ba3760f1763d9cfcffae02258ffa9865a37bd2''
      else None)"

record Asset =
  a_asset_id :: string
  a_name :: string
  a_ticker :: string
  a_icon :: "string option"
  a_precision :: int
  a_icon_url :: "string option"

text \<open>\<^verbatim>\<open>check_assets\<close> returns nothing: it returns or panics.\<close>

definition check_assets :: "Env \<Rightarrow> Asset list \<Rightarrow> unit option" where
  "check_assets env assets =
     (let mainnet = env_mainnet (env_data env) in
      if \<not> mainnet then Some ()
      else do {
        bitcoin_asset \<leftarrow> find (\<lambda>asset. a_ticker asset = TICKER_LBTC) assets;
        lbtc \<leftarrow> known_asset_id mainnet TICKER_LBTC;
        _ \<leftarrow> rust_assert (a_asset_id bitcoin_asset = lbtc);
        (case find (\<lambda>asset. a_ticker asset = TICKER_USDT) assets of
           None \<Rightarrow> Some ()
         | Some asset \<Rightarrow> do {
             usdt \<leftarrow> known_asset_id mainnet TICKER_USDT;
             rust_assert (a_asset_id asset = usdt) })
      })"

section \<open>Fees\<close>

definition VSIZE_FIXED :: int where "VSIZE_FIXED = 23"
definition VSIZE_VIN :: int where "VSIZE_VIN = 108"
definition VSIZE_VOUT :: int where "VSIZE_VOUT = 1192"

definition expected_network_fee :: "int \<Rightarrow> int \<Rightarrow> f64 \<Rightarrow> amount" where
  "expected_network_fee vin_count vout_count fee_rate =
     (let expected_vsize = i64_add (i64_add VSIZE_FIXED (i64_mul vin_count VSIZE_VIN)) (i64_mul vout_count VSIZE_VOUT)
      in from_bitcoin (f64_mul (f64_div (f64_mul (f64_of_int expected_vsize) fee_rate) (f64_lit 1000)) (f64_lit (1075 / 1000))))"

definition MIN_BITCOIN_AMOUNT :: amount where "MIN_BITCOIN_AMOUNT = 2000"
definition MIN_SERVER_FEE :: amount where "MIN_SERVER_FEE = 500"
definition SERVER_FEE_RATE :: f64 where "SERVER_FEE_RATE = f64_lit (1 / 1000)"

definition get_server_fee :: "amount \<Rightarrow> amount" where
  "get_server_fee bitcoin_amount =
     (let server_fee = from_bitcoin (f64_mul (to_bitcoin bitcoin_amount) SERVER_FEE_RATE)
      in max server_fee MIN_SERVER_FEE)"

definition get_max_bitcoin_amount :: "amount \<Rightarrow> (string + amount) option" where
  "get_max_bitcoin_amount bitcoin_balance = do {
     _ \<leftarrow> rust_assert (0 \<le> bitcoin_balance);
     (if \<not> amount_add MIN_BITCOIN_AMOUNT MIN_SERVER_FEE \<le> bitcoin_balance
      then Some (Inl ''balance is too low'')
      else
        let network_fee_scaled = from_bitcoin (f64_mul (to_bitcoin bitcoin_balance)
              (f64_sub (f64_lit 1) (f64_div (f64_lit 1) (f64_add (f64_lit 1) SERVER_FEE_RATE))));
            network_fee = max network_fee_scaled MIN_SERVER_FEE;
            bitcoin_amount = amount_sub bitcoin_balance network_fee;
            actual_server_fee = get_server_fee bitcoin_amount
        in if bitcoin_balance < amount_add bitcoin_amount actual_server_fee
           then Some (Inr (amount_sub bitcoin_amount 1))
           else Some (Inr bitcoin_amount))
   }"

section \<open>Asset amounts\<close>

text \<open>\<^verbatim>\<open>10i64.checked_pow(asset_precision)\<close> fails from \<open>10 ^ 19\<close> on, and \<^verbatim>\<open>unwrap\<close> panics.\<close>

definition asset_scale :: "int \<Rightarrow> f64 option" where
  "asset_scale asset_precision =
     (let p = 10 ^ nat asset_precision in if p \<le> i64_max then Some (f64_of_int p) else None)"

definition types_asset_amount :: "int \<Rightarrow> f64 \<Rightarrow> int \<Rightarrow> int option" where
  "types_asset_amount bitcoin_amount price asset_precision = do {
     scale \<leftarrow> asset_scale asset_precision;
     Some (f64_as_i64 (f64_round (f64_mul (f64_mul (to_bitcoin bitcoin_amount) price) scale)))
   }"

definition asset_float_amount :: "int \<Rightarrow> int \<Rightarrow> f64 option" where
  "asset_float_amount asset_amount asset_precision = do {
     scale \<leftarrow> asset_scale asset_precision;
     Some (f64_div (f64_of_int asset_amount) scale)
   }"

definition types_bitcoin_amount :: "int \<Rightarrow> f64 \<Rightarrow> int \<Rightarrow> int option" where
  "types_bitcoin_amount asset_amount price asset_precision = do {
     a \<leftarrow> asset_float_amount asset_amount asset_precision;
     Some (from_bitcoin (f64_div a price))
   }"

definition asset_int_amount :: "f64 \<Rightarrow> int \<Rightarrow> int option" where
  "asset_int_amount asset_amount asset_precision = do {
     scale \<leftarrow> asset_scale asset_precision;
     Some (f64_as_i64 (f64_round (f64_mul asset_amount scale)))
   }"


section \<open>Amounts as floating point values\<close>

text \<open>The number of satoshi that will ever exist: every amount of the network is below it.\<close>

definition MAX_MONEY :: int where "MAX_MONEY = 2100000000000000"

lemma f64_COIN [f64_simps]: "f64_of_int COIN = F_fin 100000000"
  by (subst f64_of_int_exact) (simp_all add: COIN_def)

text \<open>Bounds of an amount as a rational number.\<close>

lemma rat_amount_bounds:
  assumes "0 < a" "a \<le> MAX_MONEY"
  shows "1 \<le> rat_of_int a" "rat_of_int a \<le> 2100000000000000"
proof -
  have "rat_of_int 1 \<le> of_int a" "rat_of_int a \<le> of_int 2100000000000000"
    using assms by (simp_all only: of_int_le_iff MAX_MONEY_def)
  then show "1 \<le> rat_of_int a" "rat_of_int a \<le> 2100000000000000" by simp_all
qed

lemma to_bitcoin_0 [f64_simps]: "to_bitcoin 0 = F_fin 0"
  by (simp add: to_bitcoin_def f64_simps f64_of_rat_def f_zero_def)

lemma f_safe_btc:
  assumes "0 < a" "a \<le> MAX_MONEY"
  shows "f_safe (rat_of_int a / 100000000)"
  using rat_amount_bounds[OF assms] by (simp add: f_safe_def)

lemma to_bitcoin_pos:
  assumes "0 < a" "a \<le> MAX_MONEY"
  shows "to_bitcoin a = F_fin (fl (of_int a / 100000000))"
proof -
  have "a < 2 ^ 53" using assms by (simp add: MAX_MONEY_def)
  then show ?thesis using assms f_safe_btc[OF assms]
    by (simp add: to_bitcoin_def f64_simps del: f64_div.simps)
qed

text \<open>
  Scaling an amount by a constant \<open>k\<close> and converting it back to satoshi takes three
  roundings; \<open>scaled k a\<close> is the value before the rounding to an integer.
\<close>

definition scaled :: "rat \<Rightarrow> int \<Rightarrow> rat" where
  "scaled k a = fl (fl (fl (of_int a / 100000000) * k) * 100000000)"

lemma scaled_bounds:
  assumes a: "0 < a" "a \<le> MAX_MONEY" and k: "1 / 2 ^ 12 \<le> k" "k \<le> 1"
  shows "of_int a * k * (1 - 4 / 2 ^ 53) \<le> scaled k a"
    and "scaled k a \<le> of_int a * k * (1 + 4 / 2 ^ 53)"
    and "f_safe (fl (of_int a / 100000000) * k)"
    and "f_safe (fl (fl (of_int a / 100000000) * k) * 100000000)"
proof -
  let ?u = "1 / 2 ^ 53 :: rat"
  let ?x = "of_int a / 100000000 :: rat"
  note b = rat_amount_bounds[OF a]
  have sx: "f_safe ?x" by (rule f_safe_btc[OF a])
  have x: "1 / 100000000 \<le> ?x" "?x \<le> 21000000" using b by simp_all
  have l1: "?x * (1 - ?u) \<le> fl ?x" and u1: "fl ?x \<le> ?x * (1 + ?u)"
    by (rule fl_lower[OF sx], rule fl_upper[OF sx])
  have k0: "0 < k" using k(1) by (rule less_le_trans[rotated]) simp
  have l2: "?x * (1 - ?u) * k \<le> fl ?x * k" and u2: "fl ?x * k \<le> ?x * (1 + ?u) * k"
    using l1 u1 k0 by (simp_all add: mult_right_mono)
  have "1 / 2 ^ 40 \<le> ?x * (1 - ?u)" and "?x * (1 + ?u) \<le> 2 ^ 26" using x by simp_all
  then have "1 / 2 ^ 40 * (1 / 2 ^ 12) \<le> ?x * (1 - ?u) * k" and "?x * (1 + ?u) * k \<le> 2 ^ 26 * 1"
    using k k0 x by (intro mult_mono; simp)+
  then have y: "1 / 2 ^ 52 \<le> fl ?x * k" "fl ?x * k \<le> 2 ^ 26" using l2 u2 by simp_all
  then show sy: "f_safe (fl ?x * k)" by (simp add: f_safe_def)
  let ?y = "fl ?x * k"
  have l3: "?y * (1 - ?u) \<le> fl ?y" and u3: "fl ?y \<le> ?y * (1 + ?u)"
    by (rule fl_lower[OF sy], rule fl_upper[OF sy])
  have "1 / 2 ^ 53 \<le> fl ?y" "fl ?y \<le> 2 ^ 27" using l3 u3 y by simp_all
  then show sz: "f_safe (fl ?y * 100000000)" by (simp add: f_safe_def)
  let ?z = "fl ?y * 100000000"
  have l4: "?z * (1 - ?u) \<le> fl ?z" and u4: "fl ?z \<le> ?z * (1 + ?u)"
    by (rule fl_lower[OF sz], rule fl_upper[OF sz])
  have ak: "0 \<le> of_int a * k" using a k0 by simp
  have "of_int a * k * (1 - 4 / 2 ^ 53) \<le> of_int a * k * ((1 - ?u) * (1 - ?u) * (1 - ?u))"
    using ak by (intro mult_left_mono) simp_all
  also have "\<dots> \<le> fl ?z"
    using l2 l3 l4 by simp
  finally show "of_int a * k * (1 - 4 / 2 ^ 53) \<le> scaled k a" by (simp add: scaled_def)
  have "fl ?z \<le> of_int a * k * ((1 + ?u) * (1 + ?u) * (1 + ?u))"
    using u2 u3 u4 by simp
  also have "\<dots> \<le> of_int a * k * (1 + 4 / 2 ^ 53)"
    using ak by (intro mult_left_mono) simp_all
  finally show "scaled k a \<le> of_int a * k * (1 + 4 / 2 ^ 53)" by (simp add: scaled_def)
qed

lemma scaled_pos:
  assumes "0 < a" "a \<le> MAX_MONEY" "1 / 2 ^ 12 \<le> k" "k \<le> 1"
  shows "0 < scaled k a"
  using fl_pos[OF scaled_bounds(4)[OF assms]] by (simp add: scaled_def)

lemma scaled_mono:
  assumes "0 < a" "a \<le> b" "b \<le> MAX_MONEY" "1 / 2 ^ 12 \<le> k" "k \<le> 1"
  shows "scaled k a \<le> scaled k b"
proof -
  have k0: "0 < k" using assms(4) by (rule less_le_trans[rotated]) simp
  have aM: "a \<le> MAX_MONEY" using assms by simp
  have "fl (of_int a / 100000000) \<le> fl (of_int b / 100000000)"
    using assms by (intro fl_mono) simp_all
  then have "fl (fl (of_int a / 100000000) * k) \<le> fl (fl (of_int b / 100000000) * k)"
    using k0 f_safe_pos[OF scaled_bounds(3)[OF assms(1) aM assms(4,5)]]
    by (intro fl_mono) (simp_all add: mult_right_mono)
  then show ?thesis unfolding scaled_def
    using f_safe_pos[OF scaled_bounds(4)[OF assms(1) aM assms(4,5)]]
    by (intro fl_mono) simp_all
qed

lemma from_bitcoin_scaled:
  assumes "0 < a" "a \<le> MAX_MONEY" "1 / 2 ^ 12 \<le> k" "k \<le> 1"
  shows "from_bitcoin (f64_mul (to_bitcoin a) (F_fin k)) = round_away (scaled k a)"
proof -
  have k0: "0 < k" using assms(3) by (rule less_le_trans[rotated]) simp
  note sb = scaled_bounds[OF assms]
  have x: "0 < fl (rat_of_int a / 100000000)" by (rule fl_pos[OF f_safe_btc[OF assms(1,2)]])
  have y: "0 < fl (fl (rat_of_int a / 100000000) * k)" by (rule fl_pos[OF sb(3)])
  have "scaled k a \<le> 2100000000000000 * 1 * (1 + 4 / 2 ^ 53)"
    using sb(2) rat_amount_bounds[OF assms(1,2)] assms(3,4) k0
    by (elim order_trans) (intro mult_mono, simp_all)
  then have "scaled k a \<le> 2 ^ 52" by simp
  then have "round_away (scaled k a) \<le> round_away (of_int (2 ^ 52))"
    using scaled_pos[OF assms] by (intro round_away_mono) simp_all
  also have "\<dots> = 2 ^ 52" by (rule round_away_unique) simp
  finally have "in_i64 (round_away (scaled k a))"
    using round_away_nonneg[of "scaled k a"] scaled_pos[OF assms]
    by (intro in_i64_nonneg) (simp_all add: i64_max_def)
  then show ?thesis
    using x y k0 sb(3,4)
    by (simp add: from_bitcoin_def to_bitcoin_pos[OF assms(1,2)] f64_simps scaled_def[symmetric]
        del: f64_mul.simps f64_round.simps f64_as_i64.simps)
qed

lemma from_bitcoin_scaled_error:
  assumes "0 < a" "a \<le> MAX_MONEY" "1 / 2 ^ 12 \<le> k" "k \<le> 1"
  shows "of_int a * k * (1 - 4 / 2 ^ 53) - 1 / 2
      \<le> rat_of_int (from_bitcoin (f64_mul (to_bitcoin a) (F_fin k)))"
    and "rat_of_int (from_bitcoin (f64_mul (to_bitcoin a) (F_fin k)))
      \<le> of_int a * k * (1 + 4 / 2 ^ 53) + 1 / 2"
  using round_away_error[of "scaled k a"] scaled_bounds(1,2)[OF assms]
  by (simp_all only: from_bitcoin_scaled[OF assms] abs_le_iff) linarith+

text \<open>Amounts survive the conversion to a floating point bitcoin value and back.\<close>

lemma from_to_bitcoin_pos:
  assumes "0 < a" "a \<le> MAX_MONEY"
  shows "from_bitcoin (to_bitcoin a) = a"
proof -
  let ?x = "of_int a / 100000000 :: rat"
  let ?u = "1 / 2 ^ 53 :: rat"
  note b = rat_amount_bounds[OF assms]
  have sx: "f_safe ?x" by (rule f_safe_btc[OF assms])
  have l1: "?x * (1 - ?u) \<le> fl ?x" and u1: "fl ?x \<le> ?x * (1 + ?u)"
    by (rule fl_lower[OF sx], rule fl_upper[OF sx])
  have "1 / 2 ^ 60 \<le> fl ?x * 100000000" "fl ?x * 100000000 \<le> 2 ^ 60" using l1 u1 b by simp_all
  then have sz: "f_safe (fl ?x * 100000000)" by (simp add: f_safe_def)
  let ?z = "fl ?x * 100000000"
  have l2: "?z * (1 - ?u) \<le> fl ?z" and u2: "fl ?z \<le> ?z * (1 + ?u)"
    by (rule fl_lower[OF sz], rule fl_upper[OF sz])
  have r: "round_away (fl ?z) = a"
  proof (rule round_away_unique)
    show "\<bar>rat_of_int a - fl ?z\<bar> < 1 / 2"
      using l1 u1 l2 u2 b unfolding abs_less_iff by simp
  qed
  have "in_i64 a" using assms by (intro in_i64_nonneg) (simp_all add: MAX_MONEY_def i64_max_def)
  then show ?thesis using fl_pos[OF sx] sz r
    by (simp add: from_bitcoin_def to_bitcoin_pos[OF assms] f64_simps
        del: f64_mul.simps f64_round.simps f64_as_i64.simps)
qed

lemma from_bitcoin_0 [simp]: "from_bitcoin (F_fin 0) = 0"
  unfolding from_bitcoin_def COIN_def by code_simp

section \<open>The server fee\<close>

definition fee_rate :: rat where "fee_rate = 1152921504606847 / 1152921504606846976"

lemma SERVER_FEE_RATE_val: "SERVER_FEE_RATE = F_fin fee_rate"
  unfolding SERVER_FEE_RATE_def fee_rate_def by code_simp

lemma fee_rate_bounds: "1 / 2 ^ 12 \<le> fee_rate" "fee_rate \<le> 1"
  by (simp_all add: fee_rate_def)

definition max_rate :: rat where "max_rate = 4499100526843 / 4503599627370496"

lemma max_rate_val:
  "f64_sub (f64_lit 1) (f64_div (f64_lit 1) (f64_add (f64_lit 1) SERVER_FEE_RATE)) = F_fin max_rate"
  unfolding SERVER_FEE_RATE_def max_rate_def by code_simp

lemma max_rate_bounds: "1 / 2 ^ 12 \<le> max_rate" "max_rate \<le> 1"
  by (simp_all add: max_rate_def)

lemma get_server_fee_pos:
  assumes "0 < a" "a \<le> MAX_MONEY"
  shows "get_server_fee a = max (round_away (scaled fee_rate a)) 500"
  using from_bitcoin_scaled[OF assms fee_rate_bounds]
  by (simp add: get_server_fee_def SERVER_FEE_RATE_val MIN_SERVER_FEE_def)

lemma raw_fee_error:
  assumes "0 < a" "a \<le> MAX_MONEY"
  shows "of_int a * fee_rate * (1 - 4 / 2 ^ 53) - 1 / 2 \<le> rat_of_int (round_away (scaled fee_rate a))"
    and "rat_of_int (round_away (scaled fee_rate a)) \<le> of_int a * fee_rate * (1 + 4 / 2 ^ 53) + 1 / 2"
  using from_bitcoin_scaled_error[OF assms fee_rate_bounds]
  by (simp_all add: from_bitcoin_scaled[OF assms fee_rate_bounds])

lemma raw_fee_mono:
  assumes "0 < a" "a \<le> b" "b \<le> MAX_MONEY"
  shows "round_away (scaled fee_rate a) \<le> round_away (scaled fee_rate b)"
  using scaled_mono[OF assms fee_rate_bounds] scaled_pos[of a fee_rate] fee_rate_bounds assms
  by (intro round_away_mono) simp_all

text \<open>One satoshi less changes the fee by at most one satoshi.\<close>

lemma raw_fee_step:
  assumes "1 < a" "a \<le> MAX_MONEY"
  shows "round_away (scaled fee_rate a) \<le> round_away (scaled fee_rate (a - 1)) + 1"
proof -
  have *: "f - g < 2" if "f \<le> x * fee_rate * (1 + 4 / 2 ^ 53) + 1 / 2"
    "(x - 1) * fee_rate * (1 - 4 / 2 ^ 53) - 1 / 2 \<le> g" "x \<le> 2100000000000000" for f g x :: rat
    using that by (simp add: fee_rate_def field_simps)
  have "rat_of_int (round_away (scaled fee_rate a)) - of_int (round_away (scaled fee_rate (a - 1))) < 2"
    by (rule *[of _ "of_int a"])
      (use raw_fee_error(2)[of a] raw_fee_error(1)[of "a - 1"] rat_amount_bounds[of a] assms in simp_all)
  then show ?thesis by linarith
qed

lemma max_fee_error:
  assumes "0 < b" "b \<le> MAX_MONEY"
  shows "of_int b * max_rate * (1 - 4 / 2 ^ 53) - 1 / 2 \<le> rat_of_int (round_away (scaled max_rate b))"
    and "rat_of_int (round_away (scaled max_rate b)) \<le> of_int b * max_rate * (1 + 4 / 2 ^ 53) + 1 / 2"
  using from_bitcoin_scaled_error[OF assms max_rate_bounds]
  by (simp_all add: from_bitcoin_scaled[OF assms max_rate_bounds])

text \<open>
  The fee of the amount left after the scaled fee differs from the scaled fee by at most one
  satoshi: the two rates are inverse up to an absolute error below \<open>2 powi (-51)\<close>.
\<close>

lemma fee_of_rest:
  fixes b :: int
  defines "n \<equiv> max (round_away (scaled max_rate b)) 500"
  assumes b: "2500 \<le> b" "b \<le> MAX_MONEY"
  shows "get_server_fee (b - n) \<le> n + 1" and "n - 1 \<le> get_server_fee (b - n)"
    and "1 < b - n" and "500 \<le> n"
proof -
  let ?m = "round_away (scaled max_rate b)"
  have b0: "0 < b" using b by simp
  have "rat_of_int 2500 \<le> of_int b" using b(1) by (simp only: of_int_le_iff)
  then have bq: "2500 \<le> rat_of_int b" "rat_of_int b \<le> 2100000000000000"
    using rat_amount_bounds[OF b0 b(2)] by simp_all
  note ne = max_fee_error[OF b0 b(2)]
  show n500: "500 \<le> n" by (simp add: n_def)
  have nm: "?m \<le> n" and n_cases: "n = 500 \<or> n = ?m" by (auto simp: n_def)
  have mq: "rat_of_int ?m \<le> of_int n" using nm by (simp only: of_int_le_iff)
  have *: "1 < x - m" if "m = 500 \<or> m \<le> x * max_rate * (1 + 4 / 2 ^ 53) + 1 / 2"
    "2500 \<le> x" for x m :: rat
    using that by (auto simp: max_rate_def)
  have "rat_of_int 1 < of_int b - of_int n"
    using *[of "of_int n" "of_int b"] ne(2) bq(1) n_cases by auto
  then show a1: "1 < b - n" by linarith
  then have a0: "0 < b - n" and aM: "b - n \<le> MAX_MONEY" using b n500 by simp_all
  note fe = raw_fee_error[OF a0 aM]
  let ?f = "round_away (scaled fee_rate (b - n))"
  have fee: "get_server_fee (b - n) = max ?f 500" by (rule get_server_fee_pos[OF a0 aM])
  have up: "f < k + 2" if "f \<le> (x - k) * fee_rate * (1 + 4 / 2 ^ 53) + 1 / 2"
    "x * max_rate * (1 - 4 / 2 ^ 53) - 1 / 2 \<le> k" "x \<le> 2100000000000000" for f x k :: rat
    using that by (simp add: max_rate_def fee_rate_def field_simps)
  have "rat_of_int ?f < of_int n + 2"
    by (rule up[of _ "of_int b"]) (use fe(2) ne(1) bq(2) mq in simp_all)
  then have "?f \<le> n + 1" by linarith
  then show "get_server_fee (b - n) \<le> n + 1" using n500 by (simp add: fee)
  have lo: "k - 2 < f" if "(x - k) * fee_rate * (1 - 4 / 2 ^ 53) - 1 / 2 \<le> f"
    "k \<le> x * max_rate * (1 + 4 / 2 ^ 53) + 1 / 2" "0 \<le> x" for f x k :: rat
    using that by (simp add: max_rate_def fee_rate_def field_simps)
  show "n - 1 \<le> get_server_fee (b - n)"
  proof (cases "n = 500")
    case False
    then have "n = ?m" using n_cases by simp
    then have "of_int n - 2 < rat_of_int ?f"
      using lo[of "of_int b" "of_int n" "of_int ?f"] fe(1) ne(2) bq(1) by simp
    then have "n - 1 \<le> ?f" by linarith
    then show ?thesis by (simp add: fee)
  qed (use fee in auto)
qed


section \<open>Properties of the amounts\<close>

text \<open>C29: an amount up to the total supply survives the conversion to a floating point bitcoin
  value and back, so \<^verbatim>\<open>Amount::from_bitcoin(a.to_bitcoin())\<close> is \<^verbatim>\<open>a\<close> although the value
  passes through two inexact floating point operations.\<close>

theorem from_to_bitcoin:
  assumes "0 \<le> a" "a \<le> MAX_MONEY"
  shows "from_bitcoin (to_bitcoin a) = a"
  using assms from_to_bitcoin_pos[of a] by (cases "a = 0") (simp_all add: f64_simps)

theorem from_to_bitcoin_witness:
  "from_bitcoin (to_bitcoin 2099999999999999) = 2099999999999999"
  using from_to_bitcoin[of 2099999999999999] by (simp add: MAX_MONEY_def)

text \<open>C11: for every balance from the minimum up to the total supply,
  \<^verbatim>\<open>get_max_bitcoin_amount\<close> returns an amount that the balance pays for together with its
  server fee, and leaves at most one satoshi unused, although both the scaled fee and the
  actual fee are computed in floating point.\<close>

theorem get_max_bitcoin_amount_spends_balance:
  assumes "MIN_BITCOIN_AMOUNT + MIN_SERVER_FEE \<le> b" "b \<le> MAX_MONEY"
  shows "\<exists>r. get_max_bitcoin_amount b = Some (Inr r) \<and>
    r + get_server_fee r \<le> b \<and> b - 1 \<le> r + get_server_fee r"
proof -
  have b: "2500 \<le> b" "0 < b" using assms(1) by (simp_all add: MIN_BITCOIN_AMOUNT_def MIN_SERVER_FEE_def)
  define n where "n = max (round_away (scaled max_rate b)) 500"
  define a where "a = b - n"
  note f = fee_of_rest[OF b(1) assms(2), folded n_def a_def]
  have aM: "a \<le> MAX_MONEY" and a0: "0 < a" using f assms(2) by (simp_all add: a_def)
  have rng: "in_i64 (b - n)" "in_i64 (a + get_server_fee a)" "in_i64 (a - 1)"
    using f b assms(2) by (auto simp: a_def MAX_MONEY_def i64_max_def intro!: in_i64_nonneg)
  have n: "max (from_bitcoin (f64_mul (to_bitcoin b) (F_fin max_rate))) MIN_SERVER_FEE = n"
    using from_bitcoin_scaled[OF b(2) assms(2) max_rate_bounds] by (simp add: n_def MIN_SERVER_FEE_def)
  have min: "amount_add MIN_BITCOIN_AMOUNT MIN_SERVER_FEE \<le> b"
    using b by (simp add: amount_add_def MIN_BITCOIN_AMOUNT_def MIN_SERVER_FEE_def i64_add_def wrap_i64_def)
  have res: "get_max_bitcoin_amount b =
      Some (Inr (if b < a + get_server_fee a then a - 1 else a))"
    using b min rng unfolding get_max_bitcoin_amount_def
    by (simp add: max_rate_val n Let_def amount_sub_def amount_add_def i64_simps flip: a_def)
  have "get_server_fee (a - 1) \<le> get_server_fee a" "get_server_fee a \<le> get_server_fee (a - 1) + 1"
    using raw_fee_mono[of "a - 1" a] raw_fee_step[of a] f(3) a0 aM by (auto simp: get_server_fee_pos)
  then show ?thesis using f(1,2) unfolding res by (auto simp: a_def)
qed

theorem get_max_bitcoin_amount_spends_balance_witness:
  "\<exists>r. get_max_bitcoin_amount 123456789 = Some (Inr r) \<and>
    r + get_server_fee r \<le> 123456789 \<and> 123456789 - 1 \<le> r + get_server_fee r"
  using get_max_bitcoin_amount_spends_balance[of 123456789]
  by (simp add: MIN_BITCOIN_AMOUNT_def MIN_SERVER_FEE_def MAX_MONEY_def)



text \<open>On a mainnet environment \<^verbatim>\<open>check_assets\<close> accepts an asset list exactly when its
  first L-BTC entry exists and carries the known identifier, and its first USDt entry, where
  there is one, carries the known identifier; elsewhere it accepts every list.\<close>

theorem check_assets_iff:
  "check_assets env assets = Some () \<longleftrightarrow>
     (if is_mainnet env then
     (\<exists>a. find (\<lambda>a. a_ticker a = TICKER_LBTC) assets = Some a \<and>
        Some (a_asset_id a) = known_asset_id True TICKER_LBTC) \<and>
     (case find (\<lambda>a. a_ticker a = TICKER_USDT) assets of None \<Rightarrow> True
      | Some u \<Rightarrow> Some (a_asset_id u) = known_asset_id True TICKER_USDT)
      else True)"
proof -
  have k: "known_asset_id True TICKER_LBTC \<noteq> None" "known_asset_id True TICKER_USDT \<noteq> None"
    by (simp_all add: known_asset_id_def TICKER_LBTC_def TICKER_USDT_def)
  show ?thesis using k
    by (auto simp: check_assets_def is_mainnet_def Let_def rust_assert_def bind_eq_Some_conv
        split: option.splits)
qed

end
