(* ===== verification/Api.thy ===== *)
theory Api
  imports Common_Types "HOL-Library.Product_Lexorder"
begin

text \<open>
  \<^verbatim>\<open>sideswap_api/src/lib.rs\<close>: the messages between the clients or dealers and the server, and
  \<^verbatim>\<open>sideswap_dealer/src/rpc.rs\<close>: the calls to the Elements node.  A struct is a
  \<^theory_text>\<open>record\<close>, an enum a \<^theory_text>\<open>datatype\<close>; a request or a response whose struct has one
  field carries that field directly, and \<^verbatim>\<open>Empty\<close> (an \<^verbatim>\<open>Option<Void>\<close>, always
  \<^verbatim>\<open>None\<close>) carries nothing.  The newtypes \<^verbatim>\<open>OrderId\<close>, \<^verbatim>\<open>AssetId\<close>, \<^verbatim>\<open>Ticker\<close>,
  \<^verbatim>\<open>PhoneKey\<close> and \<^verbatim>\<open>ContactKey\<close> are their strings.
\<close>

type_synonym OrderId = string
type_synonym AssetId = string
type_synonym Ticker = string
type_synonym PhoneKey = string
type_synonym ContactKey = string
type_synonym Timestamp = int

section \<open>Pegs and server status\<close>

record PegRequest =
  pr_recv_addr :: string
  pr_send_amount :: "int option"
  pr_peg_in :: bool
  pr_device_key :: "string option"
  pr_blocks :: "int option"

record PegResponse =
  prs_order_id :: OrderId
  prs_peg_addr :: string
  prs_created_at :: Timestamp
  prs_expires_at :: Timestamp
  prs_recv_amount :: "int option"

datatype PegTxState = InsufficientAmount | Detected | Processing | PegDone

fun peg_tx_state_code :: "PegTxState \<Rightarrow> int" where
  "peg_tx_state_code InsufficientAmount = 1"
| "peg_tx_state_code Detected = 2"
| "peg_tx_state_code Processing = 3"
| "peg_tx_state_code PegDone = 4"

record TxStatus =
  ts_tx_hash :: string
  ts_vout :: int
  ts_status :: string
  ts_amount :: int
  ts_payout :: "int option"
  ts_tx_state :: PegTxState
  ts_tx_state_code :: int
  ts_detected_confs :: "int option"
  ts_total_confs :: "int option"
  ts_created_at :: Timestamp
  ts_payout_txid :: "string option"

record PegStatus =
  ps_order_id :: OrderId
  ps_peg_in :: bool
  ps_addr :: string
  ps_addr_recv :: string
  ps_list :: "TxStatus list"
  ps_created_at :: Timestamp
  ps_expires_at :: Timestamp

record FeeRate =
  fr_blocks :: int
  fr_value :: f64

record ServerStatus =
  ss_min_peg_in_amount :: int
  ss_min_peg_out_amount :: int
  ss_server_fee_percent_peg_in :: f64
  ss_server_fee_percent_peg_out :: f64
  ss_min_submit_amount :: int
  ss_price_band :: f64
  ss_elements_fee_rate :: f64
  ss_bitcoin_fee_rates :: "FeeRate list"

section \<open>Swaps\<close>

record Swap =
  sw_send_asset :: AssetId
  sw_send_amount :: int
  sw_recv_asset :: AssetId
  sw_recv_amount :: int
  sw_network_fee :: int

datatype SwapAction = SA_Psbt string | SA_Sign string

datatype SwapError = SE_Cancelled | SE_Timeout | SE_ServerError | SE_DealerError | SE_ClientError

datatype SwapState = SS_WaitPsbt Swap | SS_WaitSign string | SS_Failed SwapError | SS_Done string

record MatchRfq =
  rfq_send_asset :: AssetId
  rfq_send_amount :: int
  rfq_recv_asset :: AssetId
  rfq_utxo_count :: int
  rfq_with_change :: bool

record MatchQuote =
  mq_send_amount :: int
  mq_utxo_count :: int
  mq_with_change :: bool

datatype RfqRejectReason = Rfq_ServerError | Rfq_NoDealer | Rfq_AmountLow | Rfq_AmountHigh

record MatchRfqQuote =
  mrq_recv_amount :: int
  mrq_network_fee :: int

datatype RfqStatus = Rfq_Cancelled | Rfq_Rejected | Rfq_Accepted

record PricePair =
  pp_bid :: f64
  pp_ask :: f64

section \<open>Orders\<close>

datatype OrderSide = Requestor | Responder

datatype OrderType = OT_Bitcoin | OT_Asset

record Details =
  det_asset :: AssetId
  det_bitcoin_amount :: int
  det_asset_amount :: int
  det_price :: f64
  det_server_fee :: int
  det_side :: OrderSide
  det_send_bitcoins :: bool
  det_order_type :: OrderType

record PriceOrder =
  po_asset :: AssetId
  po_bitcoin_amount :: "f64 option"
  po_asset_amount :: "f64 option"
  po_price :: "f64 option"
  po_index_price :: "f64 option"

record SubmitResponse =
  sr_order_id :: OrderId
  sr_details :: Details

record EditRequest =
  er_order_id :: OrderId
  er_price :: "f64 option"
  er_index_price :: "f64 option"

record Own =
  own_index_price :: "f64 option"
  own_private :: bool

record OrderCreatedNotification =
  oc_order_id :: OrderId
  oc_details :: Details
  oc_created_at :: Timestamp
  oc_expires_at :: Timestamp
  oc_own :: "Own option"

record LinkResponse =
  lr_order_id :: OrderId
  lr_details :: Details
  lr_index_price :: bool

record AddrRequest =
  ar_order_id :: OrderId
  ar_pset :: string
  ar_recv_addr :: string
  ar_change_addr :: string
  ar_price :: f64
  ar_private :: "bool option"
  ar_ttl_seconds :: "int option"

record SignNotification =
  sn_order_id :: OrderId
  sn_pset :: string
  sn_details :: Details

record SignRequest =
  sq_order_id :: OrderId
  sq_signed_pset :: string
  sq_side :: OrderSide

record AssetStats =
  st_issued_amount :: int
  st_burned_amount :: int
  st_has_blinded_issuances :: bool

record AssetDetailsResponse =
  ad_asset_id :: AssetId
  ad_name :: string
  ad_ticker :: Ticker
  ad_precision :: int
  ad_icon_url :: string
  ad_domain :: string
  ad_chain_stats :: "AssetStats option"

section \<open>Contacts\<close>

record UploadContact =
  uc_identifier :: string
  uc_name :: string
  uc_phones :: "string list"

record Contact =
  ct_contact_key :: ContactKey
  ct_name :: string
  ct_phone :: string
  ct_avatar :: "string option"

record ContactTransaction =
  ctx_contact_key :: ContactKey
  ctx_txid :: string

record DownloadContactsResponse =
  dc_registered :: bool
  dc_contacts :: "Contact list"
  dc_transactions :: "ContactTransaction list"

datatype DeviceState = Unregistered | Registered

section \<open>Requests, responses and notifications\<close>

datatype (plugins only: code) Request =
    Req_Ping
  | Req_ServerStatus
  | Req_Assets "bool option" \<comment> \<open>\<^verbatim>\<open>embedded_icons\<close>\<close>
  | Req_PegFee int bool
  | Req_Peg PegRequest
  | Req_PegStatus OrderId "bool option"
  | Req_MatchRfq MatchRfq
  | Req_MatchRfqCancel OrderId
  | Req_MatchRfqAccept OrderId int
  | Req_MatchQuote OrderId "RfqRejectReason + MatchQuote"
  | Req_PriceUpdateBroadcast AssetId PricePair
  | Req_PriceUpdateSubscribe AssetId
  | Req_Swap OrderId SwapAction
  | Req_LoginClient string "string option" string string
  | Req_LoginDealer string
  | Req_VerifyDevice string
  | Req_RegisterDevice int
  | Req_RegisterAddresses string "string list"
  | Req_UpdatePushToken string string
  | Req_RegisterPhone string string "string list"
  | Req_VerifyPhone PhoneKey string
  | Req_UnregisterPhone PhoneKey
  | Req_UploadAvatar PhoneKey string
  | Req_UploadContacts PhoneKey "UploadContact list"
  | Req_DownloadContacts PhoneKey
  | Req_ContactAddr PhoneKey ContactKey
  | Req_ContactBroadcast string PhoneKey ContactKey
  | Req_LoadPrices AssetId
  | Req_CancelPrices AssetId
  | Req_Submit PriceOrder "string option"
  | Req_Edit EditRequest
  | Req_Cancel OrderId
  | Req_Login "string option"
  | Req_Subscribe "AssetId option"
  | Req_Unsubscribe "AssetId option"
  | Req_Link OrderId
  | Req_Addr AddrRequest
  | Req_Sign SignRequest
  | Req_GetSign OrderId
  | Req_AssetDetails AssetId

datatype (plugins only: code) Response =
    Resp_Ping
  | Resp_ServerStatus ServerStatus
  | Resp_Assets "Asset list"
  | Resp_PegFee int
  | Resp_Peg PegResponse
  | Resp_PegStatus PegStatus
  | Resp_MatchRfq OrderId
  | Resp_MatchRfqCancel
  | Resp_MatchRfqAccept
  | Resp_MatchQuote
  | Resp_PriceUpdateBroadcast
  | Resp_PriceUpdateSubscribe
  | Resp_Swap
  | Resp_LoginClient string
  | Resp_LoginDealer
  | Resp_VerifyDevice DeviceState
  | Resp_RegisterDevice string
  | Resp_RegisterAddresses
  | Resp_UpdatePushToken
  | Resp_RegisterPhone PhoneKey
  | Resp_VerifyPhone
  | Resp_UnregisterPhone
  | Resp_UploadAvatar
  | Resp_UploadContacts
  | Resp_DownloadContacts DownloadContactsResponse
  | Resp_ContactAddr string
  | Resp_ContactBroadcast string
  | Resp_LoadPrices AssetId "f64 option"
  | Resp_CancelPrices
  | Resp_Submit SubmitResponse
  | Resp_Edit
  | Resp_Cancel
  | Resp_Login string "OrderCreatedNotification list"
  | Resp_Subscribe "AssetId option" "OrderCreatedNotification list"
  | Resp_Unsubscribe "AssetId option"
  | Resp_Link LinkResponse
  | Resp_Addr
  | Resp_Sign
  | Resp_GetSign SignNotification
  | Resp_AssetDetails AssetDetailsResponse

datatype (plugins only: code) Notification =
    Notif_ServerStatus ServerStatus
  | Notif_PegStatus PegStatus
  | Notif_Swap OrderId SwapState
  | Notif_MatchRfq OrderId "RfqRejectReason + MatchRfqQuote"
  | Notif_RfqCreated OrderId MatchRfq
  | Notif_RfqRemoved OrderId RfqStatus
  | Notif_PriceUpdate AssetId PricePair
  | Notif_UpdatePrices AssetId "f64 option"
  | Notif_OrderCreated OrderCreatedNotification
  | Notif_OrderRemoved OrderId
  | Notif_Sign SignNotification
  | Notif_Complete OrderId "string option"
  | Notif_ContactCreated Contact
  | Notif_ContactRemoved ContactKey
  | Notif_ContactTransaction ContactTransaction
  | Notif_AccountStatus bool

datatype ErrorCode = ParseError | InvalidRequest | MethodNotFound | InvalidParams | InternalError | ServerError

fun error_code :: "ErrorCode \<Rightarrow> int" where
  "error_code ParseError = - 32700"
| "error_code InvalidRequest = - 32600"
| "error_code MethodNotFound = - 32601"
| "error_code InvalidParams = - 32602"
| "error_code InternalError = - 32603"
| "error_code ServerError = - 32000"

record Error =
  err_code :: ErrorCode
  err_message :: string

section \<open>Calls to the Elements node\<close>

text \<open>The JSON values that \<^verbatim>\<open>serde_json::json!\<close> builds for the parameters of a call.\<close>

datatype json =
    J_null
  | J_bool bool
  | J_int int
  | J_num f64
  | J_str string
  | J_txouts "TxOut list"
  | J_obj "(string \<times> json) list"

record RpcRequest =
  rpc_method :: string
  rpc_params :: "json list"

definition get_wallet_info :: RpcRequest where
  "get_wallet_info = \<lparr>rpc_method = ''getwalletinfo'', rpc_params = []\<rparr>"

datatype AddressType = Legacy | P2SH | Bech32

fun address_type_str :: "AddressType \<Rightarrow> string" where
  "address_type_str Legacy = ''legacy''"
| "address_type_str P2SH = ''p2sh-segwit''"
| "address_type_str Bech32 = ''bech32''"

definition get_new_address_with_type :: "AddressType option \<Rightarrow> RpcRequest" where
  "get_new_address_with_type addr_type =
     \<lparr>rpc_method = ''getnewaddress'',
      rpc_params = [J_str [], case addr_type of None \<Rightarrow> J_null | Some t \<Rightarrow> J_str (address_type_str t)]\<rparr>"

definition get_new_address :: RpcRequest where
  "get_new_address = get_new_address_with_type (Some P2SH)"

definition create_raw_tx ::
  "TxOut list \<Rightarrow> (string, json) btree \<Rightarrow> int \<Rightarrow> bool \<Rightarrow> (string, string) btree \<Rightarrow> RpcRequest" where
  "create_raw_tx inputs outputs_amounts locktime replaceable output_assets =
     \<lparr>rpc_method = ''createrawtransaction'',
      rpc_params = [J_txouts inputs, J_obj outputs_amounts, J_int locktime, J_bool replaceable,
        J_obj (bt_map_values J_str output_assets)]\<rparr>"

definition convert_to_psbt :: "string \<Rightarrow> RpcRequest" where
  "convert_to_psbt tx = \<lparr>rpc_method = ''converttopsbt'', rpc_params = [J_str tx]\<rparr>"

definition fill_psbt_data :: "string \<Rightarrow> RpcRequest" where
  "fill_psbt_data converted_tx = \<lparr>rpc_method = ''walletfillpsbtdata'', rpc_params = [J_str converted_tx]\<rparr>"

definition wallet_sign_psbt :: "string \<Rightarrow> RpcRequest" where
  "wallet_sign_psbt tx = \<lparr>rpc_method = ''walletsignpsbt'', rpc_params = [J_str tx]\<rparr>"

definition listunspent :: "int \<Rightarrow> RpcRequest" where
  "listunspent minconf = \<lparr>rpc_method = ''listunspent'', rpc_params = [J_int minconf]\<rparr>"

definition sendtoaddress_generic ::
  "string \<Rightarrow> f64 \<Rightarrow> string option \<Rightarrow> string option \<Rightarrow> bool option \<Rightarrow> bool option \<Rightarrow> int option \<Rightarrow>
   string option \<Rightarrow> string option \<Rightarrow> RpcRequest" where
  "sendtoaddress_generic addr amt comment comment_to subtractfeefromamount replaceable conf_target
     estimate_mode assetlabel =
     (let opt = (\<lambda>f v. case v of None \<Rightarrow> J_null | Some x \<Rightarrow> f x);
          ostr = (\<lambda>v. case v of None \<Rightarrow> J_null | Some x \<Rightarrow> J_str x);
          oint = (\<lambda>v. case v of None \<Rightarrow> J_null | Some x \<Rightarrow> J_int x)
      in \<lparr>rpc_method = ''sendtoaddress'',
          rpc_params = [J_str addr, J_num amt, ostr comment, ostr comment_to, opt J_bool subtractfeefromamount,
            opt J_bool replaceable, oint conf_target, ostr estimate_mode, ostr assetlabel]\<rparr>)"

definition sendtoaddress_asset :: "string \<Rightarrow> f64 \<Rightarrow> string \<Rightarrow> RpcRequest" where
  "sendtoaddress_asset addr amt assetlabel =
     sendtoaddress_generic addr amt None None None None None None (Some assetlabel)"

definition sendtoaddress_bitcoin :: "string \<Rightarrow> f64 \<Rightarrow> RpcRequest" where
  "sendtoaddress_bitcoin addr amt = sendtoaddress_generic addr amt None None None None None None None"

record GetWalletInfo =
  wi_balance :: "(string \<times> f64) list"
  wi_unconfirmed_balance :: "(string \<times> f64) list"
  wi_immature_balance :: "(string \<times> f64) list"
  wi_private_keys_enabled :: bool

text \<open>
  An item of \<^verbatim>\<open>listunspent\<close>.  Its amount is the JSON number after \<^verbatim>\<open>Amount::from_rpc\<close>, whose
  decimal parser is that of the \<^verbatim>\<open>bitcoin\<close> crate: the model takes the parsed satoshi.
\<close>

record UnspentItem =
  ui_txid :: string
  ui_vout :: int
  ui_address :: string
  ui_amount :: amount
  ui_confirmations :: int
  ui_asset :: string

definition tx_out :: "UnspentItem \<Rightarrow> TxOut" where
  "tx_out item = \<lparr>txo_txid = ui_txid item, txo_vout = ui_vout item\<rparr>"

text \<open>\<^verbatim>\<open>TxOut\<close> derives its order from its fields; a map keyed by it is keyed by the pair.\<close>

definition tx_out_key :: "TxOut \<Rightarrow> string \<times> int" where
  "tx_out_key t = (txo_txid t, txo_vout t)"

text \<open>The values the calls return.\<close>

datatype RpcReply =
    RR_String string
  | RR_Psbt string \<comment> \<open>\<^verbatim>\<open>FillPsbtData\<close> and \<^verbatim>\<open>WalletSignPsbt\<close>\<close>
  | RR_Unspent "UnspentItem list"
  | RR_WalletInfo GetWalletInfo

section \<open>The outside world\<close>

text \<open>
  The server and the node answer in an order and with contents the program does not control.
  A world is what they will answer next (\<open>w_responses\<close>, \<open>w_rpc_replies\<close>) together with the log of
  what the program has asked them (\<open>w_requests\<close>, \<open>w_rpc_calls\<close>).  Handlers consume answers
  and append to the log.
\<close>

record world =
  w_responses :: "(Error + Response) list"
  w_requests :: "Request list"
  w_rpc_replies :: "(string + RpcReply) list"
  w_rpc_calls :: "RpcRequest list"

text \<open>
  The dealers' \<^verbatim>\<open>send_request\<close> closure: the request is sent, and a missing answer is the
  panic \<^verbatim>\<open>expect("request timeout")\<close>.
\<close>

definition send_request :: "Request \<Rightarrow> world \<Rightarrow> ((Error + Response) \<times> world) option" where
  "send_request req w =
     (case w_responses w of [] \<Rightarrow> None
      | r # rs \<Rightarrow> Some (r, w\<lparr>w_responses := rs, w_requests := w_requests w @ [req]\<rparr>))"

text \<open>
  The \<^verbatim>\<open>send_request!\<close> macro of the dealers: a response of another type is a panic.
  \<open>want\<close> extracts the expected response.
\<close>

definition send_request_m :: "(Response \<Rightarrow> 'a option) \<Rightarrow> Request \<Rightarrow> world \<Rightarrow> ((Error + 'a) \<times> world) option" where
  "send_request_m want req w = do {
     (r, w') \<leftarrow> send_request req w;
     (case r of Inl e \<Rightarrow> Some (Inl e, w')
      | Inr v \<Rightarrow> (case want v of None \<Rightarrow> None | Some a \<Rightarrow> Some (Inr a, w')))
   }"

text \<open>
  \<^verbatim>\<open>make_rpc_call::<T>\<close>: a reply that does not have the type \<^verbatim>\<open>T\<close> fails to parse and is an
  error, as are a failed connection, an error reply and an empty reply.
\<close>

definition make_rpc_call :: "(RpcReply \<Rightarrow> 'a option) \<Rightarrow> RpcRequest \<Rightarrow> world \<Rightarrow> ((string + 'a) \<times> world)" where
  "make_rpc_call want req w =
     (let w' = w\<lparr>w_rpc_replies := tl (w_rpc_replies w), w_rpc_calls := w_rpc_calls w @ [req]\<rparr>
      in case w_rpc_replies w of
           [] \<Rightarrow> (Inl ''error sending request'', w')
         | Inl e # _ \<Rightarrow> (Inl e, w')
         | Inr v # _ \<Rightarrow> (case want v of None \<Rightarrow> (Inl ''error decoding response body'', w') | Some a \<Rightarrow> (Inr a, w')))"

fun want_string :: "RpcReply \<Rightarrow> string option" where
  "want_string (RR_String s) = Some s"
| "want_string _ = None"

fun want_psbt :: "RpcReply \<Rightarrow> string option" where
  "want_psbt (RR_Psbt s) = Some s"
| "want_psbt _ = None"

fun want_unspent :: "RpcReply \<Rightarrow> UnspentItem list option" where
  "want_unspent (RR_Unspent s) = Some s"
| "want_unspent _ = None"

fun want_wallet_info :: "RpcReply \<Rightarrow> GetWalletInfo option" where
  "want_wallet_info (RR_WalletInfo s) = Some s"
| "want_wallet_info _ = None"

definition rpc_expect :: "(RpcReply \<Rightarrow> 'a option) \<Rightarrow> RpcRequest \<Rightarrow> world \<Rightarrow> ('a \<times> world) option" where
  "rpc_expect want req w =
     (case make_rpc_call want req w of (Inl e, w') \<Rightarrow> None | (Inr a, w') \<Rightarrow> Some (a, w'))"

section \<open>Facts about the logs\<close>

named_theorems world_simps "how an interaction with the world extends its logs"

lemma send_request_log [world_simps]:
  "send_request req w = Some (r, w') \<Longrightarrow>
     w_requests w' = w_requests w @ [req] \<and> w_rpc_calls w' = w_rpc_calls w \<and>
     w_rpc_replies w' = w_rpc_replies w"
  by (auto simp: send_request_def split: list.splits)

lemma send_request_m_log [world_simps]:
  "send_request_m want req w = Some (r, w') \<Longrightarrow>
     w_requests w' = w_requests w @ [req] \<and> w_rpc_calls w' = w_rpc_calls w \<and>
     w_rpc_replies w' = w_rpc_replies w"
  by (cases "send_request req w")
    (auto simp: send_request_m_def split: sum.splits option.splits dest!: send_request_log)

lemma make_rpc_call_log [world_simps]:
  "make_rpc_call want req w = (r, w') \<Longrightarrow>
     w_rpc_calls w' = w_rpc_calls w @ [req] \<and> w_requests w' = w_requests w \<and>
     w_responses w' = w_responses w"
  by (auto simp: make_rpc_call_def Let_def split: list.splits sum.splits option.splits)

lemma rpc_expect_log [world_simps]:
  "rpc_expect want req w = Some (a, w') \<Longrightarrow>
     w_rpc_calls w' = w_rpc_calls w @ [req] \<and> w_requests w' = w_requests w \<and>
     w_responses w' = w_responses w"
  by (auto simp: rpc_expect_def dest!: make_rpc_call_log split: prod.splits sum.splits)

end
