(* ===== verification/Select_Utxo.thy ===== *)
theory Select_Utxo
  imports Common_Types
begin

text \<open>
  Coin selection: \<^verbatim>\<open>select_utxo\<close> of \<^verbatim>\<open>sideswap_common/src/types.rs\<close>, which chooses amounts,
  and the loop that turns the chosen amounts back into outputs, which the dealer
  (\<^verbatim>\<open>get_pset\<close>), the Bitfinex dealer (\<^verbatim>\<open>get_new_quote\<close>) and the client
  (\<^verbatim>\<open>process_swap_request_atomic\<close>, \<^verbatim>\<open>try_process_submit_decision\<close>) share.  The locale
  \<open>coin_selection\<close> is the contract that these callers rely on.
\<close>

section \<open>The selection of amounts\<close>

text \<open>\<^verbatim>\<open>sort_by_key\<close> is a stable sort in ascending order of the key, as \<^const>\<open>sort_key\<close> is.\<close>

definition sort_by_distance :: "int \<Rightarrow> int list \<Rightarrow> int list" where
  "sort_by_distance amount_remain inputs =
     sort_key (\<lambda>value. i64_neg (i64_abs (i64_sub value amount_remain))) inputs"

lemma length_sort_by_distance [simp]: "length (sort_by_distance r xs) = length xs"
  by (simp add: sort_by_distance_def)

lemma mset_sort_by_distance [simp]: "mset (sort_by_distance r xs) = mset xs"
  by (simp add: sort_by_distance_def)

lemma sort_by_distance_Nil [simp]: "sort_by_distance r xs = [] \<longleftrightarrow> xs = []"
  by (metis length_0_conv length_sort_by_distance)

text \<open>The first loop: take the input nearest to the remaining amount until nothing remains.\<close>

function select_loop :: "int list \<Rightarrow> int \<Rightarrow> int list \<Rightarrow> int list option" where
  "select_loop inputs amount_remain result =
     (if amount_remain > 0
      then let inputs' = sort_by_distance amount_remain inputs
        in if inputs' = [] then None
           else select_loop (butlast inputs') (i64_sub amount_remain (last inputs')) (result @ [last inputs'])
      else Some result)"
  by pat_completeness auto
termination
  by (relation "measure (\<lambda>(inputs, amount_remain, result). length inputs)")
    (auto simp flip: length_greater_0_conv)

declare select_loop.simps [simp del]

text \<open>The second loop: drop the smallest selected amount while the others exceed the target.\<close>

function trim_loop :: "int \<Rightarrow> int list \<Rightarrow> int list option" where
  "trim_loop amount result =
     (if result = [] then None
      else if i64_sub (i64_sum result) (last result) > amount then trim_loop amount (butlast result)
      else Some result)"
  by pat_completeness auto
termination
  by (relation "measure (\<lambda>(amount, result). length result)") auto

declare trim_loop.simps [simp del]

definition select_utxo :: "int list \<Rightarrow> int \<Rightarrow> int list option" where
  "select_utxo inputs amount = do {
     _ \<leftarrow> rust_assert (amount > 0);
     result \<leftarrow> select_loop inputs amount [];
     trim_loop amount (rev (sort result))
   }"

section \<open>The outputs behind the amounts\<close>

text \<open>For each selected amount, the first remaining output with that amount is taken out.\<close>

fun pick_utxos :: "('u \<Rightarrow> int) \<Rightarrow> int list \<Rightarrow> 'u list \<Rightarrow> 'u list \<Rightarrow> 'u list option" where
  "pick_utxos amount_of [] utxos picked = Some picked"
| "pick_utxos amount_of (a # as) utxos picked = do {
     index \<leftarrow> position (\<lambda>v. amount_of v = a) utxos;
     (utxo, utxos') \<leftarrow> swap_remove index utxos;
     pick_utxos amount_of as utxos' (picked @ [utxo])
   }"

section \<open>What the selection guarantees\<close>

lemma sum_list_butlast_last: "xs \<noteq> [] \<Longrightarrow> sum_list (butlast xs) + last xs = (sum_list xs :: int)"
  by (metis append_butlast_last_id sum_list.Nil sum_list.Cons sum_list.append add.right_neutral)

lemma mset_butlast_last: "xs \<noteq> [] \<Longrightarrow> add_mset (last xs) (mset (butlast xs)) = mset xs"
  by (metis add_mset_add_single append_butlast_last_id mset.simps mset_append)

lemma select_loop_spec:
  assumes "\<forall>x \<in> set inputs. 0 \<le> x" "remain \<le> sum_list inputs" "sum_list inputs \<le> i64_max"
    and "- i64_max \<le> remain"
  shows "\<exists>sel. select_loop inputs remain result = Some (result @ sel) \<and>
    mset sel \<subseteq># mset inputs \<and> remain \<le> sum_list sel"
  using assms
proof (induction inputs remain result rule: select_loop.induct)
  case (1 inputs remain result)
  show ?case
  proof (cases "0 < remain")
    case False
    then show ?thesis by (intro exI[of _ "[]"]) (simp add: select_loop.simps)
  next
    case True
    let ?ys = "sort_by_distance remain inputs"
    have ne: "?ys \<noteq> []" using True 1 by auto
    have s: "set ?ys = set inputs" "sum_list ?ys = sum_list inputs"
      by (metis mset_sort_by_distance set_mset_mset, metis mset_sort_by_distance sum_mset_sum_list)
    have lst: "last ?ys \<in> set inputs" using ne s by (metis last_in_set)
    then have l0: "0 \<le> last ?ys" using "1.prems" by simp
    have bl: "sum_list (butlast ?ys) + last ?ys = sum_list inputs" using sum_list_butlast_last[OF ne] s by simp
    have nn: "\<forall>x \<in> set (butlast ?ys). 0 \<le> x" using "1.prems"(1) s by (auto dest: in_set_butlastD)
    have nb: "0 \<le> sum_list (butlast ?ys)" using nn by (intro sum_list_nonneg) simp
    have rng: "in_i64 (remain - last ?ys)"
      using True l0 bl nb "1.prems" by (auto simp: in_i64_def i64_min_def i64_max_def)
    then have sub: "i64_sub remain (last ?ys) = remain - last ?ys" by (rule i64_sub_id)
    have "\<exists>sel. select_loop (butlast ?ys) (i64_sub remain (last ?ys)) (result @ [last ?ys]) =
        Some ((result @ [last ?ys]) @ sel) \<and> mset sel \<subseteq># mset (butlast ?ys) \<and>
        i64_sub remain (last ?ys) \<le> sum_list sel"
      using "1.IH"[OF True refl ne nn] "1.prems" bl nb l0 True by (simp add: sub)
    then obtain sel where sel: "select_loop (butlast ?ys) (remain - last ?ys) (result @ [last ?ys]) =
        Some (result @ (last ?ys # sel))" "mset sel \<subseteq># mset (butlast ?ys)" "remain - last ?ys \<le> sum_list sel"
      by (auto simp: sub)
    have "mset (last ?ys # sel) \<subseteq># mset inputs"
      using sel(2) mset_butlast_last[OF ne] by (metis mset.simps(2) mset_sort_by_distance mset_subset_eq_add_mset_cancel)
    then show ?thesis using sel(1,3) True ne
      by (intro exI[of _ "last ?ys # sel"]) (simp add: select_loop.simps[of inputs] sub)
  qed
qed

lemma select_loop_panics:
  assumes "\<forall>x \<in> set inputs. 0 \<le> x" "sum_list inputs < remain" "remain \<le> i64_max"
  shows "select_loop inputs remain result = None"
  using assms
proof (induction inputs remain result rule: select_loop.induct)
  case (1 inputs remain result)
  have nn0: "0 \<le> sum_list inputs" using "1.prems" by (intro sum_list_nonneg) simp
  then have True: "0 < remain" using "1.prems" by simp
  let ?ys = "sort_by_distance remain inputs"
  show ?case
  proof (cases "?ys = []")
    case ne: False
    have s: "set ?ys = set inputs" "sum_list ?ys = sum_list inputs"
      by (metis mset_sort_by_distance set_mset_mset, metis mset_sort_by_distance sum_mset_sum_list)
    have l0: "0 \<le> last ?ys" using ne s "1.prems" by (metis last_in_set)
    have bl: "sum_list (butlast ?ys) + last ?ys = sum_list inputs" using sum_list_butlast_last[OF ne] s by simp
    have nn: "\<forall>x \<in> set (butlast ?ys). 0 \<le> x" using "1.prems"(1) s by (auto dest: in_set_butlastD)
    have "0 \<le> sum_list (butlast ?ys)" using nn by (intro sum_list_nonneg) simp
    then have "i64_sub remain (last ?ys) = remain - last ?ys"
      using True l0 bl "1.prems" by (intro i64_sub_id) (auto simp: in_i64_def i64_min_def i64_max_def)
    then show ?thesis using "1.IH"[OF True refl ne nn] "1.prems" bl l0 True ne
      by (simp add: select_loop.simps[of inputs])
  next
    case Nil: True
    then show ?thesis using True by (simp add: select_loop.simps[of "[]"])
  qed
qed

lemma trim_loop_spec:
  assumes "result \<noteq> []" "\<forall>x \<in> set result. 0 \<le> x" "sum_list result \<le> i64_max" "0 < amount" "amount \<le> sum_list result"
  shows "\<exists>n. trim_loop amount result = Some (take n result) \<and> amount \<le> sum_list (take n result) \<and>
    take n result \<noteq> [] \<and> sum_list (butlast (take n result)) \<le> amount"
  using assms
proof (induction amount result rule: trim_loop.induct)
  case (1 amount result)
  have sum: "i64_sum result = sum_list result" using "1.prems" by (simp add: i64_simps)
  have bl: "sum_list (butlast result) + last result = sum_list result"
    using "1.prems"(1) by (rule sum_list_butlast_last)
  have nn: "\<forall>x \<in> set (butlast result). 0 \<le> x" using "1.prems"(2) by (auto dest: in_set_butlastD)
  have b0: "0 \<le> sum_list (butlast result)" using nn by (intro sum_list_nonneg) simp
  have l0: "0 \<le> last result" using "1.prems" by (metis last_in_set)
  have sub: "i64_sub (i64_sum result) (last result) = sum_list (butlast result)"
    using bl b0 l0 "1.prems"(3) unfolding sum by (subst i64_sub_id) (auto intro: in_i64_nonneg)
  show ?case
  proof (cases "amount < sum_list (butlast result)")
    case False
    then show ?thesis using "1.prems"
      by (intro exI[of _ "length result"]) (simp add: trim_loop.simps[of amount result] sub)
  next
    case True
    then have "butlast result \<noteq> []" using "1.prems"(4) by auto
    then obtain n where n: "trim_loop amount (butlast result) = Some (take n (butlast result))"
      "amount \<le> sum_list (take n (butlast result))" "take n (butlast result) \<noteq> []"
      "sum_list (butlast (take n (butlast result))) \<le> amount"
      using "1.IH" "1.prems" True nn bl l0 b0 by (force simp: sub)
    have "take n (butlast result) = take (min n (length result - 1)) result"
      by (simp add: butlast_conv_take take_take)
    then show ?thesis using n True "1.prems"(1)
      by (intro exI[of _ "min n (length result - 1)"]) (simp add: trim_loop.simps[of amount result] sub)
  qed
qed

lemma select_utxo_spec:
  assumes "0 < amount" "\<forall>x \<in> set inputs. 0 \<le> x" "amount \<le> sum_list inputs" "sum_list inputs \<le> i64_max"
  shows "\<exists>sel. select_utxo inputs amount = Some sel \<and> mset sel \<subseteq># mset inputs \<and>
    amount \<le> sum_list sel \<and> sel \<noteq> [] \<and> sum_list (butlast sel) \<le> amount \<and> sorted_wrt (\<ge>) sel"
proof -
  obtain res where res: "select_loop inputs amount [] = Some res" "mset res \<subseteq># mset inputs" "amount \<le> sum_list res"
    using select_loop_spec[of inputs amount "[]"] assms by (auto simp: i64_max_def)
  let ?r = "rev (sort res)"
  have m: "mset ?r = mset res" by simp
  have sum: "sum_list ?r = sum_list res" by (metis m sum_mset_sum_list)
  have sub: "set res \<subseteq> set inputs" using res(2) by (metis set_mset_mono set_mset_mset)
  obtain rest where rest: "mset inputs = mset (res @ rest)"
    using res(2) by (metis subset_mset.le_iff_add ex_mset mset_append)
  have "set rest \<subseteq> set inputs" using mset_eq_setD[OF rest] by simp
  then have "0 \<le> sum_list rest" using assms(2) by (intro sum_list_nonneg) auto
  moreover have "sum_list inputs = sum_list res + sum_list rest" by (metis rest sum_list.append sum_mset_sum_list)
  ultimately have le: "sum_list res \<le> i64_max" using assms(4) by simp
  have nonneg: "\<forall>x \<in> set ?r. 0 \<le> x" using sub assms(2) by auto
  have "?r \<noteq> []" using assms(1) res(3) sum by auto
  then obtain n where n: "trim_loop amount ?r = Some (take n ?r)" "amount \<le> sum_list (take n ?r)"
      "take n ?r \<noteq> []" "sum_list (butlast (take n ?r)) \<le> amount"
    using trim_loop_spec[of ?r amount] nonneg sum le assms(1) res(3) by auto
  have "mset (take n ?r) \<subseteq># mset ?r"
    by (metis append_take_drop_id mset_append mset_subset_eq_add_left)
  then have "mset (take n ?r) \<subseteq># mset inputs" using res(2) by simp
  moreover have "sorted_wrt (\<ge>) (take n ?r)"
  proof (rule sorted_wrt_take)
    have "sorted_wrt (\<le>) (sort res)" by simp
    then show "sorted_wrt (\<ge>) ?r" by (simp add: sorted_wrt_rev)
  qed
  ultimately show ?thesis using n assms(1) by (simp add: select_utxo_def res(1))
qed

lemma pick_utxos_spec:
  assumes "mset sel \<subseteq># image_mset f (mset utxos)"
  shows "\<exists>us. pick_utxos f sel utxos picked = Some (picked @ us) \<and> map f us = sel \<and> mset us \<subseteq># mset utxos"
  using assms
proof (induction sel arbitrary: utxos picked)
  case Nil
  then show ?case by simp
next
  case (Cons a sel)
  have "a \<in># image_mset f (mset utxos)" using Cons.prems by (metis insert_subset_eq_iff mset.simps(2))
  then obtain i where i: "position (\<lambda>v. f v = a) utxos = Some i"
    using position_None[of "\<lambda>v. f v = a" utxos] by (auto simp: in_image_mset)
  then have il: "i < length utxos" and ia: "f (utxos ! i) = a" using position_Some by (fast, fast)
  then obtain ys where sr: "swap_remove i utxos = Some (utxos ! i, ys)" by (simp add: swap_remove_def)
  then have m: "mset utxos = add_mset (utxos ! i) (mset ys)" using swap_remove_mset by metis
  then have "mset sel \<subseteq># image_mset f (mset ys)" using Cons.prems ia by simp
  then obtain us where "pick_utxos f sel ys (picked @ [utxos ! i]) = Some ((picked @ [utxos ! i]) @ us)"
      "map f us = sel" "mset us \<subseteq># mset ys"
    using Cons.IH by blast
  then show ?case using i sr ia m by (intro exI[of _ "utxos ! i # us"]) simp
qed

text \<open>The contract of coin selection, and what its callers get from it.\<close>

locale coin_selection =
  fixes select :: "int list \<Rightarrow> int \<Rightarrow> int list option"
  assumes select_enough: "0 < amount \<Longrightarrow> \<forall>x \<in> set inputs. 0 \<le> x \<Longrightarrow> amount \<le> sum_list inputs \<Longrightarrow>
      sum_list inputs \<le> i64_max \<Longrightarrow>
      \<exists>sel. select inputs amount = Some sel \<and> mset sel \<subseteq># mset inputs \<and> amount \<le> sum_list sel"
begin

lemma select_and_pick:
  assumes "0 < amount" "\<forall>u \<in> set utxos. 0 \<le> f u" "amount \<le> sum_list (map f utxos)"
    and "sum_list (map f utxos) \<le> i64_max"
  shows "\<exists>sel us. select (map f utxos) amount = Some sel \<and> pick_utxos f sel utxos [] = Some us \<and>
    map f us = sel \<and> mset us \<subseteq># mset utxos \<and> amount \<le> sum_list (map f us)"
proof -
  obtain sel where sel: "select (map f utxos) amount = Some sel" "mset sel \<subseteq># mset (map f utxos)" "amount \<le> sum_list sel"
    using select_enough[of amount "map f utxos"] assms by auto
  moreover obtain us where "pick_utxos f sel utxos [] = Some us" "map f us = sel" "mset us \<subseteq># mset utxos"
    using pick_utxos_spec[of sel f utxos "[]"] sel(2) by auto
  ultimately show ?thesis by auto
qed

lemma select_length:
  assumes "0 < amount" "\<forall>x \<in> set inputs. 0 \<le> x" "amount \<le> sum_list inputs" "sum_list inputs \<le> i64_max"
    and "select inputs amount = Some sel"
  shows "length sel \<le> length inputs"
  using select_enough[OF assms(1-4)] assms(5) by (metis option.inject size_mset size_mset_mono)

end

interpretation utxo_sel: coin_selection select_utxo
  by unfold_locales (use select_utxo_spec in blast)

text \<open>C31: whenever the available outputs cover the amount, selection succeeds without panic and
  returns a sub-multiset of the inputs in descending order that covers the amount and has no
  smallest element to spare (without its last element it does not exceed the amount).\<close>

theorem select_utxo_covers:
  assumes "0 < amount" "\<forall>x \<in> set inputs. 0 \<le> x" "amount \<le> sum_list inputs" "sum_list inputs \<le> i64_max"
  shows "\<exists>sel. select_utxo inputs amount = Some sel \<and> mset sel \<subseteq># mset inputs \<and>
    amount \<le> sum_list sel \<and> sel \<noteq> [] \<and> sum_list (butlast sel) \<le> amount \<and> sorted_wrt (\<ge>) sel"
  using assms by (rule select_utxo_spec)

theorem select_utxo_covers_witness:
  "\<exists>sel. select_utxo [5000, 10, 5] 15 = Some sel \<and> mset sel \<subseteq># mset [5000, 10, 5] \<and>
    15 \<le> sum_list sel \<and> sel \<noteq> [] \<and> sum_list (butlast sel) \<le> 15 \<and> sorted_wrt (\<ge>) sel"
  by (rule select_utxo_covers) (simp_all add: i64_max_def)

lemma select_utxo_None_iff:
  assumes "\<forall>x \<in> set inputs. 0 \<le> x" "sum_list inputs \<le> i64_max" "amount \<le> i64_max"
  shows "select_utxo inputs amount = None \<longleftrightarrow> amount \<le> 0 \<or> sum_list inputs < amount"
proof -
  have "select_utxo inputs amount = None" if "amount \<le> 0 \<or> sum_list inputs < amount"
    using that select_loop_panics[of inputs amount "[]"] assms
    by (cases "0 < amount") (auto simp: select_utxo_def)
  moreover have "select_utxo inputs amount \<noteq> None" if "0 < amount" "amount \<le> sum_list inputs"
    using select_utxo_spec[OF that(1) assms(1) that(2) assms(2)] by auto
  ultimately show ?thesis by (meson not_le)
qed

text \<open>C32: \<^verbatim>\<open>select_utxo\<close> panics exactly when the amount is not positive or exceeds what is
  available.\<close>

theorem select_utxo_panics_iff:
  assumes "\<forall>x \<in> set inputs. 0 \<le> x" "sum_list inputs \<le> i64_max" "amount \<le> i64_max"
  shows "select_utxo inputs amount = None \<longleftrightarrow> amount \<le> 0 \<or> sum_list inputs < amount"
  using assms by (rule select_utxo_None_iff)

theorem select_utxo_panics_iff_witness:
  "select_utxo [15, 10] 26 = None \<longleftrightarrow> (26::int) \<le> 0 \<or> sum_list [15, 10] < (26::int)"
  by (rule select_utxo_panics_iff) (simp_all add: i64_max_def)

text \<open>C33: looking the selected amounts up among the outputs never fails: the loop over
  \<^verbatim>\<open>position\<close> and \<^verbatim>\<open>swap_remove\<close> returns distinct entries of the output list whose amounts
  are exactly the selected ones and cover the amount.\<close>

theorem select_and_pick_covers:
  assumes "0 < amount" "\<forall>u \<in> set utxos. 0 \<le> f u" "amount \<le> sum_list (map f utxos)"
    and "sum_list (map f utxos) \<le> i64_max"
  shows "\<exists>sel us. select_utxo (map f utxos) amount = Some sel \<and> pick_utxos f sel utxos [] = Some us \<and>
    map f us = sel \<and> mset us \<subseteq># mset utxos \<and> amount \<le> sum_list (map f us)"
  using assms by (rule utxo_sel.select_and_pick)

theorem select_and_pick_covers_witness:
  "\<exists>sel us. select_utxo (map snd [(''a'', 15), (''b'', 10)]) 20 = Some sel \<and>
    pick_utxos snd sel [(''a'', 15), (''b'', 10)] [] = Some us \<and> map snd us = sel \<and>
    mset us \<subseteq># mset [(''a'', 15), (''b'', 10)] \<and> 20 \<le> sum_list (map snd us)"
  by (rule select_and_pick_covers) (simp_all add: i64_max_def)

end
