(* ===== verification/Dealer.thy ===== *)
theory Dealer
  imports Api Select_Utxo
begin

text \<open>
  \<^verbatim>\<open>sideswap_dealer/src/dealer.rs\<close>: the automated dealer.  Its worker thread owns the state
  \<open>dealer\<close> and handles one message at a time (\<open>dealer_step\<close>, the body of the \<^verbatim>\<open>loop\<close> of
  \<^verbatim>\<open>worker\<close>).  A handler takes the current instant as an argument; the messages it sends to its
  own channel and to its owner are appended to \<open>d_queue\<close> and \<open>d_from\<close>, the requests to the
  server and to the node to the logs of \<open>d_world\<close>.  Instants are in nanoseconds.
\<close>

section \<open>Data\<close>

definition EXTRA_ASSET_UTXO_FRACTION :: f64 where "EXTRA_ASSET_UTXO_FRACTION = f64_lit (3 / 100)"
definition RECREATE_ORDER_AMOUNT_FRACTION :: f64 where "RECREATE_ORDER_AMOUNT_FRACTION = f64_lit (5 / 100)"
definition DEALER_MIN_BITCOIN_AMOUNT :: f64 where "DEALER_MIN_BITCOIN_AMOUNT = f64_lit (1 / 10000)"
definition PRICE_EXPIRATON_TIME :: int where "PRICE_EXPIRATON_TIME = 60 * 10 ^ 9"

type_synonym DealerTicker = string

record RpcServer =
  rs_host :: string
  rs_port :: int
  rs_login :: string
  rs_password :: string

record Params =
  p_env :: Env
  p_server_host :: string
  p_server_port :: int
  p_server_use_tls :: bool
  p_rpc :: RpcServer
  p_interest_submit :: f64
  p_interest_sign :: f64
  p_tickers :: "DealerTicker list" \<comment> \<open>a \<^verbatim>\<open>BTreeSet\<close>, in ascending order\<close>
  p_bitcoin_amount_submit :: amount
  p_bitcoin_amount_min :: amount
  p_bitcoin_amount_max :: amount

datatype To =
    To_Price DealerTicker "PricePair option"
  | To_LimitBalance DealerTicker bool f64
  | To_ResetPrices

record SwapSucceed =
  su_txid :: string
  su_ticker :: DealerTicker
  su_bitcoin_amount :: amount
  su_send_bitcoins :: bool

datatype From = From_Swap SwapSucceed | From_WalletBalanceUpdated

datatype Msg =
    M_To To
  | M_Timer
  | M_Connected
  | M_Disconnected
  | M_Notification Notification
  | M_ReloadUtxo

record Utxo =
  u_item :: UnspentItem
  u_reserve :: "OrderId option"
  u_amount :: int

type_synonym Utxos = "(string \<times> int, Utxo) btree"
type_synonym WalletBalances = "(DealerTicker, f64) btree"

record PriceTimestamp =
  pt_price :: PricePair
  pt_timestamp :: int

type_synonym IndexPrices = "(DealerTicker, PriceTimestamp) btree"

record AllBalances =
  ab_wallet :: WalletBalances
  ab_max_send :: WalletBalances
  ab_max_recv :: WalletBalances

record OwnOrder =
  oo_order_id :: OrderId
  oo_bitcoin_amount :: amount
  oo_price :: f64

type_synonym OwnOrderKey = "DealerTicker \<times> bool"

record dealer =
  d_assets :: "Asset list"
  d_server_connected :: bool
  d_utxos :: Utxos
  d_orders :: "(OrderId, OrderCreatedNotification) btree"
  d_taken_orders :: "OrderId set"
  d_all_balances :: AllBalances
  d_index_prices :: IndexPrices
  d_pending_signs :: "(OrderId, Details) btree"
  d_own_orders :: "(OwnOrderKey, OwnOrder option) btree"
  d_wallet_balance :: "GetWalletInfo option"
  d_queue :: "Msg list"
  d_from :: "From list"
  d_world :: world

section \<open>Prices and amounts\<close>

definition ticker_from_string :: "string \<Rightarrow> string + DealerTicker" where
  "ticker_from_string asset =
     (if asset \<in> {TICKER_LBTC, TICKER_USDT, TICKER_EURX, TICKER_LCAD, TICKER_AUDL} then Inr asset
      else Inl (''ticker '' @ asset @ '' not found''))"

definition ticker_from_asset :: "Asset \<Rightarrow> string + DealerTicker" where
  "ticker_from_asset asset = ticker_from_string (a_ticker asset)"

definition apply_interest :: "PricePair \<Rightarrow> f64 \<Rightarrow> PricePair option" where
  "apply_interest price interest = do {
     _ \<leftarrow> rust_assert (f64_le (f64_lit 1) interest \<and> f64_le interest (f64_lit (11 / 10)));
     Some \<lparr>pp_bid = f64_div (pp_bid price) interest, pp_ask = f64_mul (pp_ask price) interest\<rparr>
   }"

definition get_price_pair :: "PriceTimestamp \<Rightarrow> PricePair" where
  "get_price_pair price = pt_price price"

definition get_price :: "PricePair \<Rightarrow> bool \<Rightarrow> f64 \<Rightarrow> f64" where
  "get_price price send_bitcoins interest =
     (if send_bitcoins then f64_mul (pp_ask price) interest else f64_div (pp_bid price) interest)"

definition amount_change :: "amount \<Rightarrow> amount \<Rightarrow> f64" where
  "amount_change new old = f64_div (f64_sub (to_bitcoin new) (to_bitcoin old)) (to_bitcoin old)"

definition get_or :: "f64 \<Rightarrow> WalletBalances \<Rightarrow> DealerTicker \<Rightarrow> f64" where
  "get_or d m k = (case bt_get m k of None \<Rightarrow> d | Some v \<Rightarrow> v)"

definition get_bitcoin_amount :: "AllBalances \<Rightarrow> DealerTicker \<Rightarrow> f64 \<Rightarrow> bool \<Rightarrow> bool \<Rightarrow> amount" where
  "get_bitcoin_amount all ticker price send_bitcoins max_amount =
     (let wallet_asset = get_or (F_fin 0) (ab_wallet all) ticker;
          wallet_bitcoin = f64_div (get_or (F_fin 0) (ab_wallet all) TICKER_LBTC) (f64_add (f64_lit 1) SERVER_FEE_RATE);
          bitcoin_max_send = get_or f64_MAX (ab_max_send all) TICKER_LBTC;
          bitcoin_max_recv = get_or f64_MAX (ab_max_recv all) TICKER_LBTC;
          asset_max_send = get_or f64_MAX (ab_max_send all) ticker;
          asset_max_recv = get_or f64_MAX (ab_max_recv all) ticker;
          extra_asset_downscale = (if max_amount then f64_lit 1
            else f64_div (f64_lit 1) (f64_add (f64_lit 1) EXTRA_ASSET_UTXO_FRACTION))
      in if send_bitcoins
         then from_bitcoin (f64_min (f64_min wallet_bitcoin
                (f64_div (f64_mul asset_max_recv extra_asset_downscale) price)) bitcoin_max_send)
         else from_bitcoin (f64_min (f64_min
                (f64_div (f64_mul wallet_asset extra_asset_downscale) price) bitcoin_max_recv)
                (f64_div (f64_mul asset_max_send extra_asset_downscale) price)))"

section \<open>Taking and signing orders\<close>

datatype TakeError =
    TE_AmountBelowMin
  | TE_AmountAboveMax
  | TE_Ticker string
  | TE_NoIndexPrice
  | TE_PriceBelowAsk f64 f64
  | TE_PriceAboveBid f64 f64
  | TE_AmountAboveBalance int int

text \<open>The bitcoin amount that the dealer pays or receives, the server fee included.\<close>

definition actual_bitcoin_amount :: "Details \<Rightarrow> amount" where
  "actual_bitcoin_amount details =
     (if det_send_bitcoins details then i64_add (det_bitcoin_amount details) (det_server_fee details)
      else i64_sub (det_bitcoin_amount details) (det_server_fee details))"

definition take_order ::
  "Params \<Rightarrow> Asset list \<Rightarrow> Details \<Rightarrow> AllBalances \<Rightarrow> IndexPrices \<Rightarrow> f64 \<Rightarrow> (TakeError + unit) option" where
  "take_order params assets details all index_prices interest =
     (if \<not> p_bitcoin_amount_min params \<le> det_bitcoin_amount details then Some (Inl TE_AmountBelowMin)
      else if \<not> det_bitcoin_amount details \<le> p_bitcoin_amount_max params then Some (Inl TE_AmountAboveMax)
      else do {
        asset \<leftarrow> find (\<lambda>asset. a_asset_id asset = det_asset details) assets;
        (case ticker_from_asset asset of
           Inl e \<Rightarrow> Some (Inl (TE_Ticker e))
         | Inr ticker \<Rightarrow> do {
             asset_amount \<leftarrow> asset_float_amount (det_asset_amount details) (a_precision asset);
             let actual_price = f64_div asset_amount (to_bitcoin (actual_bitcoin_amount details));
             _ \<leftarrow> rust_assert (f64_lt (F_fin 0) actual_price);
             (case bt_get index_prices ticker of
                None \<Rightarrow> Some (Inl TE_NoIndexPrice)
              | Some index_price \<Rightarrow> do {
                  dealer_price \<leftarrow> apply_interest (get_price_pair index_price) interest;
                  let bitcoin_amount_max = get_bitcoin_amount all ticker actual_price (det_send_bitcoins details) True;
                  Some (if det_send_bitcoins details \<and> \<not> f64_le (pp_ask dealer_price) actual_price
                        then Inl (TE_PriceBelowAsk actual_price (pp_ask dealer_price))
                        else if \<not> det_send_bitcoins details \<and> \<not> f64_le actual_price (pp_bid dealer_price)
                        then Inl (TE_PriceAboveBid actual_price (pp_bid dealer_price))
                        else if \<not> det_bitcoin_amount details \<le> bitcoin_amount_max
                        then Inl (TE_AmountAboveBalance (det_bitcoin_amount details) bitcoin_amount_max)
                        else Inr ())
                })
           })
      })"

text \<open>
  \<^verbatim>\<open>get_pset\<close>: the outputs of the asset to send are collected, enough of them are selected and
  a PSET that spends them is built by the node.  With \<open>extra_asset_utxo\<close> some more of an asset
  is put in, for later price edits.
\<close>

definition send_asset_amount :: "Env \<Rightarrow> Details \<Rightarrow> AssetId \<times> int" where
  "send_asset_amount env details =
     (if det_send_bitcoins details
      then (env_bitcoin_asset_id (env_data env), i64_add (det_bitcoin_amount details) (det_server_fee details))
      else (det_asset details, det_asset_amount details))"

definition pset_utxo_amount :: "Details \<Rightarrow> int \<Rightarrow> int \<Rightarrow> bool \<Rightarrow> int" where
  "pset_utxo_amount details send_amount total_amount extra_asset_utxo =
     (if extra_asset_utxo \<and> \<not> det_send_bitcoins details
      then min total_amount (f64_as_i64 (f64_round (f64_mul (f64_of_int send_amount)
             (f64_add (f64_lit 1) EXTRA_ASSET_UTXO_FRACTION))))
      else send_amount)"

definition get_pset ::
  "OrderId \<Rightarrow> Details \<Rightarrow> Utxos \<Rightarrow> Params \<Rightarrow> bool \<Rightarrow> world \<Rightarrow> ((unit + AddrRequest) \<times> world) option" where
  "get_pset order_id details utxos params extra_asset_utxo w =
     (let (send_asset, send_amount) = send_asset_amount (p_env params) details;
          asset_utxos = filter (\<lambda>utxo. ui_asset (u_item utxo) = send_asset) (bt_values utxos);
          utxos_amounts = map u_amount asset_utxos;
          total_amount = i64_sum utxos_amounts
      in if \<not> send_amount \<le> total_amount then Some (Inl (), w)
         else do {
           selected \<leftarrow> select_utxo utxos_amounts (pset_utxo_amount details send_amount total_amount extra_asset_utxo);
           picked \<leftarrow> pick_utxos u_amount selected asset_utxos [];
           let selected_utxos = map (\<lambda>utxo. \<lparr>txo_txid = ui_txid (u_item utxo), txo_vout = ui_vout (u_item utxo)\<rparr>) picked;
           (raw_tx, w) \<leftarrow> rpc_expect want_string (create_raw_tx selected_utxos [] 0 False []) w;
           (pset, w) \<leftarrow> rpc_expect want_string (convert_to_psbt raw_tx) w;
           (pset, w) \<leftarrow> rpc_expect want_psbt (fill_psbt_data pset) w;
           (recv_addr, w) \<leftarrow> rpc_expect want_string get_new_address w;
           (change_addr, w) \<leftarrow> rpc_expect want_string get_new_address w;
           Some (Inr \<lparr>ar_order_id = order_id, ar_pset = pset, ar_recv_addr = recv_addr,
             ar_change_addr = change_addr, ar_price = det_price details, ar_private = None,
             ar_ttl_seconds = None\<rparr>, w)
         })"

section \<open>The dealer's own orders\<close>

fun want_cancel :: "Response \<Rightarrow> unit option" where
  "want_cancel Resp_Cancel = Some ()" | "want_cancel _ = None"
fun want_submit :: "Response \<Rightarrow> SubmitResponse option" where
  "want_submit (Resp_Submit r) = Some r" | "want_submit _ = None"
fun want_addr :: "Response \<Rightarrow> unit option" where
  "want_addr Resp_Addr = Some ()" | "want_addr _ = None"
fun want_edit :: "Response \<Rightarrow> unit option" where
  "want_edit Resp_Edit = Some ()" | "want_edit _ = None"
fun want_sign :: "Response \<Rightarrow> unit option" where
  "want_sign Resp_Sign = Some ()" | "want_sign _ = None"
fun want_assets :: "Response \<Rightarrow> Asset list option" where
  "want_assets (Resp_Assets r) = Some r" | "want_assets _ = None"
fun want_login :: "Response \<Rightarrow> (string \<times> OrderCreatedNotification list) option" where
  "want_login (Resp_Login i r) = Some (i, r)" | "want_login _ = None"
fun want_subscribe :: "Response \<Rightarrow> OrderCreatedNotification list option" where
  "want_subscribe (Resp_Subscribe a r) = Some r" | "want_subscribe _ = None"

text \<open>A failed cancellation is only logged.\<close>

definition cancel_order :: "OwnOrder \<Rightarrow> world \<Rightarrow> world option" where
  "cancel_order data w = do {
     (_, w) \<leftarrow> send_request_m want_cancel (Req_Cancel (oo_order_id data)) w;
     Some w
   }"

text \<open>The new order price: the index price with the interest, raised by the expected server fee.\<close>

definition order_price :: "Params \<Rightarrow> bool \<Rightarrow> PriceTimestamp option \<Rightarrow> f64 option" where
  "order_price params send_bitcoins price =
     (let expected_server_fee = from_bitcoin (f64_max
            (f64_mul SERVER_FEE_RATE (to_bitcoin (p_bitcoin_amount_submit params))) (to_bitcoin MIN_SERVER_FEE));
          interest_take_ajusted = f64_mul (p_interest_submit params)
            (f64_add (f64_lit 1) (f64_div (to_bitcoin expected_server_fee) (to_bitcoin (p_bitcoin_amount_submit params))))
      in map_option (\<lambda>price. get_price (pt_price price) send_bitcoins interest_take_ajusted) price)"

definition submit_own_order ::
  "Params \<Rightarrow> Asset \<Rightarrow> Utxos \<Rightarrow> bool \<Rightarrow> f64 \<Rightarrow> amount \<Rightarrow> world \<Rightarrow> (OwnOrder option \<times> world) option" where
  "submit_own_order params asset utxos send_bitcoins price new_bitcoin_amount_normal w = do {
     (submit_result, w) \<leftarrow> send_request_m want_submit (Req_Submit
        \<lparr>po_asset = a_asset_id asset,
         po_bitcoin_amount = Some (if send_bitcoins then f64_neg (to_bitcoin new_bitcoin_amount_normal)
           else to_bitcoin new_bitcoin_amount_normal),
         po_asset_amount = None, po_price = Some price, po_index_price = None\<rparr> None) w;
     (case submit_result of
        Inl e \<Rightarrow> Some (None, w)
      | Inr submit_resp \<Rightarrow> do {
          (pset, w) \<leftarrow> get_pset (sr_order_id submit_resp) (sr_details submit_resp) utxos params True w;
          (case pset of
             Inl e \<Rightarrow> Some (None, w)
           | Inr v \<Rightarrow> do {
               (addr_result, w) \<leftarrow> send_request_m want_addr (Req_Addr v) w;
               Some (case addr_result of Inl e \<Rightarrow> None
                 | Inr _ \<Rightarrow> Some \<lparr>oo_order_id = sr_order_id submit_resp,
                     oo_bitcoin_amount = new_bitcoin_amount_normal, oo_price = price\<rparr>, w)
             })
        })
   }"

text \<open>A failed edit cancels the order and forgets it.\<close>

definition edit_own_order :: "OwnOrder \<Rightarrow> f64 \<Rightarrow> world \<Rightarrow> (OwnOrder option \<times> world) option" where
  "edit_own_order data price w =
     (if f64_eq (oo_price data) price then Some (Some data, w)
      else do {
        (edit_result, w) \<leftarrow> send_request_m want_edit
          (Req_Edit \<lparr>er_order_id = oo_order_id data, er_price = Some price, er_index_price = None\<rparr>) w;
        (case edit_result of
           Inr _ \<Rightarrow> Some (Some (data\<lparr>oo_price := price\<rparr>), w)
         | Inl e \<Rightarrow> do {
             (_, w) \<leftarrow> send_request_m want_cancel (Req_Cancel (oo_order_id data)) w;
             Some (None, w)
           })
      })"

definition update_price ::
  "Params \<Rightarrow> Asset list \<Rightarrow> IndexPrices \<Rightarrow> AllBalances \<Rightarrow> Utxos \<Rightarrow> OwnOrderKey \<Rightarrow> OwnOrder option \<Rightarrow> world \<Rightarrow>
   (OwnOrder option \<times> world) option" where
  "update_price params assets index_prices all utxos key own w =
     (let (ticker, send_bitcoins) = key in do {
        asset \<leftarrow> find (\<lambda>asset. a_ticker asset = ticker) assets;
        let price = order_price params send_bitcoins (bt_get index_prices ticker);
        let new_bitcoin_amount_normal = (case price of None \<Rightarrow> 0
              | Some price \<Rightarrow> min (get_bitcoin_amount all ticker price send_bitcoins False) (p_bitcoin_amount_submit params));
        let new_bitcoin_amount_max = (case price of None \<Rightarrow> 0
              | Some price \<Rightarrow> get_bitcoin_amount all ticker price send_bitcoins True);
        (case (own, price) of
           (None, Some price) \<Rightarrow>
             if p_bitcoin_amount_min params \<le> new_bitcoin_amount_normal
             then submit_own_order params asset utxos send_bitcoins price new_bitcoin_amount_normal w
             else Some (None, w)
         | (Some data, Some price) \<Rightarrow>
             if new_bitcoin_amount_max = 0 \<or> new_bitcoin_amount_max < oo_bitcoin_amount data \<or>
                f64_le RECREATE_ORDER_AMOUNT_FRACTION (amount_change new_bitcoin_amount_normal (oo_bitcoin_amount data))
             then do { w \<leftarrow> cancel_order data w; Some (Some data, w) }
             else edit_own_order data price w
         | (Some data, None) \<Rightarrow> do { w \<leftarrow> cancel_order data w; Some (Some data, w) }
         | (None, None) \<Rightarrow> Some (None, w))
      })"

section \<open>The handlers of the worker loop\<close>

definition own_order_keys :: "Params \<Rightarrow> OwnOrderKey list" where
  "own_order_keys params = concat (map (\<lambda>ticker. map (\<lambda>send_bitcoins. (ticker, send_bitcoins)) [False, True]) (p_tickers params))"

text \<open>The assertions on the parameters and the initial state.\<close>

definition dealer_init :: "Params \<Rightarrow> world \<Rightarrow> dealer option" where
  "dealer_init params w = do {
     _ \<leftarrow> rust_assert (f64_le DEALER_MIN_BITCOIN_AMOUNT (to_bitcoin (p_bitcoin_amount_min params)));
     _ \<leftarrow> rust_assert (p_bitcoin_amount_min params \<le> p_bitcoin_amount_submit params);
     _ \<leftarrow> rust_assert (p_bitcoin_amount_submit params \<le> p_bitcoin_amount_max params);
     _ \<leftarrow> rust_assert (f64_lt (f64_lit 1) (p_interest_sign params));
     _ \<leftarrow> rust_assert (f64_lt (p_interest_sign params) (p_interest_submit params));
     _ \<leftarrow> rust_assert (f64_lt (p_interest_submit params) (f64_lit (11 / 10)));
     Some \<lparr>d_assets = [], d_server_connected = False, d_utxos = [], d_orders = [], d_taken_orders = {},
       d_all_balances = \<lparr>ab_wallet = [], ab_max_send = [], ab_max_recv = []\<rparr>, d_index_prices = [],
       d_pending_signs = [], d_own_orders = fold (\<lambda>key m. bt_insert key None m) (own_order_keys params) [],
       d_wallet_balance = None, d_queue = [], d_from = [], d_world = w\<rparr>
   }"

definition subscribe_asset :: "Asset \<Rightarrow> (OrderId, OrderCreatedNotification) btree \<times> world \<Rightarrow>
    ((OrderId, OrderCreatedNotification) btree \<times> world) option" where
  "subscribe_asset asset s =
     (let (orders, w) = s in do {
        (subscribe_resp, w) \<leftarrow> send_request_m want_subscribe (Req_Subscribe (Some (a_asset_id asset))) w;
        resp_orders \<leftarrow> expect_ok subscribe_resp;
        Some (fold (\<lambda>order m. bt_insert (oc_order_id order) order m) resp_orders orders, w)
      })"

definition handle_connected :: "Params \<Rightarrow> dealer \<Rightarrow> dealer option" where
  "handle_connected params d = do {
     (assets_resp, w) \<leftarrow> send_request_m want_assets (Req_Assets (Some False)) (d_world d);
     assets \<leftarrow> expect_ok assets_resp;
     (login_resp, w) \<leftarrow> send_request_m want_login (Req_Login None) w;
     (_, login_orders) \<leftarrow> expect_ok login_resp;
     _ \<leftarrow> rust_assert (login_orders = []);
     (orders, w) \<leftarrow> foldM subscribe_asset
       (filter (\<lambda>asset. find (\<lambda>ticker. ticker = a_ticker asset) (p_tickers params) \<noteq> None) assets) (d_orders d, w);
     Some (d\<lparr>d_assets := assets, d_orders := orders, d_server_connected := True,
       d_queue := d_queue d @ [M_ReloadUtxo], d_world := w\<rparr>)
   }"

definition handle_disconnected :: "dealer \<Rightarrow> dealer" where
  "handle_disconnected d = d\<lparr>d_server_connected := False, d_orders := [], d_taken_orders := {},
     d_own_orders := bt_map_values (\<lambda>_. None) (d_own_orders d)\<rparr>"

definition handle_sign :: "Params \<Rightarrow> SignNotification \<Rightarrow> dealer \<Rightarrow> dealer option" where
  "handle_sign params order d = do {
     result \<leftarrow> take_order params (d_assets d) (sn_details order) (d_all_balances d) (d_index_prices d) (p_interest_sign params);
     (case result of
        Inl e \<Rightarrow> Some d
      | Inr _ \<Rightarrow> do {
          (psbt, w) \<leftarrow> rpc_expect want_psbt (wallet_sign_psbt (sn_pset order)) (d_world d);
          (sign_resp, w) \<leftarrow> send_request_m want_sign (Req_Sign \<lparr>sq_order_id = sn_order_id order,
             sq_signed_pset = psbt, sq_side = det_side (sn_details order)\<rparr>) w;
          _ \<leftarrow> expect_ok sign_resp;
          Some (d\<lparr>d_pending_signs := bt_insert (sn_order_id order) (sn_details order) (d_pending_signs d), d_world := w\<rparr>)
        })
   }"

definition handle_complete :: "OrderId \<Rightarrow> string option \<Rightarrow> dealer \<Rightarrow> dealer option" where
  "handle_complete order_id txid d =
     (let own = bt_map_values (\<lambda>own. if map_option oo_order_id own = Some order_id then None else own) (d_own_orders d);
          details = bt_get (d_pending_signs d) order_id;
          d = d\<lparr>d_own_orders := own, d_pending_signs := bt_remove order_id (d_pending_signs d)\<rparr>
      in case txid of
           None \<Rightarrow> Some d
         | Some txid \<Rightarrow> do {
             details \<leftarrow> details;
             asset \<leftarrow> find (\<lambda>asset. a_asset_id asset = det_asset details) (d_assets d);
             ticker \<leftarrow> expect_ok (ticker_from_asset asset);
             Some (d\<lparr>d_from := d_from d @ [From_Swap \<lparr>su_txid = txid, su_ticker = ticker,
               su_bitcoin_amount = actual_bitcoin_amount details, su_send_bitcoins = det_send_bitcoins details\<rparr>]\<rparr>)
           })"

definition handle_notification :: "Params \<Rightarrow> Notification \<Rightarrow> dealer \<Rightarrow> dealer option" where
  "handle_notification params msg d =
     (case msg of
        Notif_OrderCreated order \<Rightarrow>
          if oc_own order = None
          then Some (d\<lparr>d_orders := bt_insert (oc_order_id order) order (d_orders d), d_queue := d_queue d @ [M_Timer]\<rparr>)
          else Some d
      | Notif_OrderRemoved order_id \<Rightarrow> Some (d\<lparr>d_orders := bt_remove order_id (d_orders d)\<rparr>)
      | Notif_Sign order \<Rightarrow> handle_sign params order d
      | Notif_Complete order_id txid \<Rightarrow> handle_complete order_id txid d
      | _ \<Rightarrow> Some d)"

text \<open>Balances per asset, summed in floating point in the order of the outputs.\<close>

definition sum_asset_amounts :: "UnspentItem list \<Rightarrow> (string, f64) btree" where
  "sum_asset_amounts items = fold (\<lambda>item m. bt_insert (ui_asset item)
     (f64_add (case bt_get m (ui_asset item) of None \<Rightarrow> F_fin 0 | Some v \<Rightarrow> v) (to_bitcoin (ui_amount item))) m) items []"

definition convert_balances :: "Asset list \<Rightarrow> (string, f64) btree \<Rightarrow> WalletBalances" where
  "convert_balances assets amounts = fold (\<lambda>asset m.
     case bt_get amounts (a_asset_id asset) of
       None \<Rightarrow> m
     | Some balance \<Rightarrow> (case ticker_from_asset asset of Inl e \<Rightarrow> m | Inr ticker \<Rightarrow> bt_insert ticker balance m)) assets []"

definition balances_eq :: "('k \<times> f64) list \<Rightarrow> ('k \<times> f64) list \<Rightarrow> bool" where
  "balances_eq a b = list_all2 (\<lambda>(k, x) (l, y). k = l \<and> f64_eq x y) a b"

definition add_new_utxos :: "UnspentItem list \<Rightarrow> Utxos \<Rightarrow> Utxos" where
  "add_new_utxos items utxos = fold (\<lambda>item m.
     case bt_get m (tx_out_key (tx_out item)) of
       Some _ \<Rightarrow> m
     | None \<Rightarrow> bt_insert (tx_out_key (tx_out item)) \<lparr>u_item = item, u_reserve = None, u_amount = ui_amount item\<rparr> m) items utxos"

definition reload_utxos :: "UnspentItem list \<Rightarrow> Utxos \<Rightarrow> Utxos" where
  "reload_utxos items utxos =
     (let old_keys = bt_keys utxos; new_keys = map (\<lambda>item. tx_out_key (tx_out item)) items
      in fold bt_remove (filter (\<lambda>key. key \<notin> set new_keys) old_keys) (add_new_utxos items utxos))"

definition handle_reload_utxo :: "dealer \<Rightarrow> dealer option" where
  "handle_reload_utxo d = do {
     (unspent_with_zc, w) \<leftarrow> rpc_expect want_unspent (listunspent 0) (d_world d);
     let wallet_balances_new = convert_balances (d_assets d) (sum_asset_amounts unspent_with_zc);
     let all = d_all_balances d;
     let all = (if balances_eq (ab_wallet all) wallet_balances_new then all else all\<lparr>ab_wallet := wallet_balances_new\<rparr>);
     Some (d\<lparr>d_all_balances := all, d_utxos := reload_utxos unspent_with_zc (d_utxos d), d_world := w\<rparr>)
   }"

fun handle_to :: "int \<Rightarrow> To \<Rightarrow> dealer \<Rightarrow> dealer" where
  "handle_to now (To_Price ticker price) d =
     d\<lparr>d_index_prices := (case price of
         Some v \<Rightarrow> bt_insert ticker \<lparr>pt_price = v, pt_timestamp = now\<rparr> (d_index_prices d)
       | None \<Rightarrow> bt_remove ticker (d_index_prices d)),
       d_queue := d_queue d @ [M_Timer]\<rparr>"
| "handle_to now (To_LimitBalance ticker recv_limit balance) d =
     (let all = d_all_balances d in
      d\<lparr>d_all_balances := (if recv_limit then all\<lparr>ab_max_recv := bt_insert ticker balance (ab_max_recv all)\<rparr>
          else all\<lparr>ab_max_send := bt_insert ticker balance (ab_max_send all)\<rparr>),
        d_queue := d_queue d @ [M_Timer]\<rparr>)"
| "handle_to now To_ResetPrices d = d\<lparr>d_index_prices := []\<rparr>"

text \<open>One order of the order book on a timer tick.\<close>

definition try_take_order :: "Params \<Rightarrow> OrderCreatedNotification \<Rightarrow> dealer \<Rightarrow> dealer option" where
  "try_take_order params order d =
     (if oc_order_id order \<in> d_taken_orders d then Some d
      else do {
        result \<leftarrow> take_order params (d_assets d) (oc_details order) (d_all_balances d) (d_index_prices d) (p_interest_submit params);
        (if \<not> is_ok result then Some d
         else do {
           (pset, w) \<leftarrow> get_pset (oc_order_id order) (oc_details order) (d_utxos d) params False (d_world d);
           (case pset of
              Inl e \<Rightarrow> Some (d\<lparr>d_world := w\<rparr>)
            | Inr addr_details \<Rightarrow> do {
                (addr_result, w) \<leftarrow> send_request_m want_addr (Req_Addr addr_details) w;
                Some (case addr_result of
                  Inl e \<Rightarrow> d\<lparr>d_world := w\<rparr>
                | Inr _ \<Rightarrow> d\<lparr>d_world := w, d_taken_orders := insert (oc_order_id order) (d_taken_orders d)\<rparr>)
              })
         })
      })"

definition update_own_order :: "Params \<Rightarrow> OwnOrderKey \<times> OwnOrder option \<Rightarrow> dealer \<Rightarrow> dealer option" where
  "update_own_order params entry d =
     (let (key, own) = entry in do {
        (own', w) \<leftarrow> update_price params (d_assets d) (d_index_prices d) (d_all_balances d) (d_utxos d) key own (d_world d);
        Some (d\<lparr>d_own_orders := bt_insert key own' (d_own_orders d), d_world := w\<rparr>)
      })"

definition wallet_info_eq :: "GetWalletInfo \<Rightarrow> GetWalletInfo \<Rightarrow> bool" where
  "wallet_info_eq a b = (balances_eq (wi_balance a) (wi_balance b) \<and>
     balances_eq (wi_unconfirmed_balance a) (wi_unconfirmed_balance b) \<and>
     balances_eq (wi_immature_balance a) (wi_immature_balance b) \<and>
     wi_private_keys_enabled a = wi_private_keys_enabled b)"

definition poll_wallet :: "dealer \<Rightarrow> dealer" where
  "poll_wallet d =
     (let (wallet_result, w) = make_rpc_call want_wallet_info get_wallet_info (d_world d);
          d = d\<lparr>d_world := w\<rparr>
      in case wallet_result of
           Inl e \<Rightarrow> d
         | Inr v \<Rightarrow>
             if (case d_wallet_balance d of None \<Rightarrow> False | Some b \<Rightarrow> wallet_info_eq b v) then d
             else d\<lparr>d_wallet_balance := Some v, d_queue := d_queue d @ [M_ReloadUtxo],
                    d_from := d_from d @ [From_WalletBalanceUpdated]\<rparr>)"

definition expire_prices :: "int \<Rightarrow> IndexPrices \<Rightarrow> IndexPrices" where
  "expire_prices now index_prices =
     fold bt_remove (map fst (filter (\<lambda>(ticker, price). PRICE_EXPIRATON_TIME < now - pt_timestamp price) index_prices)) index_prices"

definition handle_timer :: "Params \<Rightarrow> int \<Rightarrow> dealer \<Rightarrow> dealer option" where
  "handle_timer params now d = do {
     d \<leftarrow> (if d_server_connected d then foldM (update_own_order params) (d_own_orders d) d else Some d);
     d \<leftarrow> foldM (try_take_order params) (bt_values (d_orders d)) d;
     let d = poll_wallet d;
     Some (d\<lparr>d_index_prices := expire_prices now (d_index_prices d)\<rparr>)
   }"

definition dealer_step :: "Params \<Rightarrow> int \<Rightarrow> Msg \<Rightarrow> dealer \<Rightarrow> dealer option" where
  "dealer_step params now msg d =
     (case msg of
        M_Connected \<Rightarrow> handle_connected params d
      | M_Disconnected \<Rightarrow> Some (handle_disconnected d)
      | M_Notification msg \<Rightarrow> handle_notification params msg d
      | M_ReloadUtxo \<Rightarrow> handle_reload_utxo d
      | M_To to \<Rightarrow> Some (handle_to now to d)
      | M_Timer \<Rightarrow> handle_timer params now d)"

end
