(* ===== verification/Dealer_Correct.thy ===== *)
theory Dealer_Correct
  imports Dealer
begin

text \<open>
  The correctness of the dealer: which orders it accepts and signs, the outputs behind a PSET,
  the order book on a timer tick, the synchronisation of the unspent outputs, and the
  invariant of the worker thread over all its reachable states.
\<close>

section \<open>Which orders the dealer accepts\<close>

text \<open>
  The contract of \<^const>\<open>take_order\<close>, written without its control flow: the amount is within the
  configured limits and the balances, and the price is at least the interest better than the
  index price.
\<close>

definition acceptable_order :: "Params \<Rightarrow> Asset list \<Rightarrow> Details \<Rightarrow> AllBalances \<Rightarrow> IndexPrices \<Rightarrow> f64 \<Rightarrow> bool" where
  "acceptable_order params assets details all index_prices interest \<longleftrightarrow>
     p_bitcoin_amount_min params \<le> det_bitcoin_amount details \<and>
     det_bitcoin_amount details \<le> p_bitcoin_amount_max params \<and>
     (\<exists>asset ticker amt index_price.
        find (\<lambda>asset. a_asset_id asset = det_asset details) assets = Some asset \<and>
        ticker_from_asset asset = Inr ticker \<and>
        asset_float_amount (det_asset_amount details) (a_precision asset) = Some amt \<and>
        bt_get index_prices ticker = Some index_price \<and>
        f64_le (f64_lit 1) interest \<and> f64_le interest (f64_lit (11 / 10)) \<and>
        (let price = f64_div amt (to_bitcoin (actual_bitcoin_amount details)) in
         f64_lt (F_fin 0) price \<and>
         (if det_send_bitcoins details then f64_le (f64_mul (pp_ask (pt_price index_price)) interest) price
          else f64_le price (f64_div (pp_bid (pt_price index_price)) interest)) \<and>
         det_bitcoin_amount details \<le> get_bitcoin_amount all ticker price (det_send_bitcoins details) True))"

lemma take_order_acceptable:
  assumes "take_order params assets details all index_prices interest = Some (Inr u)"
  shows "acceptable_order params assets details all index_prices interest"
  using assms unfolding take_order_def acceptable_order_def
  by (cases "det_send_bitcoins details")
    (auto simp: apply_interest_def get_price_pair_def Let_def
      elim!: bind_SomeE split: if_splits sum.split_asm option.split_asm)

lemma acceptable_take_order:
  assumes "acceptable_order params assets details all index_prices interest"
  shows "take_order params assets details all index_prices interest = Some (Inr ())"
  using assms unfolding acceptable_order_def
  by (auto simp: take_order_def apply_interest_def get_price_pair_def Let_def split: if_splits)

section \<open>What the handlers log\<close>

definition is_sign_call :: "RpcRequest \<Rightarrow> bool" where
  "is_sign_call req \<longleftrightarrow> rpc_method req = ''walletsignpsbt''"

definition sign_calls :: "world \<Rightarrow> RpcRequest list" where
  "sign_calls w = filter is_sign_call (w_rpc_calls w)"

lemma is_sign_call_simps [simp]:
  "\<not> is_sign_call (create_raw_tx a b c e f)" "\<not> is_sign_call (convert_to_psbt s)"
  "\<not> is_sign_call (fill_psbt_data s)" "\<not> is_sign_call get_new_address"
  "\<not> is_sign_call (listunspent n)" "\<not> is_sign_call get_wallet_info" "is_sign_call (wallet_sign_psbt s)"
  by (simp_all add: is_sign_call_def create_raw_tx_def convert_to_psbt_def fill_psbt_data_def
      get_new_address_def get_new_address_with_type_def listunspent_def get_wallet_info_def wallet_sign_psbt_def)

lemma send_request_m_sign [simp]: "send_request_m want req w = Some (r, w') \<Longrightarrow> sign_calls w' = sign_calls w"
  using send_request_m_log[of want req w r w'] by (simp add: sign_calls_def)

lemma rpc_expect_sign:
  "rpc_expect want req w = Some (a, w') \<Longrightarrow> sign_calls w' = sign_calls w @ (if is_sign_call req then [req] else [])"
  using rpc_expect_log[of want req w a w'] by (simp add: sign_calls_def)

lemma get_pset_log:
  assumes "get_pset order_id details utxos params extra w = Some (r, w')"
  shows "sign_calls w' = sign_calls w"
    and "w_requests w' = w_requests w \<and>
      (\<forall>addr. r = Inr addr \<longrightarrow> ar_order_id addr = order_id \<and> ar_price addr = det_price details)"
  using assms
   apply (auto simp: get_pset_def Let_def elim!: bind_SomeE split: prod.split_asm if_splits dest!: rpc_expect_sign)[1]
  using assms
  apply (auto simp: get_pset_def Let_def elim!: bind_SomeE split: prod.split_asm if_splits dest!: rpc_expect_log)[1]
  done

lemma submit_own_order_sign:
  "submit_own_order params asset utxos sb price amt w = Some (own, w') \<Longrightarrow> sign_calls w' = sign_calls w"
  by (auto simp: submit_own_order_def elim!: bind_SomeE split: prod.split_asm sum.split_asm
      dest!: get_pset_log(1))

lemma edit_own_order_sign:
  "edit_own_order data price w = Some (own, w') \<Longrightarrow> sign_calls w' = sign_calls w"
  by (auto simp: edit_own_order_def elim!: bind_SomeE split: prod.split_asm sum.split_asm if_splits)

lemma cancel_order_sign: "cancel_order data w = Some w' \<Longrightarrow> sign_calls w' = sign_calls w"
  by (auto simp: cancel_order_def elim!: bind_SomeE split: prod.split_asm)

lemma update_price_sign:
  "update_price params assets ip all utxos key own w = Some (own', w') \<Longrightarrow> sign_calls w' = sign_calls w"
  by (auto simp: update_price_def Let_def elim!: bind_SomeE split: prod.split_asm option.split_asm if_splits
      dest!: submit_own_order_sign edit_own_order_sign cancel_order_sign)

lemma update_own_order_sign:
  "update_own_order params e d = Some d' \<Longrightarrow> sign_calls (d_world d') = sign_calls (d_world d)"
  by (auto simp: update_own_order_def elim!: bind_SomeE split: prod.split_asm dest!: update_price_sign)

lemma try_take_order_sign:
  "try_take_order params order d = Some d' \<Longrightarrow> sign_calls (d_world d') = sign_calls (d_world d)"
  by (auto simp: try_take_order_def elim!: bind_SomeE split: prod.split_asm sum.split_asm if_splits
      dest!: get_pset_log(1))

lemma poll_wallet_sign [simp]: "sign_calls (d_world (poll_wallet d)) = sign_calls (d_world d)"
  by (auto simp: poll_wallet_def Let_def sign_calls_def dest!: make_rpc_call_log split: prod.split sum.split)

lemma foldM_sign:
  assumes "foldM f xs d = Some d'"
    and "\<And>x d d'. f x d = Some d' \<Longrightarrow> sign_calls (d_world d') = sign_calls (d_world d)"
  shows "sign_calls (d_world d') = sign_calls (d_world d)"
  by (rule foldM_relation[where R = "\<lambda>d d'. sign_calls (d_world d') = sign_calls (d_world d)", OF assms(1)])
    (use assms(2) in auto)

lemma handle_timer_sign:
  "handle_timer params now d = Some d' \<Longrightarrow> sign_calls (d_world d') = sign_calls (d_world d)"
  using foldM_sign[where f = "update_own_order params", OF _ update_own_order_sign]
    foldM_sign[where f = "try_take_order params", OF _ try_take_order_sign]
  by (auto simp: handle_timer_def Let_def elim!: bind_SomeE split: if_splits)

lemma subscribe_asset_sign: "subscribe_asset a s = Some s' \<Longrightarrow> sign_calls (snd s') = sign_calls (snd s)"
  by (auto simp: subscribe_asset_def elim!: bind_SomeE split: prod.split_asm)

lemma handle_connected_sign:
  assumes "handle_connected params d = Some d'"
  shows "sign_calls (d_world d') = sign_calls (d_world d)"
proof -
  have "sign_calls (snd t) = sign_calls (snd s)" if "foldM subscribe_asset xs s = Some t" for xs s t
    by (rule foldM_relation[where R = "\<lambda>s t. sign_calls (snd t) = sign_calls (snd s)", OF that])
      (use subscribe_asset_sign in auto)
  then show ?thesis using assms
    by (fastforce simp: handle_connected_def elim!: bind_SomeE split: prod.split_asm)
qed

lemma handle_sign_log:
  assumes "handle_sign params order d = Some d'"
  shows "sign_calls (d_world d') = sign_calls (d_world d) \<or>
    sign_calls (d_world d') = sign_calls (d_world d) @ [wallet_sign_psbt (sn_pset order)] \<and>
    acceptable_order params (d_assets d) (sn_details order) (d_all_balances d) (d_index_prices d) (p_interest_sign params)"
  using assms by (auto simp: handle_sign_def elim!: bind_SomeE split: prod.split_asm sum.split_asm
      dest!: rpc_expect_sign dest: take_order_acceptable)

lemma dealer_step_sign:
  assumes "dealer_step params now msg d = Some d'" and "sign_calls (d_world d') \<noteq> sign_calls (d_world d)"
  obtains order where "msg = M_Notification (Notif_Sign order)"
    and "sign_calls (d_world d') = sign_calls (d_world d) @ [wallet_sign_psbt (sn_pset order)]"
    and "acceptable_order params (d_assets d) (sn_details order) (d_all_balances d) (d_index_prices d) (p_interest_sign params)"
proof (cases msg)
  case (M_Notification n)
  show thesis
  proof (cases "\<exists>order. n = Notif_Sign order")
    case True
    then obtain order where "n = Notif_Sign order" by blast
    then show thesis using that assms M_Notification handle_sign_log[of params order d d']
      by (auto simp: dealer_step_def handle_notification_def)
  next
    case False
    then have "sign_calls (d_world d') = sign_calls (d_world d)"
      using assms(1) M_Notification
      by (auto simp: dealer_step_def handle_notification_def handle_complete_def Let_def
          elim!: bind_SomeE split: Notification.split_asm if_splits option.split_asm)
    then show thesis using assms(2) by simp
  qed
next
  case (M_To to)
  then show thesis using assms by (cases to) (auto simp: dealer_step_def Let_def)
qed (use assms handle_timer_sign handle_connected_sign in \<open>auto simp: dealer_step_def handle_disconnected_def
      handle_reload_utxo_def Let_def elim!: bind_SomeE split: prod.split_asm dest!: rpc_expect_sign\<close>)


section \<open>The PSET of an order\<close>

definition asset_utxos_of :: "Utxos \<Rightarrow> AssetId \<Rightarrow> Utxo list" where
  "asset_utxos_of utxos asset = filter (\<lambda>utxo. ui_asset (u_item utxo) = asset) (bt_values utxos)"

definition utxo_tx_out :: "Utxo \<Rightarrow> TxOut" where
  "utxo_tx_out utxo = \<lparr>txo_txid = ui_txid (u_item utxo), txo_vout = ui_vout (u_item utxo)\<rparr>"

lemma get_pset_inputs:
  assumes "get_pset order_id details utxos params extra w = Some (Inr addr, w')"
    and "send_asset_amount (p_env params) details = (asset, amt)"
    and "\<forall>u \<in> set (asset_utxos_of utxos asset). 0 \<le> u_amount u"
    and "sum_list (map u_amount (asset_utxos_of utxos asset)) \<le> i64_max"
  shows "\<exists>us rest. mset us \<subseteq># mset (asset_utxos_of utxos asset) \<and>
    pset_utxo_amount details amt (sum_list (map u_amount (asset_utxos_of utxos asset))) extra \<le> sum_list (map u_amount us) \<and>
    w_rpc_calls w' = w_rpc_calls w @ create_raw_tx (map utxo_tx_out us) [] 0 False [] # rest"
proof -
  let ?us = "asset_utxos_of utxos asset"
  let ?amt = "pset_utxo_amount details amt (sum_list (map u_amount ?us)) extra"
  have tot: "i64_sum (map u_amount ?us) = sum_list (map u_amount ?us)"
    using assms(3,4) by (intro i64_sum_id) auto
  from assms(1,2) tot obtain sel us where sel: "select_utxo (map u_amount ?us) ?amt = Some sel"
    and us: "pick_utxos u_amount sel ?us [] = Some us"
    and calls: "\<exists>rest. w_rpc_calls w' = w_rpc_calls w @ create_raw_tx (map utxo_tx_out us) [] 0 False [] # rest"
    unfolding get_pset_def utxo_tx_out_def
    by (fastforce simp: Let_def asset_utxos_of_def elim!: bind_SomeE split: prod.split_asm if_splits
        dest!: rpc_expect_log)
  have nn: "\<forall>x \<in> set (map u_amount ?us). 0 \<le> x" using assms(3) by simp
  have "amt \<le> i64_max"
    using assms(1,2,4) tot by (auto simp: get_pset_def Let_def asset_utxos_of_def split: if_splits)
  then have ia: "?amt \<le> i64_max"
    using assms(4) by (auto simp: pset_utxo_amount_def min_def)
  have "0 < ?amt" "?amt \<le> sum_list (map u_amount ?us)"
    using select_utxo_None_iff[OF nn assms(4) ia] sel by auto
  then show ?thesis using utxo_sel.select_and_pick[OF _ assms(3) _ assms(4), of ?amt] sel us calls by auto
qed

section \<open>The order book on a timer tick\<close>

lemma try_take_order_requests:
  assumes "try_take_order params order d = Some d'"
  shows "\<exists>reqs. w_requests (d_world d') = w_requests (d_world d) @ map Req_Addr reqs \<and>
    set (map ar_order_id reqs) \<subseteq> {oc_order_id order} - d_taken_orders d \<and> length reqs \<le> 1 \<and>
    d_taken_orders d \<subseteq> d_taken_orders d' \<and>
    d_taken_orders d' \<subseteq> d_taken_orders d \<union> set (map ar_order_id reqs)"
proof (cases "oc_order_id order \<in> d_taken_orders d")
  case True
  then show ?thesis using assms by (intro exI[of _ "[]"]) (simp add: try_take_order_def)
next
  case False
  obtain r where r: "take_order params (d_assets d) (oc_details order) (d_all_balances d) (d_index_prices d)
      (p_interest_submit params) = Some r"
    using assms False by (auto simp: try_take_order_def elim!: bind_SomeE)
  show ?thesis
  proof (cases "is_ok r")
    case nok: False
    then show ?thesis using assms False r by (intro exI[of _ "[]"]) (simp add: try_take_order_def)
  next
    case ok: True
    obtain p w where p: "get_pset (oc_order_id order) (oc_details order) (d_utxos d) params False (d_world d) = Some (p, w)"
      using assms False r ok by (auto simp: try_take_order_def elim!: bind_SomeE)
    note pl = get_pset_log(2)[OF p]
    show ?thesis
    proof (cases p)
      case (Inl e)
      then show ?thesis using assms False r ok p pl by (intro exI[of _ "[]"]) (auto simp: try_take_order_def)
    next
      case (Inr addr)
      then show ?thesis using assms False r ok p pl
        by (intro exI[of _ "[addr]"])
          (auto simp: try_take_order_def elim!: bind_SomeE split: prod.split_asm sum.split_asm dest!: send_request_m_log)
    qed
  qed
qed

lemma take_loop_requests:
  assumes "foldM (try_take_order params) orders d = Some d'" and "distinct (map oc_order_id orders)"
  shows "\<exists>reqs. w_requests (d_world d') = w_requests (d_world d) @ map Req_Addr reqs \<and>
    distinct (map ar_order_id reqs) \<and>
    set (map ar_order_id reqs) \<subseteq> set (map oc_order_id orders) - d_taken_orders d \<and>
    d_taken_orders d \<subseteq> d_taken_orders d' \<and>
    d_taken_orders d' \<subseteq> d_taken_orders d \<union> set (map ar_order_id reqs)"
  using assms
proof (induction orders arbitrary: d)
  case Nil
  then show ?case by (intro exI[of _ "[]"]) simp
next
  case (Cons o1 orders)
  from Cons.prems(1) obtain d1 where d1: "try_take_order params o1 d = Some d1"
    and rest: "foldM (try_take_order params) orders d1 = Some d'"
    by (auto split: option.split_asm)
  have sub: "set (map oc_order_id (o1 # orders)) = insert (oc_order_id o1) (set (map oc_order_id orders))"
    and new: "oc_order_id o1 \<notin> set (map oc_order_id orders)" and dis: "distinct (map oc_order_id orders)"
    using Cons.prems(2) by simp_all
  obtain r1 where r1: "w_requests (d_world d1) = w_requests (d_world d) @ map Req_Addr r1"
    "set (map ar_order_id r1) \<subseteq> {oc_order_id o1} - d_taken_orders d" "length r1 \<le> 1"
    "d_taken_orders d \<subseteq> d_taken_orders d1" "d_taken_orders d1 \<subseteq> d_taken_orders d \<union> set (map ar_order_id r1)"
    using try_take_order_requests[OF d1] by blast
  obtain r2 where r2: "w_requests (d_world d') = w_requests (d_world d1) @ map Req_Addr r2"
    "distinct (map ar_order_id r2)" "set (map ar_order_id r2) \<subseteq> set (map oc_order_id orders) - d_taken_orders d1"
    "d_taken_orders d1 \<subseteq> d_taken_orders d'" "d_taken_orders d' \<subseteq> d_taken_orders d1 \<union> set (map ar_order_id r2)"
    using Cons.IH[OF rest dis] by blast
  have "distinct (map ar_order_id r1)" using r1(3) by (cases r1) auto
  moreover have "set (map ar_order_id r1) \<inter> set (map ar_order_id r2) = {}"
    using r1(2) r2(3) new by blast
  ultimately have "distinct (map ar_order_id (r1 @ r2))" using r2(2) by simp
  moreover have "w_requests (d_world d') = w_requests (d_world d) @ map Req_Addr (r1 @ r2)"
    using r1(1) r2(1) by simp
  moreover have "set (map ar_order_id (r1 @ r2)) = set (map ar_order_id r1) \<union> set (map ar_order_id r2)" by simp
  moreover have "set (map ar_order_id r1) \<union> set (map ar_order_id r2) \<subseteq> set (map oc_order_id (o1 # orders)) - d_taken_orders d"
    unfolding sub using r1(2,4) r2(3) by blast
  moreover have "d_taken_orders d' \<subseteq> d_taken_orders d \<union> (set (map ar_order_id r1) \<union> set (map ar_order_id r2))"
    using r1(5) r2(5) by blast
  moreover have "d_taken_orders d \<subseteq> d_taken_orders d'" using r1(4) r2(4) by blast
  ultimately show ?case by metis
qed

lemma try_take_order_acceptable:
  assumes "try_take_order params order d = Some d'"
  shows "d_assets d' = d_assets d \<and> d_all_balances d' = d_all_balances d \<and> d_index_prices d' = d_index_prices d \<and>
    (\<exists>reqs. w_requests (d_world d') = w_requests (d_world d) @ reqs \<and>
      (\<forall>r \<in> set reqs. \<exists>a. r = Req_Addr a \<and> ar_order_id a = oc_order_id order \<and>
        acceptable_order params (d_assets d) (oc_details order) (d_all_balances d) (d_index_prices d) (p_interest_submit params)))"
proof (cases "\<exists>r. take_order params (d_assets d) (oc_details order) (d_all_balances d) (d_index_prices d)
      (p_interest_submit params) = Some (Inr r)")
  case True
  then have "acceptable_order params (d_assets d) (oc_details order) (d_all_balances d) (d_index_prices d) (p_interest_submit params)"
    using take_order_acceptable by blast
  then show ?thesis using assms
    by (auto simp: try_take_order_def elim!: bind_SomeE split: prod.split_asm sum.split_asm if_splits
        dest!: send_request_m_log get_pset_log(2))
next
  case False
  then have "d' = d" using assms
    by (auto simp: try_take_order_def elim!: bind_SomeE is_ok.elims split: if_splits)
  then show ?thesis by auto
qed

lemma take_loop_acceptable:
  assumes "foldM (try_take_order params) orders d = Some d'"
  shows "\<exists>reqs. w_requests (d_world d') = w_requests (d_world d) @ reqs \<and>
    (\<forall>r \<in> set reqs. \<exists>a. \<exists>order \<in> set orders. r = Req_Addr a \<and> ar_order_id a = oc_order_id order \<and>
        acceptable_order params (d_assets d) (oc_details order) (d_all_balances d) (d_index_prices d) (p_interest_submit params))"
  using assms
proof (induction orders arbitrary: d)
  case (Cons o1 orders)
  from Cons.prems(1) obtain d1 where d1: "try_take_order params o1 d = Some d1"
    and rest: "foldM (try_take_order params) orders d1 = Some d'"
    by (auto split: option.split_asm)
  obtain r1 where f: "d_assets d1 = d_assets d" "d_all_balances d1 = d_all_balances d" "d_index_prices d1 = d_index_prices d"
    and r1: "w_requests (d_world d1) = w_requests (d_world d) @ r1"
    "\<forall>r \<in> set r1. \<exists>a. r = Req_Addr a \<and> ar_order_id a = oc_order_id o1 \<and>
        acceptable_order params (d_assets d) (oc_details o1) (d_all_balances d) (d_index_prices d) (p_interest_submit params)"
    using try_take_order_acceptable[OF d1] by blast
  obtain r2 where r2: "w_requests (d_world d') = w_requests (d_world d1) @ r2"
    "\<forall>r \<in> set r2. \<exists>a. \<exists>order \<in> set orders. r = Req_Addr a \<and> ar_order_id a = oc_order_id order \<and>
        acceptable_order params (d_assets d) (oc_details order) (d_all_balances d) (d_index_prices d) (p_interest_submit params)"
    using Cons.IH[OF rest] unfolding f by blast
  have "\<forall>r \<in> set (r1 @ r2). \<exists>a. \<exists>order \<in> set (o1 # orders). r = Req_Addr a \<and> ar_order_id a = oc_order_id order \<and>
        acceptable_order params (d_assets d) (oc_details order) (d_all_balances d) (d_index_prices d) (p_interest_submit params)"
    using r1(2) r2(2) by fastforce
  then show ?case using r1(1) r2(1) by (metis append.assoc)
qed simp

section \<open>Unspent outputs\<close>

lemma get_add_new_utxos:
  "bt_get (add_new_utxos items m) k =
     (case bt_get m k of Some u \<Rightarrow> Some u
      | None \<Rightarrow> map_option (\<lambda>item. \<lparr>u_item = item, u_reserve = None, u_amount = ui_amount item\<rparr>)
          (find (\<lambda>item. tx_out_key (tx_out item) = k) items))"
proof (induction items arbitrary: m)
  case Nil
  then show ?case by (auto simp: add_new_utxos_def split: option.splits)
next
  case (Cons item items)
  let ?k = "tx_out_key (tx_out item)"
  let ?m = "case bt_get m ?k of Some _ \<Rightarrow> m
    | None \<Rightarrow> bt_insert ?k \<lparr>u_item = item, u_reserve = None, u_amount = ui_amount item\<rparr> m"
  have "add_new_utxos (item # items) m = add_new_utxos items ?m" by (simp add: add_new_utxos_def)
  then show ?case using Cons[of ?m] by (auto simp: btree_simps split: option.splits)
qed

lemma wf_add_new_utxos: "bt_wf m \<Longrightarrow> bt_wf (add_new_utxos items m)"
  unfolding add_new_utxos_def
  by (induction items arbitrary: m) (auto simp: bt_wf_insert split: option.splits)

lemma wf_reload_utxos: "bt_wf m \<Longrightarrow> bt_wf (reload_utxos items m)"
  by (simp add: reload_utxos_def Let_def btm.wf_fold_remove wf_add_new_utxos)

lemma find_image_iff:
  "find (\<lambda>x. f x = k) xs = None \<longleftrightarrow> k \<notin> f ` set xs"
  "find (\<lambda>x. f x = k) xs = Some x \<Longrightarrow> k \<in> f ` set xs"
  by (auto simp: find_None_iff find_Some_iff)

lemma get_reload_utxos:
  "bt_get (reload_utxos items m) k =
     (case find (\<lambda>item. tx_out_key (tx_out item) = k) items of
        None \<Rightarrow> None
      | Some item \<Rightarrow> (case bt_get m k of Some u \<Rightarrow> Some u
          | None \<Rightarrow> Some \<lparr>u_item = item, u_reserve = None, u_amount = ui_amount item\<rparr>))"
proof (cases "find (\<lambda>item. tx_out_key (tx_out item) = k) items")
  case None
  then have "k \<notin> (\<lambda>item. tx_out_key (tx_out item)) ` set items"
    using find_image_iff(1)[of "\<lambda>item. tx_out_key (tx_out item)" k items] by simp
  then show ?thesis using None
    by (simp add: reload_utxos_def Let_def btree_simps get_add_new_utxos btm.keys_get split: option.splits)
next
  case (Some item)
  then have "k \<in> (\<lambda>item. tx_out_key (tx_out item)) ` set items" by (rule find_image_iff(2))
  then show ?thesis using Some
    by (simp add: reload_utxos_def Let_def btree_simps get_add_new_utxos split: option.splits)
qed

section \<open>The invariant of the worker\<close>

definition orders_keyed :: "(OrderId, OrderCreatedNotification) btree \<Rightarrow> bool" where
  "orders_keyed orders \<longleftrightarrow> bt_wf orders \<and> (\<forall>(k, order) \<in> set orders. oc_order_id order = k)"

definition dealer_inv :: "Params \<Rightarrow> dealer \<Rightarrow> bool" where
  "dealer_inv params d \<longleftrightarrow>
     orders_keyed (d_orders d) \<and> bt_wf (d_utxos d) \<and> bt_wf (d_index_prices d) \<and> bt_wf (d_pending_signs d) \<and>
     bt_wf (d_own_orders d) \<and> set (bt_keys (d_own_orders d)) = set (own_order_keys params) \<and>
     (\<not> d_server_connected d \<longrightarrow> (\<forall>own \<in> set (bt_values (d_own_orders d)). own = None))"

inductive dealer_reachable :: "Params \<Rightarrow> world \<Rightarrow> dealer \<Rightarrow> bool" for params w where
  start: "dealer_init params w = Some d \<Longrightarrow> dealer_reachable params w d"
| step: "dealer_reachable params w d \<Longrightarrow> dealer_step params now msg d = Some d' \<Longrightarrow> dealer_reachable params w d'"

lemma orders_keyed_insert:
  "orders_keyed orders \<Longrightarrow> orders_keyed (bt_insert (oc_order_id order) order orders)"
  using set_bt_insert[of "oc_order_id order" order orders] by (auto simp: orders_keyed_def bt_wf_insert)

lemma orders_keyed_remove: "orders_keyed orders \<Longrightarrow> orders_keyed (bt_remove k orders)"
  using btm.wf_remove[of orders k] by (auto simp: orders_keyed_def bt_remove_def)

lemma orders_keyed_fold_insert:
  "orders_keyed orders \<Longrightarrow> orders_keyed (fold (\<lambda>order m. bt_insert (oc_order_id order) order m) xs orders)"
  by (induction xs arbitrary: orders) (auto simp: orders_keyed_insert)

lemma orders_keyed_distinct: "orders_keyed orders \<Longrightarrow> distinct (map oc_order_id (bt_values orders))"
proof -
  assume k: "orders_keyed orders"
  then have "map oc_order_id (bt_values orders) = map fst orders"
    by (auto simp: orders_keyed_def bt_values_def)
  then show ?thesis using k by (simp add: orders_keyed_def bt_wf_def strict_sorted_iff)
qed

lemma set_bt_values_map [simp]: "set (bt_values (bt_map_values f m)) = f ` set (bt_values m)"
  by (force simp: bt_values_def bt_map_values_def)

lemma bt_keys_map [simp]: "bt_keys (bt_map_values f m) = bt_keys m"
  by (simp add: bt_keys_def bt_map_values_def comp_def case_prod_beta)

text \<open>The part of the state that the invariant reads.\<close>

definition maps_of :: "dealer \<Rightarrow> (OrderId, OrderCreatedNotification) btree \<times> Utxos \<times> IndexPrices \<times>
    (OrderId, Details) btree \<times> (OwnOrderKey, OwnOrder option) btree \<times> bool" where
  "maps_of d = (d_orders d, d_utxos d, d_index_prices d, d_pending_signs d, d_own_orders d, d_server_connected d)"

lemma dealer_inv_frame: "dealer_inv params d \<Longrightarrow> maps_of d' = maps_of d \<Longrightarrow> dealer_inv params d'"
  by (simp add: dealer_inv_def maps_of_def)

lemma fold_insert_None:
  fixes m :: "(OwnOrderKey, OwnOrder option) btree"
  shows "set (bt_keys (fold (\<lambda>key m. bt_insert key None m) ks m)) = set ks \<union> set (bt_keys m)"
    and "set (bt_values (fold (\<lambda>key m. bt_insert key None m) ks m)) \<subseteq> insert None (set (bt_values m))"
    and "bt_wf m \<Longrightarrow> bt_wf (fold (\<lambda>key m. bt_insert key None m) ks m)"
proof (induction ks arbitrary: m)
  case (Cons k ks)
  case 1
  show ?case using Cons(1)[of "bt_insert k None m"] by (simp add: btm.keys_insert)
  case 2
  have "set (bt_values (bt_insert k None m)) \<subseteq> insert None (set (bt_values m))"
    using set_bt_insert[of k None m] by (force simp: bt_values_def)
  then show ?case using Cons(2)[of "bt_insert k None m"] by (simp, blast)
  case 3
  then show ?case using Cons(3)[of "bt_insert k None m"] by (simp add: bt_wf_insert)
qed auto

lemma dealer_init_inv: "dealer_init params w = Some d \<Longrightarrow> dealer_inv params d"
proof -
  assume "dealer_init params w = Some d"
  then have d: "d_orders d = []" "d_utxos d = []" "d_index_prices d = []" "d_pending_signs d = []"
    "d_own_orders d = fold (\<lambda>key m. bt_insert key None m) (own_order_keys params) []"
    by (auto simp: dealer_init_def rust_assert_def split: if_splits)
  have e: "bt_wf []" "bt_keys [] = []" "bt_values [] = []" by (simp_all add: bt_wf_def bt_keys_def bt_values_def)
  note f = fold_insert_None[where ks = "own_order_keys params" and m = "[]", unfolded e]
  show ?thesis unfolding dealer_inv_def d orders_keyed_def using f by (auto simp: btm.wf_empty)
qed

text \<open>The maps that the orders of a timer tick leave alone.\<close>

lemma try_take_order_frame:
  "try_take_order params order d = Some d' \<Longrightarrow> maps_of d' = maps_of d"
  by (auto simp: try_take_order_def maps_of_def elim!: bind_SomeE split: prod.split_asm sum.split_asm if_splits)

lemma poll_wallet_frame [simp]: "maps_of (poll_wallet d) = maps_of d" "d_taken_orders (poll_wallet d) = d_taken_orders d"
  by (simp_all add: poll_wallet_def maps_of_def Let_def split: prod.split sum.split)

lemma update_own_order_inv:
  assumes "dealer_inv params d \<and> d_server_connected d" and "fst e \<in> set (own_order_keys params)"
    and "update_own_order params e d = Some d'"
  shows "dealer_inv params d' \<and> d_server_connected d'"
proof -
  obtain own w where "d' = d\<lparr>d_own_orders := bt_insert (fst e) own (d_own_orders d), d_world := w\<rparr>"
    using assms(3) by (auto simp: update_own_order_def elim!: bind_SomeE split: prod.split_asm)
  then show ?thesis using assms(1,2) by (auto simp: dealer_inv_def bt_wf_insert btm.keys_insert)
qed

lemma handle_timerE:
  assumes "handle_timer params now d = Some d'"
  obtains d1 d2 where "(if d_server_connected d then foldM (update_own_order params) (d_own_orders d) d else Some d) = Some d1"
    and "foldM (try_take_order params) (bt_values (d_orders d1)) d1 = Some d2"
    and "d' = (poll_wallet d2)\<lparr>d_index_prices := expire_prices now (d_index_prices (poll_wallet d2))\<rparr>"
  using assms unfolding handle_timer_def Let_def by (elim bind_SomeE) simp

lemma handle_timer_inv:
  assumes "dealer_inv params d" and "handle_timer params now d = Some d'"
  shows "dealer_inv params d'"
  using assms(2)
proof (rule handle_timerE)
  fix d1 d2 assume d1: "(if d_server_connected d then foldM (update_own_order params) (d_own_orders d) d else Some d) = Some d1"
    and d2: "foldM (try_take_order params) (bt_values (d_orders d1)) d1 = Some d2"
    and d': "d' = (poll_wallet d2)\<lparr>d_index_prices := expire_prices now (d_index_prices (poll_wallet d2))\<rparr>"
  have keys: "fst e \<in> set (own_order_keys params)" if "e \<in> set (d_own_orders d)" for e
    using that assms(1) by (auto simp: dealer_inv_def bt_keys_def)
  have "dealer_inv params d1"
  proof (cases "d_server_connected d")
    case True
    with d1 have f: "foldM (update_own_order params) (d_own_orders d) d = Some d1" by simp
    have "dealer_inv params d1 \<and> d_server_connected d1"
      by (rule foldM_invariant[where P = "\<lambda>d. dealer_inv params d \<and> d_server_connected d", OF f])
        (use True assms(1) in simp, rule update_own_order_inv, assumption, rule keys)
    then show ?thesis by simp
  next
    case False
    then show ?thesis using d1 assms(1) by simp
  qed
  then have "dealer_inv params d2"
    by (rule foldM_invariant[where P = "dealer_inv params", OF d2])
      (rule dealer_inv_frame[OF _ try_take_order_frame])
  then have "dealer_inv params (poll_wallet d2)" by (rule dealer_inv_frame) simp
  then show ?thesis by (simp add: d' dealer_inv_def expire_prices_def btm.wf_fold_remove)
qed

lemma subscribe_asset_keyed:
  "orders_keyed (fst s) \<Longrightarrow> subscribe_asset a s = Some s' \<Longrightarrow> orders_keyed (fst s')"
  by (auto simp: subscribe_asset_def orders_keyed_fold_insert elim!: bind_SomeE split: prod.split_asm)

lemma handle_connectedE:
  assumes "handle_connected params d = Some d'"
  obtains as assets ws orders w where "foldM subscribe_asset as (d_orders d, ws) = Some (orders, w)"
    and "d' = d\<lparr>d_assets := assets, d_orders := orders, d_server_connected := True,
       d_queue := d_queue d @ [M_ReloadUtxo], d_world := w\<rparr>"
  using assms unfolding handle_connected_def by (elim bind_SomeE) (auto elim!: bind_SomeE split: prod.split_asm)

lemma handle_connected_inv:
  assumes "dealer_inv params d" and "handle_connected params d = Some d'"
  shows "dealer_inv params d'"
  using assms(2)
proof (rule handle_connectedE)
  fix as assets ws orders w
  assume f: "foldM subscribe_asset as (d_orders d, ws) = Some (orders, w)"
    and d': "d' = d\<lparr>d_assets := assets, d_orders := orders, d_server_connected := True,
       d_queue := d_queue d @ [M_ReloadUtxo], d_world := w\<rparr>"
  have "orders_keyed (fst (orders, w))"
    by (rule foldM_invariant[where P = "\<lambda>s. orders_keyed (fst s)", OF f])
      (use assms(1) subscribe_asset_keyed in \<open>auto simp: dealer_inv_def\<close>)
  then show ?thesis using assms(1) by (simp add: d' dealer_inv_def)
qed

lemma handle_sign_inv:
  assumes "dealer_inv params d" and "handle_sign params order d = Some d'"
  shows "dealer_inv params d'"
proof -
  have "d' = d \<or> (\<exists>w. d' = d\<lparr>d_pending_signs := bt_insert (sn_order_id order) (sn_details order) (d_pending_signs d), d_world := w\<rparr>)"
    using assms(2) by (auto simp: handle_sign_def elim!: bind_SomeE split: prod.split_asm sum.split_asm)
  then show ?thesis using assms(1) by (elim disjE exE) (simp_all add: dealer_inv_def bt_wf_insert)
qed

lemma handle_complete_inv:
  assumes "dealer_inv params d" and "handle_complete order_id txid d = Some d'"
  shows "dealer_inv params d'"
proof -
  have "d_orders d' = d_orders d" "d_utxos d' = d_utxos d" "d_index_prices d' = d_index_prices d"
    "d_server_connected d' = d_server_connected d" "d_pending_signs d' = bt_remove order_id (d_pending_signs d)"
    "d_own_orders d' = bt_map_values (\<lambda>own. if map_option oo_order_id own = Some order_id then None else own) (d_own_orders d)"
    using assms(2) by (auto simp: handle_complete_def Let_def elim!: bind_SomeE split: option.split_asm)
  then show ?thesis using assms(1) unfolding dealer_inv_def
    by (simp add: btm.wf_remove) blast
qed

lemma handle_notification_inv:
  assumes "dealer_inv params d" and "handle_notification params n d = Some d'"
  shows "dealer_inv params d'"
proof (cases n)
  case (Notif_OrderCreated order)
  then have "d' = d \<or> d' = d\<lparr>d_orders := bt_insert (oc_order_id order) order (d_orders d), d_queue := d_queue d @ [M_Timer]\<rparr>"
    using assms(2) by (simp add: handle_notification_def split: if_splits)
  then show ?thesis using assms(1) orders_keyed_insert by (elim disjE) (simp_all add: dealer_inv_def)
next
  case (Notif_OrderRemoved k)
  then have "d' = d\<lparr>d_orders := bt_remove k (d_orders d)\<rparr>" using assms(2) by (simp add: handle_notification_def)
  then show ?thesis using assms(1) by (simp add: dealer_inv_def orders_keyed_remove)
next
  case (Notif_Sign order)
  then show ?thesis using assms handle_sign_inv by (simp add: handle_notification_def)
next
  case (Notif_Complete k txid)
  then show ?thesis using assms handle_complete_inv by (simp add: handle_notification_def)
qed (use assms in \<open>simp_all add: handle_notification_def\<close>)

lemma handle_to_inv: "dealer_inv params d \<Longrightarrow> dealer_inv params (handle_to now to d)"
  by (cases to) (simp_all add: dealer_inv_def bt_wf_insert btm.wf_remove Let_def btm.wf_empty split: option.split)

lemma handle_disconnected_inv: "dealer_inv params d \<Longrightarrow> dealer_inv params (handle_disconnected d)"
  by (auto simp: handle_disconnected_def dealer_inv_def orders_keyed_def btm.wf_empty)

lemma handle_reload_utxo_inv:
  assumes "dealer_inv params d" and "handle_reload_utxo d = Some d'"
  shows "dealer_inv params d'"
proof -
  obtain items w all where "d' = d\<lparr>d_all_balances := all, d_utxos := reload_utxos items (d_utxos d), d_world := w\<rparr>"
    using assms(2) by (auto simp: handle_reload_utxo_def Let_def elim!: bind_SomeE split: prod.split_asm)
  then show ?thesis using assms(1) by (simp add: dealer_inv_def wf_reload_utxos)
qed

lemma dealer_step_inv:
  assumes "dealer_inv params d" and "dealer_step params now msg d = Some d'"
  shows "dealer_inv params d'"
  using assms(2) handle_to_inv[OF assms(1)] handle_disconnected_inv[OF assms(1)] handle_reload_utxo_inv[OF assms(1)]
    handle_timer_inv[OF assms(1)] handle_connected_inv[OF assms(1)] handle_notification_inv[OF assms(1)]
  by (cases msg) (simp_all add: dealer_step_def, metis)

lemma reachable_inv: "dealer_reachable params w d \<Longrightarrow> dealer_inv params d"
  by (induction rule: dealer_reachable.induct) (auto intro: dealer_init_inv dealer_step_inv)

section \<open>Index prices\<close>

lemma get_expire_prices:
  assumes "bt_wf prices"
  shows "bt_get (expire_prices now prices) ticker = (case bt_get prices ticker of
      None \<Rightarrow> None
    | Some price \<Rightarrow> if now - pt_timestamp price \<le> 60 * 10 ^ 9 then Some price else None)"
proof -
  have "ticker \<in> set (map fst (filter (\<lambda>(ticker, price). PRICE_EXPIRATON_TIME < now - pt_timestamp price) prices)) \<longleftrightarrow>
      (\<exists>price. bt_get prices ticker = Some price \<and> PRICE_EXPIRATON_TIME < now - pt_timestamp price)"
    using bt_get_wf_iff[OF assms] by force
  then show ?thesis unfolding expire_prices_def
    by (auto simp: btree_simps PRICE_EXPIRATON_TIME_def not_less split: option.splits)
qed

lemma update_own_order_prices:
  "update_own_order params e d = Some d' \<Longrightarrow> d_index_prices d' = d_index_prices d"
  by (auto simp: update_own_order_def elim!: bind_SomeE split: prod.split_asm)

lemma handle_timer_prices:
  assumes "handle_timer params now d = Some d'"
  shows "d_index_prices d' = expire_prices now (d_index_prices d)"
  using assms
proof (rule handle_timerE)
  fix d1 d2 assume d1: "(if d_server_connected d then foldM (update_own_order params) (d_own_orders d) d else Some d) = Some d1"
    and d2: "foldM (try_take_order params) (bt_values (d_orders d1)) d1 = Some d2"
    and d': "d' = (poll_wallet d2)\<lparr>d_index_prices := expire_prices now (d_index_prices (poll_wallet d2))\<rparr>"
  have "d_index_prices d1 = d_index_prices d"
    using d1 foldM_invariant[where P = "\<lambda>d1. d_index_prices d1 = d_index_prices d" and f = "update_own_order params"]
      update_own_order_prices by (fastforce split: if_splits)
  moreover have "d_index_prices d2 = d_index_prices d1"
    by (rule foldM_invariant[where P = "\<lambda>d2. d_index_prices d2 = d_index_prices d1", OF d2])
      (use try_take_order_frame in \<open>auto simp: maps_of_def\<close>)
  moreover have "d_index_prices (poll_wallet d2) = d_index_prices d2"
    using poll_wallet_frame(1)[of d2] by (simp add: maps_of_def)
  ultimately show ?thesis by (simp add: d')
qed

end
