(* ===== verification/Dealer_Props.thy ===== *)
theory Dealer_Props
  imports Dealer_Correct
begin

text \<open>
  The properties of the dealer, over the lemmas of \<^verbatim>\<open>Dealer_Correct\<close>, and a small run of the
  worker (one asset, one order in the book, one output in the wallet) at which they are applied.
\<close>

section \<open>A concrete run\<close>

definition demo_lbtc :: Asset where
  "demo_lbtc = \<lparr>a_asset_id = env_bitcoin_asset_id (env_data Local), a_name = ''Liquid Bitcoin'', a_ticker = TICKER_LBTC, a_icon = None, a_precision = 8, a_icon_url = None\<rparr>"
definition demo_usdt :: Asset where
  "demo_usdt = \<lparr>a_asset_id = ''usdt'', a_name = ''Tether USD'', a_ticker = TICKER_USDT, a_icon = None, a_precision = 8, a_icon_url = None\<rparr>"

definition demo_params :: Params where
  "demo_params = \<lparr>p_env = Local, p_server_host = ''localhost'', p_server_port = 4001, p_server_use_tls = False,
     p_rpc = \<lparr>rs_host = ''localhost'', rs_port = 7041, rs_login = [], rs_password = []\<rparr>,
     p_interest_submit = f64_lit (102 / 100), p_interest_sign = f64_lit (101 / 100), p_tickers = [TICKER_USDT],
     p_bitcoin_amount_submit = 1000000, p_bitcoin_amount_min = 100000, p_bitcoin_amount_max = 10000000\<rparr>"

definition demo_details :: Details where
  "demo_details = \<lparr>det_asset = ''usdt'', det_bitcoin_amount = 1000000, det_asset_amount = 21000000000,
     det_price = f64_lit 21000, det_server_fee = 1000, det_side = Responder, det_send_bitcoins = True, det_order_type = OT_Bitcoin\<rparr>"

definition demo_order :: OrderCreatedNotification where
  "demo_order = \<lparr>oc_order_id = ''o1'', oc_details = demo_details, oc_created_at = 0, oc_expires_at = 1, oc_own = None\<rparr>"

definition demo_unspent :: UnspentItem where
  "demo_unspent = \<lparr>ui_txid = ''aa'', ui_vout = 1, ui_address = ''addr'', ui_amount = 100000000, ui_confirmations = 2,
     ui_asset = env_bitcoin_asset_id (env_data Local)\<rparr>"

definition demo_world :: world where
  "demo_world = \<lparr>w_responses = [Inr (Resp_Assets [demo_lbtc, demo_usdt]), Inr (Resp_Login ''s'' []), Inr (Resp_Subscribe (Some ''usdt'') [demo_order]),
       Inr Resp_Addr, Inr Resp_Sign], w_requests = [],
     w_rpc_replies = [Inr (RR_Unspent [demo_unspent]), Inr (RR_String ''raw''), Inr (RR_String ''pset''), Inr (RR_Psbt ''filled''), Inr (RR_String ''a1''), Inr (RR_String ''a2''), Inr (RR_Psbt ''signed'')], w_rpc_calls = []\<rparr>"

definition demo_msgs :: "(int \<times> Msg) list" where
  "demo_msgs = [(0, M_Connected), (0, M_ReloadUtxo), (10, M_To (To_Price TICKER_USDT (Some \<lparr>pp_bid = f64_lit 19900, pp_ask = f64_lit 20000\<rparr>))),
     (10, M_To (To_LimitBalance TICKER_LBTC False (f64_lit 1))), (10, M_To (To_LimitBalance TICKER_LBTC True (f64_lit 1))),
     (10, M_To (To_LimitBalance TICKER_USDT False (f64_lit 20000))), (10, M_To (To_LimitBalance TICKER_USDT True (f64_lit 20000)))]"

definition dealer_run :: "Params \<Rightarrow> (int \<times> Msg) list \<Rightarrow> dealer \<Rightarrow> dealer option" where
  "dealer_run params = foldM (\<lambda>(now, msg). dealer_step params now msg)"

lemma dealer_run_reachable:
  assumes "dealer_reachable params w d" and "dealer_run params msgs d = Some d'"
  shows "dealer_reachable params w d'"
  by (rule foldM_invariant[where P = "dealer_reachable params w", OF assms(2)[unfolded dealer_run_def] assms(1)])
    (auto intro: dealer_reachable.step)

definition demo_dealer :: dealer where
  "demo_dealer = \<lparr>d_assets = [demo_lbtc, demo_usdt], d_server_connected = True,
     d_utxos = [((''aa'', 1), \<lparr>u_item = demo_unspent, u_reserve = None, u_amount = 100000000\<rparr>)],
     d_orders = [(''o1'', demo_order)], d_taken_orders = {},
     d_all_balances = \<lparr>ab_wallet = [(TICKER_LBTC, F_fin 1)], ab_max_send = [(TICKER_LBTC, F_fin 1), (TICKER_USDT, F_fin 20000)],
       ab_max_recv = [(TICKER_LBTC, F_fin 1), (TICKER_USDT, F_fin 20000)]\<rparr>,
     d_index_prices = [(TICKER_USDT, \<lparr>pt_price = \<lparr>pp_bid = F_fin 19900, pp_ask = F_fin 20000\<rparr>, pt_timestamp = 10\<rparr>)],
     d_pending_signs = [], d_own_orders = [((TICKER_USDT, False), None), ((TICKER_USDT, True), None)],
     d_wallet_balance = None, d_queue = [M_ReloadUtxo, M_Timer, M_Timer, M_Timer, M_Timer, M_Timer], d_from = [],
     d_world = \<lparr>w_responses = [Inr Resp_Addr, Inr Resp_Sign],
       w_requests = [Req_Assets (Some False), Req_Login None, Req_Subscribe (Some ''usdt'')],
       w_rpc_replies = [Inr (RR_String ''raw''), Inr (RR_String ''pset''), Inr (RR_Psbt ''filled''),
         Inr (RR_String ''a1''), Inr (RR_String ''a2''), Inr (RR_Psbt ''signed'')],
       w_rpc_calls = [listunspent 0]\<rparr>\<rparr>"

lemma demo_run: "Option.bind (dealer_init demo_params demo_world) (dealer_run demo_params demo_msgs) = Some demo_dealer"
  by code_simp

lemma demo_reachable: "dealer_reachable demo_params demo_world demo_dealer"
  using demo_run by (auto elim!: bind_SomeE intro: dealer_run_reachable dealer_reachable.start)

definition demo_sign :: SignNotification where
  "demo_sign = \<lparr>sn_order_id = ''o1'', sn_pset = ''pset'', sn_details = demo_details\<rparr>"

text \<open>The dealer just before the server asks for the signature.\<close>

definition demo_signing :: dealer where
  "demo_signing = demo_dealer\<lparr>d_world := (d_world demo_dealer)\<lparr>w_responses := [Inr Resp_Sign], w_rpc_replies := [Inr (RR_Psbt ''signed'')]\<rparr>\<rparr>"

definition demo_signed :: dealer where
  "demo_signed = demo_signing\<lparr>d_pending_signs := [(''o1'', demo_details)],
     d_world := (d_world demo_dealer)\<lparr>w_responses := [], w_rpc_replies := [],
       w_requests := w_requests (d_world demo_dealer) @ [Req_Sign \<lparr>sq_order_id = ''o1'', sq_signed_pset = ''signed'', sq_side = Responder\<rparr>],
       w_rpc_calls := [listunspent 0, wallet_sign_psbt ''pset'']\<rparr>\<rparr>"

lemma demo_take:
  "take_order demo_params [demo_lbtc, demo_usdt] demo_details (d_all_balances demo_dealer) (d_index_prices demo_dealer)
     (p_interest_sign demo_params) = Some (Inr ())"
  "take_order demo_params [demo_lbtc, demo_usdt] demo_details (d_all_balances demo_dealer) (d_index_prices demo_dealer)
     (p_interest_submit demo_params) = Some (Inr ())"
  by code_simp+

lemma demo_pset:
  "get_pset ''o1'' demo_details (d_utxos demo_dealer) demo_params False (d_world demo_dealer) =
     Some (Inr \<lparr>ar_order_id = ''o1'', ar_pset = ''filled'', ar_recv_addr = ''a1'', ar_change_addr = ''a2'',
       ar_price = f64_lit 21000, ar_private = None, ar_ttl_seconds = None\<rparr>,
       (d_world demo_dealer)\<lparr>w_rpc_replies := [Inr (RR_Psbt ''signed'')], w_rpc_calls := [listunspent 0,
         create_raw_tx [\<lparr>txo_txid = ''aa'', txo_vout = 1\<rparr>] [] 0 False [], convert_to_psbt ''raw'', fill_psbt_data ''pset'',
         get_new_address, get_new_address]\<rparr>)"
proof -
  have "select_utxo [100000000] 1001000 = Some [100000000]" by code_simp
  moreover have "pick_utxos u_amount [100000000] [\<lparr>u_item = demo_unspent, u_reserve = None, u_amount = 100000000\<rparr>] [] =
      Some [\<lparr>u_item = demo_unspent, u_reserve = None, u_amount = 100000000\<rparr>]"
    by (simp add: swap_remove_def)
  moreover have "i64_sum [100000000] = 100000000" "i64_add 1000000 1000 = 1001000" by code_simp+
  ultimately show ?thesis
    by (simp add: get_pset_def send_asset_amount_def demo_details_def demo_dealer_def demo_params_def bt_values_def
        demo_unspent_def pset_utxo_amount_def rpc_expect_def make_rpc_call_def)
qed

lemma demo_signs: "handle_sign demo_params demo_sign demo_signing = Some demo_signed"
  using demo_take(1)
  by (simp add: handle_sign_def demo_sign_def demo_signing_def demo_signed_def demo_dealer_def demo_details_def
      rpc_expect_def make_rpc_call_def send_request_m_def send_request_def)

section \<open>Properties\<close>

text \<open>C1: the dealer signs a transaction only while it handles the server's \<^verbatim>\<open>Sign\<close> notification
  for an order that is still acceptable: its amount is within the configured limits and the
  balances, and its price is better than the current index price by the signing interest.  No
  other message leads to a call of \<^verbatim>\<open>walletsignpsbt\<close>.\<close>

theorem dealer_signs_only_acceptable:
  assumes "dealer_step params now msg d = Some d'" and "sign_calls (d_world d') \<noteq> sign_calls (d_world d)"
  shows "\<exists>order. msg = M_Notification (Notif_Sign order) \<and>
    sign_calls (d_world d') = sign_calls (d_world d) @ [wallet_sign_psbt (sn_pset order)] \<and>
    acceptable_order params (d_assets d) (sn_details order) (d_all_balances d) (d_index_prices d) (p_interest_sign params)"
  using dealer_step_sign[OF assms] by blast

theorem dealer_signs_only_acceptable_witness:
  "\<exists>order. M_Notification (Notif_Sign demo_sign) = M_Notification (Notif_Sign order) \<and>
    sign_calls (d_world demo_signed) = sign_calls (d_world demo_signing) @ [wallet_sign_psbt (sn_pset order)] \<and>
    acceptable_order demo_params (d_assets demo_signing) (sn_details order) (d_all_balances demo_signing)
      (d_index_prices demo_signing) (p_interest_sign demo_params)"
proof (rule dealer_signs_only_acceptable[where now = 20 and d' = demo_signed])
  show "dealer_step demo_params 20 (M_Notification (Notif_Sign demo_sign)) demo_signing = Some demo_signed"
    using demo_signs by (simp add: dealer_step_def handle_notification_def)
  show "sign_calls (d_world demo_signed) \<noteq> sign_calls (d_world demo_signing)"
    by (simp add: sign_calls_def demo_signed_def demo_signing_def demo_dealer_def)
qed

text \<open>C16: in every reachable state, one pass over the order book sends at most one \<^verbatim>\<open>Addr\<close> request
  per order and none for an order that is already taken; every order it is sent for is in the
  book and acceptable at the submit interest; the orders marked as taken are among those sent for.\<close>

theorem order_book_pass:
  assumes "dealer_reachable params w d" and "foldM (try_take_order params) (bt_values (d_orders d)) d = Some d'"
  shows "\<exists>reqs. w_requests (d_world d') = w_requests (d_world d) @ map Req_Addr reqs \<and>
    distinct (map ar_order_id reqs) \<and> ar_order_id ` set reqs \<inter> d_taken_orders d = {} \<and>
    d_taken_orders d \<subseteq> d_taken_orders d' \<and> d_taken_orders d' \<subseteq> d_taken_orders d \<union> ar_order_id ` set reqs \<and>
    (\<forall>a \<in> set reqs. \<exists>order. bt_get (d_orders d) (ar_order_id a) = Some order \<and>
       acceptable_order params (d_assets d) (oc_details order) (d_all_balances d) (d_index_prices d) (p_interest_submit params))"
proof -
  have k: "orders_keyed (d_orders d)" using reachable_inv[OF assms(1)] by (simp add: dealer_inv_def)
  obtain reqs where r: "w_requests (d_world d') = w_requests (d_world d) @ map Req_Addr reqs" "distinct (map ar_order_id reqs)"
    "set (map ar_order_id reqs) \<subseteq> set (map oc_order_id (bt_values (d_orders d))) - d_taken_orders d"
    "d_taken_orders d \<subseteq> d_taken_orders d'" "d_taken_orders d' \<subseteq> d_taken_orders d \<union> set (map ar_order_id reqs)"
    using take_loop_requests[OF assms(2) orders_keyed_distinct[OF k]] by blast
  obtain reqs2 where r2: "w_requests (d_world d') = w_requests (d_world d) @ reqs2"
    "\<forall>r \<in> set reqs2. \<exists>a. \<exists>order \<in> set (bt_values (d_orders d)). r = Req_Addr a \<and> ar_order_id a = oc_order_id order \<and>
        acceptable_order params (d_assets d) (oc_details order) (d_all_balances d) (d_index_prices d) (p_interest_submit params)"
    using take_loop_acceptable[OF assms(2)] by blast
  have "reqs2 = map Req_Addr reqs" using r(1) r2(1) by simp
  then have "\<exists>order \<in> set (bt_values (d_orders d)). ar_order_id a = oc_order_id order \<and>
        acceptable_order params (d_assets d) (oc_details order) (d_all_balances d) (d_index_prices d) (p_interest_submit params)"
    if "a \<in> set reqs" for a using r2(2) that by auto
  moreover have "bt_get (d_orders d) (oc_order_id order) = Some order" if "order \<in> set (bt_values (d_orders d))" for order
    using that k bt_get_wf_iff[of "d_orders d"] by (fastforce simp: orders_keyed_def bt_values_def)
  ultimately have "\<forall>a \<in> set reqs. \<exists>order. bt_get (d_orders d) (ar_order_id a) = Some order \<and>
       acceptable_order params (d_assets d) (oc_details order) (d_all_balances d) (d_index_prices d) (p_interest_submit params)"
    by metis
  moreover have "ar_order_id ` set reqs \<inter> d_taken_orders d = {}" using r(3) by auto
  moreover have "d_taken_orders d' \<subseteq> d_taken_orders d \<union> ar_order_id ` set reqs" using r(5) by simp
  ultimately show ?thesis using r(1,2,4) by (intro exI[of _ reqs] conjI)
qed

theorem order_book_pass_witness:
  "\<exists>d'. foldM (try_take_order demo_params) (bt_values (d_orders demo_dealer)) demo_dealer = Some d' \<and>
   (\<exists>reqs. w_requests (d_world d') = w_requests (d_world demo_dealer) @ map Req_Addr reqs \<and>
    distinct (map ar_order_id reqs) \<and> ar_order_id ` set reqs \<inter> d_taken_orders demo_dealer = {} \<and>
    d_taken_orders demo_dealer \<subseteq> d_taken_orders d' \<and> d_taken_orders d' \<subseteq> d_taken_orders demo_dealer \<union> ar_order_id ` set reqs \<and>
    (\<forall>a \<in> set reqs. \<exists>order. bt_get (d_orders demo_dealer) (ar_order_id a) = Some order \<and>
       acceptable_order demo_params (d_assets demo_dealer) (oc_details order) (d_all_balances demo_dealer)
         (d_index_prices demo_dealer) (p_interest_submit demo_params)))"
proof -
  have o: "bt_values (d_orders demo_dealer) = [demo_order]" "oc_order_id demo_order = ''o1''" "oc_details demo_order = demo_details"
    "d_assets demo_dealer = [demo_lbtc, demo_usdt]" "d_taken_orders demo_dealer = {}" "w_responses (d_world demo_dealer) = [Inr Resp_Addr, Inr Resp_Sign]"
    by (simp_all add: demo_dealer_def demo_order_def bt_values_def)
  have "foldM (try_take_order demo_params) (bt_values (d_orders demo_dealer)) demo_dealer \<noteq> None"
    by (simp add: o try_take_order_def demo_take demo_pset send_request_m_def send_request_def)
  then obtain d' where "foldM (try_take_order demo_params) (bt_values (d_orders demo_dealer)) demo_dealer = Some d'" by blast
  then show ?thesis using order_book_pass[OF demo_reachable, of d'] by (intro exI[of _ d'] conjI)
qed

text \<open>C22: reloading the outputs makes the dealer's map agree with the node: afterwards an output
  is known exactly when the node lists it; a known output keeps its entry, its reservation
  included, and a new one enters unreserved with the amount the node reports.\<close>

theorem reload_utxo_spec:
  assumes "handle_reload_utxo d = Some d'"
  shows "\<exists>items rest. w_rpc_replies (d_world d) = Inr (RR_Unspent items) # rest \<and>
    (\<forall>k. bt_get (d_utxos d') k =
      (case find (\<lambda>item. tx_out_key (tx_out item) = k) items of
         None \<Rightarrow> None
       | Some item \<Rightarrow> (case bt_get (d_utxos d) k of Some u \<Rightarrow> Some u
           | None \<Rightarrow> Some \<lparr>u_item = item, u_reserve = None, u_amount = ui_amount item\<rparr>)))"
proof -
  obtain items w where items: "rpc_expect want_unspent (listunspent 0) (d_world d) = Some (items, w)"
    and u: "d_utxos d' = reload_utxos items (d_utxos d)"
    using assms by (auto simp: handle_reload_utxo_def Let_def elim!: bind_SomeE split: prod.split_asm)
  have "\<exists>rest. w_rpc_replies (d_world d) = Inr (RR_Unspent items) # rest"
    using items by (auto simp: rpc_expect_def make_rpc_call_def Let_def
        split: list.split_asm sum.split_asm option.split_asm elim: want_unspent.elims)
  then show ?thesis unfolding u using get_reload_utxos by blast
qed

definition demo_reload :: dealer where
  "demo_reload = demo_dealer\<lparr>d_world := demo_world, d_utxos := []\<rparr>"

theorem reload_utxo_spec_witness:
  "\<exists>d'. handle_reload_utxo demo_reload = Some d' \<and>
    (\<exists>items rest. w_rpc_replies (d_world demo_reload) = Inr (RR_Unspent items) # rest \<and>
    (\<forall>k. bt_get (d_utxos d') k =
      (case find (\<lambda>item. tx_out_key (tx_out item) = k) items of
         None \<Rightarrow> None
       | Some item \<Rightarrow> (case bt_get (d_utxos demo_reload) k of Some u \<Rightarrow> Some u
           | None \<Rightarrow> Some \<lparr>u_item = item, u_reserve = None, u_amount = ui_amount item\<rparr>))))"
proof -
  have "\<exists>d'. handle_reload_utxo demo_reload = Some d'"
    by (simp add: handle_reload_utxo_def Let_def rpc_expect_def make_rpc_call_def demo_reload_def demo_world_def)
  then obtain d' where "handle_reload_utxo demo_reload = Some d'" by blast
  with reload_utxo_spec[OF this] show ?thesis by (intro exI[of _ d'] conjI)
qed

text \<open>C23: in every reachable state the own orders are indexed by exactly the configured tickers in
  both directions, the order book is indexed by the identifiers of its orders, each map has
  ascending distinct keys, and while the server is disconnected no own order is remembered.\<close>

theorem dealer_invariant:
  assumes "dealer_reachable params w d"
  shows "set (bt_keys (d_own_orders d)) = set (p_tickers params) \<times> UNIV \<and>
    (\<forall>k order. bt_get (d_orders d) k = Some order \<longrightarrow> oc_order_id order = k) \<and>
    bt_wf (d_orders d) \<and> bt_wf (d_utxos d) \<and> bt_wf (d_index_prices d) \<and> bt_wf (d_pending_signs d) \<and> bt_wf (d_own_orders d) \<and>
    (\<not> d_server_connected d \<longrightarrow> (\<forall>key own. bt_get (d_own_orders d) key \<noteq> Some (Some own)))"
proof -
  note inv = reachable_inv[OF assms, unfolded dealer_inv_def orders_keyed_def]
  have "set (own_order_keys params) = set (p_tickers params) \<times> UNIV"
    by (auto simp: own_order_keys_def)
  moreover have "oc_order_id order = k" if "bt_get (d_orders d) k = Some order" for k order
    using inv bt_get_in_set[OF that] by auto
  moreover have "bt_get (d_own_orders d) key \<noteq> Some (Some own)" if "\<not> d_server_connected d" for key own
  proof
    assume "bt_get (d_own_orders d) key = Some (Some own)"
    from bt_get_in_set[OF this] have "Some own \<in> set (bt_values (d_own_orders d))" by (force simp: bt_values_def)
    then show False using inv that by blast
  qed
  ultimately show ?thesis using inv by metis
qed

definition demo_offline :: dealer where
  "demo_offline = handle_disconnected demo_dealer"

lemma demo_offline_reachable: "dealer_reachable demo_params demo_world demo_offline"
  unfolding demo_offline_def
  by (rule dealer_reachable.step[OF demo_reachable, where msg = M_Disconnected and now = 0]) (simp add: dealer_step_def)

theorem dealer_invariant_witness:
  "set (bt_keys (d_own_orders demo_dealer)) = set (p_tickers demo_params) \<times> UNIV \<and>
    bt_get (d_orders demo_dealer) ''o1'' = Some demo_order \<and> oc_order_id demo_order = ''o1'' \<and>
    bt_wf (d_orders demo_dealer) \<and> bt_wf (d_utxos demo_dealer) \<and> bt_wf (d_own_orders demo_dealer) \<and>
    \<not> d_server_connected demo_offline \<and> (\<forall>own. bt_get (d_own_orders demo_offline) (TICKER_USDT, True) \<noteq> Some (Some own))"
proof -
  have o: "bt_get (d_orders demo_dealer) ''o1'' = Some demo_order" by (simp add: demo_dealer_def)
  have off: "\<not> d_server_connected demo_offline" by (simp add: demo_offline_def handle_disconnected_def)
  show ?thesis
    using dealer_invariant[OF demo_reachable] dealer_invariant[OF demo_offline_reachable] o off by blast
qed

text \<open>C24: a timer tick drops exactly the index prices older than a minute: afterwards a ticker has a
  price exactly when it had one at most 60 seconds old, and then the same one.\<close>

theorem timer_expires_prices:
  assumes "dealer_reachable params w d" and "handle_timer params now d = Some d'"
  shows "bt_get (d_index_prices d') ticker = (case bt_get (d_index_prices d) ticker of
      None \<Rightarrow> None
    | Some price \<Rightarrow> if now - pt_timestamp price \<le> 60 * 10 ^ 9 then Some price else None)"
proof -
  have wf: "bt_wf (d_index_prices d)" using reachable_inv[OF assms(1)] by (simp add: dealer_inv_def)
  have "d_index_prices d' = expire_prices now (d_index_prices d)"
    using assms(2) by (rule handle_timer_prices)
  then show ?thesis using get_expire_prices[OF wf] by simp
qed

theorem timer_expires_prices_witness:
  "\<exists>d'. handle_timer demo_params (61 * 10 ^ 9) demo_offline = Some d' \<and>
    bt_get (d_index_prices d') TICKER_USDT = (case bt_get (d_index_prices demo_offline) TICKER_USDT of
      None \<Rightarrow> None
    | Some price \<Rightarrow> if 61 * 10 ^ 9 - pt_timestamp price \<le> 60 * 10 ^ 9 then Some price else None)"
proof -
  have "\<exists>d'. handle_timer demo_params (61 * 10 ^ 9) demo_offline = Some d'"
    by (simp add: handle_timer_def Let_def demo_offline_def handle_disconnected_def bt_values_def)
  then obtain d' where d': "handle_timer demo_params (61 * 10 ^ 9) demo_offline = Some d'" by blast
  show ?thesis using timer_expires_prices[OF demo_offline_reachable d', of TICKER_USDT] d' by blast
qed





end
