(* ===== verification/Bf_Balancing.thy ===== *)
theory Bf_Balancing
  imports Dealer
begin

text \<open>
  \<^verbatim>\<open>sideswap_dealer_bitfinex/src/balancing.rs\<close> and \<^verbatim>\<open>storage.rs\<close>: moving funds between the
  wallet and the exchange.  At most one transfer is active; it is a state machine that is written
  to the storage file after every change.  The effects of a handler (files written, messages to
  the exchange module and to the operators, calls to the node) are logged in \<open>bal_io\<close>.
\<close>

section \<open>Data\<close>

datatype TransferState =
    SendUsdtNew | SendUsdtWaitConfirm
  | RecvUsdtNew | RecvUsdtWaitWithdrawId | RecvUsdtWaitConfirm
  | SendBtcNew | SendBtcWaitLbtcBalance | SendBtcWaitConfirm
  | RecvBtcNew | RecvBtcWaitLbtcBalance | RecvBtcWaitWithdrawId | RecvBtcWaitConfirm
  | TS_Complete | TS_Failed

record Transfer =
  tr_withdraw_id :: "int option"
  tr_state :: TransferState
  tr_amount :: amount
  tr_created_at :: int
  tr_updated_at :: int
  tr_txid :: "string option"

record Storage =
  s_balancing :: "Transfer option"

type_synonym ExchangeTicker = string
type_synonym ExchangeBalances = "(ExchangeTicker, f64) btree"

text \<open>The fields of the configuration that the handlers read.\<close>

record Args =
  g_env :: Env
  g_api_key :: "string option"
  g_bitfinex_key :: string
  g_bitfinex_secret :: string
  g_bitfinex_bookname_usdt :: string
  g_bitfinex_bookname_eurx :: string
  g_bitfinex_withdraw_address :: string
  g_bitfinex_fund_address :: string
  g_bitfinex_currency_btc :: ExchangeTicker
  g_bitfinex_currency_lbtc :: ExchangeTicker
  g_bitfinex_currency_usdt :: ExchangeTicker
  g_bitfinex_currency_eur :: ExchangeTicker
  g_balancing_enabled :: bool

definition BITFINEX_WALLET_EXCHANGE :: string where "BITFINEX_WALLET_EXCHANGE = ''exchange''"
definition BITFINEX_METHOD_USDT :: string where "BITFINEX_METHOD_USDT = ''tetherusl''"
definition BITFINEX_METHOD_LBTC :: string where "BITFINEX_METHOD_LBTC = ''LBT''"
definition BITFINEX_STATUS_COMPLETED :: string where "BITFINEX_STATUS_COMPLETED = ''COMPLETED''"

text \<open>The messages to and from the exchange module (\<^verbatim>\<open>bitfinex.proto\<close>).\<close>

datatype ToModule =
    TM_Login string string
  | TM_Subscribe string
  | TM_OrderSubmit string int f64 \<comment> \<open>book name, cid, amount\<close>
  | TM_Withdraw string string string string f64 string \<comment> \<open>key, secret, wallet, method, amount, address\<close>
  | TM_Transfer string string string string string string f64 \<comment> \<open>key, secret, from, to, currency, currency to, amount\<close>
  | TM_Movements string string "int option" "int option" "int option"

record Movement =
  mv_id :: int
  mv_currency :: string
  mv_currency_name :: string
  mv_mts_started :: int
  mv_mts_updated :: int
  mv_status :: string
  mv_amount :: f64
  mv_fees :: f64
  mv_destination_address :: string
  mv_transaction_id :: string
  mv_withdraw_transaction_note :: string

record Movements =
  ms_success :: bool
  ms_key :: string
  ms_movements :: "Movement list"

text \<open>The derived equality compares the amounts as floating point numbers.\<close>

definition movement_eq :: "Movement \<Rightarrow> Movement \<Rightarrow> bool" where
  "movement_eq a b \<longleftrightarrow> f64_eq (mv_amount a) (mv_amount b) \<and> f64_eq (mv_fees a) (mv_fees b) \<and>
     a\<lparr>mv_amount := F_fin 0, mv_fees := F_fin 0\<rparr> = b\<lparr>mv_amount := F_fin 0, mv_fees := F_fin 0\<rparr>"

definition movements_eq :: "Movements \<Rightarrow> Movements \<Rightarrow> bool" where
  "movements_eq a b \<longleftrightarrow> ms_success a = ms_success b \<and> ms_key a = ms_key b \<and>
     list_all2 movement_eq (ms_movements a) (ms_movements b)"

text \<open>The texts sent to the operators; numbers are carried as values.\<close>

datatype Slack =
    SL_text string
  | SL_balances string "(string \<times> f64) list"
  | SL_price string f64 f64 string
  | SL_start string f64
  | SL_profit f64 f64 f64
  | SL_timeout int

record bal_io =
  io_saved :: "Storage list"
  io_slack :: "Slack list"
  io_module :: "ToModule list"
  io_world :: world

definition save_storage :: "Storage \<Rightarrow> bal_io \<Rightarrow> bal_io" where
  "save_storage storage io = io\<lparr>io_saved := io_saved io @ [storage]\<rparr>"

definition send_notification :: "Slack \<Rightarrow> bal_io \<Rightarrow> bal_io" where
  "send_notification msg io = io\<lparr>io_slack := io_slack io @ [msg]\<rparr>"

definition send_msg :: "ToModule \<Rightarrow> bal_io \<Rightarrow> bal_io" where
  "send_msg msg io = io\<lparr>io_module := io_module io @ [msg]\<rparr>"

section \<open>When to move funds\<close>

record Ratio =
  ra_min :: f64
  ra_norm :: f64
  ra_max :: f64

datatype Balancing = Bal_None | Bal_Send f64 | Bal_Recv f64

definition RATIO_BTC :: Ratio where
  "RATIO_BTC = \<lparr>ra_min = f64_lit (25 / 100), ra_norm = f64_lit (4 / 10), ra_max = f64_lit (75 / 100)\<rparr>"
definition RATIO_USDT :: Ratio where
  "RATIO_USDT = \<lparr>ra_min = f64_lit (25 / 100), ra_norm = f64_lit (6 / 10), ra_max = f64_lit (75 / 100)\<rparr>"

definition get_balancing :: "f64 \<Rightarrow> f64 \<Rightarrow> Ratio \<Rightarrow> Balancing option" where
  "get_balancing wallet_balance exchange_balance expected =
     (if f64_eq wallet_balance (F_fin 0) \<or> f64_eq exchange_balance (F_fin 0) then Some Bal_None
      else do {
        let tot = f64_add wallet_balance exchange_balance;
        let ratio = f64_div wallet_balance tot;
        _ \<leftarrow> rust_assert (f64_lt (F_fin 0) (ra_min expected));
        _ \<leftarrow> rust_assert (f64_lt (ra_min expected) (ra_norm expected));
        _ \<leftarrow> rust_assert (f64_lt (ra_norm expected) (ra_max expected));
        _ \<leftarrow> rust_assert (f64_lt (ra_max expected) (f64_lit 1));
        let diff = to_bitcoin (from_bitcoin (f64_abs (f64_mul (f64_sub (ra_norm expected) ratio) tot)));
        Some (if f64_lt ratio (ra_min expected) then Bal_Recv diff
              else if f64_lt (ra_max expected) ratio then Bal_Send diff
              else Bal_None)
      })"

section \<open>The transfer\<close>

text \<open>\<open>sys_now\<close> is the system time at which the handler runs.\<close>

definition update_balancing_state :: "int \<Rightarrow> TransferState \<Rightarrow> Storage \<Rightarrow> bal_io \<Rightarrow> (Storage \<times> bal_io) option" where
  "update_balancing_state sys_now new_state storage io = do {
     balancing \<leftarrow> s_balancing storage;
     let storage = storage\<lparr>s_balancing := Some (balancing\<lparr>tr_updated_at := sys_now, tr_state := new_state\<rparr>)\<rparr>;
     let io = (if new_state = TS_Failed then send_notification (SL_text '':fire: balancing failed'') io
               else if new_state = TS_Complete then send_notification (SL_text ''balancing complete'') io
               else io);
     Some (storage, save_storage storage io)
   }"

definition bal_get :: "(string, f64) btree \<Rightarrow> string \<Rightarrow> f64" where
  "bal_get m k = (case bt_get m k of None \<Rightarrow> F_fin 0 | Some v \<Rightarrow> v)"

text \<open>\<^verbatim>\<open>sendtoaddress\<close> to the exchange; success records the transaction.\<close>

definition send_to_exchange :: "int \<Rightarrow> RpcRequest \<Rightarrow> TransferState \<Rightarrow> Transfer \<Rightarrow> Storage \<Rightarrow> bal_io \<Rightarrow> (Storage \<times> bal_io) option" where
  "send_to_exchange sys_now req next_state balancing storage io =
     (let (result, w) = make_rpc_call want_string req (io_world io);
          io = io\<lparr>io_world := w\<rparr>
      in case result of
           Inr txid \<Rightarrow> update_balancing_state sys_now next_state
             (storage\<lparr>s_balancing := Some (balancing\<lparr>tr_txid := Some txid\<rparr>)\<rparr>) io
         | Inl e \<Rightarrow> update_balancing_state sys_now TS_Failed storage io)"

definition withdraw_msg :: "Args \<Rightarrow> string \<Rightarrow> amount \<Rightarrow> ToModule" where
  "withdraw_msg args meth amt = TM_Withdraw (g_bitfinex_key args) (g_bitfinex_secret args) BITFINEX_WALLET_EXCHANGE meth
     (to_bitcoin amt) (g_bitfinex_withdraw_address args)"

definition transfer_msg :: "Args \<Rightarrow> ExchangeTicker \<Rightarrow> ExchangeTicker \<Rightarrow> amount \<Rightarrow> ToModule" where
  "transfer_msg args currency currency_to amt = TM_Transfer (g_bitfinex_key args) (g_bitfinex_secret args)
     BITFINEX_WALLET_EXCHANGE BITFINEX_WALLET_EXCHANGE currency currency_to (to_bitcoin amt)"

definition process_balancing ::
  "Args \<Rightarrow> int \<Rightarrow> WalletBalances \<Rightarrow> ExchangeBalances \<Rightarrow> bool \<Rightarrow> Asset list \<Rightarrow> Storage \<Rightarrow> bal_io \<Rightarrow> (Storage \<times> bal_io) option" where
  "process_balancing args sys_now wallet_balances_confirmed exchange_balances module_connected assets storage io =
     (case s_balancing storage of
        None \<Rightarrow> Some (storage, io)
      | Some balancing \<Rightarrow>
         (let amt = to_bitcoin (tr_amount balancing);
              btc = g_bitfinex_currency_btc args; lbtc = g_bitfinex_currency_lbtc args
          in case tr_state balancing of
               SendUsdtNew \<Rightarrow>
                 (let usdt_balance = bal_get wallet_balances_confirmed TICKER_USDT;
                      bitcoin_balance = bal_get wallet_balances_confirmed TICKER_LBTC
                  in if f64_le amt usdt_balance \<and> f64_lt (F_fin 0) bitcoin_balance \<and> module_connected
                     then do {
                       asset \<leftarrow> find (\<lambda>asset. a_ticker asset = TICKER_USDT) assets;
                       send_to_exchange sys_now (sendtoaddress_asset (g_bitfinex_fund_address args) amt (a_asset_id asset))
                         SendUsdtWaitConfirm balancing storage io
                     }
                     else Some (storage, io))
             | RecvUsdtNew \<Rightarrow>
                 if (f64_le amt (bal_get exchange_balances (g_bitfinex_currency_usdt args)) \<or> \<not> is_mainnet (g_env args))
                    \<and> module_connected
                 then update_balancing_state sys_now RecvUsdtWaitWithdrawId storage
                        (send_msg (withdraw_msg args BITFINEX_METHOD_USDT (tr_amount balancing)) io)
                 else Some (storage, io)
             | SendBtcNew \<Rightarrow>
                 if f64_le amt (bal_get wallet_balances_confirmed TICKER_LBTC) \<and> module_connected
                 then send_to_exchange sys_now (sendtoaddress_bitcoin (g_bitfinex_fund_address args) amt)
                        SendBtcWaitLbtcBalance balancing storage io
                 else Some (storage, io)
             | SendBtcWaitLbtcBalance \<Rightarrow>
                 if f64_eq (bal_get exchange_balances lbtc) amt \<and> module_connected
                 then update_balancing_state sys_now SendBtcWaitConfirm storage
                        (send_msg (transfer_msg args lbtc btc (tr_amount balancing)) io)
                 else Some (storage, io)
             | SendBtcWaitConfirm \<Rightarrow>
                 if (case bt_get exchange_balances lbtc of None \<Rightarrow> False | Some b \<Rightarrow> f64_eq b (F_fin 0))
                 then update_balancing_state sys_now TS_Complete storage io
                 else Some (storage, io)
             | RecvBtcNew \<Rightarrow>
                 if (f64_le amt (bal_get exchange_balances btc) \<or> \<not> is_mainnet (g_env args)) \<and> module_connected
                 then update_balancing_state sys_now RecvBtcWaitLbtcBalance storage
                        (send_msg (transfer_msg args btc lbtc (tr_amount balancing)) io)
                 else Some (storage, io)
             | RecvBtcWaitLbtcBalance \<Rightarrow>
                 if f64_eq (bal_get exchange_balances lbtc) amt \<and> module_connected
                 then update_balancing_state sys_now RecvBtcWaitWithdrawId storage
                        (send_msg (withdraw_msg args BITFINEX_METHOD_LBTC (tr_amount balancing)) io)
                 else Some (storage, io)
             | TS_Complete \<Rightarrow>
                 (let storage = storage\<lparr>s_balancing := None\<rparr> in Some (storage, save_storage storage io))
             | _ \<Rightarrow> Some (storage, io)))"

definition process_withdraw :: "int \<Rightarrow> int \<Rightarrow> Storage \<Rightarrow> bal_io \<Rightarrow> (Storage \<times> bal_io) option" where
  "process_withdraw sys_now withdraw_id storage io =
     (case s_balancing storage of
        None \<Rightarrow> Some (storage, io)
      | Some balancing \<Rightarrow>
          let ok = 0 < withdraw_id \<and> tr_withdraw_id balancing = None;
              known = storage\<lparr>s_balancing := Some (balancing\<lparr>tr_withdraw_id := Some withdraw_id\<rparr>)\<rparr>
          in if tr_state balancing = RecvUsdtWaitWithdrawId \<and> ok
             then update_balancing_state sys_now RecvUsdtWaitConfirm known io
             else if tr_state balancing = RecvBtcWaitWithdrawId \<and> ok
             then update_balancing_state sys_now RecvBtcWaitConfirm known io
             else update_balancing_state sys_now TS_Failed storage io)"

text \<open>The reply has to arrive twice unchanged before it is used.\<close>

definition process_movements ::
  "int \<Rightarrow> Movements \<Rightarrow> Movements option \<Rightarrow> Storage \<Rightarrow> bal_io \<Rightarrow> ((Movements option \<times> Storage) \<times> bal_io) option" where
  "process_movements sys_now msg movements storage io =
     (if \<not> ms_success msg then Some ((movements, storage), io)
      else if \<not> (case movements of None \<Rightarrow> False | Some m \<Rightarrow> movements_eq msg m) then Some ((Some msg, storage), io)
      else case s_balancing storage of
          None \<Rightarrow> Some ((movements, storage), io)
        | Some balancing \<Rightarrow>
            let by_withdraw_id = (\<lambda>item. Some (mv_id item) = tr_withdraw_id balancing \<and> mv_status item = BITFINEX_STATUS_COMPLETED);
                complete = (\<lambda>found. if found then map_option (\<lambda>(storage, io). ((movements, storage), io))
                     (update_balancing_state sys_now TS_Complete storage io)
                   else Some ((movements, storage), io))
            in case tr_state balancing of
                 SendUsdtWaitConfirm \<Rightarrow> do {
                   txid \<leftarrow> tr_txid balancing;
                   complete (find (\<lambda>item. mv_transaction_id item = txid \<and> mv_status item = BITFINEX_STATUS_COMPLETED) (ms_movements msg) \<noteq> None)
                 }
               | RecvUsdtWaitConfirm \<Rightarrow> complete (find by_withdraw_id (ms_movements msg) \<noteq> None)
               | RecvBtcWaitConfirm \<Rightarrow> complete (find by_withdraw_id (ms_movements msg) \<noteq> None)
               | _ \<Rightarrow> Some ((movements, storage), io))"

definition process_transfer :: "int \<Rightarrow> bool \<Rightarrow> Storage \<Rightarrow> bal_io \<Rightarrow> (Storage \<times> bal_io) option" where
  "process_transfer sys_now success storage io =
     (if s_balancing storage \<noteq> None \<and> \<not> success then update_balancing_state sys_now TS_Failed storage io
      else Some (storage, io))"

text \<open>The \<^verbatim>\<open>Cli\<close> message, by an operator or by the timer, starts a transfer.\<close>

datatype CliRequest = TestSendUsdt f64 | TestRecvUsdt f64 | TestSendBtc f64 | TestRecvBtc f64

datatype CliResponse = Cli_Success string | Cli_Error string

fun cli_transfer :: "CliRequest \<Rightarrow> TransferState \<times> f64 \<times> string" where
  "cli_transfer (TestSendUsdt amt) = (SendUsdtNew, amt, ''send usdt'')"
| "cli_transfer (TestRecvUsdt amt) = (RecvUsdtNew, amt, ''recv usdt'')"
| "cli_transfer (TestSendBtc amt) = (SendBtcNew, amt, ''send btc'')"
| "cli_transfer (TestRecvBtc amt) = (RecvBtcNew, amt, ''recv btc'')"

definition handle_cli :: "int \<Rightarrow> CliRequest \<Rightarrow> Movements option \<Rightarrow> Storage \<Rightarrow> bal_io \<Rightarrow>
    (Movements option \<times> Storage) \<times> CliResponse \<times> bal_io" where
  "handle_cli sys_now req movements storage io =
     (let (new_state, amt, name) = cli_transfer req in
      if s_balancing storage \<noteq> None then ((movements, storage), Cli_Error ''already started'', io)
      else let storage = storage\<lparr>s_balancing := Some \<lparr>tr_withdraw_id = None, tr_state = new_state,
                 tr_amount = from_bitcoin amt, tr_created_at = sys_now, tr_updated_at = sys_now, tr_txid = None\<rparr>\<rparr>;
               io = send_notification (SL_start name amt) (save_storage storage io)
           in ((None, storage), Cli_Success ''success'', io))"

end
