(* ===== verification/Bf_Main.thy ===== *)
theory Bf_Main
  imports Bf_Balancing
begin

text \<open>
  \<^verbatim>\<open>sideswap_dealer_bitfinex/src/main.rs\<close>: the market maker.  Its main thread owns the state
  \<open>bfx\<close> and handles one message at a time: every iteration broadcasts prices and updates the
  quotes of the active swaps, then handles the message (\<open>bfx_step\<close>).  The arguments \<open>now\<close> and
  \<open>sys_now\<close> are the monotonic and the system clock, in nanoseconds; \<open>answered\<close> gives the instant at
  which the answer to the quote of an order arrives.  \<open>btc_str\<close> is the rendering of an amount of
  satoshi by the \<^verbatim>\<open>bitcoin\<close> crate.
\<close>

section \<open>Data\<close>

definition seconds :: "int \<Rightarrow> int" where "seconds n = n * 10 ^ 9"

definition ACCEPT_GRACE_PERIOD :: int where "ACCEPT_GRACE_PERIOD = seconds 65"
definition DEALER_TICKERS :: "DealerTicker list" where "DEALER_TICKERS = [TICKER_USDT, TICKER_EURX]"
definition MIN_BALANCE_BITCOIN :: f64 where "MIN_BALANCE_BITCOIN = f64_lit (5 / 100)"
definition MIN_BALANCE_TETHER :: f64 where "MIN_BALANCE_TETHER = f64_lit 2500"
definition BF_RESERVE :: f64 where "BF_RESERVE = f64_lit (99 / 100)"
definition MAX_RATIO_UPDATE_NOTIFICATION :: f64 where "MAX_RATIO_UPDATE_NOTIFICATION = f64_lit (5 / 100)"
definition PRICE_EXPIRED :: int where "PRICE_EXPIRED = seconds 300"
definition INTEREST_DEFAULT :: f64 where "INTEREST_DEFAULT = f64_lit (10075 / 10000)"
definition MIN_HEDGE_AMOUNT :: f64 where "MIN_HEDGE_AMOUNT = f64_lit (2 / 10000)"
definition BITFINEX_FEE_PROD :: f64 where "BITFINEX_FEE_PROD = f64_lit (17 / 10000)"
definition BITFINEX_FEE_TEST :: f64 where "BITFINEX_FEE_TEST = f64_lit (2 / 1000)"

record Quote =
  q_proposal :: int
  q_change_amount :: int
  q_txouts :: "TxOut list"

record QuoteTimestamp =
  qt_quote :: Quote
  qt_timestamp :: int

record ActiveSwap =
  as_ticker :: "DealerTicker option"
  as_rfq :: MatchRfq
  as_send_bitcoin :: bool
  as_quote_last :: "RfqRejectReason + Quote"
  as_quotes_old :: "QuoteTimestamp list"
  as_swap :: "Swap option"
  as_accepted :: bool
  as_last_updated :: int

record Price =
  mp_bid :: f64
  mp_ask :: f64
  mp_timestamp :: int

record ProfitsReport =
  pf_wallet_balances :: WalletBalances
  pf_exchange_balances :: ExchangeBalances
  pf_created_at :: int

type_synonym ModulePrices = "(DealerTicker, Price) btree"

datatype FromModule =
    FM_BookUpdate string f64 f64 \<comment> \<open>book name, bid, ask\<close>
  | FM_OrderConfirm string int int f64 f64
  | FM_WalletUpdate string f64
  | FM_Withdraw int
  | FM_Transfer bool
  | FM_Movements Movements
  | FM_Error string

datatype BMsg =
    X_Timer
  | X_Connected
  | X_Disconnected
  | X_Notification Notification
  | X_ModuleConnected
  | X_ModuleDisconnected
  | X_ModuleMessage FromModule
  | X_ReloadUtxo
  | X_Cli CliRequest bool \<comment> \<open>whether someone waits for the response\<close>
  | X_CheckExchange
  | X_Dealer From

record bfx =
  x_assets :: "Asset list"
  x_utxos :: Utxos
  x_server_status :: "ServerStatus option"
  x_swaps :: "(OrderId, ActiveSwap) btree"
  x_server_connected :: bool
  x_module_connected :: bool
  x_wallet_balances :: WalletBalances
  x_wallet_balances_confirmed :: WalletBalances
  x_exchange_balances :: ExchangeBalances
  x_exchange_balances_reported :: ExchangeBalances
  x_profit_reports :: "ProfitsReport option"
  x_bitcoin_ratio_old :: "f64 option"
  x_module_prices :: ModulePrices
  x_broadcast_timestamps :: "(DealerTicker, int) btree"
  x_latest_check_exchange :: int
  x_health_text :: "string option"
  x_orders :: "(OrderId, OrderCreatedNotification) btree"
  x_pending_orders :: "(int, int) btree"
  x_storage :: Storage
  x_movements :: "Movements option"
  x_balancing_blocked :: int
  x_io :: bal_io
  x_to_dealer :: "To list"
  x_queue :: "BMsg list"
  x_cli_responses :: "CliResponse list"

definition timestamp_now :: "int \<Rightarrow> int option" where
  "timestamp_now sys_now = (if sys_now < 0 then None else Some (wrap_i64 (sys_now div 10 ^ 6)))"

definition bfx_notify :: "Slack \<Rightarrow> bfx \<Rightarrow> bfx" where
  "bfx_notify msg x = x\<lparr>x_io := send_notification msg (x_io x)\<rparr>"

definition bfx_module :: "ToModule \<Rightarrow> bfx \<Rightarrow> bfx" where
  "bfx_module msg x = x\<lparr>x_io := send_msg msg (x_io x)\<rparr>"

definition bfx_enqueue :: "BMsg \<Rightarrow> bfx \<Rightarrow> bfx" where
  "bfx_enqueue msg x = x\<lparr>x_queue := x_queue x @ [msg]\<rparr>"

definition bfx_dealer :: "To \<Rightarrow> bfx \<Rightarrow> bfx" where
  "bfx_dealer msg x = x\<lparr>x_to_dealer := x_to_dealer x @ [msg]\<rparr>"

text \<open>Requests to the server and calls to the node, through the logs of \<open>io_world\<close>.\<close>

definition bfx_request :: "(Response \<Rightarrow> 'a option) \<Rightarrow> Request \<Rightarrow> bfx \<Rightarrow> ((Error + 'a) \<times> bfx) option" where
  "bfx_request want req x = do {
     (r, w) \<leftarrow> send_request_m want req (io_world (x_io x));
     Some (r, x\<lparr>x_io := (x_io x)\<lparr>io_world := w\<rparr>\<rparr>)
   }"

definition bfx_rpc :: "(RpcReply \<Rightarrow> 'a option) \<Rightarrow> RpcRequest \<Rightarrow> bfx \<Rightarrow> ('a \<times> bfx) option" where
  "bfx_rpc want req x = do {
     (r, w) \<leftarrow> rpc_expect want req (io_world (x_io x));
     Some (r, x\<lparr>x_io := (x_io x)\<lparr>io_world := w\<rparr>\<rparr>)
   }"

section \<open>Outputs and quotes\<close>

definition free_reservation :: "OrderId \<Rightarrow> Utxos \<Rightarrow> Utxos" where
  "free_reservation order_id utxos =
     bt_map_values (\<lambda>utxo. if u_reserve utxo = Some order_id then utxo\<lparr>u_reserve := None\<rparr> else utxo) utxos"

definition bitcoin_ratio :: "UnspentItem list \<Rightarrow> Price \<Rightarrow> Asset list \<Rightarrow> f64" where
  "bitcoin_ratio unspent_with_zc price assets =
     (let (bitcoin_amt, tether_amt) = fold (\<lambda>utxo (b, t).
            case find (\<lambda>asset. a_asset_id asset = ui_asset utxo) assets of
              None \<Rightarrow> (b, t)
            | Some asset \<Rightarrow> if a_ticker asset = TICKER_LBTC then (amount_add b (ui_amount utxo), t)
                else if a_ticker asset = TICKER_USDT then (b, amount_add t (ui_amount utxo)) else (b, t))
            unspent_with_zc (0, 0);
          expected_tether_price = f64_div (f64_add (mp_ask price) (mp_bid price)) (f64_lit 2);
          bitcoin_amount_from_tether = from_bitcoin (f64_div (to_bitcoin tether_amt) expected_tether_price);
          total_bitcoin_amount = amount_add bitcoin_amt bitcoin_amount_from_tether
      in if total_bitcoin_amount = 0 then F_fin 0
         else f64_div (to_bitcoin bitcoin_amt) (to_bitcoin total_bitcoin_amount))"

definition get_exchange_balance :: "ExchangeBalances \<Rightarrow> ExchangeTicker \<Rightarrow> int" where
  "get_exchange_balance exchange_balances name = from_bitcoin (f64_mul (bal_get exchange_balances name) BF_RESERVE)"

text \<open>The price the quote is made at, cast to an integer.\<close>

definition quote_price :: "bool \<Rightarrow> Price \<Rightarrow> f64 \<Rightarrow> int" where
  "quote_price send_bitcoin module_price interest =
     (if send_bitcoin then f64_as_i64 (f64_mul (mp_bid module_price) interest)
      else f64_as_i64 (f64_div (mp_ask module_price) interest))"

definition quote_proposal :: "bool \<Rightarrow> int \<Rightarrow> Price \<Rightarrow> f64 \<Rightarrow> int option" where
  "quote_proposal send_bitcoin send_amount module_price interest =
     (let p = quote_price send_bitcoin module_price interest
      in if send_bitcoin then i64_div send_amount p else Some (i64_mul send_amount p))"

definition exchange_balance_low :: "Args \<Rightarrow> ExchangeBalances \<Rightarrow> bool \<Rightarrow> Ticker \<Rightarrow> int \<Rightarrow> int \<Rightarrow> bool" where
  "exchange_balance_low args exchange_balances send_bitcoin ticker bitcoin_amount asset_amount =
     (let low_btc = \<not> send_bitcoin \<and> get_exchange_balance exchange_balances (g_bitfinex_currency_btc args) < bitcoin_amount;
          low_usdt = send_bitcoin \<and> ticker = TICKER_USDT \<and>
            get_exchange_balance exchange_balances (g_bitfinex_currency_usdt args) < asset_amount;
          low_eurx = send_bitcoin \<and> ticker = TICKER_EURX \<and>
            get_exchange_balance exchange_balances (g_bitfinex_currency_eur args) < asset_amount \<and> is_mainnet (g_env args)
      in low_btc \<or> low_usdt \<or> low_eurx)"

definition get_new_quote ::
  "Asset list \<Rightarrow> Price option \<Rightarrow> ActiveSwap \<Rightarrow> Utxos \<Rightarrow> ServerStatus \<Rightarrow> f64 \<Rightarrow> Args \<Rightarrow> ExchangeBalances \<Rightarrow>
   (RfqRejectReason + Quote) option" where
  "get_new_quote assets module_price active_swap utxos server_status interest args exchange_balances =
     (let send_bitcoin = as_send_bitcoin active_swap; rfq = as_rfq active_swap in do {
        asset_send \<leftarrow> find (\<lambda>v. a_asset_id v = rfq_recv_asset rfq) assets;
        asset_recv \<leftarrow> find (\<lambda>v. a_asset_id v = rfq_send_asset rfq) assets;
        _ \<leftarrow> rust_assert (a_ticker asset_send = TICKER_LBTC \<or> a_ticker asset_recv = TICKER_LBTC);
        let other_asset = (if send_bitcoin then asset_recv else asset_send);
        (if find (\<lambda>ticker. ticker = a_ticker other_asset) DEALER_TICKERS = None then Some (Inl Rfq_NoDealer)
         else case module_price of
             None \<Rightarrow> Some (Inl Rfq_ServerError)
           | Some module_price \<Rightarrow> do {
               proposal \<leftarrow> quote_proposal send_bitcoin (rfq_send_amount rfq) module_price interest;
               let (bitcoin_amount, asset_amount) = (if send_bitcoin then (proposal, rfq_send_amount rfq)
                     else (rfq_send_amount rfq, proposal));
               (if proposal \<le> 0 then Some (Inl Rfq_AmountLow)
                else if exchange_balance_low args exchange_balances send_bitcoin (a_ticker other_asset) bitcoin_amount asset_amount
                then Some (Inl Rfq_AmountHigh)
                else
                  let asset_utxos = filter (\<lambda>utxo. ui_asset (u_item utxo) = a_asset_id asset_send \<and> u_reserve utxo = None) (bt_values utxos);
                      utxos_amounts = map u_amount asset_utxos;
                      tot = i64_sum utxos_amounts
                  in if tot = 0 then Some (Inl Rfq_NoDealer)
                     else if tot < proposal then Some (Inl Rfq_AmountHigh)
                     else do {
                       selected \<leftarrow> select_utxo utxos_amounts proposal;
                       let selected_amount = i64_sum selected;
                       let change_amount = i64_sub selected_amount proposal;
                       _ \<leftarrow> rust_assert (0 \<le> change_amount);
                       let vin_count = wrap_i32 (rfq_utxo_count rfq + wrap_i32 (int (length selected)));
                       let vout_count = 2 + of_bool (rfq_with_change rfq) + of_bool (0 < change_amount);
                       let expected_fee = expected_network_fee vin_count vout_count (ss_elements_fee_rate server_status);
                       picked \<leftarrow> pick_utxos u_amount selected asset_utxos [];
                       let selected_utxos = map (\<lambda>utxo. \<lparr>txo_txid = ui_txid (u_item utxo), txo_vout = ui_vout (u_item utxo)\<rparr>) picked;
                       (if send_bitcoin
                        then Some (Inr \<lparr>q_proposal = proposal, q_change_amount = change_amount, q_txouts = selected_utxos\<rparr>)
                        else
                          let corrected_proposal = i64_mul (i64_sub (rfq_send_amount rfq) expected_fee)
                                (quote_price send_bitcoin module_price interest);
                              corrected_change = i64_sub selected_amount corrected_proposal
                          in if corrected_proposal \<le> 0 then Some (Inl Rfq_AmountLow)
                             else Some (Inr \<lparr>q_proposal = corrected_proposal, q_change_amount = corrected_change, q_txouts = selected_utxos\<rparr>))
                     })
             })
      })"

definition get_exchange_ticker :: "ExchangeTicker \<Rightarrow> Args \<Rightarrow> DealerTicker option" where
  "get_exchange_ticker ticker args =
     (if ticker = g_bitfinex_currency_btc args then Some TICKER_LBTC
      else if ticker = g_bitfinex_currency_usdt args then Some TICKER_USDT
      else if ticker = g_bitfinex_currency_eur args then Some TICKER_EURX
      else None)"

section \<open>Hedging\<close>

definition book_names :: "Args \<Rightarrow> (DealerTicker, string) btree" where
  "book_names args = bt_from_list [(TICKER_USDT, g_bitfinex_bookname_usdt args), (TICKER_EURX, g_bitfinex_bookname_eurx args)]"

definition book_tickers :: "Args \<Rightarrow> (string, DealerTicker) btree" where
  "book_tickers args = bt_from_list (map (\<lambda>(ticker, book). (book, ticker)) (book_names args))"

text \<open>The amount of the exchange order that undoes a swap: what is sold is bought with the fee on top.\<close>

definition hedge_amount :: "Args \<Rightarrow> amount \<Rightarrow> bool \<Rightarrow> f64" where
  "hedge_amount args bitcoin_amount send_bitcoins =
     (let bf_fee = (if is_mainnet (g_env args) then BITFINEX_FEE_PROD else BITFINEX_FEE_TEST)
      in if send_bitcoins then to_bitcoin (from_bitcoin (f64_div (to_bitcoin bitcoin_amount) (f64_sub (f64_lit 1) bf_fee)))
         else f64_neg (to_bitcoin bitcoin_amount))"

definition hedge_order :: "Args \<Rightarrow> int \<Rightarrow> int \<Rightarrow> DealerTicker \<Rightarrow> amount \<Rightarrow> bool \<Rightarrow> bfx \<Rightarrow> bfx option" where
  "hedge_order args now sys_now dealer_ticker bitcoin_amount send_bitcoins x =
     (let x = x\<lparr>x_balancing_blocked := now\<rparr> in
      if f64_le MIN_HEDGE_AMOUNT (to_bitcoin bitcoin_amount)
      then do {
        let x = x\<lparr>x_profit_reports := Some \<lparr>pf_wallet_balances = x_wallet_balances x,
              pf_exchange_balances = x_exchange_balances x, pf_created_at = now\<rparr>\<rparr>;
        cid \<leftarrow> timestamp_now sys_now;
        bookname \<leftarrow> bt_get (book_names args) dealer_ticker;
        let x = bfx_module (TM_OrderSubmit bookname cid (hedge_amount args bitcoin_amount send_bitcoins)) x;
        Some (x\<lparr>x_pending_orders := bt_insert cid now (x_pending_orders x)\<rparr>)
      }
      else Some x)"

section \<open>Before each message\<close>

fun want_price_broadcast :: "Response \<Rightarrow> unit option" where
  "want_price_broadcast Resp_PriceUpdateBroadcast = Some ()" | "want_price_broadcast _ = None"
fun want_match_quote :: "Response \<Rightarrow> unit option" where
  "want_match_quote Resp_MatchQuote = Some ()" | "want_match_quote _ = None"
fun want_login_dealer :: "Response \<Rightarrow> unit option" where
  "want_login_dealer Resp_LoginDealer = Some ()" | "want_login_dealer _ = None"
fun want_server_status :: "Response \<Rightarrow> ServerStatus option" where
  "want_server_status (Resp_ServerStatus s) = Some s" | "want_server_status _ = None"
fun want_swap :: "Response \<Rightarrow> unit option" where
  "want_swap Resp_Swap = Some ()" | "want_swap _ = None"

definition broadcast_price :: "Args \<Rightarrow> int \<Rightarrow> DealerTicker \<times> Price \<Rightarrow> bfx \<Rightarrow> bfx option" where
  "broadcast_price args now entry x =
     (let (ticker, module_price) = entry;
          expired = (case bt_get (x_broadcast_timestamps x) ticker of None \<Rightarrow> True | Some t \<Rightarrow> seconds 1 < now - t)
      in if expired \<and> x_server_connected x
         then do {
           asset \<leftarrow> find (\<lambda>v. a_ticker v = ticker) (x_assets x);
           let price_new = \<lparr>pp_bid = f64_div (mp_bid module_price) INTEREST_DEFAULT, pp_ask = f64_mul (mp_ask module_price) INTEREST_DEFAULT\<rparr>;
           x \<leftarrow> (if g_api_key args \<noteq> None
                then map_option snd (bfx_request want_price_broadcast (Req_PriceUpdateBroadcast (a_asset_id asset) price_new) x)
                else Some x);
           Some (x\<lparr>x_broadcast_timestamps := bt_insert ticker now (x_broadcast_timestamps x)\<rparr>)
         }
         else Some x)"

fun prune_quotes :: "int \<Rightarrow> QuoteTimestamp list \<Rightarrow> QuoteTimestamp list" where
  "prune_quotes now (q # q' # qs) =
     (if ACCEPT_GRACE_PERIOD < now - qt_timestamp q' then prune_quotes now (q' # qs) else q # q' # qs)"
| "prune_quotes now qs = qs"

definition quote_request :: "RfqRejectReason + Quote \<Rightarrow> RfqRejectReason + MatchQuote" where
  "quote_request quote_new = map_sum id (\<lambda>v. \<lparr>mq_send_amount = q_proposal v,
     mq_utxo_count = wrap_i32 (int (length (q_txouts v))), mq_with_change = 0 < q_change_amount v\<rparr>) quote_new"

definition send_quote :: "Args \<Rightarrow> int \<Rightarrow> (OrderId \<Rightarrow> int) \<Rightarrow> OrderId \<times> ActiveSwap \<Rightarrow> bfx \<Rightarrow> bfx option" where
  "send_quote args now answered entry x =
     (let (order_id, active_swap) = entry in
      if as_accepted active_swap then Some x
      else do {
        let module_price = Option.bind (as_ticker active_swap) (bt_get (x_module_prices x));
        server_status \<leftarrow> x_server_status x;
        quote_new \<leftarrow> get_new_quote (x_assets x) module_price active_swap (x_utxos x) server_status INTEREST_DEFAULT args (x_exchange_balances x);
        (if as_quote_last active_swap = quote_new then Some x
         else if now - as_last_updated active_swap < seconds 1 \<and> is_ok (as_quote_last active_swap) \<and> is_ok quote_new then Some x
         else do {
           (quote_result, x) \<leftarrow> bfx_request want_match_quote (Req_MatchQuote order_id (quote_request quote_new)) x;
           (case quote_result of
              Inl e \<Rightarrow> Some x
            | Inr _ \<Rightarrow>
                let now = answered order_id;
                    quotes_old = (case quote_new of Inl e \<Rightarrow> as_quotes_old active_swap
                      | Inr v \<Rightarrow> as_quotes_old active_swap @ [\<lparr>qt_quote = v, qt_timestamp = now\<rparr>])
                in Some (x\<lparr>x_swaps := bt_insert order_id (active_swap\<lparr>as_quotes_old := prune_quotes now quotes_old,
                     as_quote_last := quote_new, as_last_updated := now\<rparr>) (x_swaps x)\<rparr>))
         })
      })"

section \<open>Handlers\<close>

definition bfx_connected :: "Args \<Rightarrow> bfx \<Rightarrow> bfx option" where
  "bfx_connected args x = do {
     let x = bfx_notify (SL_text ''connected to the server'') x;
     x \<leftarrow> (case g_api_key args of None \<Rightarrow> Some x
       | Some api_key \<Rightarrow> do {
           (r, x) \<leftarrow> bfx_request want_login_dealer (Req_LoginDealer api_key) x;
           _ \<leftarrow> expect_ok r;
           Some x
         });
     (r, x) \<leftarrow> bfx_request want_assets (Req_Assets (Some False)) x;
     assets \<leftarrow> expect_ok r;
     let x = x\<lparr>x_assets := assets\<rparr>;
     (r, x) \<leftarrow> bfx_request want_login (Req_Login None) x;
     (_, orders) \<leftarrow> expect_ok r;
     let x = x\<lparr>x_orders := fold (\<lambda>order m. bt_insert (oc_order_id order) order m) orders (x_orders x)\<rparr>;
     (r, x) \<leftarrow> bfx_request want_server_status Req_ServerStatus x;
     status \<leftarrow> expect_ok r;
     Some (bfx_enqueue X_ReloadUtxo (x\<lparr>x_server_status := Some status, x_server_connected := True\<rparr>))
   }"

definition bfx_disconnected :: "bfx \<Rightarrow> bfx" where
  "bfx_disconnected x =
     (let x = bfx_notify (SL_text ''disconnected from the server'') x
      in x\<lparr>x_server_connected := False, x_swaps := [],
          x_utxos := bt_map_values (\<lambda>utxo. utxo\<lparr>u_reserve := None\<rparr>) (x_utxos x)\<rparr>)"

definition rfq_created :: "int \<Rightarrow> OrderId \<Rightarrow> MatchRfq \<Rightarrow> bfx \<Rightarrow> bfx option" where
  "rfq_created now order_id rfq x = do {
     asset_send \<leftarrow> find (\<lambda>v. a_asset_id v = rfq_recv_asset rfq) (x_assets x);
     asset_recv \<leftarrow> find (\<lambda>v. a_asset_id v = rfq_send_asset rfq) (x_assets x);
     let send_bitcoin = (a_ticker asset_send = TICKER_LBTC);
     let other_asset = (if send_bitcoin then asset_recv else asset_send);
     let dealer_ticker = find (\<lambda>ticker. ticker = a_ticker other_asset) DEALER_TICKERS;
     Some (x\<lparr>x_swaps := bt_insert order_id \<lparr>as_ticker = dealer_ticker, as_rfq = rfq, as_send_bitcoin = send_bitcoin,
       as_quote_last = Inl Rfq_ServerError, as_quotes_old = [], as_swap = None, as_accepted = False, as_last_updated = now\<rparr> (x_swaps x)\<rparr>)
   }"

definition rfq_removed :: "OrderId \<Rightarrow> RfqStatus \<Rightarrow> bfx \<Rightarrow> bfx option" where
  "rfq_removed order_id status x =
     (if status = Rfq_Accepted then do {
        active_swap \<leftarrow> bt_get (x_swaps x) order_id;
        Some (x\<lparr>x_swaps := bt_insert order_id (active_swap\<lparr>as_accepted := True\<rparr>) (x_swaps x)\<rparr>)
      }
      else Some (x\<lparr>x_swaps := bt_remove order_id (x_swaps x)\<rparr>))"

text \<open>The first entry with the identifiers of the output is reserved for the order.\<close>

fun reserve_txout :: "OrderId \<Rightarrow> TxOut \<Rightarrow> Utxos \<Rightarrow> Utxos option" where
  "reserve_txout order_id txout [] = None"
| "reserve_txout order_id txout ((k, utxo) # utxos) =
     (if ui_txid (u_item utxo) = txo_txid txout \<and> ui_vout (u_item utxo) = txo_vout txout
      then Some ((k, utxo\<lparr>u_reserve := Some order_id\<rparr>) # utxos)
      else map_option (\<lambda>utxos. (k, utxo) # utxos) (reserve_txout order_id txout utxos))"

definition swap_wait_psbt :: "(int \<Rightarrow> string) \<Rightarrow> OrderId \<Rightarrow> Swap \<Rightarrow> bfx \<Rightarrow> bfx option" where
  "swap_wait_psbt btc_str order_id sw x = do {
     active_swap \<leftarrow> bt_get (x_swaps x) order_id;
     qt \<leftarrow> find (\<lambda>item. q_proposal (qt_quote item) = sw_send_amount sw) (rev (as_quotes_old active_swap));
     let quote = qt_quote qt;
     utxos \<leftarrow> foldM (reserve_txout order_id) (q_txouts quote) (x_utxos x);
     let x = x\<lparr>x_utxos := utxos, x_swaps := bt_insert order_id (active_swap\<lparr>as_swap := Some sw\<rparr>) (x_swaps x)\<rparr>;
     (new_address, x) \<leftarrow> bfx_rpc want_string get_new_address x;
     let inputs = map (\<lambda>utxo. tx_out (u_item utxo)) (filter (\<lambda>utxo. u_reserve utxo = Some order_id) (bt_values (x_utxos x)));
     let outputs_amounts = bt_insert new_address (J_str (btc_str (sw_recv_amount sw))) [];
     let outputs_assets = bt_insert new_address (sw_recv_asset sw) [];
     (outputs_amounts, outputs_assets, x) \<leftarrow>
       (if 0 < q_change_amount quote then do {
          (change_address, x) \<leftarrow> bfx_rpc want_string get_new_address x;
          Some (bt_insert change_address (J_str (btc_str (q_change_amount quote))) outputs_amounts,
                bt_insert change_address (sw_send_asset sw) outputs_assets, x)
        }
        else Some (outputs_amounts, outputs_assets, x));
     (raw_tx, x) \<leftarrow> bfx_rpc want_string (create_raw_tx inputs outputs_amounts 0 False outputs_assets) x;
     (psbt, x) \<leftarrow> bfx_rpc want_string (convert_to_psbt raw_tx) x;
     (psbt, x) \<leftarrow> bfx_rpc want_psbt (fill_psbt_data psbt) x;
     (r, x) \<leftarrow> bfx_request want_swap (Req_Swap order_id (SA_Psbt psbt)) x;
     _ \<leftarrow> expect_ok r;
     Some x
   }"

definition swap_wait_sign :: "OrderId \<Rightarrow> string \<Rightarrow> bfx \<Rightarrow> bfx option" where
  "swap_wait_sign order_id psbt x = do {
     (psbt, x) \<leftarrow> bfx_rpc want_psbt (wallet_sign_psbt psbt) x;
     (r, x) \<leftarrow> bfx_request want_swap (Req_Swap order_id (SA_Sign psbt)) x;
     _ \<leftarrow> expect_ok r;
     Some x
   }"

definition swap_done :: "Args \<Rightarrow> int \<Rightarrow> int \<Rightarrow> ActiveSwap \<Rightarrow> bfx \<Rightarrow> bfx option" where
  "swap_done args now sys_now active_swap x = do {
     sw \<leftarrow> as_swap active_swap;
     dealer_ticker \<leftarrow> as_ticker active_swap;
     let bitcoin_amount = (if as_send_bitcoin active_swap then sw_send_amount sw else sw_recv_amount sw);
     hedge_order args now sys_now dealer_ticker bitcoin_amount (as_send_bitcoin active_swap) x
   }"

definition bfx_swap :: "Args \<Rightarrow> (int \<Rightarrow> string) \<Rightarrow> int \<Rightarrow> int \<Rightarrow> OrderId \<Rightarrow> SwapState \<Rightarrow> bfx \<Rightarrow> bfx option" where
  "bfx_swap args btc_str now sys_now order_id state x = do {
     active_swap \<leftarrow> bt_get (x_swaps x) order_id;
     (case state of
        SS_WaitPsbt sw \<Rightarrow> swap_wait_psbt btc_str order_id sw x
      | SS_WaitSign psbt \<Rightarrow> swap_wait_sign order_id psbt x
      | SS_Failed e \<Rightarrow> Some (x\<lparr>x_utxos := free_reservation order_id (x_utxos x), x_swaps := bt_remove order_id (x_swaps x)\<rparr>)
      | SS_Done txid \<Rightarrow> swap_done args now sys_now active_swap x)
   }"

definition bfx_notification :: "Args \<Rightarrow> (int \<Rightarrow> string) \<Rightarrow> int \<Rightarrow> int \<Rightarrow> Notification \<Rightarrow> bfx \<Rightarrow> bfx option" where
  "bfx_notification args btc_str now sys_now n x =
     (case n of
        Notif_RfqCreated order_id rfq \<Rightarrow> rfq_created now order_id rfq x
      | Notif_RfqRemoved order_id status \<Rightarrow> rfq_removed order_id status x
      | Notif_Swap order_id state \<Rightarrow> bfx_swap args btc_str now sys_now order_id state x
      | Notif_ServerStatus status \<Rightarrow> Some (x\<lparr>x_server_status := Some status\<rparr>)
      | Notif_OrderCreated order \<Rightarrow>
          if oc_own order = None
          then Some (bfx_enqueue X_Timer (x\<lparr>x_orders := bt_insert (oc_order_id order) order (x_orders x)\<rparr>))
          else Some x
      | Notif_OrderRemoved order_id \<Rightarrow> Some (x\<lparr>x_orders := bt_remove order_id (x_orders x)\<rparr>)
      | _ \<Rightarrow> Some x)"

text \<open>Balances of the confirmed outputs; an asset with unconfirmed outputs only has balance zero.\<close>

definition sum_confirmed_amounts :: "UnspentItem list \<Rightarrow> (string, f64) btree" where
  "sum_confirmed_amounts items = fold (\<lambda>item m.
     let old = (case bt_get m (ui_asset item) of None \<Rightarrow> F_fin 0 | Some v \<Rightarrow> v)
     in bt_insert (ui_asset item) (if 0 < ui_confirmations item then f64_add old (to_bitcoin (ui_amount item)) else old) m) items []"

definition update_bitcoin_ratio :: "UnspentItem list \<Rightarrow> bfx \<Rightarrow> bfx" where
  "update_bitcoin_ratio items x =
     (case bt_get (x_module_prices x) TICKER_USDT of
        None \<Rightarrow> x
      | Some price \<Rightarrow>
          if x_assets x = [] then x
          else let ratio = bitcoin_ratio items price (x_assets x);
                   send_update = (case x_bitcoin_ratio_old x of
                       Some v \<Rightarrow> f64_le MAX_RATIO_UPDATE_NOTIFICATION (f64_abs (f64_sub v ratio)) | None \<Rightarrow> True)
               in if send_update then x\<lparr>x_bitcoin_ratio_old := Some ratio\<rparr> else x)"

definition bfx_reload_utxo :: "bfx \<Rightarrow> bfx option" where
  "bfx_reload_utxo x = do {
     (items, x) \<leftarrow> bfx_rpc want_unspent (listunspent 0) x;
     let wallet_balances_new = convert_balances (x_assets x) (sum_asset_amounts items);
     let x = x\<lparr>x_wallet_balances_confirmed := convert_balances (x_assets x) (sum_confirmed_amounts items)\<rparr>;
     let x = (if balances_eq (x_wallet_balances x) wallet_balances_new then x
              else bfx_notify (SL_balances ''ss: '' wallet_balances_new) (x\<lparr>x_wallet_balances := wallet_balances_new\<rparr>));
     let x = update_bitcoin_ratio items x;
     Some (x\<lparr>x_utxos := reload_utxos items (x_utxos x)\<rparr>)
   }"

definition bfx_module_connected :: "Args \<Rightarrow> bfx \<Rightarrow> bfx" where
  "bfx_module_connected args x =
     (let x = bfx_notify (SL_text ''module connection online'') (x\<lparr>x_module_connected := True\<rparr>);
          x = bfx_module (TM_Login (g_bitfinex_key args) (g_bitfinex_secret args)) x;
          x = fold (\<lambda>book_name. bfx_module (TM_Subscribe book_name)) (bt_values (book_names args)) x
      in bfx_enqueue X_CheckExchange x)"

definition bfx_module_disconnected :: "bfx \<Rightarrow> bfx" where
  "bfx_module_disconnected x =
     (let x = bfx_notify (SL_text ''module connection offline'') (x\<lparr>x_module_connected := False\<rparr>)
      in fold (\<lambda>ticker. bfx_dealer (To_Price ticker None)) [TICKER_EURX, TICKER_USDT] (x\<lparr>x_module_prices := []\<rparr>))"

definition book_update :: "Args \<Rightarrow> int \<Rightarrow> string \<Rightarrow> f64 \<Rightarrow> f64 \<Rightarrow> bfx \<Rightarrow> bfx option" where
  "book_update args now book_name bid ask x = do {
     ticker \<leftarrow> bt_get (book_tickers args) book_name;
     let old_module_price = bt_get (x_module_prices x) ticker;
     let x = x\<lparr>x_module_prices := bt_insert ticker \<lparr>mp_bid = bid, mp_ask = ask, mp_timestamp = now\<rparr> (x_module_prices x)\<rparr>;
     let x = bfx_dealer (To_Price ticker (Some \<lparr>pp_bid = bid, pp_ask = ask\<rparr>)) x;
     Some (if old_module_price = None then bfx_notify (SL_price ''module price refreshed'' ask bid ticker) x else x)
   }"

definition wallet_update :: "Args \<Rightarrow> string \<Rightarrow> f64 \<Rightarrow> bfx \<Rightarrow> bfx" where
  "wallet_update args currency balance x =
     (let old_balance = bt_get (x_exchange_balances x) currency
      in if (case old_balance of None \<Rightarrow> False | Some b \<Rightarrow> f64_eq b balance) then x
         else let x = (case get_exchange_ticker currency args of
                    None \<Rightarrow> x
                  | Some ticker \<Rightarrow> bfx_dealer (To_LimitBalance ticker True (f64_mul balance BF_RESERVE)) x);
                  x = x\<lparr>x_exchange_balances := bt_insert currency balance (x_exchange_balances x)\<rparr>
              in if old_balance \<noteq> None then bfx_enqueue X_CheckExchange x else x)"

definition with_balancing :: "bfx \<Rightarrow> (Storage \<times> bal_io) option \<Rightarrow> bfx option" where
  "with_balancing x r = map_option (\<lambda>(storage, io). x\<lparr>x_storage := storage, x_io := io\<rparr>) r"

fun bfx_module_message :: "Args \<Rightarrow> int \<Rightarrow> int \<Rightarrow> FromModule \<Rightarrow> bfx \<Rightarrow> bfx option" where
  "bfx_module_message args now sys_now (FM_BookUpdate book_name bid ask) x = book_update args now book_name bid ask x"
| "bfx_module_message args now sys_now (FM_OrderConfirm book_name cid i amt price) x =
     Some (x\<lparr>x_pending_orders := bt_remove cid (x_pending_orders x)\<rparr>)"
| "bfx_module_message args now sys_now (FM_WalletUpdate currency balance) x = Some (wallet_update args currency balance x)"
| "bfx_module_message args now sys_now (FM_Withdraw withdraw_id) x =
     with_balancing x (process_withdraw sys_now withdraw_id (x_storage x) (x_io x))"
| "bfx_module_message args now sys_now (FM_Movements msg) x =
     map_option (\<lambda>((movements, storage), io). x\<lparr>x_movements := movements, x_storage := storage, x_io := io\<rparr>)
       (process_movements sys_now msg (x_movements x) (x_storage x) (x_io x))"
| "bfx_module_message args now sys_now (FM_Transfer success) x =
     with_balancing x (process_transfer sys_now success (x_storage x) (x_io x))"
| "bfx_module_message args now sys_now (FM_Error e) x = Some (bfx_notify (SL_text (''module failed: '' @ e)) x)"

section \<open>The timer\<close>

definition balancing_expired :: "int \<Rightarrow> Storage \<Rightarrow> bool option" where
  "balancing_expired sys_now storage =
     (case s_balancing storage of
        None \<Rightarrow> Some False
      | Some balancing \<Rightarrow> if sys_now < tr_created_at balancing then None
          else Some (seconds (30 * 60) < sys_now - tr_created_at balancing))"

definition health_status :: "Args \<Rightarrow> bool \<Rightarrow> bfx \<Rightarrow> string list" where
  "health_status args stuck x =
     map snd (filter fst
       [(\<not> x_module_connected x, ''ServerOffline''),
        (\<not> x_server_connected x, ''ModuleOffline''),
        (length (x_module_prices x) \<noteq> length DEALER_TICKERS, ''PriceExpired''),
        (f64_lt (bal_get (x_wallet_balances x) TICKER_LBTC) MIN_BALANCE_BITCOIN, ''WalletBitcoinLow''),
        (f64_lt (bal_get (x_exchange_balances x) (g_bitfinex_currency_btc args)) MIN_BALANCE_BITCOIN, ''ExchangeBitcoinLow''),
        (f64_lt (bal_get (x_wallet_balances x) TICKER_USDT) MIN_BALANCE_TETHER, ''WalletTetherLow''),
        (f64_lt (bal_get (x_exchange_balances x) (g_bitfinex_currency_usdt args)) MIN_BALANCE_TETHER, ''ExchangeTetherLow''),
        (stuck, ''BalancingStuck'')])"

fun join_comma :: "string list \<Rightarrow> string" where
  "join_comma [] = []"
| "join_comma [s] = s"
| "join_comma (s # ss) = s @ '','' @ join_comma ss"

definition start_balancing :: "Args \<Rightarrow> int \<Rightarrow> bfx \<Rightarrow> bfx option" where
  "start_balancing args now x =
     (if s_balancing (x_storage x) = None \<and> is_mainnet (g_env args) \<and> seconds 60 < now - x_balancing_blocked x \<and> g_balancing_enabled args
      then do {
        balance_bitcoin \<leftarrow> get_balancing (bal_get (x_wallet_balances x) TICKER_LBTC)
          (bal_get (x_exchange_balances x) (g_bitfinex_currency_btc args)) RATIO_BTC;
        balance_usdt \<leftarrow> get_balancing (bal_get (x_wallet_balances x) TICKER_USDT)
          (bal_get (x_exchange_balances x) (g_bitfinex_currency_usdt args)) RATIO_USDT;
        Some (case balance_bitcoin of
            Bal_Recv amt \<Rightarrow> bfx_enqueue (X_Cli (TestRecvBtc amt) False) x
          | Bal_Send amt \<Rightarrow> bfx_enqueue (X_Cli (TestSendBtc amt) False) x
          | Bal_None \<Rightarrow> (case balance_usdt of
                Bal_Recv amt \<Rightarrow> bfx_enqueue (X_Cli (TestRecvUsdt amt) False) x
              | Bal_Send amt \<Rightarrow> bfx_enqueue (X_Cli (TestSendUsdt amt) False) x
              | Bal_None \<Rightarrow> x))
      }
      else Some x)"

definition expire_module_price :: "int \<Rightarrow> DealerTicker \<Rightarrow> bfx \<Rightarrow> bfx" where
  "expire_module_price now ticker x =
     (case bt_get (x_module_prices x) ticker of
        None \<Rightarrow> x
      | Some price \<Rightarrow>
          if PRICE_EXPIRED < now - mp_timestamp price
          then bfx_dealer (To_Price ticker None) ((bfx_notify (SL_text (''module price expired for '' @ ticker)) x)
                 \<lparr>x_module_prices := bt_remove ticker (x_module_prices x)\<rparr>)
          else x)"

definition report_exchange_balances :: "bfx \<Rightarrow> bfx" where
  "report_exchange_balances x =
     (if balances_eq (x_exchange_balances_reported x) (x_exchange_balances x) then x
      else bfx_notify (SL_balances ''bf: '' (x_exchange_balances x)) (x\<lparr>x_exchange_balances_reported := x_exchange_balances x\<rparr>))"

definition check_exchange_due :: "int \<Rightarrow> bfx \<Rightarrow> bfx" where
  "check_exchange_due now x =
     (if seconds 60 < now - x_latest_check_exchange x
      then bfx_enqueue X_CheckExchange (x\<lparr>x_latest_check_exchange := now\<rparr>) else x)"

text \<open>The change of a total over the wallet and the exchange, summed from left to right.\<close>

definition balance_change :: "f64 \<Rightarrow> f64 \<Rightarrow> f64 \<Rightarrow> f64 \<Rightarrow> f64" where
  "balance_change wallet exchange wallet_old exchange_old = f64_sub (f64_sub (f64_add wallet exchange) wallet_old) exchange_old"

definition report_profit :: "Args \<Rightarrow> int \<Rightarrow> bfx \<Rightarrow> bfx" where
  "report_profit args now x =
     (let x = (case x_profit_reports x of
            Some data \<Rightarrow> if seconds 60 < now - pf_created_at data then x\<lparr>x_profit_reports := None\<rparr> else x | None \<Rightarrow> x)
      in case x_profit_reports x of
           None \<Rightarrow> x
         | Some data \<Rightarrow>
             let w = bal_get (x_wallet_balances x); e = bal_get (x_exchange_balances x);
                 w_old = bal_get (pf_wallet_balances data); e_old = bal_get (pf_exchange_balances data);
                 btc = g_bitfinex_currency_btc args; usdt = g_bitfinex_currency_usdt args; eur = g_bitfinex_currency_eur args;
                 updated = (\<lambda>tw te. \<not> f64_eq (w tw) (w_old tw) \<and> \<not> f64_eq (e te) (e_old te));
                 change = (\<lambda>tw te. balance_change (w tw) (e te) (w_old tw) (e_old te))
             in if updated TICKER_LBTC btc \<and> (updated TICKER_USDT usdt \<or> updated TICKER_EURX eur)
                then (bfx_notify (SL_profit (change TICKER_LBTC btc) (change TICKER_USDT usdt) (change TICKER_EURX eur)) x)
                       \<lparr>x_profit_reports := None\<rparr>
                else x)"

definition expire_pending_orders :: "int \<Rightarrow> bfx \<Rightarrow> bfx" where
  "expire_pending_orders now x =
     fold (\<lambda>cid x. (bfx_notify (SL_timeout cid) x)\<lparr>x_pending_orders := bt_remove cid (x_pending_orders x)\<rparr>)
       (map fst (filter (\<lambda>(cid, timestamp). seconds 30 < now - timestamp) (x_pending_orders x))) x"

definition bfx_timer :: "Args \<Rightarrow> int \<Rightarrow> int \<Rightarrow> bfx \<Rightarrow> bfx option" where
  "bfx_timer args now sys_now x = do {
     stuck \<leftarrow> balancing_expired sys_now (x_storage x);
     let status = health_status args stuck x;
     let x = x\<lparr>x_health_text := (if status = [] then None else Some (join_comma status))\<rparr>;
     x \<leftarrow> start_balancing args now x;
     let x = fold (expire_module_price now) DEALER_TICKERS x;
     let x = report_exchange_balances x;
     x \<leftarrow> with_balancing x (process_balancing args sys_now (x_wallet_balances_confirmed x) (x_exchange_balances x)
            (x_module_connected x) (x_assets x) (x_storage x) (x_io x));
     let x = check_exchange_due now x;
     let x = report_profit args now x;
     Some (expire_pending_orders now x)
   }"

definition bfx_cli :: "int \<Rightarrow> CliRequest \<Rightarrow> bool \<Rightarrow> bfx \<Rightarrow> bfx" where
  "bfx_cli sys_now req wait x =
     (let ((movements, storage), resp, io) = handle_cli sys_now req (x_movements x) (x_storage x) (x_io x)
      in x\<lparr>x_movements := movements, x_storage := storage, x_io := io,
           x_cli_responses := (if wait then x_cli_responses x @ [resp] else x_cli_responses x)\<rparr>)"

definition bfx_check_exchange :: "Args \<Rightarrow> bfx \<Rightarrow> bfx option" where
  "bfx_check_exchange args x =
     (case s_balancing (x_storage x) of
        None \<Rightarrow> Some x
      | Some balancing \<Rightarrow>
          if \<not> x_module_connected x then Some x
          else let start = tr_created_at balancing - seconds 10
               in if start < 0 then None
                  else Some (bfx_module (TM_Movements (g_bitfinex_key args) (g_bitfinex_secret args)
                         (Some (wrap_i64 (start div 10 ^ 6))) None None) x))"

fun bfx_handle :: "Args \<Rightarrow> (int \<Rightarrow> string) \<Rightarrow> int \<Rightarrow> int \<Rightarrow> BMsg \<Rightarrow> bfx \<Rightarrow> bfx option" where
  "bfx_handle args btc_str now sys_now X_Connected x = bfx_connected args x"
| "bfx_handle args btc_str now sys_now X_Disconnected x = Some (bfx_disconnected x)"
| "bfx_handle args btc_str now sys_now (X_Notification n) x = bfx_notification args btc_str now sys_now n x"
| "bfx_handle args btc_str now sys_now X_ReloadUtxo x = bfx_reload_utxo x"
| "bfx_handle args btc_str now sys_now X_ModuleConnected x = Some (bfx_module_connected args x)"
| "bfx_handle args btc_str now sys_now X_ModuleDisconnected x = Some (bfx_module_disconnected x)"
| "bfx_handle args btc_str now sys_now (X_ModuleMessage msg) x = bfx_module_message args now sys_now msg x"
| "bfx_handle args btc_str now sys_now X_Timer x = bfx_timer args now sys_now x"
| "bfx_handle args btc_str now sys_now (X_Cli req wait) x = Some (bfx_cli sys_now req wait x)"
| "bfx_handle args btc_str now sys_now X_CheckExchange x = bfx_check_exchange args x"
| "bfx_handle args btc_str now sys_now (X_Dealer (From_Swap sw)) x =
     hedge_order args now sys_now (su_ticker sw) (su_bitcoin_amount sw) (su_send_bitcoins sw) x"
| "bfx_handle args btc_str now sys_now (X_Dealer From_WalletBalanceUpdated) x = Some (bfx_enqueue X_ReloadUtxo x)"

definition bfx_step :: "Args \<Rightarrow> (int \<Rightarrow> string) \<Rightarrow> int \<Rightarrow> int \<Rightarrow> (OrderId \<Rightarrow> int) \<Rightarrow> BMsg \<Rightarrow> bfx \<Rightarrow> bfx option" where
  "bfx_step args btc_str now sys_now answered msg x = do {
     x \<leftarrow> foldM (broadcast_price args now) (x_module_prices x) x;
     x \<leftarrow> foldM (send_quote args now answered) (x_swaps x) x;
     bfx_handle args btc_str now sys_now msg x
   }"

text \<open>The state when the loop is entered at instant \<open>now\<close>, with the storage that was loaded.\<close>

definition bfx_init :: "int \<Rightarrow> Storage \<Rightarrow> bal_io \<Rightarrow> bfx" where
  "bfx_init now storage io = bfx_notify (SL_text ''dealer started'')
     \<lparr>x_assets = [], x_utxos = [], x_server_status = None, x_swaps = [], x_server_connected = False, x_module_connected = False,
      x_wallet_balances = [], x_wallet_balances_confirmed = [], x_exchange_balances = [], x_exchange_balances_reported = [],
      x_profit_reports = None, x_bitcoin_ratio_old = None, x_module_prices = [], x_broadcast_timestamps = [],
      x_latest_check_exchange = now, x_health_text = None, x_orders = [], x_pending_orders = [], x_storage = storage,
      x_movements = None, x_balancing_blocked = now, x_io = save_storage storage io, x_to_dealer = [], x_queue = [],
      x_cli_responses = []\<rparr>"

end
