(* ===== verification/Bf_Balancing_Props.thy ===== *)
theory Bf_Balancing_Props
  imports Bf_Balancing
begin

text \<open>
  The correctness of the fund transfers: the events of the main loop that touch the transfer as a
  step function, the states it can reach, also across restarts, and what holds in all of them.
\<close>

section \<open>Runs\<close>

record bal_state =
  bs_movements :: "Movements option"
  bs_storage :: Storage
  bs_io :: bal_io

datatype bal_event =
    BE_Timer int WalletBalances ExchangeBalances bool "Asset list"
  | BE_Withdraw int int
  | BE_Movements int Movements
  | BE_Transfer int bool
  | BE_Cli int CliRequest
  | BE_Restart

text \<open>
  On start, \<^verbatim>\<open>main\<close> loads the storage file (the last one written, if any) and writes it back.
\<close>

definition load_and_save :: "bal_io \<Rightarrow> bal_state" where
  "load_and_save io =
     (let storage = (if io_saved io = [] then \<lparr>s_balancing = None\<rparr> else last (io_saved io))
      in \<lparr>bs_movements = None, bs_storage = storage, bs_io = save_storage storage io\<rparr>)"

definition with_storage :: "bal_state \<Rightarrow> (Storage \<times> bal_io) option \<Rightarrow> bal_state option" where
  "with_storage s r = map_option (\<lambda>(storage, io). s\<lparr>bs_storage := storage, bs_io := io\<rparr>) r"

fun bal_step :: "Args \<Rightarrow> bal_event \<Rightarrow> bal_state \<Rightarrow> bal_state option" where
  "bal_step args (BE_Timer sys_now wallet exchange online assets) s =
     with_storage s (process_balancing args sys_now wallet exchange online assets (bs_storage s) (bs_io s))"
| "bal_step args (BE_Withdraw sys_now withdraw_id) s = with_storage s (process_withdraw sys_now withdraw_id (bs_storage s) (bs_io s))"
| "bal_step args (BE_Movements sys_now msg) s =
     map_option (\<lambda>((movements, storage), io). \<lparr>bs_movements = movements, bs_storage = storage, bs_io = io\<rparr>)
       (process_movements sys_now msg (bs_movements s) (bs_storage s) (bs_io s))"
| "bal_step args (BE_Transfer sys_now success) s = with_storage s (process_transfer sys_now success (bs_storage s) (bs_io s))"
| "bal_step args (BE_Cli sys_now req) s =
     (let ((movements, storage), _, io) = handle_cli sys_now req (bs_movements s) (bs_storage s) (bs_io s)
      in Some \<lparr>bs_movements = movements, bs_storage = storage, bs_io = io\<rparr>)"
| "bal_step args BE_Restart s = Some (load_and_save (bs_io s))"

inductive bal_reachable :: "Args \<Rightarrow> bal_state \<Rightarrow> bool" for args where
  start: "bal_reachable args (load_and_save \<lparr>io_saved = [], io_slack = [], io_module = [], io_world = w\<lparr>w_rpc_calls := []\<rparr>\<rparr>)"
| step: "bal_reachable args s \<Longrightarrow> bal_step args e s = Some s' \<Longrightarrow> bal_reachable args s'"

section \<open>The invariant\<close>

text \<open>What a transfer knows in each state.\<close>

definition transfer_ok :: "Transfer \<Rightarrow> bool" where
  "transfer_ok t =
     (case tr_state t of
        SendUsdtWaitConfirm \<Rightarrow> tr_txid t \<noteq> None
      | SendBtcWaitLbtcBalance \<Rightarrow> tr_txid t \<noteq> None
      | SendBtcWaitConfirm \<Rightarrow> tr_txid t \<noteq> None
      | RecvUsdtWaitConfirm \<Rightarrow> (case tr_withdraw_id t of None \<Rightarrow> False | Some i \<Rightarrow> 0 < i)
      | RecvBtcWaitConfirm \<Rightarrow> (case tr_withdraw_id t of None \<Rightarrow> False | Some i \<Rightarrow> 0 < i)
      | TS_Complete \<Rightarrow> True
      | TS_Failed \<Rightarrow> True
      | _ \<Rightarrow> tr_withdraw_id t = None \<and> tr_txid t = None)"

text \<open>The states from which the transfer still moves funds between wallet and exchange.\<close>

definition may_move :: "TransferState \<Rightarrow> bool" where
  "may_move s \<longleftrightarrow> s \<in> {SendUsdtNew, RecvUsdtNew, SendBtcNew, RecvBtcNew, RecvBtcWaitLbtcBalance}"

definition storage_ok :: "Storage \<Rightarrow> bool" where
  "storage_ok storage = (case s_balancing storage of None \<Rightarrow> True | Some t \<Rightarrow> transfer_ok t)"

definition pending_moves :: "Storage \<Rightarrow> nat" where
  "pending_moves storage = (case s_balancing storage of None \<Rightarrow> 0 | Some t \<Rightarrow> if may_move (tr_state t) then 1 else 0)"

fun is_withdraw :: "ToModule \<Rightarrow> bool" where
  "is_withdraw (TM_Withdraw k s w m a d) = True"
| "is_withdraw _ = False"

definition is_send_call :: "RpcRequest \<Rightarrow> bool" where
  "is_send_call req \<longleftrightarrow> rpc_method req = ''sendtoaddress''"

fun is_start :: "Slack \<Rightarrow> bool" where
  "is_start (SL_start n a) = True"
| "is_start _ = False"

definition moves :: "bal_io \<Rightarrow> nat" where
  "moves io = length (filter is_withdraw (io_module io)) + length (filter is_send_call (w_rpc_calls (io_world io)))"

definition starts :: "bal_io \<Rightarrow> nat" where
  "starts io = length (filter is_start (io_slack io))"

definition bal_inv :: "Storage \<times> bal_io \<Rightarrow> bool" where
  "bal_inv = (\<lambda>(storage, io). io_saved io \<noteq> [] \<and> last (io_saved io) = storage \<and> storage_ok storage \<and>
     moves io + pending_moves storage \<le> starts io)"

lemma bal_inv_simps:
  "bal_inv (storage, io) \<longleftrightarrow> io_saved io \<noteq> [] \<and> last (io_saved io) = storage \<and> storage_ok storage \<and>
     moves io + pending_moves storage \<le> starts io"
  by (simp add: bal_inv_def)

named_theorems io_simps "what the effects of the balancing code add to the logs"

lemma io_effects [io_simps]:
  "io_saved (save_storage st io) = io_saved io @ [st]" "moves (save_storage st io) = moves io"
  "starts (save_storage st io) = starts io"
  "io_saved (send_notification m io) = io_saved io" "moves (send_notification m io) = moves io"
  "starts (send_notification m io) = starts io + (if is_start m then 1 else 0)"
  "io_saved (send_msg x io) = io_saved io" "moves (send_msg x io) = moves io + (if is_withdraw x then 1 else 0)"
  "starts (send_msg x io) = starts io"
  by (simp_all add: save_storage_def send_notification_def send_msg_def moves_def starts_def)

lemma msg_kinds [io_simps]:
  "is_withdraw (withdraw_msg args m a)" "\<not> is_withdraw (transfer_msg args c d a)"
  "is_send_call (sendtoaddress_asset addr x l)" "is_send_call (sendtoaddress_bitcoin addr x)"
  by (simp_all add: withdraw_msg_def transfer_msg_def is_send_call_def sendtoaddress_asset_def sendtoaddress_bitcoin_def
      sendtoaddress_generic_def Let_def)

text \<open>A change of state keeps the invariant if it uses up at least the moves it has made.\<close>

lemma update_balancing_state_inv:
  assumes "update_balancing_state sys_now new_state storage io = Some r"
    and "s_balancing storage = Some t" and "transfer_ok (t\<lparr>tr_state := new_state\<rparr>)"
    and "moves io + (if may_move new_state then 1 else 0) \<le> starts io"
  shows "bal_inv r"
proof -
  have "transfer_ok (t\<lparr>tr_updated_at := sys_now, tr_state := new_state\<rparr>)"
    using assms(3) by (cases new_state) (simp_all add: transfer_ok_def)
  then show ?thesis using assms
    by (auto simp: update_balancing_state_def Let_def bal_inv_def storage_ok_def pending_moves_def io_simps)
qed

lemma may_move_simps [simp]:
  "may_move SendUsdtNew" "may_move RecvUsdtNew" "may_move SendBtcNew" "may_move RecvBtcNew" "may_move RecvBtcWaitLbtcBalance"
  "\<not> may_move SendUsdtWaitConfirm" "\<not> may_move RecvUsdtWaitWithdrawId" "\<not> may_move RecvUsdtWaitConfirm"
  "\<not> may_move SendBtcWaitLbtcBalance" "\<not> may_move SendBtcWaitConfirm" "\<not> may_move RecvBtcWaitWithdrawId"
  "\<not> may_move RecvBtcWaitConfirm" "\<not> may_move TS_Complete" "\<not> may_move TS_Failed"
  by (simp_all add: may_move_def)

lemma transfer_done [simp]: "transfer_ok (t\<lparr>tr_state := TS_Complete\<rparr>)" "transfer_ok (t\<lparr>tr_state := TS_Failed\<rparr>)"
  by (simp_all add: transfer_ok_def)

lemma send_to_exchange_inv:
  assumes "send_to_exchange sys_now req next_state t storage io = Some r" and "s_balancing storage = Some t"
    and "is_send_call req" and "next_state \<in> {SendUsdtWaitConfirm, SendBtcWaitLbtcBalance}"
    and "moves io + 1 \<le> starts io"
  shows "bal_inv r"
proof -
  obtain res w where call: "make_rpc_call want_string req (io_world io) = (res, w)" by fastforce
  have m: "moves (io\<lparr>io_world := w\<rparr>) = moves io + 1" "starts (io\<lparr>io_world := w\<rparr>) = starts io"
    using make_rpc_call_log[OF call] assms(3) by (simp_all add: moves_def starts_def)
  show ?thesis
  proof (cases res)
    case (Inl e)
    then have "update_balancing_state sys_now TS_Failed storage (io\<lparr>io_world := w\<rparr>) = Some r"
      using assms(1) call by (simp add: send_to_exchange_def)
    then show ?thesis by (rule update_balancing_state_inv[OF _ assms(2)]) (use m assms(5) in simp_all)
  next
    case (Inr txid)
    let ?st = "storage\<lparr>s_balancing := Some (t\<lparr>tr_txid := Some txid\<rparr>)\<rparr>"
    have "update_balancing_state sys_now next_state ?st (io\<lparr>io_world := w\<rparr>) = Some r"
      using assms(1) call Inr by (simp add: send_to_exchange_def)
    then show ?thesis
      by (rule update_balancing_state_inv[where t = "t\<lparr>tr_txid := Some txid\<rparr>"])
        (use m assms(4,5) in \<open>auto simp: transfer_ok_def\<close>)
  qed
qed

lemma process_balancing_inv:
  assumes "bal_inv (storage, io)"
    and "process_balancing args sys_now wallet exchange online assets storage io = Some r"
  shows "bal_inv r"
proof (cases "s_balancing storage")
  case None
  then show ?thesis using assms by (simp add: process_balancing_def)
next
  case (Some t)
  have ok: "transfer_ok t" and m: "moves io + (if may_move (tr_state t) then 1 else 0) \<le> starts io"
    using assms(1) Some by (simp_all add: bal_inv_simps storage_ok_def pending_moves_def)
  note upd = update_balancing_state_inv[OF _ Some]
  note send = send_to_exchange_inv[OF _ Some]
  note p = assms(2)[unfolded process_balancing_def Some Let_def, simplified]
  show ?thesis
  proof (cases "tr_state t")
    case SendUsdtNew
    with p m ok assms(1) show ?thesis by (auto simp: io_simps elim!: bind_SomeE send split: if_splits)
  next
    case SendBtcNew
    with p m ok assms(1) show ?thesis by (auto simp: io_simps elim!: send split: if_splits)
  next
    case TS_Complete
    with p assms(1) show ?thesis by (auto simp: bal_inv_simps io_simps storage_ok_def pending_moves_def)
  qed (use p m ok assms(1) in \<open>auto simp: io_simps transfer_ok_def elim!: upd split: if_splits\<close>)
qed

lemma process_withdraw_inv:
  assumes "bal_inv (storage, io)" and "process_withdraw sys_now withdraw_id storage io = Some r"
  shows "bal_inv r"
proof (cases "s_balancing storage")
  case None
  then show ?thesis using assms by (simp add: process_withdraw_def)
next
  case (Some t)
  have m: "moves io + (if may_move (tr_state t) then 1 else 0) \<le> starts io"
    using assms(1) Some by (simp add: bal_inv_simps pending_moves_def)
  let ?known = "storage\<lparr>s_balancing := Some (t\<lparr>tr_withdraw_id := Some withdraw_id\<rparr>)\<rparr>"
  consider s where "0 < withdraw_id" "s \<in> {RecvUsdtWaitConfirm, RecvBtcWaitConfirm}"
      "update_balancing_state sys_now s ?known io = Some r"
    | "update_balancing_state sys_now TS_Failed storage io = Some r"
    using assms(2) Some by (auto simp: process_withdraw_def Let_def split: if_splits)
  then show ?thesis
  proof cases
    case 1
    from 1(3) show ?thesis
      by (rule update_balancing_state_inv[where t = "t\<lparr>tr_withdraw_id := Some withdraw_id\<rparr>"])
        (use m 1 in \<open>auto simp: transfer_ok_def\<close>)
  next
    case 2
    then show ?thesis by (rule update_balancing_state_inv[OF _ Some]) (use m in simp_all)
  qed
qed

lemma process_transfer_inv:
  assumes "bal_inv (storage, io)" and "process_transfer sys_now success storage io = Some r"
  shows "bal_inv r"
proof (cases "s_balancing storage")
  case (Some t)
  have "moves io \<le> starts io" using assms(1) by (simp add: bal_inv_simps)
  then show ?thesis using assms Some
    by (auto simp: process_transfer_def elim!: update_balancing_state_inv[OF _ Some] split: if_splits)
qed (use assms in \<open>simp add: process_transfer_def\<close>)

lemma process_movements_inv:
  assumes "bal_inv (storage, io)" and "process_movements sys_now msg mv storage io = Some ((mv', storage'), io')"
  shows "bal_inv (storage', io')"
proof (cases "(storage', io') = (storage, io)")
  case False
  then obtain t where t: "s_balancing storage = Some t"
    and u: "update_balancing_state sys_now TS_Complete storage io = Some (storage', io')"
    using assms(2) by (auto simp: process_movements_def Let_def elim!: bind_SomeE
        split: if_splits option.split_asm TransferState.split_asm)
  have "moves io \<le> starts io" using assms(1) by (simp add: bal_inv_simps)
  then show ?thesis using update_balancing_state_inv[OF u t] by simp
qed (use assms in simp)

lemma handle_cli_inv:
  assumes "bal_inv (storage, io)" and "handle_cli sys_now req mv storage io = ((mv', storage'), resp, io')"
  shows "bal_inv (storage', io')"
  using assms
  by (cases req) (auto simp: handle_cli_def Let_def bal_inv_simps io_simps storage_ok_def pending_moves_def transfer_ok_def split: if_splits)

lemma load_and_save_inv:
  assumes "io_saved io = [] \<and> moves io = 0 \<or> bal_inv (storage, io)"
  shows "bal_inv (bs_storage (load_and_save io), bs_io (load_and_save io))"
  using assms by (auto simp: load_and_save_def Let_def bal_inv_simps io_simps storage_ok_def pending_moves_def)

lemma bal_step_inv:
  assumes "bal_inv (bs_storage s, bs_io s)" and "bal_step args e s = Some s'"
  shows "bal_inv (bs_storage s', bs_io s')"
proof (cases e)
  case (BE_Timer sys_now wallet exchange online assets)
  then show ?thesis using assms(2) process_balancing_inv[OF assms(1)] by (auto simp: with_storage_def)
next
  case (BE_Withdraw sys_now i)
  then show ?thesis using assms(2) process_withdraw_inv[OF assms(1)] by (auto simp: with_storage_def)
next
  case (BE_Movements sys_now msg)
  then show ?thesis using assms(2) process_movements_inv[OF assms(1)] by auto
next
  case (BE_Transfer sys_now b)
  then show ?thesis using assms(2) process_transfer_inv[OF assms(1)] by (auto simp: with_storage_def)
next
  case (BE_Cli sys_now req)
  then show ?thesis using assms(2) handle_cli_inv[OF assms(1)]
    by (auto simp: Let_def split: prod.split_asm)
next
  case BE_Restart
  then show ?thesis using assms(2) load_and_save_inv assms(1) by auto
qed

lemma bal_reachable_inv: "bal_reachable args s \<Longrightarrow> bal_inv (bs_storage s, bs_io s)"
proof (induction rule: bal_reachable.induct)
  case (start w)
  show ?case by (rule load_and_save_inv) (simp add: moves_def)
next
  case (step s e s')
  then show ?case using bal_step_inv by blast
qed

section \<open>Properties\<close>

definition demo_args :: Args where
  "demo_args = \<lparr>g_env = Prod, g_api_key = None, g_bitfinex_key = ''k'', g_bitfinex_secret = ''s'',
     g_bitfinex_bookname_usdt = ''tBTCUST'', g_bitfinex_bookname_eurx = ''tBTCEUR'',
     g_bitfinex_withdraw_address = ''wallet'', g_bitfinex_fund_address = ''exchange'',
     g_bitfinex_currency_btc = ''BTC'', g_bitfinex_currency_lbtc = ''LBT'', g_bitfinex_currency_usdt = ''UST'',
     g_bitfinex_currency_eur = ''EUR'', g_balancing_enabled = True\<rparr>"

definition demo_bal_start :: bal_state where
  "demo_bal_start = load_and_save \<lparr>io_saved = [], io_slack = [], io_module = [],
     io_world = \<lparr>w_responses = [], w_requests = [], w_rpc_replies = [Inr (RR_String ''tx1'')], w_rpc_calls = []\<rparr>\<rparr>"

definition demo_usdt_asset :: Asset where
  "demo_usdt_asset = \<lparr>a_asset_id = ''usdt'', a_name = ''Tether USD'', a_ticker = TICKER_USDT, a_icon = None, a_precision = 8, a_icon_url = None\<rparr>"

definition demo_completed :: Movements where
  "demo_completed = \<lparr>ms_success = True, ms_key = ''k'', ms_movements = [\<lparr>mv_id = 7, mv_currency = ''UST'', mv_currency_name = ''TETHER'',
     mv_mts_started = 1, mv_mts_updated = 2, mv_status = BITFINEX_STATUS_COMPLETED, mv_amount = F_fin 5000, mv_fees = F_fin 0,
     mv_destination_address = ''exchange'', mv_transaction_id = ''tx1'', mv_withdraw_transaction_note = []\<rparr>]\<rparr>"

definition demo_wallet :: WalletBalances where
  "demo_wallet = [(TICKER_LBTC, F_fin 1), (TICKER_USDT, F_fin 9000)]"

definition bal_run :: "Args \<Rightarrow> bal_event list \<Rightarrow> bal_state \<Rightarrow> bal_state option" where
  "bal_run args = foldM (bal_step args)"

lemma bal_run_reachable:
  "bal_reachable args s \<Longrightarrow> bal_run args es s = Some s' \<Longrightarrow> bal_reachable args s'"
  unfolding bal_run_def by (rule foldM_invariant[where P = "bal_reachable args"]) (auto intro: bal_reachable.step)

lemma demo_bal_start_reachable: "bal_reachable args demo_bal_start"
  using bal_reachable.start[of args "\<lparr>w_responses = [], w_requests = [], w_rpc_replies = [Inr (RR_String ''tx1'')], w_rpc_calls = []\<rparr>"]
  by (simp add: demo_bal_start_def)

text \<open>The transfer after the funds are on their way, as a run of the state machine.\<close>

definition demo_sending :: bal_state where
  "demo_sending = the (bal_run demo_args [BE_Cli 100 (TestSendUsdt (F_fin 5000)),
     BE_Timer 200 demo_wallet [] True [demo_usdt_asset]] demo_bal_start)"

lemma demo_sending_reachable: "bal_reachable demo_args demo_sending"
proof -
  have "bal_run demo_args [BE_Cli 100 (TestSendUsdt (F_fin 5000)), BE_Timer 200 demo_wallet [] True [demo_usdt_asset]]
      demo_bal_start \<noteq> None" by code_simp
  then obtain s where "bal_run demo_args [BE_Cli 100 (TestSendUsdt (F_fin 5000)),
      BE_Timer 200 demo_wallet [] True [demo_usdt_asset]] demo_bal_start = Some s" by blast
  then show ?thesis using bal_run_reachable[OF demo_bal_start_reachable] by (simp add: demo_sending_def)
qed

lemma update_balancing_state_None [simp]:
  "update_balancing_state sys_now new_state storage io = None \<longleftrightarrow> s_balancing storage = None"
  by (simp add: update_balancing_state_def Let_def bind_eq_None_conv)

lemma send_to_exchange_None [simp]:
  "s_balancing storage = Some t \<Longrightarrow> send_to_exchange sys_now req next_state t storage io \<noteq> None"
  by (simp only: send_to_exchange_def Let_def split: prod.split sum.split) simp




text \<open>C19: a transfer is only declared complete on evidence: for a payment in USDt a completed
  movement with its transaction, for a withdrawal a completed movement with its withdrawal
  identifier, each reported twice in a row, and for a payment in bitcoin an empty exchange
  balance of the intermediate currency after the conversion was requested.\<close>

theorem complete_on_evidence:
  assumes "bal_reachable args s" and "bal_step args e s = Some s'"
    and "s_balancing (bs_storage s) = Some t" and "tr_state t \<noteq> TS_Complete"
    and "s_balancing (bs_storage s') = Some t'" and "tr_state t' = TS_Complete"
  shows "(\<exists>n msg. e = BE_Movements n msg \<and> (\<exists>m. bs_movements s = Some m \<and> movements_eq msg m) \<and>
      (\<exists>mv \<in> set (ms_movements msg). mv_status mv = BITFINEX_STATUS_COMPLETED \<and>
        (tr_state t = SendUsdtWaitConfirm \<and> tr_txid t = Some (mv_transaction_id mv) \<or>
         tr_state t \<in> {RecvUsdtWaitConfirm, RecvBtcWaitConfirm} \<and> tr_withdraw_id t = Some (mv_id mv)))) \<or>
    (\<exists>n wallet exchange online assets b. e = BE_Timer n wallet exchange online assets \<and> tr_state t = SendBtcWaitConfirm \<and>
      bt_get exchange (g_bitfinex_currency_lbtc args) = Some b \<and> f64_eq b (F_fin 0))"
proof -
  have upd: "s_balancing st' = Some t' \<Longrightarrow> tr_state t' = new"
    if "update_balancing_state n new st io = Some (st', io')" for n new st io st' io'
    using that by (auto simp: update_balancing_state_def Let_def elim!: bind_SomeE)
  have send: "s_balancing st' = Some t' \<Longrightarrow> tr_state t' \<in> {new, TS_Failed}"
    if "send_to_exchange n req new t0 st io = Some (st', io')" for n req new t0 st io st' io'
    using that upd by (fastforce simp: send_to_exchange_def Let_def split: prod.split_asm sum.split_asm)
  show ?thesis
  proof (cases e)
    case (BE_Timer n wallet exchange online assets)
    with assms(2) obtain io' where p: "process_balancing args n wallet exchange online assets (bs_storage s) (bs_io s) = Some (bs_storage s', io')"
      by (auto simp: with_storage_def)
    show ?thesis
    proof (cases "tr_state t = SendBtcWaitConfirm")
      case True
      then show ?thesis using p assms(3-6) BE_Timer
        by (auto simp: process_balancing_def split: if_splits option.split_asm)
    next
      case False
      then have False using p assms(3-6)
        by (cases "tr_state t") (auto simp: process_balancing_def Let_def elim!: bind_SomeE
            dest!: upd[OF _ assms(5)] send[OF _ assms(5)] split: if_splits)
      then show ?thesis ..
    qed
  next
    case (BE_Movements n msg)
    with assms(2) have p: "process_movements n msg (bs_movements s) (bs_storage s) (bs_io s) = Some ((bs_movements s', bs_storage s'), bs_io s')"
      by auto
    with assms(3-6) have "(\<exists>m. bs_movements s = Some m \<and> movements_eq msg m)"
      by (auto simp: process_movements_def split: if_splits option.split_asm)
    moreover have "\<exists>mv \<in> set (ms_movements msg). mv_status mv = BITFINEX_STATUS_COMPLETED \<and>
        (tr_state t = SendUsdtWaitConfirm \<and> tr_txid t = Some (mv_transaction_id mv) \<or>
         tr_state t \<in> {RecvUsdtWaitConfirm, RecvBtcWaitConfirm} \<and> tr_withdraw_id t = Some (mv_id mv))"
      using p assms(3-6)
      by (auto simp: process_movements_def Let_def find_None_iff elim!: bind_SomeE
          split: if_splits option.split_asm TransferState.split_asm)
    ultimately show ?thesis using BE_Movements by blast
  next
    case BE_Restart
    then show ?thesis using assms bal_reachable_inv[OF assms(1)] by (auto simp: load_and_save_def Let_def bal_inv_simps)
  qed (use assms(2-6) in \<open>auto simp: with_storage_def process_withdraw_def process_transfer_def handle_cli_def Let_def
        dest: upd split: option.split_asm if_splits prod.split_asm\<close>)
qed

theorem complete_on_evidence_witness:
  "\<exists>s t. bal_reachable demo_args s \<and> s_balancing (bs_storage s) = Some t \<and>
    ((\<exists>n msg. BE_Movements 400 demo_completed = BE_Movements n msg \<and> (\<exists>m. bs_movements s = Some m \<and> movements_eq msg m) \<and>
      (\<exists>mv \<in> set (ms_movements msg). mv_status mv = BITFINEX_STATUS_COMPLETED \<and>
        (tr_state t = SendUsdtWaitConfirm \<and> tr_txid t = Some (mv_transaction_id mv) \<or>
         tr_state t \<in> {RecvUsdtWaitConfirm, RecvBtcWaitConfirm} \<and> tr_withdraw_id t = Some (mv_id mv)))) \<or>
    (\<exists>n wallet exchange online assets b. BE_Movements 400 demo_completed = BE_Timer n wallet exchange online assets \<and>
      tr_state t = SendBtcWaitConfirm \<and> bt_get exchange (g_bitfinex_currency_lbtc demo_args) = Some b \<and> f64_eq b (F_fin 0)))"
proof -
  let ?s = "the (bal_step demo_args (BE_Movements 300 demo_completed) demo_sending)"
  let ?s' = "the (bal_step demo_args (BE_Movements 400 demo_completed) ?s)"
  let ?t = "the (s_balancing (bs_storage ?s))"
  let ?t' = "the (s_balancing (bs_storage ?s'))"
  have "bal_step demo_args (BE_Movements 300 demo_completed) demo_sending \<noteq> None" by code_simp
  then have r: "bal_reachable demo_args ?s" by (rule bal_reachable.step[OF demo_sending_reachable option.collapse[symmetric]])
  have "bal_step demo_args (BE_Movements 400 demo_completed) ?s \<noteq> None" by code_simp
  then have 1: "bal_step demo_args (BE_Movements 400 demo_completed) ?s = Some ?s'" by simp
  have "s_balancing (bs_storage ?s) \<noteq> None" by code_simp
  then have 2: "s_balancing (bs_storage ?s) = Some ?t" by simp
  have 3: "tr_state ?t \<noteq> TS_Complete" by code_simp
  have "s_balancing (bs_storage ?s') \<noteq> None" by code_simp
  then have 4: "s_balancing (bs_storage ?s') = Some ?t'" by simp
  have 5: "tr_state ?t' = TS_Complete" by code_simp
  from r 2 complete_on_evidence[OF r 1 2 3 4 5] show ?thesis by (intro exI[of _ ?s] exI[of _ ?t] conjI)
qed

end
