(* ===== verification/Libwally.thy ===== *)
theory Libwally
  imports Api
begin

text \<open>
  \<^verbatim>\<open>sideswap_libwally/src/lib.rs\<close>: the partially signed transactions (PSET) of the client.
  \<^verbatim>\<open>generate_psbt\<close> builds the client's half of a swap and \<^verbatim>\<open>sign_psbt\<close> verifies what a
  complete PSET does to the wallet before it signs it.  The C library \<^verbatim>\<open>libwally\<close>, the
  \<^verbatim>\<open>hex\<close> crate and the key derivation of the \<^verbatim>\<open>bitcoin\<close> crate are parameters, the fields
  of the record \<open>wally\<close>; a call that fails is \<^term>\<open>None\<close>.  The wallet is what the two
  functions read of the gdk wallet.
\<close>

section \<open>Errors\<close>

text \<open>
  An \<^verbatim>\<open>anyhow::Error\<close> is the text it displays.  Texts formatted from another error or from
  floating point numbers keep their parts apart.
\<close>

datatype Err = E string | E_ctx string Err | E_min f64 | E_funds f64 f64

text \<open>
  The \<^verbatim>\<open>?\<close> operator on a call that can panic, fail or return and that changes a state:
  an error ends the caller with it.
\<close>

definition try_op ::
  "((Err + 'a) \<times> 's) option \<Rightarrow> ('a \<Rightarrow> 's \<Rightarrow> ((Err + 'b) \<times> 's) option) \<Rightarrow> ((Err + 'b) \<times> 's) option" where
  "try_op m f =
     (case m of None \<Rightarrow> None | Some (Inl e, s) \<Rightarrow> Some (Inl e, s) | Some (Inr x, s) \<Rightarrow> f x s)"

definition ok_or :: "'a option \<Rightarrow> Err \<Rightarrow> 's \<Rightarrow> ((Err + 'a) \<times> 's) option" where
  "ok_or v e s = Some (case v of None \<Rightarrow> Inl e | Some x \<Rightarrow> Inr x, s)"

definition ensure :: "bool \<Rightarrow> Err \<Rightarrow> 's \<Rightarrow> ((Err + unit) \<times> 's) option" where
  "ensure b e s = Some (if b then Inr () else Inl e, s)"

lemma try_op_simps [simp]:
  "try_op None f = None"
  "try_op (Some (Inl e, s)) f = Some (Inl e, s)"
  "try_op (Some (Inr x, s)) f = f x s"
  by (simp_all add: try_op_def)

lemma try_op_ok_or [simp]:
  "try_op (ok_or None e s) f = Some (Inl e, s)"
  "try_op (ok_or (Some x) e s) f = f x s"
  by (simp_all add: ok_or_def)

lemma try_op_ensure [simp]: "try_op (ensure b e s) f = (if b then f () s else Some (Inl e, s))"
  by (simp add: ensure_def)

lemma try_op_InrE:
  assumes "try_op m f = Some (Inr y, t)"
  obtains x s where "m = Some (Inr x, s)" "f x s = Some (Inr y, t)"
  using assms by (auto simp: try_op_def split: option.splits sum.splits prod.splits)

lemma try_opE:
  assumes "try_op m f = Some (r, t)"
  obtains (err) e where "m = Some (Inl e, t)" "r = Inl e"
    | (ok) x s where "m = Some (Inr x, s)" "f x s = Some (r, t)"
  using assms by (auto simp: try_op_def split: option.splits sum.splits prod.splits)

section \<open>The library and the wallet\<close>

record PsbtInfo =
  pinfo_send_asset :: string
  pinfo_recv_asset :: string
  pinfo_send_amount :: int
  pinfo_recv_amount :: int

type_synonym DerivationPath = "int list"

record UnspentOutput =
  uo_txhash :: string
  uo_satoshi :: int
  uo_pt_idx :: int
  uo_derivation_path :: DerivationPath

record PsbtIn =
  in_sighash :: int
  in_asset :: bytes
  in_value :: int
  in_abf :: bytes
  in_vbf :: bytes
  in_witness_utxo :: bytes
  in_redeem_script :: bytes
  in_keypaths :: "(bytes \<times> bytes) option"
  in_final_witness :: "bytes list option"

record TxIn =
  txi_txhash :: bytes
  txi_index :: int
  txi_sequence :: int

record PsbtOut =
  out_redeem_script :: bytes
  out_blinding_pubkey :: bytes
  out_abf :: bytes
  out_vbf :: bytes
  out_nonce :: bytes
  out_rangeproof :: bytes
  out_value_commitment :: bytes
  out_asset_commitment :: bytes

record TxOutput =
  two_script :: bytes
  two_asset :: bytes
  two_value :: bytes
  two_nonce :: bytes

text \<open>A PSET has one entry per input and output beside the transaction it holds.\<close>

record Pset =
  pset_inputs :: "PsbtIn list"
  pset_tx_inputs :: "TxIn list"
  pset_outputs :: "PsbtOut list"
  pset_tx_outputs :: "TxOutput list"
  pset_magic :: string

record wally =
  wl_hex_decode :: "string \<Rightarrow> bytes option"
  wl_hex_encode :: "bytes \<Rightarrow> string"
  wl_from_base64 :: "string \<Rightarrow> Pset option"
  wl_to_base64 :: "Pset \<Rightarrow> string"
  wl_value_to_satoshi :: "bytes \<Rightarrow> int option"
  wl_value_from_satoshi :: "int \<Rightarrow> bytes"
  wl_blinding_key :: "bytes \<Rightarrow> bytes \<Rightarrow> bytes option" \<comment> \<open>master key, script\<close>
  wl_blinding_pubkey :: "bytes \<Rightarrow> bytes \<Rightarrow> bytes"
  wl_unblind :: "bytes \<Rightarrow> bytes \<Rightarrow> bytes \<Rightarrow> bytes \<Rightarrow> bytes \<Rightarrow> bytes \<Rightarrow> (bytes \<times> int) option"
    \<comment> \<open>nonce, private key, range proof, value commitment, script, asset commitment\<close>
  wl_asset_generator :: "bytes \<Rightarrow> bytes \<Rightarrow> bytes option"
  wl_asset_value_commitment :: "int \<Rightarrow> bytes \<Rightarrow> bytes \<Rightarrow> bytes option"
  wl_sign :: "Pset \<Rightarrow> bytes \<Rightarrow> Pset option"
  wl_finalize :: "Pset \<Rightarrow> Pset option"
  wl_derive_priv :: "DerivationPath \<Rightarrow> bytes option"
  wl_public_key :: "bytes \<Rightarrow> bytes"
  wl_hash160 :: "bytes \<Rightarrow> bytes"
  wl_p2shwpkh_script :: "bytes \<Rightarrow> bytes"
  wl_tx_output_at :: "string \<Rightarrow> int \<Rightarrow> bytes option" \<comment> \<open>transaction hex, output index\<close>

record Unblinded =
  ub_asset_hex :: string
  ub_abf :: bytes
  ub_vbf :: bytes
  ub_value :: int

record wallet =
  wal_external :: int
  wal_internal :: int
  wal_derive_address :: "bool \<Rightarrow> int \<Rightarrow> (string \<times> string) option"
    \<comment> \<open>change chain, pointer; the confidential and the unconfidential address\<close>
  wal_txs :: "(string \<times> string) list" \<comment> \<open>transaction id and hex, as \<^verbatim>\<open>list_tx\<close> returns them\<close>
  wal_unblinded :: "(string \<times> int) \<Rightarrow> Unblinded option"
  wal_master_blinding :: "bytes option"

text \<open>
  \<^verbatim>\<open>get_next_address\<close> of the gdk account: the external index moves to the next pointer,
  whose address is returned.
\<close>

definition get_next_address :: "wallet \<Rightarrow> ((string \<times> int) \<times> wallet) option" where
  "get_next_address w =
     (let pointer = wrap_u32 (wal_external w + 1)
      in do {
        (addr, _) \<leftarrow> wal_derive_address w False pointer;
        Some ((addr, pointer), w\<lparr>wal_external := pointer\<rparr>)
      })"

definition reversed :: "'a list \<Rightarrow> 'a list" where "reversed v = rev v"

definition redeem_script :: "wally \<Rightarrow> bytes \<Rightarrow> bytes" where
  "redeem_script W public_key =
     (let h = wl_hash160 W public_key in CHR 0x00 # char_of (length h) # h)"

section \<open>Generation\<close>

record Output =
  op_pointer :: int
  op_amount :: int
  op_asset :: string

definition utxos_amount :: "UnspentOutput list \<Rightarrow> int" where
  "utxos_amount utxos = wrap_i64 (u64_sum (map uo_satoshi utxos))"

text \<open>The outputs of the client's half: what it receives and its change.\<close>

definition psbt_output :: "int \<Rightarrow> string \<Rightarrow> wallet \<Rightarrow> (Output list \<times> wallet) option" where
  "psbt_output amount asset w =
     (if 0 < amount then do {
        ((_, pointer), w) \<leftarrow> get_next_address w;
        Some ([\<lparr>op_pointer = pointer, op_amount = amount, op_asset = asset\<rparr>], w) }
      else Some ([], w))"

definition psbt_outputs :: "PsbtInfo \<Rightarrow> UnspentOutput list \<Rightarrow> wallet \<Rightarrow> (Output list \<times> wallet) option" where
  "psbt_outputs psbt_info utxos w = do {
     (recv, w) \<leftarrow> psbt_output (pinfo_recv_amount psbt_info) (pinfo_recv_asset psbt_info) w;
     let input_amount = utxos_amount utxos;
     let change_amount = i64_sub input_amount (pinfo_send_amount psbt_info);
     (change, w) \<leftarrow> psbt_output change_amount (pinfo_send_asset psbt_info) w;
     Some (recv @ change, w)
   }"

definition psbt_add_input :: "wally \<Rightarrow> wallet \<Rightarrow> PsbtInfo \<Rightarrow> UnspentOutput \<Rightarrow> Pset \<Rightarrow> Pset option" where
  "psbt_add_input W w psbt_info utxo p = do {
     (txid, hex) \<leftarrow> find (\<lambda>t. fst t = uo_txhash utxo) (wal_txs w);
     prev_tx_hash \<leftarrow> map_option reversed (wl_hex_decode W txid);
     asset_id_unprefixed \<leftarrow> map_option reversed (wl_hex_decode W (pinfo_send_asset psbt_info));
     unblinded \<leftarrow> wal_unblinded w (uo_txhash utxo, uo_pt_idx utxo);
     private_key \<leftarrow> wl_derive_priv W (uo_derivation_path utxo);
     witness_utxo \<leftarrow> wl_tx_output_at W hex (uo_pt_idx utxo);
     let tx_input = \<lparr>txi_txhash = prev_tx_hash, txi_index = uo_pt_idx utxo, txi_sequence = 2 ^ 32 - 1\<rparr>;
     let psbt_input = \<lparr>in_sighash = 0, in_asset = asset_id_unprefixed, in_value = uo_satoshi utxo,
           in_abf = ub_abf unblinded, in_vbf = ub_vbf unblinded, in_witness_utxo = witness_utxo,
           in_redeem_script = redeem_script W (wl_public_key W private_key),
           in_keypaths = None, in_final_witness = None\<rparr>;
     Some (p\<lparr>pset_inputs := pset_inputs p @ [psbt_input], pset_tx_inputs := pset_tx_inputs p @ [tx_input]\<rparr>)
   }"

definition psbt_add_output :: "wally \<Rightarrow> wallet \<Rightarrow> Output \<Rightarrow> Pset \<Rightarrow> Pset option" where
  "psbt_add_output W w output p = do {
     _ \<leftarrow> rust_assert (op_pointer output < 2 ^ 31);
     private_key \<leftarrow> wl_derive_priv W [0, op_pointer output];
     let public_key = wl_public_key W private_key;
     let script_code = wl_p2shwpkh_script W public_key;
     master_blinding \<leftarrow> wal_master_blinding w;
     asset_id_prefixed \<leftarrow> map_option reversed (wl_hex_decode W (op_asset output @ ''01''));
     let tx_output = \<lparr>two_script = script_code, two_asset = asset_id_prefixed,
           two_value = wl_value_from_satoshi W (wrap_u64 (op_amount output)), two_nonce = []\<rparr>;
     let psbt_out = \<lparr>out_redeem_script = redeem_script W public_key,
           out_blinding_pubkey = wl_blinding_pubkey W master_blinding script_code,
           out_abf = [], out_vbf = [], out_nonce = [], out_rangeproof = [],
           out_value_commitment = [], out_asset_commitment = []\<rparr>;
     Some (p\<lparr>pset_outputs := pset_outputs p @ [psbt_out], pset_tx_outputs := pset_tx_outputs p @ [tx_output]\<rparr>)
   }"

definition empty_pset :: Pset where
  "empty_pset = \<lparr>pset_inputs = [], pset_tx_inputs = [], pset_outputs = [], pset_tx_outputs = [], pset_magic = ''''\<rparr>"

text \<open>\<^verbatim>\<open>generate_psbt\<close> returns \<^verbatim>\<open>Ok\<close> or panics; it moves the wallet's address index.\<close>

definition generate_pset :: "wally \<Rightarrow> PsbtInfo \<Rightarrow> UnspentOutput list \<Rightarrow> wallet \<Rightarrow> (Pset \<times> wallet) option" where
  "generate_pset W psbt_info utxos w = do {
     (outputs, w) \<leftarrow> psbt_outputs psbt_info utxos w;
     p \<leftarrow> foldM (psbt_add_input W w psbt_info) utxos empty_pset;
     p \<leftarrow> foldM (psbt_add_output W w) outputs p;
     Some (p\<lparr>pset_magic := ''pset'' @ [CHR 0xFF]\<rparr>, w)
   }"

definition generate_psbt :: "wally \<Rightarrow> PsbtInfo \<Rightarrow> UnspentOutput list \<Rightarrow> wallet \<Rightarrow> ((Err + string) \<times> wallet) option" where
  "generate_psbt W psbt_info utxos w = do {
     (p, w) \<leftarrow> generate_pset W psbt_info utxos w;
     Some (Inr (wl_to_base64 W p), w)
   }"

section \<open>Verification and signing\<close>

text \<open>What the loop over the outputs has counted: the fee, the wallet's receipts and its change.\<close>

record tally =
  t_fee :: int
  t_recv :: int
  t_change :: int

text \<open>\<^verbatim>\<open>checked_add().unwrap()\<close> on \<^verbatim>\<open>u64\<close>.\<close>

definition u64_checked_add :: "int \<Rightarrow> int \<Rightarrow> int option" where
  "u64_checked_add a b = (if a + b < 2 ^ 64 then Some (a + b) else None)"

text \<open>An output that the wallet's blinding key opens belongs to the wallet.\<close>

definition unblind_own ::
  "wally \<Rightarrow> bytes \<Rightarrow> TxOutput \<Rightarrow> PsbtOut \<Rightarrow> (bytes \<times> int) option" where
  "unblind_own W priv_key tx_output out =
     wl_unblind W (out_nonce out) priv_key (out_rangeproof out) (out_value_commitment out)
       (two_script tx_output) (out_asset_commitment out)"

definition count_own ::
  "wally \<Rightarrow> bytes \<Rightarrow> bytes \<Rightarrow> bytes \<Rightarrow> bytes \<Rightarrow> int \<Rightarrow> TxOutput \<Rightarrow> PsbtOut \<Rightarrow> tally \<Rightarrow> ((Err + unit) \<times> tally) option" where
  "count_own W master send_asset recv_asset asset amount tx_output out t =
     try_op (ok_or (wl_blinding_key W master (two_script tx_output))
       (E ''wally_asset_blinding_key_to_ec_private_key failed'') t) (\<lambda>priv_key t.
     case unblind_own W priv_key tx_output out of
       None \<Rightarrow> Some (Inr (), t)
     | Some (asset_out, value_out) \<Rightarrow>
         try_op (ensure (value_out = amount) (E ''Condition failed: `value_out == amount`'') t) (\<lambda>_ t.
         try_op (ensure (asset_out = asset) (E ''Condition failed: `asset_out == asset.as_slice()`'') t) (\<lambda>_ t.
         if asset = recv_asset then do {
           v \<leftarrow> u64_checked_add (t_recv t) amount; Some (Inr (), t\<lparr>t_recv := v\<rparr>) }
         else if asset = send_asset then do {
           v \<leftarrow> u64_checked_add (t_change t) amount; Some (Inr (), t\<lparr>t_change := v\<rparr>) }
         else Some (Inl (E (''unexpected output asset: '' @ wl_hex_encode W asset)), t))))"

definition check_commitments ::
  "wally \<Rightarrow> bytes \<Rightarrow> int \<Rightarrow> PsbtOut \<Rightarrow> tally \<Rightarrow> ((Err + unit) \<times> tally) option" where
  "check_commitments W asset amount out t =
     try_op (ensure (out_abf out \<noteq> []) (E ''Condition failed: `output.abf_len != 0`'') t) (\<lambda>_ t.
     try_op (ensure (out_vbf out \<noteq> []) (E ''Condition failed: `output.vbf_len != 0`'') t) (\<lambda>_ t.
     try_op (ok_or (wl_asset_generator W asset (out_abf out))
       (E ''wally_asset_generator_from_bytes failed'') t) (\<lambda>asset_commitment_expected t.
     try_op (ensure (asset_commitment_expected = out_asset_commitment out)
       (E ''Condition failed: `asset_commitment_expected == asset_commitment_actual`'') t) (\<lambda>_ t.
     try_op (ok_or (wl_asset_value_commitment W amount (out_vbf out) asset_commitment_expected)
       (E ''wally_asset_value_commitment failed'') t) (\<lambda>value_commitment_expected t.
     ensure (value_commitment_expected = out_value_commitment out)
       (E ''Condition failed: `value_commitment_expected == value_commitment_actual`'') t)))))"

text \<open>
  One round of the loop over the outputs.  It ends with the transaction output replaced by its
  commitments, which is what is signed.
\<close>

definition check_output ::
  "wally \<Rightarrow> bytes \<Rightarrow> bytes \<Rightarrow> bytes \<Rightarrow> TxOutput \<Rightarrow> PsbtOut \<Rightarrow> tally \<Rightarrow> ((Err + TxOutput) \<times> tally) option" where
  "check_output W master send_asset recv_asset tx_output out t =
     try_op (ensure (length (two_asset tx_output) = 33)
       (E ''Condition failed: `tx_output.asset_len == ffi::WALLY_TX_ASSET_CT_ASSET_LEN as ffi::size_t`'') t) (\<lambda>_ t.
     let asset = tl (two_asset tx_output) in
     try_op (ok_or (wl_value_to_satoshi W (two_value tx_output))
       (E ''wally_tx_confidential_value_to_satoshi failed'') t) (\<lambda>amount t.
     try_op (if two_script tx_output \<noteq> [] then count_own W master send_asset recv_asset asset amount tx_output out t
             else Some (Inr (), t)) (\<lambda>_ t.
     let tx_output' = tx_output\<lparr>two_asset := out_asset_commitment out,
           two_value := out_value_commitment out, two_nonce := out_nonce out\<rparr> in
     try_op (if two_script tx_output \<noteq> [] then check_commitments W asset amount out t
             else Some (Inr (), t\<lparr>t_fee := wrap_u64 (t_fee t + amount)\<rparr>)) (\<lambda>_ t.
     Some (Inr tx_output', t)))))"

fun check_outputs ::
  "wally \<Rightarrow> bytes \<Rightarrow> bytes \<Rightarrow> bytes \<Rightarrow> (TxOutput \<times> PsbtOut) list \<Rightarrow> tally \<Rightarrow> ((Err + TxOutput list) \<times> tally) option" where
  "check_outputs W master send_asset recv_asset [] t = Some (Inr [], t)"
| "check_outputs W master send_asset recv_asset ((tx_output, out) # outs) t =
     try_op (check_output W master send_asset recv_asset tx_output out t) (\<lambda>tx_output' t.
     try_op (check_outputs W master send_asset recv_asset outs t) (\<lambda>tx_outputs t.
     Some (Inr (tx_output' # tx_outputs), t)))"

definition own_utxo :: "wally \<Rightarrow> UnspentOutput list \<Rightarrow> TxIn \<Rightarrow> UnspentOutput option" where
  "own_utxo W utxos tx_input =
     find (\<lambda>utxo. uo_txhash utxo = wl_hex_encode W (reversed (txi_txhash tx_input)) \<and>
       uo_pt_idx utxo = txi_index tx_input) utxos"

definition WALLY_SIGHASH_ALL :: int where "WALLY_SIGHASH_ALL = 1"

text \<open>The keypath and the signature of one own input.\<close>

definition sign_input :: "wally \<Rightarrow> UnspentOutput \<Rightarrow> nat \<Rightarrow> Pset \<Rightarrow> Pset option" where
  "sign_input W utxo i p = do {
     private_key \<leftarrow> wl_derive_priv W (uo_derivation_path utxo);
     let public_key = wl_public_key W private_key;
     let input = (pset_inputs p ! i)\<lparr>in_keypaths := Some (public_key, private_key)\<rparr>;
     wl_sign W (p\<lparr>pset_inputs := (pset_inputs p)[i := input]\<rparr>) private_key
   }"

definition first_witness :: "PsbtIn \<Rightarrow> bytes option" where
  "first_witness input = (case in_final_witness input of Some (x # _) \<Rightarrow> Some x | _ \<Rightarrow> None)"

text \<open>
  The loop over the inputs.  Its state is the PSET, the input amount and the collected
  witnesses.  The lists of the PSET keep the length \<open>n\<close> that was checked before the loop.
\<close>

record signing =
  sg_pset :: Pset
  sg_input_amount :: int
  sg_witness :: "(nat, bytes) btree"

definition check_input ::
  "wally \<Rightarrow> bytes \<Rightarrow> UnspentOutput list \<Rightarrow> nat \<Rightarrow> signing \<Rightarrow> ((Err + unit) \<times> signing) option" where
  "check_input W send_asset utxos i g =
     (let input = pset_inputs (sg_pset g) ! i; tx_input = pset_tx_inputs (sg_pset g) ! i in
      try_op (ensure (in_sighash input = 0 \<or> in_sighash input = WALLY_SIGHASH_ALL)
        (E ''Condition failed: `input.sighash == 0 || input.sighash == ffi::WALLY_SIGHASH_ALL`'') g) (\<lambda>_ g.
      let p = (sg_pset g)\<lparr>pset_inputs := (pset_inputs (sg_pset g))[i := input\<lparr>in_sighash := WALLY_SIGHASH_ALL\<rparr>]\<rparr>;
          g = g\<lparr>sg_pset := p\<rparr> in
      case own_utxo W utxos tx_input of
        None \<Rightarrow> Some (Inr (), g)
      | Some utxo \<Rightarrow>
          try_op (ensure (in_asset input = send_asset) (E ''Condition failed: `utxo_asset == send_asset`'') g) (\<lambda>_ g. do {
            input_amount \<leftarrow> u64_checked_add (sg_input_amount g) (uo_satoshi utxo);
            p \<leftarrow> sign_input W utxo i (sg_pset g);
            p \<leftarrow> wl_finalize W p;
            witness \<leftarrow> first_witness (pset_inputs p ! i);
            Some (Inr (), g\<lparr>sg_pset := p, sg_input_amount := input_amount,
              sg_witness := bt_insert i witness (sg_witness g)\<rparr>)
          })))"

fun check_inputs ::
  "wally \<Rightarrow> bytes \<Rightarrow> UnspentOutput list \<Rightarrow> nat list \<Rightarrow> signing \<Rightarrow> ((Err + unit) \<times> signing) option" where
  "check_inputs W send_asset utxos [] g = Some (Inr (), g)"
| "check_inputs W send_asset utxos (i # is) g =
     try_op (check_input W send_asset utxos i g) (\<lambda>_ g. check_inputs W send_asset utxos is g)"

text \<open>The second pass signs a fresh copy of the PSET and then puts the witnesses of the first in.\<close>

definition resign_input :: "wally \<Rightarrow> UnspentOutput list \<Rightarrow> nat \<Rightarrow> Pset \<Rightarrow> Pset option" where
  "resign_input W utxos i p =
     (case own_utxo W utxos (pset_tx_inputs p ! i) of
        None \<Rightarrow> Some p
      | Some utxo \<Rightarrow> sign_input W utxo i p)"

definition put_witness :: "(nat, bytes) btree \<Rightarrow> nat \<Rightarrow> Pset \<Rightarrow> Pset option" where
  "put_witness copies i p =
     (case bt_get copies i of
        None \<Rightarrow> Some p
      | Some witness \<Rightarrow>
          (case in_final_witness (pset_inputs p ! i) of
             Some (_ # rest) \<Rightarrow>
               Some (p\<lparr>pset_inputs := (pset_inputs p)[i := (pset_inputs p ! i)\<lparr>in_final_witness := Some (witness # rest)\<rparr>]\<rparr>)
           | _ \<Rightarrow> None))"

definition sign_psbt ::
  "wally \<Rightarrow> wallet \<Rightarrow> PsbtInfo \<Rightarrow> UnspentOutput list \<Rightarrow> string \<Rightarrow> (Err + string) option" where
  "sign_psbt W w psbt_info utxos psbt = do {
     master_blinding_key \<leftarrow> wal_master_blinding w;
     send_asset \<leftarrow> map_option reversed (wl_hex_decode W (pinfo_send_asset psbt_info));
     recv_asset \<leftarrow> map_option reversed (wl_hex_decode W (pinfo_recv_asset psbt_info));
     map_option fst (
     try_op (ok_or (wl_from_base64 W psbt) (E ''decoding PSET failed'') ()) (\<lambda>p s.
     try_op (ensure (length (pset_inputs p) = length (pset_tx_inputs p))
       (E ''Condition failed: `(*psbt).inputs_allocation_len == (*(*psbt).tx).inputs_allocation_len`'') s) (\<lambda>_ s.
     try_op (ensure (length (pset_outputs p) = length (pset_tx_outputs p))
       (E ''Condition failed: `(*psbt).outputs_allocation_len == (*(*psbt).tx).outputs_allocation_len`'') s) (\<lambda>_ s. do {
     (tx_outputs, t) \<leftarrow> check_outputs W master_blinding_key send_asset recv_asset
       (zip (pset_tx_outputs p) (pset_outputs p)) \<lparr>t_fee = 0, t_recv = 0, t_change = 0\<rparr>;
     try_op (Some (tx_outputs, s)) (\<lambda>tx_outputs s.
     try_op (ensure (t_fee t \<noteq> 0) (E ''Condition failed: `fee_amount != 0`'') s) (\<lambda>_ s. do {
     let input_count = length (pset_inputs p);
     (inputs, g) \<leftarrow> check_inputs W send_asset utxos [0..<input_count]
       \<lparr>sg_pset = p\<lparr>pset_tx_outputs := tx_outputs\<rparr>, sg_input_amount = 0, sg_witness = []\<rparr>;
     try_op (Some (inputs, s)) (\<lambda>_ s.
     try_op (ensure (t_change t < sg_input_amount g) (E ''Condition failed: `input_amount > change_amount`'') s) (\<lambda>_ s.
     let send_amount = sg_input_amount g - t_change t in
     try_op (ensure (send_amount = wrap_u64 (pinfo_send_amount psbt_info))
       (E ''Condition failed: `send_amount == psbt_info.send_amount as u64`'') s) (\<lambda>_ s.
     try_op (ensure (t_recv t = wrap_u64 (pinfo_recv_amount psbt_info))
       (E ''Condition failed: `recv_amount == psbt_info.recv_amount as u64`'') s) (\<lambda>_ s. do {
     p2 \<leftarrow> wl_from_base64 W psbt;
     p2 \<leftarrow> foldM (resign_input W utxos) [0..<length (pset_inputs p2)] p2;
     p2 \<leftarrow> wl_finalize W p2;
     p2 \<leftarrow> foldM (put_witness (sg_witness g)) [0..<input_count] p2;
     Some (Inr (wl_to_base64 W p2), s) }))))}))}))))
   }"

end
