(* ===== verification/Client_Types.thy ===== *)
theory Client_Types
  imports Libwally Select_Utxo
begin

text \<open>
  The state of the client worker (\<^verbatim>\<open>sideswap_client/src/worker.rs\<close>) and of its settings file
  (\<^verbatim>\<open>settings.rs\<close>), the messages to and from the user interface, and the interactions with the
  outside: the websocket to the server, the gdk session of the wallet, the disk.

  The outside is the record \<open>Io\<close>: what the server and the wallet library will answer next, and
  the log of what the worker has sent.  Readings of the clock within one handler are one instant.
  The fields of \<open>libs\<close> are functions of third-party crates.
\<close>

section \<open>Settings\<close>

datatype PegDir = PegDir_In | PegDir_Out

record Peg =
  peg_order_id :: OrderId
  peg_dir :: PegDir

record StoredUtxo =
  su_utxos :: "UnspentOutput list"
  su_created_at :: int

text \<open>The persistent part is the set of phone keys to unregister.\<close>

record SettingsPersistent =
  sp_unregister_phone_requests :: "(PhoneKey, unit) btree option"

record Settings =
  set_persistent :: "SettingsPersistent option"
  set_pegs :: "Peg list option"
  set_device_key :: "string option"
  set_last_external :: "int option"
  set_last_internal :: "int option"
  set_utxos_req :: "(OrderId, StoredUtxo) btree option"
  set_session_id :: "string option"

definition settings_default :: Settings where
  "settings_default = \<lparr>set_persistent = None, set_pegs = None, set_device_key = None, set_last_external = None,
     set_last_internal = None, set_utxos_req = None, set_session_id = None\<rparr>"

definition get_persistent :: "Settings \<Rightarrow> SettingsPersistent" where
  "get_persistent s = (case set_persistent s of None \<Rightarrow> \<lparr>sp_unregister_phone_requests = None\<rparr> | Some p \<Rightarrow> p)"

text \<open>24 hours in milliseconds; a time in the future has no age.\<close>

definition EXPIRED_UTXOS :: int where "EXPIRED_UTXOS = 24 * 60 * 60 * 1000"

definition utxo_expired :: "int \<Rightarrow> StoredUtxo \<Rightarrow> bool" where
  "utxo_expired now utxo = (EXPIRED_UTXOS < max 0 (now - su_created_at utxo))"

definition prune :: "int \<Rightarrow> Settings \<Rightarrow> Settings" where
  "prune now settings =
     (let utxos = (case set_utxos_req settings of None \<Rightarrow> [] | Some m \<Rightarrow> m);
          expired = map fst (filter (\<lambda>(_, utxo). utxo_expired now utxo) utxos)
      in settings\<lparr>set_utxos_req := Some (fold bt_remove expired utxos)\<rparr>)"

section \<open>Messages of the user interface\<close>

record Confs =
  cf_count :: int
  cf_total :: int

record ProtoTx =
  ptx_balances :: "(string \<times> int) list"
  ptx_txid :: string
  ptx_network_fee :: int
  ptx_memo :: string

record ProtoPeg =
  pp_is_peg_in :: bool
  pp_amount_send :: int
  pp_amount_recv :: int
  pp_addr_send :: string
  pp_addr_recv :: string
  pp_txid_send :: string
  pp_vout_send :: int
  pp_txid_recv :: "string option"

datatype TransDetails = Item_Tx ProtoTx | Item_Peg ProtoPeg

record TransItem =
  tr_id :: string
  tr_created_at :: int
  tr_confs :: "Confs option"
  tr_item :: TransDetails

record ProtoAsset =
  pa_asset_id :: string
  pa_name :: string
  pa_ticker :: string
  pa_icon :: string
  pa_precision :: int
  pa_swap_market :: bool
  pa_domain :: "string option"

record ProtoOrder =
  or_order_id :: string
  or_asset_id :: string
  or_bitcoin_amount :: int
  or_send_bitcoins :: bool
  or_server_fee :: int
  or_asset_amount :: int
  or_price :: f64
  or_created_at :: int
  or_expires_at :: int
  or_private :: bool
  or_auto_sign :: bool
  or_own :: bool
  or_token_market :: bool
  or_new :: bool
  or_index_price :: "f64 option"

record SwapReview =
  swr_send_asset :: string
  swr_recv_asset :: string
  swr_send_amount :: int
  swr_recv_amount :: "int option"
  swr_network_fee :: "int option"
  swr_error :: "Err option"

datatype ReviewStep = Step_Submit | Step_Quote | Step_Sign

record SubmitReview =
  srv_order_id :: string
  srv_asset :: string
  srv_bitcoin_amount :: int
  srv_server_fee :: int
  srv_asset_amount :: int
  srv_price :: f64
  srv_sell_bitcoin :: bool
  srv_step :: ReviewStep
  srv_index_price :: bool
  srv_internal :: bool
  srv_auto_sign :: bool

datatype SubmitResult = SubmitSucceed | SwapSucceed_res TransItem | SubmitError Err

text \<open>A \<^verbatim>\<open>GenericResponse\<close> is its error, if any; \<^verbatim>\<open>success\<close> is its absence.\<close>

type_synonym GenericResponse = "Err option"

datatype (plugins only: code) FromMsg =
    FM_UpdatedTx TransItem
  | FM_RemovedTx string
  | FM_NewAsset ProtoAsset
  | FM_BalanceUpdate string int
  | FM_ServerStatus int int f64 f64 "FeeRate list"
  | FM_PriceUpdate string f64 f64
  | FM_WalletLoaded
  | FM_EncryptPin "string + (string \<times> string \<times> string)"
  | FM_DecryptPin "string + string"
  | FM_SwapReview SwapReview
  | FM_SwapWaitTx string string string string
  | FM_SwapSucceed TransItem
  | FM_SwapFailed Err
  | FM_RecvAddress string
  | FM_CreateTxResult "Err + int"
  | FM_SendResult "Err + TransItem"
  | FM_BlindedValues string "string option"
  | FM_RegisterPhone "Err + string"
  | FM_VerifyPhone "Err + unit"
  | FM_UploadAvatar GenericResponse
  | FM_UploadContacts GenericResponse
  | FM_ContactCreated string string string
  | FM_ContactRemoved string
  | FM_ContactTransaction string string
  | FM_AccountStatus bool
  | FM_ShowMessage Err
  | FM_SubmitReview SubmitReview
  | FM_SubmitResult SubmitResult
  | FM_EditOrder GenericResponse
  | FM_CancelOrder GenericResponse
  | FM_ServerConnected
  | FM_ServerDisconnected
  | FM_OrderCreated ProtoOrder
  | FM_OrderRemoved string
  | FM_IndexPrice string "f64 option"
  | FM_AssetDetails string "AssetStats option"

record UiSwapRequest =
  usr_send_asset :: string
  usr_recv_asset :: string
  usr_send_amount :: int
  usr_blocks :: "int option"

record UiSubmitOrder =
  uso_session_id :: "string option"
  uso_asset_id :: string
  uso_bitcoin_amount :: "f64 option"
  uso_asset_amount :: "f64 option"
  uso_price :: f64
  uso_index_price :: "f64 option"

record UiSubmitDecision =
  usd_order_id :: string
  usd_accept :: bool
  usd_auto_sign :: "bool option"
  usd_private :: "bool option"
  usd_ttl_seconds :: "int option"

datatype EditData = Edit_Price f64 | Edit_IndexPrice f64

datatype Market = Market_None | Market_Tokens | Market_Asset

datatype (plugins only: code) ToMsg =
    TM_Login string "string option"
  | TM_Logout
  | TM_UpdatePushToken string
  | TM_EncryptPin string string
  | TM_DecryptPin string string string string
  | TM_PushMessage string
  | TM_SetMemo string string
  | TM_GetRecvAddress
  | TM_CreateTx string string int bool \<comment> \<open>address or contact, asset, amount, \<^verbatim>\<open>is_contact\<close>\<close>
  | TM_SendTx string
  | TM_BlindedValues string
  | TM_SwapRequest UiSwapRequest
  | TM_SwapCancel
  | TM_SwapAccept "string option" "int option" \<comment> \<open>\<^verbatim>\<open>recv_addr\<close>, \<^verbatim>\<open>recv_amount\<close>\<close>
  | TM_PegRequest
  | TM_RegisterPhone string
  | TM_VerifyPhone string string
  | TM_UnregisterPhone string
  | TM_UploadAvatar string string
  | TM_UploadContacts string "UploadContact list"
  | TM_SubmitOrder UiSubmitOrder
  | TM_LinkOrder string
  | TM_SubmitDecision UiSubmitDecision
  | TM_EditOrder string "EditData option"
  | TM_CancelOrder string
  | TM_Subscribe Market "string option"
  | TM_SubscribePrice string
  | TM_UnsubscribePrice string
  | TM_AssetDetails string

section \<open>The wallet library\<close>

text \<open>An unspent output as the gdk session lists it, with the fields the worker reads.\<close>

record GdkUnspent =
  gu_block_height :: int
  gu_pt_idx :: int
  gu_satoshi :: int
  gu_txhash :: string
  gu_derivation_path :: DerivationPath

record TxListItem =
  ti_block_height :: int
  ti_created_at :: string
  ti_memo :: string
  ti_txhash :: string
  ti_satoshi :: "(string \<times> int) list"
  ti_fee :: int

record CreateTransaction =
  crt_address :: string
  crt_satoshi :: int
  crt_asset_id :: string
  crt_send_all :: bool

record TransactionMeta =
  tm_hex :: string
  tm_txid :: string
  tm_fee :: int

record GdkAsset =
  ga_name :: "string option"
  ga_precision :: "int option"
  ga_ticker :: "Ticker option"
  ga_domain :: "string option"

record GdkAssets =
  gas_assets :: "(AssetId, GdkAsset) btree"
  gas_icons :: "(AssetId, string) btree"

datatype (plugins only: code) GdkReply =
    GR_Err string
  | GR_Assets GdkAssets
  | GR_Txs "TxListItem list"
  | GR_Block int
  | GR_Balances "(string \<times> int) list"
  | GR_Unspent "(string \<times> GdkUnspent list) list"
  | GR_Tx TransactionMeta
  | GR_Txid string
  | GR_Unit
  | GR_Wallet string wallet \<comment> \<open>a login: \<^verbatim>\<open>wallet_hash_id\<close> and the wallet\<close>
  | GR_Pin string string string
  | GR_Mnemonic string

datatype (plugins only: code) GdkCall =
    GC_refresh_assets bool
  | GC_get_transactions
  | GC_block_status
  | GC_get_balance
  | GC_get_unspent_outputs
  | GC_create_transaction CreateTransaction
  | GC_sign_transaction TransactionMeta
  | GC_send_transaction TransactionMeta
  | GC_set_transaction_memo string string
  | GC_login string
  | GC_encrypt_pin string string
  | GC_decrypt_pin string string string string
  | GC_sign_psbt PsbtInfo "UnspentOutput list" string string \<comment> \<open>a signature that was made, with its result\<close>

datatype FcmMessage = Fcm_Tx string | Fcm_PegDetected OrderId | Fcm_PegPayout OrderId | Fcm_Sign OrderId

record libs =
  lib_wally :: wally
  lib_parse_gdk_time :: "string \<Rightarrow> int option" \<comment> \<open>\<^verbatim>\<open>chrono\<close>: milliseconds since the epoch\<close>
  lib_parse_fcm :: "string \<Rightarrow> FcmMessage option" \<comment> \<open>\<^verbatim>\<open>serde_json\<close>\<close>
  lib_default_icon :: string \<comment> \<open>the embedded icon in \<^verbatim>\<open>base64\<close>\<close>
  lib_tx_addresses :: "bool \<Rightarrow> string \<Rightarrow> Err + string option list" \<comment> \<open>\<^verbatim>\<open>elements\<close>: mainnet, transaction hex\<close>
  lib_unconfidential :: "string \<Rightarrow> Err + string"
  lib_is_redeposit :: "wallet \<Rightarrow> string \<Rightarrow> bool option"
  lib_find_tx :: "wallet \<Rightarrow> string \<Rightarrow> Err + (string \<times> int) list \<times> string \<times> nat"
    \<comment> \<open>previous outputs, id and number of outputs of a stored transaction\<close>

section \<open>The worker's state\<close>

record SendTx =
  sx_tx :: TransactionMeta
  sx_send_all :: bool
  sx_asset_id :: AssetId
  sx_amount :: int
  sx_contact_key :: "ContactKey option"

datatype SubscribeState = Sub_None | Sub_Tokens | Sub_Asset AssetId

record InternalPeg =
  ip_send_amount :: int
  ip_blocks :: int

record ClientSwap =
  as_order_id :: OrderId
  as_send_asset :: AssetId
  as_recv_asset :: AssetId
  as_send_amount :: amount
  as_recv_amount_accepted :: "amount option"
  as_inputs :: "UnspentOutput list"
  as_network_fee :: "int option"

record SubmitData =
  sd_order_id :: OrderId
  sd_side :: OrderSide
  sd_asset :: AssetId
  sd_asset_precision :: int
  sd_order_type :: OrderType
  sd_bitcoin_amount :: amount
  sd_asset_amount :: amount
  sd_price :: f64
  sd_server_fee :: amount
  sd_sell_bitcoin :: bool
  sd_txouts :: "(string \<times> int) set"
  sd_auto_sign :: bool
  sd_txid :: "string option"
  sd_index_price :: bool

record Context =
  cx_wallet :: wallet
  cx_wallet_hash_id :: string
  cx_last_balances :: "(AssetId, amount) btree"
  cx_used_utxos :: "(string \<times> int) set"
  cx_sync_complete :: bool
  cx_wallet_loaded_sent :: bool
  cx_pegs :: "(OrderId, PegStatus) btree"
  cx_txs :: "TxListItem list"
  cx_sent_txs :: "(string, TransItem) btree"
  cx_succeed_swap :: "string option"
  cx_active_swap :: "ClientSwap option"
  cx_psbt_utxos :: "UnspentOutput list option"
  cx_send_tx :: "SendTx option"
  cx_internal_peg :: "InternalPeg option"
  cx_active_extern_peg :: "OrderId option"
  cx_active_submit :: "LinkResponse option"
  cx_active_sign :: "SignNotification option"
  cx_phone_key :: "PhoneKey option"
  cx_subscribe :: SubscribeState

datatype RequestId = RId_String string | RId_Int int

datatype WrappedRequest = WR_Connect | WR_Disconnect | WR_Request RequestId Request

text \<open>
  What the worker's response channel delivers: a response, or a poll that timed out, with the
  milliseconds since the request.
\<close>

datatype RespEvent = RE_Resp "RequestId option" "Error + Response" | RE_Poll int

record Io =
  io_events :: "RespEvent list"
  io_next_id :: int
  io_ws :: "WrappedRequest list"
  io_ui :: "FromMsg list"
  io_gdk :: "GdkReply list"
  io_gdk_calls :: "GdkCall list"
  io_disk :: "Settings option" \<comment> \<open>\<^verbatim>\<open>settings.json\<close>\<close>
  io_disk_ok :: bool \<comment> \<open>whether writing files succeeds\<close>
  io_cookie :: "string option"
  io_assets_file :: "Asset list option"
  io_now :: int
  io_pings :: "nat list" \<comment> \<open>the background callers that were told that their message is processed\<close>
  io_libs :: libs

record Data =
  d_connected :: bool
  d_server_status :: "ServerStatus option"
  d_env :: Env
  d_version :: string
  d_assets :: "(AssetId, Asset) btree"
  d_token_assets :: "AssetId set"
  d_assets_old :: "Asset list"
  d_tickers :: "(Ticker, AssetId) btree"
  d_ctx :: "Context option"
  d_settings :: Settings
  d_push_token :: "string option"
  d_liquid_asset_id :: AssetId
  d_bitcoin_asset_id :: string
  d_submit_data :: "(OrderId, SubmitData) btree"
  d_pending_signs :: "(OrderId, nat option) btree"
  d_visible_submit :: "OrderId option"
  d_waiting_submit :: "OrderId option"
  d_processed_signs :: "OrderId set"
  d_pending_sign_requests :: "SignNotification list"
  d_pending_sign_prompts :: "SignNotification list"
  d_pending_submits :: "UiSubmitOrder list"
  d_pending_links :: "OrderId list"
  d_shown_succeed :: "OrderId set"
  d_pending_succeed :: "TransItem list"
  d_utxos_resp :: "(OrderId, StoredUtxo) btree"
  d_internal :: "OrderId set"
  d_orders_last :: "(OrderId, ProtoOrder) btree"
  d_orders_sent :: "(OrderId, ProtoOrder) btree"
  d_io :: Io

datatype (plugins only: code) Message =
    M_Ui ToMsg
  | M_ServerConnected
  | M_ServerDisconnected
  | M_ServerNotification Notification
  | M_Notif string \<comment> \<open>the \<^verbatim>\<open>event\<close> field of a wallet notification\<close>
  | M_PegStatus PegStatus
  | M_Subscribe "OrderCreatedNotification list"
  | M_Unsubscribe
  | M_AssetDetails AssetDetailsResponse
  | M_BackgroundMessage string nat

end
