(* ===== verification/Client_Io.thy ===== *)
theory Client_Io
  imports Client_Types
begin

text \<open>
  The primitives with which the handlers of \<^verbatim>\<open>worker.rs\<close> reach the outside: messages to the
  user interface, requests to the server and the wait for their responses, calls of the wallet
  library, the settings file.  A handler that can panic returns an option; one that returns a
  \<^verbatim>\<open>Result\<close> pairs it with the state, which an early return leaves as the statements before it
  made it.
\<close>

type_synonym 'a outcome = "((Err + 'a) \<times> Data) option"

section \<open>Constants\<close>

definition SERVER_REQUEST_TIMEOUT :: int where "SERVER_REQUEST_TIMEOUT = 5000"
definition TX_CONF_COUNT :: int where "TX_CONF_COUNT = 2"
definition BALANCE_NUM_CONFS :: int where "BALANCE_NUM_CONFS = 0"
definition EXTRA_ADDRESS_COUNT :: int where "EXTRA_ADDRESS_COUNT = 100"
definition MAX_REGISTER_ADDRESS_COUNT :: int where "MAX_REGISTER_ADDRESS_COUNT = 100"
definition AUTO_SIGN_ALLOWED_INDEX_PRICE_CHANGE :: f64 where
  "AUTO_SIGN_ALLOWED_INDEX_PRICE_CHANGE = f64_lit (1 / 10)"
definition CLIENT_API_KEY :: string where
  "CLIENT_API_KEY = ''f8b7a12ee96aa68ee2b12ebfc51d804a4a404c9732652c298d24099a3d922a84''"
definition USER_AGENT :: string where "USER_AGENT = ''sideswap''"
definition CONTACT_ADDRESSES_UPLOAD_COUNT_DEFAULT :: int where "CONTACT_ADDRESSES_UPLOAD_COUNT_DEFAULT = 20"

section \<open>Messages and requests\<close>

definition send_ui :: "FromMsg \<Rightarrow> Data \<Rightarrow> Data" where
  "send_ui m d = d\<lparr>d_io := (d_io d)\<lparr>io_ui := io_ui (d_io d) @ [m]\<rparr>\<rparr>"

definition show_message :: "Err \<Rightarrow> Data \<Rightarrow> Data" where
  "show_message text d = send_ui (FM_ShowMessage text) d"

definition send_ws :: "WrappedRequest \<Rightarrow> Data \<Rightarrow> Data" where
  "send_ws r d = d\<lparr>d_io := (d_io d)\<lparr>io_ws := io_ws (d_io d) @ [r]\<rparr>\<rparr>"

definition next_request_id :: "Data \<Rightarrow> RequestId \<times> Data" where
  "next_request_id d =
     (let n = io_next_id (d_io d)
      in (RId_Int n, d\<lparr>d_io := (d_io d)\<lparr>io_next_id := wrap_i64 (n + 1)\<rparr>\<rparr>))"

definition send_request_msg :: "Request \<Rightarrow> Data \<Rightarrow> RequestId \<times> Data" where
  "send_request_msg request d =
     (let (request_id, d) = next_request_id d
      in (request_id, send_ws (WR_Request request_id request) d))"

text \<open>
  The loop of \<^verbatim>\<open>send_request\<close>.  When the channel has nothing more to deliver, every further poll
  times out and the request does once \<^verbatim>\<open>SERVER_REQUEST_TIMEOUT\<close> has passed.
\<close>

fun await_response :: "RequestId \<Rightarrow> RespEvent list \<Rightarrow> (Err + Response) \<times> RespEvent list" where
  "await_response active_request_id [] = (Inl (E ''request timeout''), [])"
| "await_response active_request_id (RE_Resp (Some request_id) result # events) =
     (if request_id \<noteq> active_request_id then await_response active_request_id events
      else (case result of Inl e \<Rightarrow> Inl (E (err_message e)) | Inr r \<Rightarrow> Inr r, events))"
| "await_response active_request_id (RE_Resp None result # events) = await_response active_request_id events"
| "await_response active_request_id (RE_Poll spent_time # events) =
     (if spent_time > SERVER_REQUEST_TIMEOUT then (Inl (E ''request timeout''), events)
      else await_response active_request_id events)"

definition client_request :: "Request \<Rightarrow> Data \<Rightarrow> (Err + Response) \<times> Data" where
  "client_request request d =
     (let (active_request_id, d) = send_request_msg request d;
          (r, events) = await_response active_request_id (io_events (d_io d))
      in (r, d\<lparr>d_io := (d_io d)\<lparr>io_events := events\<rparr>\<rparr>))"

text \<open>The \<^verbatim>\<open>send_request!\<close> macro: a response of another type is an error.\<close>

definition request_as :: "(Response \<Rightarrow> 'a option) \<Rightarrow> Request \<Rightarrow> Data \<Rightarrow> 'a outcome" where
  "request_as want request d =
     (case client_request request d of
        (Inl e, d) \<Rightarrow> Some (Inl e, d)
      | (Inr r, d) \<Rightarrow>
          Some (case want r of None \<Rightarrow> Inl (E ''unexpected response type'') | Some x \<Rightarrow> Inr x, d))"

fun as_ping where "as_ping Resp_Ping = Some ()" | "as_ping _ = None"
fun as_login_client where "as_login_client (Resp_LoginClient c) = Some c" | "as_login_client _ = None"
fun as_assets where "as_assets (Resp_Assets a) = Some a" | "as_assets _ = None"
fun as_server_status where "as_server_status (Resp_ServerStatus s) = Some s" | "as_server_status _ = None"
fun as_price_subscribe where "as_price_subscribe Resp_PriceUpdateSubscribe = Some ()" | "as_price_subscribe _ = None"
fun as_verify_device where "as_verify_device (Resp_VerifyDevice s) = Some s" | "as_verify_device _ = None"
fun as_register_device where "as_register_device (Resp_RegisterDevice k) = Some k" | "as_register_device _ = None"
fun as_register_addresses where "as_register_addresses Resp_RegisterAddresses = Some ()" | "as_register_addresses _ = None"
fun as_login where "as_login (Resp_Login s l) = Some (s, l)" | "as_login _ = None"
fun as_swap where "as_swap Resp_Swap = Some ()" | "as_swap _ = None"
fun as_peg where "as_peg (Resp_Peg r) = Some r" | "as_peg _ = None"
fun as_match_rfq where "as_match_rfq (Resp_MatchRfq r) = Some r" | "as_match_rfq _ = None"
fun as_match_rfq_cancel where "as_match_rfq_cancel Resp_MatchRfqCancel = Some ()" | "as_match_rfq_cancel _ = None"
fun as_match_rfq_accept where "as_match_rfq_accept Resp_MatchRfqAccept = Some ()" | "as_match_rfq_accept _ = None"
fun as_contact_addr where "as_contact_addr (Resp_ContactAddr a) = Some a" | "as_contact_addr _ = None"
fun as_contact_broadcast where "as_contact_broadcast (Resp_ContactBroadcast t) = Some t" | "as_contact_broadcast _ = None"
fun as_update_push_token where "as_update_push_token Resp_UpdatePushToken = Some ()" | "as_update_push_token _ = None"
fun as_register_phone where "as_register_phone (Resp_RegisterPhone k) = Some k" | "as_register_phone _ = None"
fun as_verify_phone where "as_verify_phone Resp_VerifyPhone = Some ()" | "as_verify_phone _ = None"
fun as_unregister_phone where "as_unregister_phone Resp_UnregisterPhone = Some ()" | "as_unregister_phone _ = None"
fun as_upload_avatar where "as_upload_avatar Resp_UploadAvatar = Some ()" | "as_upload_avatar _ = None"
fun as_upload_contacts where "as_upload_contacts Resp_UploadContacts = Some ()" | "as_upload_contacts _ = None"
fun as_download_contacts where "as_download_contacts (Resp_DownloadContacts r) = Some r" | "as_download_contacts _ = None"
fun as_submit where "as_submit (Resp_Submit r) = Some r" | "as_submit _ = None"
fun as_link where "as_link (Resp_Link r) = Some r" | "as_link _ = None"
fun as_addr where "as_addr Resp_Addr = Some ()" | "as_addr _ = None"
fun as_sign where "as_sign Resp_Sign = Some ()" | "as_sign _ = None"
fun as_get_sign where "as_get_sign (Resp_GetSign r) = Some r" | "as_get_sign _ = None"
fun as_edit where "as_edit Resp_Edit = Some ()" | "as_edit _ = None"
fun as_cancel where "as_cancel Resp_Cancel = Some ()" | "as_cancel _ = None"

section \<open>The wallet library\<close>

text \<open>A reply that is not of the type of the call stands for a failure of the library.\<close>

definition gdk_call :: "(GdkReply \<Rightarrow> 'a option) \<Rightarrow> GdkCall \<Rightarrow> Data \<Rightarrow> (string + 'a) \<times> Data" where
  "gdk_call want call d =
     (let d' = d\<lparr>d_io := (d_io d)\<lparr>io_gdk := tl (io_gdk (d_io d)), io_gdk_calls := io_gdk_calls (d_io d) @ [call]\<rparr>\<rparr>
      in case io_gdk (d_io d) of
           GR_Err e # _ \<Rightarrow> (Inl e, d')
         | r # _ \<Rightarrow> (case want r of None \<Rightarrow> (Inl ''invalid reply'', d') | Some x \<Rightarrow> (Inr x, d'))
         | [] \<Rightarrow> (Inl ''no reply'', d'))"

text \<open>A call whose error becomes the error of the caller.\<close>

definition gdk_try :: "(GdkReply \<Rightarrow> 'a option) \<Rightarrow> GdkCall \<Rightarrow> (string \<Rightarrow> Err) \<Rightarrow> Data \<Rightarrow> 'a outcome" where
  "gdk_try want call err d =
     (case gdk_call want call d of (Inl e, d) \<Rightarrow> Some (Inl (err e), d) | (Inr x, d) \<Rightarrow> Some (Inr x, d))"

fun gr_assets where "gr_assets (GR_Assets a) = Some a" | "gr_assets _ = None"
fun gr_txs where "gr_txs (GR_Txs a) = Some a" | "gr_txs _ = None"
fun gr_block where "gr_block (GR_Block a) = Some a" | "gr_block _ = None"
fun gr_balances where "gr_balances (GR_Balances a) = Some a" | "gr_balances _ = None"
fun gr_unspent where "gr_unspent (GR_Unspent a) = Some a" | "gr_unspent _ = None"
fun gr_tx where "gr_tx (GR_Tx a) = Some a" | "gr_tx _ = None"
fun gr_txid where "gr_txid (GR_Txid a) = Some a" | "gr_txid _ = None"
fun gr_unit where "gr_unit GR_Unit = Some ()" | "gr_unit _ = None"
fun gr_wallet where "gr_wallet (GR_Wallet h w) = Some (h, w)" | "gr_wallet _ = None"
fun gr_pin where "gr_pin (GR_Pin s e i) = Some (s, e, i)" | "gr_pin _ = None"
fun gr_mnemonic where "gr_mnemonic (GR_Mnemonic m) = Some m" | "gr_mnemonic _ = None"

definition set_ctx :: "Context \<Rightarrow> Data \<Rightarrow> Data" where
  "set_ctx ctx d = d\<lparr>d_ctx := Some ctx\<rparr>"

text \<open>\<^verbatim>\<open>get_receive_address().unwrap().address\<close>\<close>

definition get_receive_address :: "Data \<Rightarrow> (string \<times> Data) option" where
  "get_receive_address d = do {
     ctx \<leftarrow> d_ctx d;
     ((addr, _), w) \<leftarrow> get_next_address (cx_wallet ctx);
     Some (addr, set_ctx (ctx\<lparr>cx_wallet := w\<rparr>) d)
   }"

definition the_wally :: "Data \<Rightarrow> wally" where
  "the_wally d = lib_wally (io_libs (d_io d))"

definition client_generate_psbt :: "PsbtInfo \<Rightarrow> UnspentOutput list \<Rightarrow> Data \<Rightarrow> string outcome" where
  "client_generate_psbt psbt_info utxos d = do {
     ctx \<leftarrow> d_ctx d;
     (r, w) \<leftarrow> generate_psbt (the_wally d) psbt_info utxos (cx_wallet ctx);
     Some (r, set_ctx (ctx\<lparr>cx_wallet := w\<rparr>) d)
   }"

text \<open>A signature that is made is logged with what it was made for.\<close>

definition client_sign_psbt :: "PsbtInfo \<Rightarrow> UnspentOutput list \<Rightarrow> string \<Rightarrow> Data \<Rightarrow> string outcome" where
  "client_sign_psbt psbt_info utxos pset d = do {
     ctx \<leftarrow> d_ctx d;
     r \<leftarrow> sign_psbt (the_wally d) (cx_wallet ctx) psbt_info utxos pset;
     (case r of
        Inl e \<Rightarrow> Some (Inl e, d)
      | Inr signed \<Rightarrow> Some (Inr signed, d\<lparr>d_io := (d_io d)\<lparr>io_gdk_calls :=
          io_gdk_calls (d_io d) @ [GC_sign_psbt psbt_info utxos pset signed]\<rparr>\<rparr>))
   }"

section \<open>Files\<close>

definition save_settings :: "Data \<Rightarrow> Data" where
  "save_settings d =
     (if io_disk_ok (d_io d) then d\<lparr>d_io := (d_io d)\<lparr>io_disk := Some (d_settings d)\<rparr>\<rparr> else d)"

definition load_settings :: "Io \<Rightarrow> string + Settings" where
  "load_settings io = (case io_disk io of None \<Rightarrow> Inl ''No such file or directory'' | Some s \<Rightarrow> Inr s)"

section \<open>Outputs\<close>

text \<open>\<^verbatim>\<open>pt_idx as i32\<close>.\<close>

definition get_tx_out_gdk :: "GdkUnspent \<Rightarrow> string \<times> int" where
  "get_tx_out_gdk utxo = (gu_txhash utxo, wrap_i32 (gu_pt_idx utxo))"

definition get_tx_out_libwally :: "UnspentOutput \<Rightarrow> string \<times> int" where
  "get_tx_out_libwally utxo = (uo_txhash utxo, wrap_i32 (uo_pt_idx utxo))"

definition convert_unspent_output :: "GdkUnspent \<Rightarrow> UnspentOutput" where
  "convert_unspent_output utxo = \<lparr>uo_txhash = gu_txhash utxo, uo_satoshi = gu_satoshi utxo, uo_pt_idx = gu_pt_idx utxo,
     uo_derivation_path = gu_derivation_path utxo\<rparr>"

section \<open>Numbers as text\<close>

fun show_nat :: "nat \<Rightarrow> string" where
  "show_nat n = (if n < 10 then [char_of (48 + n)] else show_nat (n div 10) @ [char_of (48 + n mod 10)])"

definition show_int :: "int \<Rightarrow> string" where
  "show_int i = (if i < 0 then CHR ''-'' # show_nat (nat (- i)) else show_nat (nat i))"

declare show_nat.simps [simp del]

end
