(* ===== verification/Client_Orders.thy ===== *)
theory Client_Orders
  imports Client_Io
begin

text \<open>
  Assets, the order list and the notifications of \<^verbatim>\<open>worker.rs\<close> that are only forwarded.  The
  worker keeps the orders it knows (\<open>d_orders_last\<close>) beside those it has shown
  (\<open>d_orders_sent\<close>); \<^verbatim>\<open>sync_order_list\<close> sends the difference to the user interface.
\<close>

section \<open>Assets\<close>

definition register_asset :: "Asset \<Rightarrow> bool \<Rightarrow> string option \<Rightarrow> Data \<Rightarrow> Data option" where
  "register_asset asset swap_market domain d = do {
     icon \<leftarrow> a_icon asset;
     let asset_copy = \<lparr>pa_asset_id = a_asset_id asset, pa_name = a_name asset, pa_ticker = a_ticker asset, pa_icon = icon,
           pa_precision = a_precision asset, pa_swap_market = swap_market, pa_domain = domain\<rparr>;
     let d = d\<lparr>d_assets := bt_insert (a_asset_id asset) asset (d_assets d)\<rparr>;
     let d = d\<lparr>d_tickers := bt_insert (a_ticker asset) (a_asset_id asset) (d_tickers d)\<rparr>;
     let d = (if swap_market then d else d\<lparr>d_token_assets := insert (a_asset_id asset) (d_token_assets d)\<rparr>);
     Some (send_ui (FM_NewAsset asset_copy) d)
   }"

definition register_assets :: "Asset list \<Rightarrow> Data \<Rightarrow> Data option" where
  "register_assets assets d = do {
     _ \<leftarrow> check_assets (d_env d) assets;
     foldM (\<lambda>asset d. register_asset asset (a_asset_id asset \<noteq> d_liquid_asset_id d) None d) assets d
   }"

definition default_ticker :: "AssetId \<Rightarrow> Ticker" where "default_ticker asset_id = take 4 asset_id @ ''...''"
definition default_name :: "AssetId \<Rightarrow> string" where "default_name asset_id = take 8 asset_id @ ''...''"

definition load_gdk_asset :: "AssetId \<Rightarrow> Data \<Rightarrow> (Asset \<times> string option) outcome" where
  "load_gdk_asset asset_id d =
     try_op (ok_or (d_ctx d) (E ''ctx is not set'') d) (\<lambda>_ d.
     try_op (case gdk_call gr_assets (GC_refresh_assets False) d of
         (Inr gdk_assets, d) \<Rightarrow> Some (Inr gdk_assets, d)
       | (Inl _, d) \<Rightarrow> gdk_try gr_assets (GC_refresh_assets True) (\<lambda>e. E (''loading asset list failed: '' @ e)) d) (\<lambda>gdk_assets d.
     let icon = (case bt_get (gas_icons gdk_assets) asset_id of None \<Rightarrow> lib_default_icon (io_libs (d_io d)) | Some i \<Rightarrow> i) in
     try_op (ok_or (bt_get (gas_assets gdk_assets) asset_id) (E ''asset not found'') d) (\<lambda>v d.
     Some (Inr (\<lparr>a_asset_id = asset_id,
       a_name = (case ga_name v of None \<Rightarrow> default_name asset_id | Some n \<Rightarrow> n),
       a_ticker = (case ga_ticker v of None \<Rightarrow> default_ticker asset_id | Some t \<Rightarrow> t),
       a_icon = Some icon, a_precision = (case ga_precision v of None \<Rightarrow> 0 | Some p \<Rightarrow> p),
       a_icon_url = None\<rparr>, ga_domain v), d))))"

definition try_add_asset :: "AssetId \<Rightarrow> Data \<Rightarrow> unit outcome" where
  "try_add_asset asset_id d =
     (if bt_contains (d_assets d) asset_id then Some (Inr (), d)
      else try_op (load_gdk_asset asset_id d) (\<lambda>(asset, domain) d. do {
        d \<leftarrow> register_asset asset False domain d;
        Some (Inr (), d) }))"

text \<open>
  \<^verbatim>\<open>load_assets\<close> at the start: the saved list, in production else the embedded one
  (the parameter \<open>embedded\<close>).
\<close>

definition load_assets :: "Asset list \<Rightarrow> Data \<Rightarrow> unit outcome" where
  "load_assets embedded d =
     try_op (case io_assets_file (d_io d) of
         Some assets \<Rightarrow> Some (Inr assets, d)
       | None \<Rightarrow> if d_env d = Prod then Some (Inr embedded, d) else Some (Inl (E ''can't load assets''), d)) (\<lambda>assets d. do {
     let d = d\<lparr>d_assets_old := assets\<rparr>;
     d \<leftarrow> register_assets assets d;
     Some (Inr (), d) })"

definition save_assets :: "Asset list \<Rightarrow> Data \<Rightarrow> Data" where
  "save_assets assets d =
     (if io_disk_ok (d_io d) then d\<lparr>d_io := (d_io d)\<lparr>io_assets_file := Some assets\<rparr>\<rparr> else d)"

section \<open>The order list\<close>

definition opt_f64_eq :: "f64 option \<Rightarrow> f64 option \<Rightarrow> bool" where
  "opt_f64_eq a b = (case (a, b) of (None, None) \<Rightarrow> True | (Some x, Some y) \<Rightarrow> f64_eq x y | _ \<Rightarrow> False)"

text \<open>The derived equality of \<^verbatim>\<open>ffi::proto::Order\<close>: floating point fields compare as numbers.\<close>

definition order_eq :: "ProtoOrder \<Rightarrow> ProtoOrder \<Rightarrow> bool" where
  "order_eq a b \<longleftrightarrow>
     a\<lparr>or_price := F_nan, or_index_price := None\<rparr> = b\<lparr>or_price := F_nan, or_index_price := None\<rparr> \<and>
     f64_eq (or_price a) (or_price b) \<and> opt_f64_eq (or_index_price a) (or_index_price b)"

definition make_order :: "OrderCreatedNotification \<Rightarrow> bool \<Rightarrow> Data \<Rightarrow> ProtoOrder" where
  "make_order msg new d =
     (let det = oc_details msg;
          auto_sign = (case bt_get (d_submit_data d) (oc_order_id msg) of None \<Rightarrow> False | Some s \<Rightarrow> sd_auto_sign s);
          existing = bt_contains (d_orders_last d) (oc_order_id msg)
      in \<lparr>or_order_id = oc_order_id msg, or_asset_id = det_asset det, or_bitcoin_amount = det_bitcoin_amount det,
          or_send_bitcoins = det_send_bitcoins det, or_server_fee = det_server_fee det,
          or_asset_amount = det_asset_amount det, or_price = det_price det,
          or_created_at = oc_created_at msg, or_expires_at = oc_expires_at msg,
          or_private = (case oc_own msg of None \<Rightarrow> False | Some own \<Rightarrow> own_private own),
          or_auto_sign = auto_sign, or_own = (oc_own msg \<noteq> None),
          or_token_market = (det_asset det \<in> d_token_assets d), or_new = (new \<and> \<not> existing),
          or_index_price = (case oc_own msg of None \<Rightarrow> None | Some own \<Rightarrow> own_index_price own)\<rparr>)"

definition add_order :: "OrderCreatedNotification \<Rightarrow> bool \<Rightarrow> Data \<Rightarrow> Data option" where
  "add_order msg new d = do {
     (_, d) \<leftarrow> try_add_asset (det_asset (oc_details msg)) d;
     Some (d\<lparr>d_orders_last := bt_insert (oc_order_id msg) (make_order msg new d) (d_orders_last d)\<rparr>)
   }"

definition remove_order :: "OrderId \<Rightarrow> Data \<Rightarrow> Data" where
  "remove_order order_id d = d\<lparr>d_orders_last := bt_remove order_id (d_orders_last d)\<rparr>"

definition send_order_removed :: "OrderId \<Rightarrow> Data \<Rightarrow> Data" where
  "send_order_removed order_id d =
     send_ui (FM_OrderRemoved order_id) (d\<lparr>d_orders_sent := bt_remove order_id (d_orders_sent d)\<rparr>)"

definition send_order_update :: "OrderId \<times> ProtoOrder \<Rightarrow> Data \<Rightarrow> Data" where
  "send_order_update entry d =
     (let (order_id, order) = entry in
      if (case bt_get (d_orders_sent d) order_id of None \<Rightarrow> True | Some sent \<Rightarrow> \<not> order_eq sent order)
      then send_ui (FM_OrderCreated order) (d\<lparr>d_orders_sent := bt_insert order_id order (d_orders_sent d)\<rparr>)
      else d)"

definition sync_order_list :: "Data \<Rightarrow> Data" where
  "sync_order_list d =
     (let removed = filter (\<lambda>order_id. \<not> bt_contains (d_orders_last d) order_id) (bt_keys (d_orders_sent d));
          d = fold send_order_removed removed d
      in fold send_order_update (d_orders_last d) d)"

definition process_order_created :: "OrderCreatedNotification \<Rightarrow> Data \<Rightarrow> Data option" where
  "process_order_created msg d = map_option sync_order_list (add_order msg True d)"

definition process_order_removed :: "OrderId \<Rightarrow> Data \<Rightarrow> Data" where
  "process_order_removed order_id d = sync_order_list (remove_order order_id d)"

definition process_subscribe_response :: "OrderCreatedNotification list \<Rightarrow> Data \<Rightarrow> Data option" where
  "process_subscribe_response orders d =
     map_option sync_order_list (foldM (\<lambda>order. add_order order False) orders d)"

definition process_unsubscribe_response :: "Data \<Rightarrow> Data" where
  "process_unsubscribe_response d =
     sync_order_list (d\<lparr>d_orders_last := filter (\<lambda>(_, order). or_own order) (d_orders_last d)\<rparr>)"

section \<open>Notifications that are passed on\<close>

definition process_price_update :: "AssetId \<Rightarrow> PricePair \<Rightarrow> Data \<Rightarrow> Data" where
  "process_price_update asset_id price d =
     (case bt_get (d_assets d) asset_id of
        None \<Rightarrow> d
      | Some asset \<Rightarrow> send_ui (FM_PriceUpdate (a_asset_id asset) (pp_bid price) (pp_ask price)) d)"

definition process_update_prices :: "AssetId \<Rightarrow> f64 option \<Rightarrow> Data \<Rightarrow> Data" where
  "process_update_prices asset ind d = send_ui (FM_IndexPrice asset ind) d"

definition process_server_status :: "ServerStatus \<Rightarrow> Data \<Rightarrow> Data" where
  "process_server_status resp d =
     (send_ui (FM_ServerStatus (ss_min_peg_in_amount resp) (ss_min_peg_out_amount resp)
        (ss_server_fee_percent_peg_in resp) (ss_server_fee_percent_peg_out resp) (ss_bitcoin_fee_rates resp)) d)
      \<lparr>d_server_status := Some resp\<rparr>"

definition process_contact_created :: "Contact \<Rightarrow> Data \<Rightarrow> Data" where
  "process_contact_created contact d =
     send_ui (FM_ContactCreated (ct_contact_key contact) (ct_name contact) (ct_phone contact)) d"

definition process_contact_removed :: "ContactKey \<Rightarrow> Data \<Rightarrow> Data" where
  "process_contact_removed contact_key d = send_ui (FM_ContactRemoved contact_key) d"

definition process_contact_tx :: "ContactTransaction \<Rightarrow> Data \<Rightarrow> Data" where
  "process_contact_tx tx d = send_ui (FM_ContactTransaction (ctx_contact_key tx) (ctx_txid tx)) d"

definition process_account_status :: "bool \<Rightarrow> Data \<Rightarrow> Data" where
  "process_account_status registered d = send_ui (FM_AccountStatus registered) d"

definition process_asset_details_response :: "AssetDetailsResponse \<Rightarrow> Data \<Rightarrow> Data" where
  "process_asset_details_response msg d = send_ui (FM_AssetDetails (ad_asset_id msg) (ad_chain_stats msg)) d"

section \<open>Subscriptions\<close>

definition send_subscribe_request :: "Data \<Rightarrow> Data" where
  "send_subscribe_request d =
     (case d_ctx d of
        None \<Rightarrow> d
      | Some ctx \<Rightarrow>
          (case cx_subscribe ctx of
             Sub_None \<Rightarrow> d
           | Sub_Tokens \<Rightarrow> snd (send_request_msg (Req_Subscribe None) d)
           | Sub_Asset asset \<Rightarrow> snd (send_request_msg (Req_Subscribe (Some asset)) d)))"

definition process_subscribe :: "Market \<Rightarrow> string option \<Rightarrow> Data \<Rightarrow> Data option" where
  "process_subscribe market asset_id d = do {
     subscribe \<leftarrow> (case market of
         Market_None \<Rightarrow> Some Sub_None
       | Market_Tokens \<Rightarrow> Some Sub_Tokens
       | Market_Asset \<Rightarrow> map_option Sub_Asset asset_id);
     ctx \<leftarrow> d_ctx d;
     (if cx_subscribe ctx = subscribe then Some d
      else
        let d = (if d_connected d \<and> cx_subscribe ctx \<noteq> Sub_None
               then snd (send_request_msg (Req_Unsubscribe
                 (case cx_subscribe ctx of Sub_Asset asset \<Rightarrow> Some asset | _ \<Rightarrow> None)) d)
               else d)
        in Some (send_subscribe_request (set_ctx (ctx\<lparr>cx_subscribe := subscribe\<rparr>) d)))
   }"

definition process_subscribe_price :: "string \<Rightarrow> Data \<Rightarrow> Data" where
  "process_subscribe_price asset_id d = snd (send_request_msg (Req_LoadPrices asset_id) d)"

definition process_unsubscribe_price :: "string \<Rightarrow> Data \<Rightarrow> Data" where
  "process_unsubscribe_price asset_id d = snd (send_request_msg (Req_CancelPrices asset_id) d)"

definition process_asset_details :: "string \<Rightarrow> Data \<Rightarrow> Data" where
  "process_asset_details asset_id d = snd (send_request_msg (Req_AssetDetails asset_id) d)"

section \<open>Contacts and phone numbers\<close>

definition get_address :: "bool \<Rightarrow> int \<Rightarrow> bool \<Rightarrow> wallet \<Rightarrow> string option" where
  "get_address is_change pointer confidential w = do {
     (conf, unconf) \<leftarrow> wal_derive_address w is_change pointer;
     Some (if confidential then conf else unconf)
   }"

text \<open>The addresses of a range of pointers, \<^verbatim>\<open>start..end\<close>.\<close>

fun range_addresses :: "bool \<Rightarrow> bool \<Rightarrow> wallet \<Rightarrow> int list \<Rightarrow> string list option" where
  "range_addresses is_change confidential w [] = Some []"
| "range_addresses is_change confidential w (p # ps) = do {
     a \<leftarrow> get_address is_change p confidential w;
     as \<leftarrow> range_addresses is_change confidential w ps;
     Some (a # as)
   }"

definition get_contact_addresses :: "Context \<Rightarrow> string list option" where
  "get_contact_addresses ctx =
     (let start_index = wal_external (cx_wallet ctx);
          end_index = wrap_u32 (start_index + CONTACT_ADDRESSES_UPLOAD_COUNT_DEFAULT)
      in range_addresses False True (cx_wallet ctx) [start_index..end_index - 1])"

definition download_contacts :: "Data \<Rightarrow> Data option" where
  "download_contacts d =
     (case (d_connected d, Option.bind (d_ctx d) cx_phone_key) of
        (True, Some phone_key) \<Rightarrow> do {
          (r, d) \<leftarrow> request_as as_download_contacts (Req_DownloadContacts phone_key) d;
          (case r of
             Inl _ \<Rightarrow> Some d
           | Inr data \<Rightarrow>
               Some (fold process_contact_tx (dc_transactions data)
                 (fold process_contact_created (dc_contacts data) (process_account_status (dc_registered data) d))))
        }
      | _ \<Rightarrow> Some d)"

definition process_register_phone :: "string \<Rightarrow> Data \<Rightarrow> Data option" where
  "process_register_phone number d = do {
     ctx \<leftarrow> d_ctx d;
     addresses \<leftarrow> get_contact_addresses ctx;
     (resp, d) \<leftarrow> request_as as_register_phone (Req_RegisterPhone number (cx_wallet_hash_id ctx) addresses) d;
     Some (send_ui (FM_RegisterPhone resp) d)
   }"

definition process_verify_phone :: "string \<Rightarrow> string \<Rightarrow> Data \<Rightarrow> Data option" where
  "process_verify_phone phone_key code d = do {
     (resp, d) \<leftarrow> request_as as_verify_phone (Req_VerifyPhone phone_key code) d;
     let d = send_ui (FM_VerifyPhone resp) d;
     (if is_ok resp then do {
        ctx \<leftarrow> d_ctx d;
        download_contacts (set_ctx (ctx\<lparr>cx_phone_key := Some phone_key\<rparr>) d) }
      else Some d)
   }"

definition unregister_phone_requests :: "Settings \<Rightarrow> (PhoneKey, unit) btree" where
  "unregister_phone_requests s =
     (case sp_unregister_phone_requests (get_persistent s) of None \<Rightarrow> [] | Some m \<Rightarrow> m)"

definition set_unregister_phone_requests :: "(PhoneKey, unit) btree option \<Rightarrow> Settings \<Rightarrow> Settings" where
  "set_unregister_phone_requests m s =
     s\<lparr>set_persistent := Some ((get_persistent s)\<lparr>sp_unregister_phone_requests := m\<rparr>)\<rparr>"

definition unregister_phone_one :: "PhoneKey \<Rightarrow> Data \<Rightarrow> Data option" where
  "unregister_phone_one phone_key d = do {
     (result, d) \<leftarrow> request_as as_unregister_phone (Req_UnregisterPhone phone_key) d;
     (if is_ok result then do {
        m \<leftarrow> sp_unregister_phone_requests (get_persistent (d_settings d));
        Some (save_settings (d\<lparr>d_settings :=
          set_unregister_phone_requests (Some (bt_remove phone_key m)) (d_settings d)\<rparr>)) }
      else Some d)
   }"

definition process_unregister_phone_requests :: "Data \<Rightarrow> Data option" where
  "process_unregister_phone_requests d =
     (if \<not> d_connected d then Some d
      else
        let phone_keys = bt_keys (unregister_phone_requests (d_settings d));
            d = d\<lparr>d_settings := (d_settings d)\<lparr>set_persistent := Some (get_persistent (d_settings d))\<rparr>\<rparr>
        in foldM unregister_phone_one phone_keys d)"

definition process_unregister_phone :: "string \<Rightarrow> Data \<Rightarrow> Data option" where
  "process_unregister_phone phone_key d =
     process_unregister_phone_requests (save_settings (d\<lparr>d_settings :=
       set_unregister_phone_requests (Some (bt_insert phone_key () (unregister_phone_requests (d_settings d)))) (d_settings d)\<rparr>))"

definition err_opt :: "Err + 'a \<Rightarrow> GenericResponse" where
  "err_opt r = (case r of Inl e \<Rightarrow> Some e | Inr _ \<Rightarrow> None)"

definition process_upload_avatar :: "string \<Rightarrow> string \<Rightarrow> Data \<Rightarrow> Data option" where
  "process_upload_avatar phone_key img d = do {
     (resp, d) \<leftarrow> request_as as_upload_avatar (Req_UploadAvatar phone_key img) d;
     Some (send_ui (FM_UploadAvatar (err_opt resp)) d)
   }"

definition process_upload_contacts :: "string \<Rightarrow> UploadContact list \<Rightarrow> Data \<Rightarrow> Data option" where
  "process_upload_contacts phone_key contacts d = do {
     (resp, d) \<leftarrow> request_as as_upload_contacts (Req_UploadContacts phone_key contacts) d;
     Some (send_ui (FM_UploadContacts (err_opt resp)) d)
   }"

end
