(* ===== verification/Client_Tx.thy ===== *)
theory Client_Tx
  imports Client_Orders
begin

text \<open>
  The wallet's transactions, pegs and balances in \<^verbatim>\<open>worker.rs\<close>: what the user interface is sent when they
  change, the queue of success messages, the monitoring of pegs and the registration of the
  wallet's addresses with the server.
\<close>

section \<open>Items of the transaction list\<close>

definition tx_conf_count :: "int \<Rightarrow> int \<Rightarrow> int" where
  "tx_conf_count block_height top_block =
     (if block_height = 0 \<or> top_block < block_height then 0 else wrap_u32 (top_block - block_height + 1))"

definition get_tx_item :: "libs \<Rightarrow> TxListItem \<Rightarrow> int \<Rightarrow> TransItem option" where
  "get_tx_item lib tx top_block = do {
     created_at \<leftarrow> lib_parse_gdk_time lib (ti_created_at tx);
     let balances = sort (ti_satoshi tx);
     let count = tx_conf_count (ti_block_height tx) top_block;
     Some \<lparr>tr_id = ti_txhash tx, tr_created_at = created_at,
       tr_confs = (if count < TX_CONF_COUNT then Some \<lparr>cf_count = count, cf_total = TX_CONF_COUNT\<rparr> else None),
       tr_item = Item_Tx \<lparr>ptx_balances = balances, ptx_txid = ti_txhash tx,
         ptx_network_fee = wrap_i64 (ti_fee tx), ptx_memo = ti_memo tx\<rparr>\<rparr>
   }"

definition peg_txitem_id :: "string \<Rightarrow> int \<Rightarrow> string" where
  "peg_txitem_id send_txid send_vout = send_txid @ ''/'' @ show_int send_vout"

definition get_peg_item :: "PegStatus \<Rightarrow> TxStatus \<Rightarrow> TransItem" where
  "get_peg_item peg tx =
     \<lparr>tr_id = peg_txitem_id (ts_tx_hash tx) (ts_vout tx), tr_created_at = ts_created_at tx,
      tr_confs = (case (ts_detected_confs tx, ts_total_confs tx) of
          (Some cnt, Some tot) \<Rightarrow> Some \<lparr>cf_count = wrap_u32 cnt, cf_total = wrap_u32 tot\<rparr>
        | _ \<Rightarrow> None),
      tr_item = Item_Peg \<lparr>pp_is_peg_in = ps_peg_in peg, pp_amount_send = ts_amount tx,
        pp_amount_recv = (case ts_payout tx of None \<Rightarrow> 0 | Some p \<Rightarrow> p),
        pp_addr_send = ps_addr peg, pp_addr_recv = ps_addr_recv peg, pp_txid_send = ts_tx_hash tx,
        pp_vout_send = ts_vout tx, pp_txid_recv = ts_payout_txid tx\<rparr>\<rparr>"

fun get_tx_items :: "libs \<Rightarrow> int \<Rightarrow> TxListItem list \<Rightarrow> TransItem list option" where
  "get_tx_items lib top_block [] = Some []"
| "get_tx_items lib top_block (tx # txs) = do {
     i \<leftarrow> get_tx_item lib tx top_block;
     is \<leftarrow> get_tx_items lib top_block txs;
     Some (i # is)
   }"

definition by_id :: "TransItem list \<Rightarrow> (string, TransItem) btree" where
  "by_id items = bt_from_list (map (\<lambda>tx. (tr_id tx, tx)) items)"

definition get_tx_list :: "libs \<Rightarrow> Context \<Rightarrow> int \<Rightarrow> (string, TransItem) btree option" where
  "get_tx_list lib ctx top_block = do {
     items \<leftarrow> get_tx_items lib top_block (cx_txs ctx);
     let new_txs = by_id items;
     let new_pegs = by_id (concat (map (\<lambda>peg. map (get_peg_item peg) (ps_list peg)) (bt_values (cx_pegs ctx))));
     Some (bt_from_list (new_txs @ new_pegs))
   }"

section \<open>Success messages\<close>

definition process_pending_succeed :: "Data \<Rightarrow> Data" where
  "process_pending_succeed d =
     (if d_visible_submit d \<noteq> None then d
      else fold (\<lambda>item d. send_ui (FM_SubmitResult (SwapSucceed_res item)) (d\<lparr>d_pending_succeed := tl (d_pending_succeed d)\<rparr>))
             (d_pending_succeed d) d)"

section \<open>Registration of addresses\<close>

text \<open>One round of \<^verbatim>\<open>update_address_registrations\<close>: the next limits and the addresses between.\<close>

definition register_batch :: "wallet \<Rightarrow> Settings \<Rightarrow> (int \<times> int \<times> string list) option" where
  "register_batch w settings =
     (let last_external = (case set_last_external settings of None \<Rightarrow> 0 | Some n \<Rightarrow> n);
          last_internal = (case set_last_internal settings of None \<Rightarrow> 0 | Some n \<Rightarrow> n);
          new_external = min (wrap_u32 (wal_external w + EXTRA_ADDRESS_COUNT))
            (wrap_u32 (last_external + MAX_REGISTER_ADDRESS_COUNT));
          external_count = (if last_external < new_external then new_external - last_external else 0);
          new_internal = min (wrap_u32 (wal_internal w + EXTRA_ADDRESS_COUNT))
            (wrap_u32 (wrap_u32 (last_internal + MAX_REGISTER_ADDRESS_COUNT) - external_count))
      in do {
        ext \<leftarrow> range_addresses False False w [last_external..new_external - 1];
        chg \<leftarrow> range_addresses True False w [last_internal..new_internal - 1];
        Some (new_external, new_internal, ext @ chg)
      })"

lemma await_response_consumes:
  "await_response rid es = (Inr r, es') \<Longrightarrow> length es' < length es"
  by (induction rid es rule: await_response.induct) (auto split: if_splits sum.splits)

lemma io_events_send [simp]:
  "io_events (d_io (send_ws r d)) = io_events (d_io d)"
  "io_events (d_io (snd (next_request_id d))) = io_events (d_io d)"
  by (simp_all add: send_ws_def next_request_id_def Let_def)

lemma request_as_consumes:
  assumes "request_as want req d = Some (Inr x, d')"
  shows "length (io_events (d_io d')) < length (io_events (d_io d))"
proof -
  let ?a = "await_response (fst (next_request_id d)) (io_events (d_io d))"
  obtain r where "fst ?a = Inr r" and "io_events (d_io d') = snd ?a"
    using assms
    by (auto simp: request_as_def client_request_def send_request_msg_def Let_def case_prod_beta
        split: prod.splits sum.splits option.splits)
  then show ?thesis using await_response_consumes by (metis prod.collapse)
qed

lemma io_events_save_settings [simp]: "io_events (d_io (save_settings d)) = io_events (d_io d)"
  by (simp add: save_settings_def)

function register_loop :: "string \<Rightarrow> wallet \<Rightarrow> Data \<Rightarrow> Data option" where
  "register_loop device_key w d =
     (case register_batch w (d_settings d) of
        None \<Rightarrow> None
      | Some (new_external, new_internal, addresses) \<Rightarrow>
          if addresses = [] then Some d
          else (case request_as as_register_addresses (Req_RegisterAddresses device_key addresses) d of
                  None \<Rightarrow> None
                | Some (Inl e, d) \<Rightarrow> Some d
                | Some (Inr u, d) \<Rightarrow>
                    register_loop device_key w (save_settings (d\<lparr>d_settings := (d_settings d)
                      \<lparr>set_last_external := Some new_external, set_last_internal := Some new_internal\<rparr>\<rparr>))))"
  by pat_completeness auto
termination
  by (relation "measure (\<lambda>(k, w, d). length (io_events (d_io d)))") (auto dest: request_as_consumes)

declare register_loop.simps [simp del]

definition update_address_registrations :: "Data \<Rightarrow> Data option" where
  "update_address_registrations d =
     (case (d_connected d, set_device_key (d_settings d), d_ctx d) of
        (True, Some device_key, Some ctx) \<Rightarrow> register_loop device_key (cx_wallet ctx) d
      | _ \<Rightarrow> Some d)"

section \<open>Synchronisation of the transaction list\<close>

text \<open>One item of the new list; \<open>sent\<close> is the list that was sent before.\<close>

definition sync_tx_item :: "(string, TransItem) btree \<Rightarrow> string \<times> TransItem \<Rightarrow> Data \<Rightarrow> Data option" where
  "sync_tx_item sent entry d =
     (let (id, item) = entry in
      if (case bt_get sent id of None \<Rightarrow> True | Some old_tx \<Rightarrow> old_tx \<noteq> item)
      then do {
        let d = send_ui (FM_UpdatedTx item) d;
        ctx \<leftarrow> d_ctx d;
        let d = (if cx_succeed_swap ctx = Some id
               then send_ui (FM_SwapSucceed item) (set_ctx (ctx\<lparr>cx_succeed_swap := None\<rparr>) d)
               else d);
        (case find (\<lambda>s. sd_txid s = Some id) (bt_values (d_submit_data d)) of
           None \<Rightarrow> Some d
         | Some s \<Rightarrow>
             if sd_order_id s \<in> d_shown_succeed d then Some d
             else Some (d\<lparr>d_pending_succeed := d_pending_succeed d @ [item],
                     d_shown_succeed := insert (sd_order_id s) (d_shown_succeed d)\<rparr>))
      }
      else Some d)"

definition try_sync_tx_list :: "Data \<Rightarrow> unit outcome" where
  "try_sync_tx_list d = do {
     _ \<leftarrow> d_ctx d;
     try_op (gdk_try gr_block GC_block_status (\<lambda>e. E (''block_status failed: '' @ e)) d) (\<lambda>top_block d. do {
     ctx \<leftarrow> d_ctx d;
     new_list \<leftarrow> get_tx_list (io_libs (d_io d)) ctx top_block;
     let removed_ids = filter (\<lambda>id. \<not> bt_contains new_list id) (bt_keys (cx_sent_txs ctx));
     let d = fold (\<lambda>id. send_ui (FM_RemovedTx id)) removed_ids d;
     d \<leftarrow> foldM (sync_tx_item (cx_sent_txs ctx)) new_list d;
     ctx \<leftarrow> d_ctx d;
     d \<leftarrow> update_address_registrations (set_ctx (ctx\<lparr>cx_sent_txs := new_list\<rparr>) d);
     Some (Inr (), process_pending_succeed d) })
   }"

definition sync_tx_list :: "Data \<Rightarrow> Data option" where
  "sync_tx_list d = map_option snd (try_sync_tx_list d)"

section \<open>Balances\<close>

definition send_balance :: "string \<times> int \<Rightarrow> Data \<Rightarrow> Data option" where
  "send_balance entry d = do {
     let (asset_id, balance) = entry;
     ctx \<leftarrow> d_ctx d;
     (if bt_get (cx_last_balances ctx) asset_id \<noteq> Some balance
      then Some (set_ctx (ctx\<lparr>cx_last_balances := bt_insert asset_id balance (cx_last_balances ctx)\<rparr>)
             (send_ui (FM_BalanceUpdate asset_id balance) d))
      else Some d)
   }"

text \<open>
  The balances are a \<^verbatim>\<open>HashMap\<close>: its entries come in some order, here that of the reply with the
  assets that are no longer held after it.
\<close>

definition update_balances :: "Data \<Rightarrow> Data option" where
  "update_balances d =
     (case d_ctx d of
        None \<Rightarrow> Some d
      | Some ctx \<Rightarrow>
          (case gdk_call gr_balances GC_get_balance d of
             (Inl _, d) \<Rightarrow> Some d
           | (Inr balances, d) \<Rightarrow>
               let missing = filter (\<lambda>asset_id. asset_id \<notin> fst ` set balances) (bt_keys (cx_last_balances ctx))
               in foldM send_balance (balances @ map (\<lambda>asset_id. (asset_id, 0)) missing) d))"

definition placeholder_asset :: "libs \<Rightarrow> AssetId \<Rightarrow> Asset" where
  "placeholder_asset lib asset_id =
     \<lparr>a_asset_id = asset_id, a_name = default_name asset_id, a_ticker = default_ticker asset_id,
      a_icon = Some (lib_default_icon lib), a_precision = 8, a_icon_url = None\<rparr>"

definition add_new_asset :: "AssetId \<Rightarrow> Data \<Rightarrow> Data option" where
  "add_new_asset asset_id d = do {
     (r, d) \<leftarrow> load_gdk_asset asset_id d;
     let (asset, domain) = (case r of Inr v \<Rightarrow> v | Inl _ \<Rightarrow> (placeholder_asset (io_libs (d_io d)) asset_id, None));
     register_asset asset False domain d
   }"

definition try_update_tx_list :: "Data \<Rightarrow> unit outcome" where
  "try_update_tx_list d =
     (if d_assets d = [] \<or> d_ctx d = None then Some (Inr (), d)
      else try_op (gdk_try gr_txs GC_get_transactions E d) (\<lambda>txs d. do {
        ctx \<leftarrow> d_ctx d;
        let d = set_ctx (ctx\<lparr>cx_txs := txs\<rparr>) d;
        let all_asset_ids = bt_keys (bt_from_list (map (\<lambda>(a, _). (a, ())) (concat (map ti_satoshi txs))));
        let new_asset_ids = filter (\<lambda>asset. \<not> bt_contains (d_assets d) asset) all_asset_ids;
        d \<leftarrow> foldM add_new_asset new_asset_ids d;
        d \<leftarrow> sync_tx_list d;
        d \<leftarrow> update_balances d;
        Some (Inr (), d) }))"

definition update_tx_list :: "Data \<Rightarrow> Data option" where
  "update_tx_list d = map_option snd (try_update_tx_list d)"

definition send_wallet_loaded :: "Data \<Rightarrow> Data" where
  "send_wallet_loaded d =
     (case d_ctx d of
        None \<Rightarrow> d
      | Some ctx \<Rightarrow>
          if cx_wallet_loaded_sent ctx then d
          else send_ui FM_WalletLoaded (set_ctx (ctx\<lparr>cx_wallet_loaded_sent := True\<rparr>) d))"

section \<open>Blinded values\<close>

definition join_commas :: "string list \<Rightarrow> string" where
  "join_commas xs = (case xs of [] \<Rightarrow> [] | x # xs \<Rightarrow> x @ concat (map (\<lambda>y. '','' @ y) xs))"

definition get_blinded_value :: "wally \<Rightarrow> Unblinded \<Rightarrow> string" where
  "get_blinded_value W unblinded =
     join_commas [show_int (ub_value unblinded), ub_asset_hex unblinded,
       wl_hex_encode W (rev (ub_vbf unblinded)), wl_hex_encode W (rev (ub_abf unblinded))]"

definition get_blinded_values :: "string \<Rightarrow> Data \<Rightarrow> (Err + string) option" where
  "get_blinded_values txid d = do {
     ctx \<leftarrow> d_ctx d;
     Some (case lib_find_tx (io_libs (d_io d)) (cx_wallet ctx) txid of
        Inl e \<Rightarrow> Inl e
      | Inr (previous, tid, n) \<Rightarrow>
          let out_points = previous @ map (\<lambda>vout. (tid, int vout)) [0..<n]
          in Inr (join_commas (map (get_blinded_value (the_wally d))
               (List.map_filter (wal_unblinded (cx_wallet ctx)) out_points))))
   }"

definition process_blinded_values :: "string \<Rightarrow> Data \<Rightarrow> Data option" where
  "process_blinded_values txid d = do {
     r \<leftarrow> get_blinded_values txid d;
     Some (send_ui (FM_BlindedValues txid (res_ok r)) d)
   }"

section \<open>Pegs\<close>

definition start_peg_monitoring :: "Peg \<Rightarrow> Data \<Rightarrow> Data" where
  "start_peg_monitoring peg d =
     (case peg_dir peg of
        PegDir_In \<Rightarrow> snd (send_request_msg (Req_PegStatus (peg_order_id peg) None) d)
      | PegDir_Out \<Rightarrow> snd (send_request_msg (Req_PegStatus (peg_order_id peg) None) d))"

definition resume_peg_monitoring :: "Data \<Rightarrow> Data" where
  "resume_peg_monitoring d =
     (if d_assets d = [] \<or> d_ctx d = None \<or> \<not> d_connected d then d
      else fold start_peg_monitoring (case set_pegs (d_settings d) of None \<Rightarrow> [] | Some pegs \<Rightarrow> pegs) d)"

definition add_peg_monitoring :: "OrderId \<Rightarrow> PegDir \<Rightarrow> Data \<Rightarrow> Data" where
  "add_peg_monitoring order_id dir d =
     (let peg = \<lparr>peg_order_id = order_id, peg_dir = dir\<rparr>;
          d = (if d_connected d then start_peg_monitoring peg d else d);
          pegs = (case set_pegs (d_settings d) of None \<Rightarrow> [] | Some pegs \<Rightarrow> pegs)
      in save_settings (d\<lparr>d_settings := (d_settings d)\<lparr>set_pegs := Some (pegs @ [peg])\<rparr>\<rparr>))"

text \<open>\<^verbatim>\<open>psbt\<close> is never set, so that only the fields kept by the model are reset.\<close>

definition cleanup_swaps :: "Data \<Rightarrow> Data option" where
  "cleanup_swaps d = do {
     ctx \<leftarrow> d_ctx d;
     Some (set_ctx (ctx\<lparr>cx_active_swap := None, cx_send_tx := None, cx_internal_peg := None,
       cx_active_extern_peg := None\<rparr>) d)
   }"

definition process_peg_status :: "PegStatus \<Rightarrow> Data \<Rightarrow> Data option" where
  "process_peg_status status d =
     (case d_ctx d of
        None \<Rightarrow> Some d
      | Some ctx \<Rightarrow> do {
          d \<leftarrow> sync_tx_list (set_ctx (ctx\<lparr>cx_pegs := bt_insert (ps_order_id status) status (cx_pegs ctx)\<rparr>) d);
          ctx \<leftarrow> d_ctx d;
          (case (cx_active_extern_peg ctx, ps_list status) of
             (Some active_peg, first_peg_tx # _) \<Rightarrow>
               if active_peg \<noteq> ps_order_id status then Some d
               else cleanup_swaps (send_ui (FM_SwapSucceed (get_peg_item status first_peg_tx)) d)
           | _ \<Rightarrow> Some d)
        })"

definition update_push_token :: "Data \<Rightarrow> Data option" where
  "update_push_token d =
     (case (d_push_token d, d_connected d, set_device_key (d_settings d)) of
        (Some push_token, True, Some device_key) \<Rightarrow>
          map_option snd (request_as as_update_push_token (Req_UpdatePushToken device_key push_token) d)
      | _ \<Rightarrow> Some d)"

definition process_update_push_token :: "string \<Rightarrow> Data \<Rightarrow> Data option" where
  "process_update_push_token token d = update_push_token (d\<lparr>d_push_token := Some token\<rparr>)"

end
