(* ===== verification/Client_Swap.thy ===== *)
theory Client_Swap
  imports Client_Tx
begin

text \<open>
  Instant swaps, pegs and payments of the wallet in \<^verbatim>\<open>worker.rs\<close>.  A swap is requested
  (\<^verbatim>\<open>process_swap_request_atomic\<close>), quoted (\<^verbatim>\<open>rfq_update\<close>), accepted, and then driven by the
  server's notifications through the client's PSET, its signature and the end.  A peg-out sends
  the coins to the server's address; a payment is created and sent in two steps.
\<close>

section \<open>Swap notifications\<close>

fun rfq_reject_text :: "RfqRejectReason \<Rightarrow> string" where
  "rfq_reject_text Rfq_ServerError = ''server error''"
| "rfq_reject_text Rfq_NoDealer = ''no dealer''"
| "rfq_reject_text Rfq_AmountLow = ''amount low''"
| "rfq_reject_text Rfq_AmountHigh = ''amount high''"

definition rfq_update :: "RfqRejectReason + MatchRfqQuote \<Rightarrow> Data \<Rightarrow> unit outcome" where
  "rfq_update quote d =
     try_op (ok_or (d_ctx d) (E ''no wallet'') d) (\<lambda>ctx d.
     try_op (ok_or (cx_active_swap ctx) (E ''no active swap'') d) (\<lambda>active_swap d.
     let recv_amount = map_option mrq_recv_amount (res_ok quote);
         network_fee = map_option mrq_network_fee (res_ok quote);
         error = (case quote of Inl reason \<Rightarrow> Some (E (rfq_reject_text reason)) | Inr _ \<Rightarrow> None);
         d = set_ctx (ctx\<lparr>cx_active_swap := Some (active_swap\<lparr>as_network_fee := network_fee\<rparr>)\<rparr>) d
     in Some (Inr (), send_ui (FM_SwapReview \<lparr>swr_send_asset = as_send_asset active_swap, swr_recv_asset = as_recv_asset active_swap,
          swr_send_amount = as_send_amount active_swap, swr_recv_amount = recv_amount,
          swr_network_fee = network_fee, swr_error = error\<rparr>) d)))"

definition process_rfq_update :: "RfqRejectReason + MatchRfqQuote \<Rightarrow> Data \<Rightarrow> Data option" where
  "process_rfq_update quote d = map_option snd (rfq_update quote d)"

definition swap_send_psbt :: "Swap \<Rightarrow> Data \<Rightarrow> unit outcome" where
  "swap_send_psbt tx_info d =
     try_op (ok_or (d_ctx d) (E ''no wallet'') d) (\<lambda>ctx d.
     try_op (ok_or (cx_active_swap ctx) (E ''no active swap'') d) (\<lambda>active_swap d.
     let psbt_info = \<lparr>pinfo_send_asset = sw_send_asset tx_info, pinfo_recv_asset = sw_recv_asset tx_info,
           pinfo_send_amount = as_send_amount active_swap, pinfo_recv_amount = sw_recv_amount tx_info\<rparr> in
     try_op (client_generate_psbt psbt_info (as_inputs active_swap) d) (\<lambda>psbt d.
     try_op (request_as as_swap (Req_Swap (as_order_id active_swap) (SA_Psbt psbt)) d) (\<lambda>_ d. do {
     wallet \<leftarrow> d_ctx d;
     Some (Inr (), set_ctx (wallet\<lparr>cx_psbt_utxos := Some (as_inputs active_swap)\<rparr>) d) }))))"

definition process_swap_send_psbt :: "Swap \<Rightarrow> Data \<Rightarrow> Data option" where
  "process_swap_send_psbt swap d = map_option snd (swap_send_psbt swap d)"

definition swap_psbt_info :: "ClientSwap \<Rightarrow> PsbtInfo" where
  "swap_psbt_info active_swap =
     \<lparr>pinfo_send_asset = as_send_asset active_swap, pinfo_recv_asset = as_recv_asset active_swap,
      pinfo_send_amount = as_send_amount active_swap,
      pinfo_recv_amount = (case as_recv_amount_accepted active_swap of None \<Rightarrow> 0 | Some a \<Rightarrow> a)\<rparr>"

definition swap_send_sign :: "string \<Rightarrow> Data \<Rightarrow> unit outcome" where
  "swap_send_sign psbt d =
     try_op (ok_or (d_ctx d) (E ''no wallet'') d) (\<lambda>ctx d.
     try_op (ok_or (cx_active_swap ctx) (E ''no active swap'') d) (\<lambda>active_swap d.
     try_op (ok_or (cx_psbt_utxos ctx) (E ''no keys found'') d) (\<lambda>utxos d.
     try_op (client_sign_psbt (swap_psbt_info active_swap) utxos psbt d) (\<lambda>signed_psbt d.
     try_op (request_as as_swap (Req_Swap (as_order_id active_swap) (SA_Sign signed_psbt)) d) (\<lambda>_ d.
     Some (Inr (), d))))))"

definition process_swap_send_sign :: "string \<Rightarrow> Data \<Rightarrow> Data option" where
  "process_swap_send_sign psbt d = map_option snd (swap_send_sign psbt d)"

definition swap_failed :: "SwapError \<Rightarrow> Data \<Rightarrow> Data option" where
  "swap_failed error d =
     (let fail = (\<lambda>text. cleanup_swaps (send_ui (FM_SwapFailed (E text)) d)) in
      case error of
        SE_Cancelled \<Rightarrow> Some d
      | SE_Timeout \<Rightarrow> fail ''timeout''
      | SE_ServerError \<Rightarrow> fail ''server error''
      | SE_DealerError \<Rightarrow> fail ''dealer error''
      | SE_ClientError \<Rightarrow> fail ''client error'')"

definition swap_succeed :: "string \<Rightarrow> Data \<Rightarrow> Data option" where
  "swap_succeed txid d = do {
     ctx \<leftarrow> d_ctx d;
     active_swap \<leftarrow> cx_active_swap ctx;
     let used = fold (\<lambda>utxo. insert (get_tx_out_libwally utxo)) (as_inputs active_swap) (cx_used_utxos ctx);
     cleanup_swaps (set_ctx (ctx\<lparr>cx_used_utxos := used, cx_succeed_swap := Some txid\<rparr>) d)
   }"

definition process_swap_notification :: "OrderId \<Rightarrow> SwapState \<Rightarrow> Data \<Rightarrow> Data option" where
  "process_swap_notification order_id state d =
     (case Option.bind (d_ctx d) cx_active_swap of
        None \<Rightarrow> Some d
      | Some active_swap \<Rightarrow>
          if as_order_id active_swap \<noteq> order_id then Some d
          else (case state of
                  SS_WaitPsbt swap \<Rightarrow> process_swap_send_psbt swap d
                | SS_WaitSign psbt \<Rightarrow> process_swap_send_sign psbt d
                | SS_Failed error \<Rightarrow> swap_failed error d
                | SS_Done txid \<Rightarrow> swap_succeed txid d))"

section \<open>Requests\<close>

text \<open>\<^verbatim>\<open>1. - percent / 100.\<close> and the rounded share of an amount.\<close>

definition peg_out_share :: "int \<Rightarrow> ServerStatus \<Rightarrow> int" where
  "peg_out_share send_amount server_status =
     (let conversion_rate = f64_sub (f64_lit 1) (f64_div (ss_server_fee_percent_peg_out server_status) (f64_lit 100))
      in f64_as_i64 (f64_round (f64_mul (f64_of_int send_amount) conversion_rate)))"

definition process_pegout_request_local :: "UiSwapRequest \<Rightarrow> Data \<Rightarrow> SwapReview outcome" where
  "process_pegout_request_local req d =
     (let send_amount = usr_send_amount req in
      try_op (ensure (d_connected d) (E ''not connected'') d) (\<lambda>_ d.
      try_op (ok_or (usr_blocks req) (E ''blocks must be set'') d) (\<lambda>blocks d.
      try_op (ok_or (d_ctx d) (E ''no context found'') d) (\<lambda>ctx d.
      try_op (ok_or (d_server_status d) (E ''server_status is not known'') d) (\<lambda>server_status d.
      let recv_amount = peg_out_share send_amount server_status in
      try_op (ensure (ss_min_peg_out_amount server_status \<le> send_amount)
        (E_min (to_bitcoin (ss_min_peg_out_amount server_status))) d) (\<lambda>_ d.
      Some (Inr \<lparr>swr_send_asset = usr_send_asset req, swr_recv_asset = usr_recv_asset req, swr_send_amount = send_amount,
          swr_recv_amount = Some recv_amount, swr_network_fee = None, swr_error = None\<rparr>,
        set_ctx (ctx\<lparr>cx_internal_peg := Some \<lparr>ip_send_amount = send_amount, ip_blocks = blocks\<rparr>\<rparr>) d)))))))"

text \<open>\<^verbatim>\<open>match self.send_request(..) { Ok(Response::Peg(resp)) => .. }\<close>\<close>

definition request_peg :: "PegRequest \<Rightarrow> Data \<Rightarrow> PegResponse outcome" where
  "request_peg req d =
     (case client_request (Req_Peg req) d of
        (Inl e, d) \<Rightarrow> Some (Inl (E_ctx ''server error: '' e), d)
      | (Inr r, d) \<Rightarrow> Some (case as_peg r of None \<Rightarrow> Inl (E ''unexpected server response'') | Some resp \<Rightarrow> Inr resp, d))"

definition try_process_peg_request_external :: "Data \<Rightarrow> unit outcome" where
  "try_process_peg_request_external d =
     try_op (ensure (d_connected d) (E ''not connected'') d) (\<lambda>_ d. do {
     _ \<leftarrow> d_ctx d;
     device_key \<leftarrow> set_device_key (d_settings d);
     (recv_addr, d) \<leftarrow> get_receive_address d;
     try_op (request_peg \<lparr>pr_recv_addr = recv_addr, pr_send_amount = None, pr_peg_in = True,
         pr_device_key = Some device_key, pr_blocks = None\<rparr> d) (\<lambda>resp d. do {
     let d = add_peg_monitoring (prs_order_id resp) PegDir_In d;
     let d = send_ui (FM_SwapWaitTx (d_bitcoin_asset_id d) (d_liquid_asset_id d) (prs_peg_addr resp) recv_addr) d;
     ctx \<leftarrow> d_ctx d;
     Some (Inr (), set_ctx (ctx\<lparr>cx_active_extern_peg := Some (prs_order_id resp)\<rparr>) d) }) })"

definition process_peg_request_external :: "Data \<Rightarrow> Data option" where
  "process_peg_request_external d = do {
     (result, d) \<leftarrow> try_process_peg_request_external d;
     (case result of Inl e \<Rightarrow> Some (send_ui (FM_SwapFailed e) d) | Inr _ \<Rightarrow> Some d)
   }"

text \<open>The \<^verbatim>\<open>HashMap::remove\<close> that takes the outputs of one asset.\<close>

definition asset_outputs :: "(string \<times> GdkUnspent list) list \<Rightarrow> string \<Rightarrow> GdkUnspent list option" where
  "asset_outputs all_utxos asset = map_of all_utxos asset"

definition utxo_amount :: "GdkUnspent \<Rightarrow> int" where
  "utxo_amount v = wrap_i64 (gu_satoshi v)"

text \<open>
  The selection that both the swap and the order code make among the outputs: the amounts are
  selected, must cover the amount, and are looked up.
\<close>

definition select_outputs :: "GdkUnspent list \<Rightarrow> int \<Rightarrow> (int \<times> UnspentOutput list) option" where
  "select_outputs asset_utxos send_amount = do {
     selected \<leftarrow> select_utxo (map utxo_amount asset_utxos) send_amount;
     let selected_amount = i64_sum selected;
     _ \<leftarrow> rust_assert (send_amount \<le> selected_amount);
     picked \<leftarrow> pick_utxos utxo_amount selected asset_utxos [];
     Some (selected_amount, map convert_unspent_output picked)
   }"

definition process_swap_request_atomic :: "UiSwapRequest \<Rightarrow> Data \<Rightarrow> SwapReview outcome" where
  "process_swap_request_atomic req d =
     (let send_amount = usr_send_amount req in
      try_op (ensure (d_connected d) (E ''not connected'') d) (\<lambda>_ d. do {
      ctx \<leftarrow> d_ctx d;
      send_asset \<leftarrow> bt_get (d_assets d) (usr_send_asset req);
      recv_asset \<leftarrow> bt_get (d_assets d) (usr_recv_asset req);
      try_op (gdk_try gr_unspent GC_get_unspent_outputs (\<lambda>_. E ''getting unspent outputs failed'') d) (\<lambda>all_utxos d.
      try_op (ok_or (asset_outputs all_utxos (a_asset_id send_asset)) (E ''not enough UTXO'') d) (\<lambda>asset_utxos d.
      let asset_utxos = filter (\<lambda>v. get_tx_out_gdk v \<notin> cx_used_utxos ctx)
            (filter (\<lambda>v. BALANCE_NUM_CONFS \<le> gu_block_height v) asset_utxos);
          total = i64_sum (map utxo_amount asset_utxos) in
      try_op (ensure (send_amount \<le> total) (E ''not enough UTXO'') d) (\<lambda>_ d. do {
      (selected_amount, selected_utxos) \<leftarrow> select_outputs asset_utxos send_amount;
      let change_amount = i64_sub selected_amount send_amount;
      let rfq = \<lparr>rfq_send_asset = a_asset_id send_asset, rfq_send_amount = send_amount, rfq_recv_asset = a_asset_id recv_asset,
            rfq_utxo_count = wrap_i32 (int (length selected_utxos)), rfq_with_change = (change_amount \<noteq> 0)\<rparr>;
      (rfq_resp, d) \<leftarrow> request_as as_match_rfq (Req_MatchRfq rfq) d;
      (case rfq_resp of
         Inl e \<Rightarrow> Some (Inl (E_ctx ''request failed: '' e), d)
       | Inr order_id \<Rightarrow> do {
           ctx \<leftarrow> d_ctx d;
           Some (Inr \<lparr>swr_send_asset = a_asset_id send_asset, swr_recv_asset = a_asset_id recv_asset, swr_send_amount = send_amount,
               swr_recv_amount = None, swr_network_fee = None, swr_error = None\<rparr>,
             set_ctx (ctx\<lparr>cx_active_swap := Some \<lparr>as_order_id = order_id, as_send_asset = a_asset_id send_asset,
               as_recv_asset = a_asset_id recv_asset, as_send_amount = send_amount, as_recv_amount_accepted = None,
               as_inputs = selected_utxos, as_network_fee = None\<rparr>\<rparr>) d)
         })
      }))) }))"

definition process_swap_request :: "UiSwapRequest \<Rightarrow> Data \<Rightarrow> Data option" where
  "process_swap_request req d = do {
     (result, d) \<leftarrow>
       (if usr_send_asset req = d_liquid_asset_id d \<and> usr_recv_asset req = d_bitcoin_asset_id d
        then process_pegout_request_local req d
        else if usr_send_asset req = d_bitcoin_asset_id d \<and> usr_recv_asset req = d_liquid_asset_id d
        then None
        else process_swap_request_atomic req d);
     let review = (case result of
         Inr v \<Rightarrow> v
       | Inl e \<Rightarrow> \<lparr>swr_send_asset = usr_send_asset req, swr_recv_asset = usr_recv_asset req,
           swr_send_amount = usr_send_amount req, swr_recv_amount = None, swr_network_fee = None, swr_error = Some e\<rparr>);
     Some (send_ui (FM_SwapReview review) d)
   }"

definition process_swap_cancel :: "Data \<Rightarrow> Data option" where
  "process_swap_cancel d = do {
     wallet \<leftarrow> d_ctx d;
     d \<leftarrow> (case cx_active_swap wallet of
         None \<Rightarrow> Some d
       | Some active_swap \<Rightarrow>
           map_option snd (request_as as_match_rfq_cancel (Req_MatchRfqCancel (as_order_id active_swap))
             (set_ctx (wallet\<lparr>cx_active_swap := None\<rparr>) d)));
     cleanup_swaps d
   }"

section \<open>Acceptance\<close>

definition accept_swap :: "int option \<Rightarrow> ClientSwap \<Rightarrow> Data \<Rightarrow> unit outcome" where
  "accept_swap recv_amount active_swap d =
     try_op (ok_or recv_amount (E ''nothing to accept'') d) (\<lambda>recv_amount d.
     try_op (request_as as_match_rfq_accept (Req_MatchRfqAccept (as_order_id active_swap) recv_amount) d) (\<lambda>_ d. do {
     ctx \<leftarrow> d_ctx d;
     swap \<leftarrow> cx_active_swap ctx;
     Some (Inr (), set_ctx (ctx\<lparr>cx_active_swap := Some (swap\<lparr>as_recv_amount_accepted := Some recv_amount\<rparr>)\<rparr>) d) }))"

definition to_outcome :: "Err + 'a \<Rightarrow> 's \<Rightarrow> ((Err + 'a) \<times> 's) option" where
  "to_outcome r s = Some (r, s)"

text \<open>The second half of a peg-out, from the server's address to the broadcast.\<close>

definition send_peg_out :: "InternalPeg \<Rightarrow> string \<Rightarrow> PegResponse \<Rightarrow> Data \<Rightarrow> unit outcome" where
  "send_peg_out data recv_addr resp d = do {
     lbtc_asset_id \<leftarrow> bt_get (d_tickers d) TICKER_LBTC;
     ctx \<leftarrow> d_ctx d;
     balance \<leftarrow> bt_get (cx_last_balances ctx) lbtc_asset_id;
     try_op (ensure (ip_send_amount data \<le> balance) (E ''not enough UTXO'') d) (\<lambda>_ d.
     let send_all = (balance = ip_send_amount data);
         details = \<lparr>crt_address = prs_peg_addr resp, crt_satoshi = wrap_u64 (ip_send_amount data),
           crt_asset_id = lbtc_asset_id, crt_send_all = send_all\<rparr> in
     try_op (gdk_try gr_tx (GC_create_transaction details) E d) (\<lambda>tx_detail_unsigned d.
     let lib = io_libs (d_io d) in
     try_op (to_outcome (lib_tx_addresses lib (env_mainnet (env_data (d_env d))) (tm_hex tx_detail_unsigned)) d) (\<lambda>addresses d.
     try_op (to_outcome (lib_unconfidential lib (prs_peg_addr resp)) d) (\<lambda>peg_addr d.
     try_op (ok_or (position (\<lambda>a. a = Some peg_addr) addresses) (E ''can't find peg output'') d) (\<lambda>vout d.
     let vout_send = wrap_i32 (int vout);
         send_amount = (if send_all then i64_sub (ip_send_amount data) (wrap_i64 (tm_fee tx_detail_unsigned)) else ip_send_amount data) in
     try_op (ok_or (d_server_status d) (E ''server_status is not known'') d) (\<lambda>server_status d.
     try_op (ensure (ss_min_peg_out_amount server_status \<le> send_amount)
       (E_min (to_bitcoin (ss_min_peg_out_amount server_status))) d) (\<lambda>_ d.
     let recv_amount = peg_out_share send_amount server_status in do {
     let (signed, d) = gdk_call gr_tx (GC_sign_transaction tx_detail_unsigned) d;
     tx_detail_signed \<leftarrow> res_ok signed;
     try_op (gdk_try gr_txid (GC_send_transaction tx_detail_signed) (\<lambda>e. E (''broadcast failed: '' @ e)) d) (\<lambda>send_txid d. do {
     let swap_succeed = \<lparr>tr_id = peg_txitem_id send_txid vout_send, tr_created_at = io_now (d_io d),
           tr_confs = Some \<lparr>cf_count = 0, cf_total = TX_CONF_COUNT\<rparr>,
           tr_item = Item_Peg \<lparr>pp_is_peg_in = False, pp_amount_send = send_amount, pp_amount_recv = recv_amount,
             pp_addr_send = prs_peg_addr resp, pp_addr_recv = recv_addr, pp_txid_send = send_txid,
             pp_vout_send = vout_send, pp_txid_recv = None\<rparr>\<rparr>;
     d \<leftarrow> cleanup_swaps (send_ui (FM_SwapSucceed swap_succeed) d);
     Some (Inr (), add_peg_monitoring (prs_order_id resp) PegDir_Out d) }) })))))))
   }"

definition try_process_swap_accept :: "string option \<Rightarrow> int option \<Rightarrow> Data \<Rightarrow> unit outcome" where
  "try_process_swap_accept recv_addr recv_amount d = do {
     ctx \<leftarrow> d_ctx d;
     try_op (ensure (d_connected d) (E ''not connected'') d) (\<lambda>_ d.
     case cx_active_swap ctx of
       Some active_swap \<Rightarrow> accept_swap recv_amount active_swap d
     | None \<Rightarrow>
         (case cx_internal_peg ctx of
            None \<Rightarrow> Some (Inl (E ''nothing to accept''), d)
          | Some data \<Rightarrow> do {
              let d = set_ctx (ctx\<lparr>cx_internal_peg := None\<rparr>) d;
              device_key \<leftarrow> set_device_key (d_settings d);
              recv_addr \<leftarrow> recv_addr;
              try_op (request_peg \<lparr>pr_recv_addr = recv_addr, pr_send_amount = None, pr_peg_in = False,
                  pr_device_key = Some device_key, pr_blocks = Some (ip_blocks data)\<rparr> d) (\<lambda>resp d.
              send_peg_out data recv_addr resp d) }))
   }"

definition process_swap_accept :: "string option \<Rightarrow> int option \<Rightarrow> Data \<Rightarrow> Data option" where
  "process_swap_accept recv_addr recv_amount d = do {
     (result, d) \<leftarrow> try_process_swap_accept recv_addr recv_amount d;
     (case result of Inl e \<Rightarrow> process_swap_cancel (send_ui (FM_SwapFailed e) d) | Inr _ \<Rightarrow> Some d)
   }"

section \<open>Payments\<close>

definition process_get_recv_address :: "Data \<Rightarrow> Data option" where
  "process_get_recv_address d = do {
     (addr, d) \<leftarrow> get_receive_address d;
     Some (send_ui (FM_RecvAddress addr) d)
   }"

definition payee_address :: "string \<Rightarrow> bool \<Rightarrow> Context \<Rightarrow> Data \<Rightarrow> (string \<times> ContactKey option) outcome" where
  "payee_address addr is_contact ctx d =
     (if is_contact then
        try_op (ok_or (cx_phone_key ctx) (E ''phone is not verified'') d) (\<lambda>phone_key d. do {
        (r, d) \<leftarrow> request_as as_contact_addr (Req_ContactAddr phone_key addr) d;
        Some (case r of Inl e \<Rightarrow> Inl (E_ctx ''can't get contact address: '' e) | Inr a \<Rightarrow> Inr (a, Some addr), d) })
      else Some (Inr (addr, None), d))"

definition create_tx :: "string \<Rightarrow> string \<Rightarrow> int \<Rightarrow> bool \<Rightarrow> Data \<Rightarrow> int outcome" where
  "create_tx addr send_asset send_amount is_contact d = do {
     ctx \<leftarrow> d_ctx d;
     try_op (payee_address addr is_contact ctx d) (\<lambda>(address, contact_key) d. do {
     ctx \<leftarrow> d_ctx d;
     try_op (ok_or (bt_get (cx_last_balances ctx) send_asset) (E (''unknown asset: '' @ send_asset)) d) (\<lambda>balance d.
     try_op (ensure (0 < send_amount) (E ''invalid send amount'') d) (\<lambda>_ d.
     try_op (ensure (send_amount \<le> balance) (E ''not enough UTXO'') d) (\<lambda>_ d.
     let send_all = (balance = send_amount);
         details = \<lparr>crt_address = address, crt_satoshi = wrap_u64 send_amount, crt_asset_id = send_asset, crt_send_all = send_all\<rparr> in
     try_op (gdk_try gr_tx (GC_create_transaction details) E d) (\<lambda>tx_detail_unsigned d. do {
     ctx \<leftarrow> d_ctx d;
     Some (Inr (wrap_i64 (tm_fee tx_detail_unsigned)),
       set_ctx (ctx\<lparr>cx_send_tx := Some \<lparr>sx_tx = tx_detail_unsigned, sx_send_all = send_all, sx_asset_id = send_asset,
         sx_amount = send_amount, sx_contact_key = contact_key\<rparr>\<rparr>) d) })))) })
   }"

text \<open>The balance changes that the worker reports for a payment until the wallet sees it.\<close>

definition sent_balances :: "SendTx \<Rightarrow> AssetId \<Rightarrow> int \<Rightarrow> bool \<Rightarrow> (string \<times> int) list" where
  "sent_balances send_tx lbtc_asset network_fee is_redeposit =
     (if is_redeposit then [(lbtc_asset, i64_neg network_fee)]
      else if sx_asset_id send_tx \<noteq> lbtc_asset
      then [(sx_asset_id send_tx, i64_neg (sx_amount send_tx)), (lbtc_asset, i64_neg network_fee)]
      else if sx_send_all send_tx then [(lbtc_asset, i64_neg (sx_amount send_tx))]
      else [(lbtc_asset, i64_sub (i64_neg (sx_amount send_tx)) network_fee)])"

definition broadcast_tx :: "SendTx \<Rightarrow> TransactionMeta \<Rightarrow> Context \<Rightarrow> Data \<Rightarrow> unit outcome" where
  "broadcast_tx send_tx tx_detail_signed ctx d =
     (case sx_contact_key send_tx of
        Some contact_key \<Rightarrow>
          try_op (ok_or (cx_phone_key ctx) (E ''phone is not verified'') d) (\<lambda>phone_key d. do {
          (r, d) \<leftarrow> request_as as_contact_broadcast (Req_ContactBroadcast (tm_hex tx_detail_signed) phone_key contact_key) d;
          Some (case r of Inl e \<Rightarrow> Inl (E_ctx ''broadcast failed: '' e) | Inr _ \<Rightarrow> Inr (), d) })
      | None \<Rightarrow>
          try_op (gdk_try gr_txid (GC_send_transaction tx_detail_signed) (\<lambda>e. E (''send failed: '' @ e)) d) (\<lambda>_ d.
          Some (Inr (), d)))"

definition send_tx :: "string \<Rightarrow> Data \<Rightarrow> TransItem outcome" where
  "send_tx memo d = do {
     ctx \<leftarrow> d_ctx d;
     try_op (ok_or (cx_send_tx ctx) (E ''no transaction found'') d) (\<lambda>stx d.
     let ctx = ctx\<lparr>cx_send_tx := None\<rparr>;
         d = set_ctx ctx d;
         network_fee = wrap_i64 (tm_fee (sx_tx stx)) in
     try_op (gdk_try gr_tx (GC_sign_transaction (sx_tx stx)) (\<lambda>e. E (''transaction sign failed: '' @ e)) d) (\<lambda>tx_detail_signed d.
     try_op (broadcast_tx stx tx_detail_signed ctx d) (\<lambda>_ d. do {
     let txid = tm_txid tx_detail_signed;
     let d = snd (gdk_call gr_unit (GC_set_transaction_memo txid memo) d);
     (_, asset) \<leftarrow> find (\<lambda>(_, asset). a_ticker asset = TICKER_LBTC) (d_assets d);
     ctx \<leftarrow> d_ctx d;
     is_redeposit \<leftarrow> lib_is_redeposit (io_libs (d_io d)) (cx_wallet ctx) (tm_hex tx_detail_signed);
     let balances = sent_balances stx (a_asset_id asset) network_fee is_redeposit;
     Some (Inr \<lparr>tr_id = txid, tr_created_at = io_now (d_io d), tr_confs = Some \<lparr>cf_count = 0, cf_total = TX_CONF_COUNT\<rparr>,
       tr_item = Item_Tx \<lparr>ptx_balances = balances, ptx_txid = txid, ptx_network_fee = network_fee, ptx_memo = memo\<rparr>\<rparr>, d) })))
   }"

definition process_create_tx :: "string \<Rightarrow> string \<Rightarrow> int \<Rightarrow> bool \<Rightarrow> Data \<Rightarrow> Data option" where
  "process_create_tx addr asset_id amount is_contact d = do {
     (result, d) \<leftarrow> create_tx addr asset_id amount is_contact d;
     Some (send_ui (FM_CreateTxResult result) d)
   }"

definition process_send_tx :: "string \<Rightarrow> Data \<Rightarrow> Data option" where
  "process_send_tx memo d = do {
     (result, d) \<leftarrow> send_tx memo d;
     Some (send_ui (FM_SendResult result) d)
   }"

definition process_set_memo :: "string \<Rightarrow> string \<Rightarrow> Data \<Rightarrow> Data option" where
  "process_set_memo txid memo d = do {
     _ \<leftarrow> d_ctx d;
     let (r, d) = gdk_call gr_unit (GC_set_transaction_memo txid memo) d;
     _ \<leftarrow> res_ok r;
     Some d
   }"

end
