(* ===== verification/Client_Submit.thy ===== *)
theory Client_Submit
  imports Client_Swap
begin

text \<open>
  Orders of the market in \<^verbatim>\<open>worker.rs\<close>: submission and quoting (\<^verbatim>\<open>try_process_submit_order\<close>,
  \<^verbatim>\<open>try_process_link_order\<close>, \<^verbatim>\<open>try_process_submit_decision\<close>), the check of the amounts, the
  signature of a matched order with or without the user's review (\<^verbatim>\<open>try_process_sign\<close>,
  \<^verbatim>\<open>try_sign\<close>), the queues of requests and prompts, and the push messages that announce
  a match.
\<close>

section \<open>Amounts\<close>

definition verify_amounts :: "Data \<Rightarrow> Details \<Rightarrow> (Err + unit) option" where
  "verify_amounts d details = map_option fst (
     try_op (ensure (det_asset details \<noteq> d_liquid_asset_id d) (E ''Condition failed: `details.asset != self.liquid_asset_id`'') ()) (\<lambda>_ s.
     try_op (ensure (f64_lt (f64_lit 0) (det_price details)) (E ''Condition failed: `details.price > 0.0`'') s) (\<lambda>_ s.
     try_op (ensure (MIN_BITCOIN_AMOUNT \<le> det_bitcoin_amount details)
       (E ''Condition failed: `details.bitcoin_amount >= types::MIN_BITCOIN_AMOUNT.to_sat()`'') s) (\<lambda>_ s.
     try_op (ensure (MIN_SERVER_FEE \<le> det_server_fee details)
       (E ''Condition failed: `details.server_fee >= types::MIN_SERVER_FEE.to_sat()`'') s) (\<lambda>_ s.
     try_op (ensure (0 < det_asset_amount details) (E ''Condition failed: `details.asset_amount > 0`'') s) (\<lambda>_ s.
     try_op (ensure (det_server_fee details < det_bitcoin_amount details)
       (E ''Condition failed: `details.server_fee < details.bitcoin_amount`'') s) (\<lambda>_ s.
     try_op (ok_or (bt_get (d_assets d) (det_asset details)) (E ''unknown asset'') s) (\<lambda>asset s.
     try_op (ensure (a_precision asset \<le> 8) (E ''Condition failed: `asset.precision <= 8`'') s) (\<lambda>_ s.
     try_op (case det_order_type details of
         OT_Bitcoin \<Rightarrow>
           try_op (ensure (a_precision asset = 8) (E ''Condition failed: `asset.precision == 8`'') s) (\<lambda>_ s. do {
           expected \<leftarrow> types_asset_amount (det_bitcoin_amount details) (det_price details) (a_precision asset);
           ensure (expected = det_asset_amount details)
             (E ''Condition failed: `expected_asset_amount == details.asset_amount`'') s })
       | OT_Asset \<Rightarrow> do {
           expected \<leftarrow> types_bitcoin_amount (det_asset_amount details) (det_price details) (a_precision asset);
           ensure (expected = det_bitcoin_amount details)
             (E ''Condition failed: `expected_bitcoin_amount == details.bitcoin_amount`'') s }) (\<lambda>_ s.
     ensure (det_server_fee details = get_server_fee (det_bitcoin_amount details))
       (E ''Condition failed: `details.server_fee == server_fee.to_sat()`'') s))))))))))"

definition check_amounts :: "Details \<Rightarrow> Data \<Rightarrow> unit outcome" where
  "check_amounts details d = do { r \<leftarrow> verify_amounts d details; Some (r, d) }"

section \<open>Prompts\<close>

definition sign_review :: "SignNotification \<Rightarrow> SubmitData \<Rightarrow> bool \<Rightarrow> SubmitReview" where
  "sign_review msg s internal =
     \<lparr>srv_order_id = sn_order_id msg, srv_asset = sd_asset s, srv_bitcoin_amount = sd_bitcoin_amount s,
      srv_server_fee = sd_server_fee s, srv_asset_amount = sd_asset_amount s, srv_price = sd_price s,
      srv_sell_bitcoin = sd_sell_bitcoin s, srv_step = Step_Sign, srv_index_price = sd_index_price s,
      srv_internal = internal, srv_auto_sign = sd_auto_sign s\<rparr>"

text \<open>The loop ends with the first order that is shown, or with an empty queue.\<close>

fun prompt_loop :: "SignNotification list \<Rightarrow> Context \<Rightarrow> Data \<Rightarrow> Data" where
  "prompt_loop [] ctx d = d\<lparr>d_pending_sign_prompts := []\<rparr>"
| "prompt_loop (msg # msgs) ctx d =
     (case bt_get (d_submit_data d) (sn_order_id msg) of
        None \<Rightarrow> prompt_loop msgs ctx d
      | Some s \<Rightarrow>
          let d = d\<lparr>d_pending_sign_prompts := msgs\<rparr>;
              d = send_ui (FM_SubmitReview (sign_review msg s (sn_order_id msg \<in> d_internal d))) d
          in set_ctx (ctx\<lparr>cx_active_sign := Some msg\<rparr>) (d\<lparr>d_visible_submit := Some (sn_order_id msg)\<rparr>))"

definition process_pending_sign_prompts :: "Data \<Rightarrow> Data" where
  "process_pending_sign_prompts d =
     (case d_ctx d of
        None \<Rightarrow> d
      | Some ctx \<Rightarrow>
          if d_visible_submit d \<noteq> None then d
          else prompt_loop (d_pending_sign_prompts d) ctx d)"

section \<open>Signing\<close>

definition order_psbt_info :: "AssetId \<Rightarrow> SubmitData \<Rightarrow> PsbtInfo" where
  "order_psbt_info liquid_asset_id s =
     (if sd_sell_bitcoin s
      then \<lparr>pinfo_send_asset = liquid_asset_id, pinfo_recv_asset = sd_asset s,
            pinfo_send_amount = amount_add (sd_bitcoin_amount s) (sd_server_fee s), pinfo_recv_amount = sd_asset_amount s\<rparr>
      else \<lparr>pinfo_send_asset = sd_asset s, pinfo_recv_asset = liquid_asset_id,
            pinfo_send_amount = sd_asset_amount s, pinfo_recv_amount = amount_sub (sd_bitcoin_amount s) (sd_server_fee s)\<rparr>)"

text \<open>The stored outputs of an order are taken out when it is signed.\<close>

definition take_stored_utxos :: "OrderSide \<Rightarrow> OrderId \<Rightarrow> Data \<Rightarrow> StoredUtxo option \<times> Data" where
  "take_stored_utxos side order_id d =
     (case side of
        Requestor \<Rightarrow>
          let m = (case set_utxos_req (d_settings d) of None \<Rightarrow> [] | Some m \<Rightarrow> m)
          in (bt_get m order_id, save_settings (d\<lparr>d_settings := (d_settings d)\<lparr>set_utxos_req := Some (bt_remove order_id m)\<rparr>\<rparr>))
      | Responder \<Rightarrow>
          (bt_get (d_utxos_resp d) order_id, d\<lparr>d_utxos_resp := bt_remove order_id (d_utxos_resp d)\<rparr>))"

definition try_sign :: "SignNotification \<Rightarrow> Data \<Rightarrow> bool outcome" where
  "try_sign msg d =
     try_op (ok_or (d_ctx d) (E ''no wallet'') d) (\<lambda>_ d.
     try_op (ok_or (bt_get (d_submit_data d) (sn_order_id msg)) (E ''no keys found'') d) (\<lambda>s d.
     try_op (ensure (sd_order_id s = sn_order_id msg) (E ''unexpected order_id'') d) (\<lambda>_ d.
     let psbt_info = order_psbt_info (d_liquid_asset_id d) s;
         (utxos, d) = take_stored_utxos (det_side (sn_details msg)) (sn_order_id msg) d in
     try_op (ok_or utxos (E ''not utxos found'') d) (\<lambda>utxos d.
     try_op (client_sign_psbt psbt_info (su_utxos utxos) (sn_pset msg) d) (\<lambda>signed_pset d.
     try_op (request_as as_sign (Req_Sign \<lparr>sq_order_id = sn_order_id msg, sq_signed_pset = signed_pset, sq_side = sd_side s\<rparr>) d) (\<lambda>_ d.
     Some (Inr False, d)))))))"

definition price_change :: "f64 \<Rightarrow> f64 \<Rightarrow> f64" where
  "price_change new_price old_price = f64_div (f64_abs (f64_sub new_price old_price)) old_price"

text \<open>The match must be for the submitted order.\<close>

definition check_match :: "Details \<Rightarrow> SubmitData \<Rightarrow> Data \<Rightarrow> unit outcome" where
  "check_match det s d =
     try_op (ensure (sd_sell_bitcoin s = det_send_bitcoins det)
       (E ''Condition failed: `submit_data.sell_bitcoin == msg.details.send_bitcoins`'') d) (\<lambda>_ d.
     try_op (ensure (sd_order_type s = det_order_type det)
       (E ''Condition failed: `submit_data.order_type == msg.details.order_type`'') d) (\<lambda>_ d.
     try_op (ensure (sd_asset s = det_asset det) (E ''Condition failed: `submit_data.asset == msg.details.asset`'') d) (\<lambda>_ d.
     try_op (case sd_order_type s of
         OT_Bitcoin \<Rightarrow>
           try_op (ensure (sd_server_fee s = det_server_fee det)
             (E ''Condition failed: `submit_data.server_fee.to_sat() == msg.details.server_fee`'') d) (\<lambda>_ d.
           ensure (sd_bitcoin_amount s = det_bitcoin_amount det)
             (E ''Condition failed: `submit_data.bitcoin_amount.to_sat() == msg.details.bitcoin_amount`'') d)
       | OT_Asset \<Rightarrow>
           ensure (sd_asset_amount s = det_asset_amount det)
             (E ''Condition failed: `submit_data.asset_amount.to_sat() == msg.details.asset_amount`'') d) (\<lambda>_ d.
     try_op (ensure (sd_side s = det_side det) (E ''Condition failed: `submit_data.side == msg.details.side`'') d) (\<lambda>_ d.
     ensure (f64_eq (price_change (det_price det) (sd_price s)) (f64_lit 0) \<or> sd_side s \<noteq> Responder)
       (E ''Condition failed: `price_change == 0.0 || submit_data.side != OrderSide::Responder`'') d)))))"

definition auto_sign_allowed :: "Details \<Rightarrow> SubmitData \<Rightarrow> bool" where
  "auto_sign_allowed det s \<longleftrightarrow>
     (let allowed_price_change = (if sd_index_price s then AUTO_SIGN_ALLOWED_INDEX_PRICE_CHANGE else f64_lit 0)
      in sd_side s = Responder \<or>
         (sd_side s = Requestor \<and> sd_auto_sign s \<and>
          f64_le (price_change (det_price det) (sd_price s)) allowed_price_change))"

definition update_selected :: "Details \<Rightarrow> SubmitData \<Rightarrow> SubmitData" where
  "update_selected det s = s\<lparr>sd_price := det_price det, sd_asset_amount := det_asset_amount det,
     sd_bitcoin_amount := det_bitcoin_amount det, sd_server_fee := det_server_fee det\<rparr>"

definition try_process_sign :: "SignNotification \<Rightarrow> Data \<Rightarrow> unit outcome" where
  "try_process_sign msg d =
     (if sn_order_id msg \<in> d_processed_signs d then Some (Inr (), d)
      else
        let d = d\<lparr>d_processed_signs := insert (sn_order_id msg) (d_processed_signs d)\<rparr>; det = sn_details msg in
        try_op (check_amounts det d) (\<lambda>_ d.
        try_op (ok_or (bt_get (d_submit_data d) (sn_order_id msg)) (E ''no keys found'') d) (\<lambda>s d.
        try_op (ensure (sn_order_id msg = sd_order_id s) (E ''Condition failed: `order_id == submit_data.order_id`'') d) (\<lambda>_ d.
        try_op (check_match det s d) (\<lambda>_ d.
        let d = d\<lparr>d_submit_data := bt_insert (sn_order_id msg) (update_selected det s) (d_submit_data d)\<rparr> in
        if \<not> auto_sign_allowed det s
        then Some (Inr (), process_pending_sign_prompts (d\<lparr>d_pending_sign_prompts := d_pending_sign_prompts d @ [msg]\<rparr>))
        else try_op (try_sign msg d) (\<lambda>_ d. Some (Inr (), d)))))))"

definition try_process_sign_shown :: "SignNotification \<Rightarrow> Data \<Rightarrow> Data option" where
  "try_process_sign_shown msg d = do {
     (result, d) \<leftarrow> try_process_sign msg d;
     (case result of Inl e \<Rightarrow> Some (show_message (E_ctx ''sign failed: '' e) d) | Inr _ \<Rightarrow> Some d)
   }"

definition process_pending_sign_requests :: "Data \<Rightarrow> Data option" where
  "process_pending_sign_requests d =
     foldM (\<lambda>msg d.
       let d = d\<lparr>d_pending_sign_requests := tl (d_pending_sign_requests d)\<rparr> in
       if sn_order_id msg \<in> d_processed_signs d then Some d else try_process_sign_shown msg d)
       (d_pending_sign_requests d) d"

definition process_sign :: "SignNotification \<Rightarrow> Data \<Rightarrow> Data option" where
  "process_sign msg d =
     (if det_side (sn_details msg) = Responder then try_process_sign_shown msg d
      else process_pending_sign_requests (d\<lparr>d_pending_sign_requests := d_pending_sign_requests d @ [msg]\<rparr>))"

section \<open>Submission\<close>

definition details_send :: "AssetId \<Rightarrow> Details \<Rightarrow> AssetId \<times> int \<times> AssetId" where
  "details_send liquid_asset_id det =
     (if det_send_bitcoins det
      then (liquid_asset_id, i64_add (det_bitcoin_amount det) (det_server_fee det), det_asset det)
      else (det_asset det, det_asset_amount det, liquid_asset_id))"

definition try_process_link_order :: "OrderId \<Rightarrow> Data \<Rightarrow> unit outcome" where
  "try_process_link_order order_id d =
     try_op (request_as as_link (Req_Link order_id) d) (\<lambda>resp d.
     let det = lr_details resp in
     try_op (try_add_asset (det_asset det) d) (\<lambda>_ d.
     try_op (ok_or (d_ctx d) (E ''no context found'') d) (\<lambda>ctx d.
     let (send_asset_id, send_amount, _) = details_send (d_liquid_asset_id d) det;
         available_balance = (case bt_get (cx_last_balances ctx) send_asset_id of None \<Rightarrow> 0 | Some b \<Rightarrow> b) in
     try_op (ok_or (bt_get (d_assets d) send_asset_id) (E ''send asset not found'') d) (\<lambda>send_asset d. do {
     available_balance_float \<leftarrow> asset_float_amount available_balance (a_precision send_asset);
     send_amount_float \<leftarrow> asset_float_amount send_amount (a_precision send_asset);
     try_op (ensure (send_amount \<le> available_balance) (E_funds available_balance_float send_amount_float) d) (\<lambda>_ d.
     let review = \<lparr>srv_order_id = order_id, srv_asset = det_asset det, srv_bitcoin_amount = det_bitcoin_amount det,
           srv_server_fee = det_server_fee det, srv_asset_amount = det_asset_amount det, srv_price = det_price det,
           srv_sell_bitcoin = det_send_bitcoins det,
           srv_step = (if det_side det = Requestor then Step_Submit else Step_Quote), srv_index_price = lr_index_price resp,
           srv_internal = (order_id \<in> d_internal d),
           srv_auto_sign = (case bt_get (d_submit_data d) order_id of None \<Rightarrow> False | Some s \<Rightarrow> sd_auto_sign s)\<rparr>;
         d = (send_ui (FM_SubmitReview review) d)\<lparr>d_visible_submit := Some order_id\<rparr> in
     try_op (ok_or (d_ctx d) (E ''no context found'') d) (\<lambda>ctx d.
     Some (Inr (), set_ctx (ctx\<lparr>cx_active_submit := Some resp\<rparr>) d))) }))))"

text \<open>An offer of the whole balance is replaced by the largest order that the balance pays for.\<close>

definition submit_bitcoin_amount :: "f64 option \<Rightarrow> Data \<Rightarrow> f64 option outcome" where
  "submit_bitcoin_amount bitcoin_amount d =
     (case bitcoin_amount of
        None \<Rightarrow> Some (Inr None, d)
      | Some v \<Rightarrow> do {
          ctx \<leftarrow> d_ctx d;
          let bitcoin_balance = (case bt_get (cx_last_balances ctx) (d_liquid_asset_id d) of None \<Rightarrow> 0 | Some b \<Rightarrow> b);
          (if f64_eq (to_bitcoin bitcoin_balance) (f64_neg v) then do {
             r \<leftarrow> get_max_bitcoin_amount bitcoin_balance;
             Some (case r of Inl e \<Rightarrow> Inl (E e) | Inr a \<Rightarrow> Inr (Some (f64_neg (to_bitcoin a))), d) }
           else Some (Inr (Some v), d))
        })"

definition try_process_submit_order :: "UiSubmitOrder \<Rightarrow> Data \<Rightarrow> unit outcome" where
  "try_process_submit_order req d =
     (let internal = (uso_session_id req = None) in
      try_op (ok_or (case uso_session_id req of Some s \<Rightarrow> Some s | None \<Rightarrow> set_session_id (d_settings d))
        (E ''empty session_id'') d) (\<lambda>session_id d.
      try_op (submit_bitcoin_amount (uso_bitcoin_amount req) d) (\<lambda>bitcoin_amount d.
      let order = \<lparr>po_asset = uso_asset_id req, po_bitcoin_amount = bitcoin_amount, po_asset_amount = uso_asset_amount req,
            po_price = Some (uso_price req), po_index_price = uso_index_price req\<rparr> in
      try_op (request_as as_submit (Req_Submit order (Some session_id)) d) (\<lambda>resp d.
      let d = (if internal then d\<lparr>d_internal := insert (sr_order_id resp) (d_internal d)\<rparr> else d)
      in try_process_link_order (sr_order_id resp) d))))"

definition reserved_txouts :: "Data \<Rightarrow> (string \<times> int) set" where
  "reserved_txouts d = \<Union> (set (map sd_txouts (bt_values (d_submit_data d))))"

text \<open>Outputs that no other order has reserved are preferred.\<close>

definition order_outputs :: "GdkUnspent list \<Rightarrow> int \<Rightarrow> Data \<Rightarrow> GdkUnspent list" where
  "order_outputs all_asset_utxos send_amount d =
     (let filtered_utxos = filter (\<lambda>utxo. get_tx_out_gdk utxo \<notin> reserved_txouts d) all_asset_utxos;
          filtered_amount = wrap_i64 (u64_sum (map gu_satoshi filtered_utxos))
      in if send_amount \<le> filtered_amount then filtered_utxos else all_asset_utxos)"

definition store_utxos :: "OrderSide \<Rightarrow> OrderId \<Rightarrow> UnspentOutput list \<Rightarrow> Data \<Rightarrow> Data" where
  "store_utxos side order_id utxos d =
     (let stored = \<lparr>su_utxos = utxos, su_created_at = io_now (d_io d)\<rparr> in
      case side of
        Requestor \<Rightarrow>
          let m = (case set_utxos_req (d_settings d) of None \<Rightarrow> [] | Some m \<Rightarrow> m)
          in save_settings (d\<lparr>d_settings := (d_settings d)\<lparr>set_utxos_req := Some (bt_insert order_id stored m)\<rparr>\<rparr>)
      | Responder \<Rightarrow> d\<lparr>d_utxos_resp := bt_insert order_id stored (d_utxos_resp d)\<rparr>)"

definition new_submit_data :: "UiSubmitDecision \<Rightarrow> LinkResponse \<Rightarrow> int \<Rightarrow> UnspentOutput list \<Rightarrow> SubmitData" where
  "new_submit_data req resp precision selected_utxos =
     (let det = lr_details resp in
      \<lparr>sd_order_id = usd_order_id req, sd_side = det_side det, sd_asset = det_asset det, sd_asset_precision = precision,
       sd_order_type = det_order_type det, sd_bitcoin_amount = det_bitcoin_amount det,
       sd_asset_amount = det_asset_amount det, sd_price = det_price det, sd_server_fee = det_server_fee det,
       sd_sell_bitcoin = det_send_bitcoins det, sd_txouts = set (map get_tx_out_libwally selected_utxos),
       sd_auto_sign = (usd_auto_sign req = Some True \<and> det_side det = Requestor), sd_txid = None,
       sd_index_price = lr_index_price resp\<rparr>)"

text \<open>The part of \<^verbatim>\<open>try_process_submit_decision\<close> for a submitted or quoted order.\<close>

definition submit_accepted :: "UiSubmitDecision \<Rightarrow> LinkResponse \<Rightarrow> Data \<Rightarrow> bool outcome" where
  "submit_accepted req resp d =
     (let det = lr_details resp; order_id = usd_order_id req in
      try_op (ok_or (bt_get (d_assets d) (det_asset det)) (E ''unknown asset'') d) (\<lambda>asset d.
      try_op (check_amounts det d) (\<lambda>_ d.
      let (send_asset, send_amount, recv_asset) = details_send (d_liquid_asset_id d) det in
      try_op (gdk_try gr_unspent GC_get_unspent_outputs (\<lambda>_. E ''getting unspent outputs failed'') d) (\<lambda>all_utxos d.
      try_op (ok_or (asset_outputs all_utxos send_asset) (E ''Insufficient funds'') d) (\<lambda>all_asset_utxos d.
      let asset_utxos = order_outputs all_asset_utxos send_amount d;
          total = i64_sum (map utxo_amount asset_utxos) in
      try_op (ensure (send_amount \<le> total) (E ''Insufficient funds'') d) (\<lambda>_ d. do {
      (selected_amount, selected_utxos) \<leftarrow> select_outputs asset_utxos send_amount;
      let psbt_info = \<lparr>pinfo_send_asset = send_asset, pinfo_recv_asset = recv_asset,
            pinfo_send_amount = selected_amount, pinfo_recv_amount = 0\<rparr>;
      try_op (client_generate_psbt psbt_info selected_utxos d) (\<lambda>pset d. do {
      (recv_addr, d) \<leftarrow> get_receive_address d;
      (change_addr, d) \<leftarrow> get_receive_address d;
      try_op (request_as as_addr (Req_Addr \<lparr>ar_order_id = order_id, ar_pset = pset, ar_recv_addr = recv_addr, ar_change_addr = change_addr,
          ar_price = det_price det, ar_private = usd_private req, ar_ttl_seconds = usd_ttl_seconds req\<rparr>) d) (\<lambda>_ d.
      let submit_data = new_submit_data req resp (a_precision asset) selected_utxos;
          d = d\<lparr>d_submit_data := bt_insert order_id submit_data (d_submit_data d)\<rparr>
      in Some (Inr (det_side det = Requestor), store_utxos (det_side det) order_id selected_utxos d)) }) }))))))"

definition try_process_submit_decision :: "UiSubmitDecision \<Rightarrow> Data \<Rightarrow> bool outcome" where
  "try_process_submit_decision req d =
     (if \<not> usd_accept req then Some (Inr True, d)
      else try_op (ok_or (d_ctx d) (E ''no context found'') d) (\<lambda>ctx d.
        if map_option sn_order_id (cx_active_sign ctx) = Some (usd_order_id req)
        then do {
          sign_msg \<leftarrow> cx_active_sign ctx;
          try_sign sign_msg (set_ctx (ctx\<lparr>cx_active_sign := None\<rparr>) d) }
        else try_op (ok_or (cx_active_submit ctx) (E ''data not found'') d) (\<lambda>resp d.
          submit_accepted req resp (set_ctx (ctx\<lparr>cx_active_submit := None\<rparr>) d))))"

definition process_submit_decision :: "UiSubmitDecision \<Rightarrow> Data \<Rightarrow> Data option" where
  "process_submit_decision req d = do {
     (result, d) \<leftarrow> try_process_submit_decision req d;
     Some (case result of
        Inr False \<Rightarrow>
          process_pending_succeed (process_pending_sign_prompts
            (d\<lparr>d_waiting_submit := d_visible_submit d, d_visible_submit := None\<rparr>))
      | Inr True \<Rightarrow>
          process_pending_succeed (process_pending_sign_prompts
            ((send_ui (FM_SubmitResult SubmitSucceed) d)\<lparr>d_visible_submit := None\<rparr>))
      | Inl e \<Rightarrow>
          process_pending_succeed (process_pending_sign_prompts
            ((send_ui (FM_SubmitResult (SubmitError e)) d)\<lparr>d_visible_submit := None\<rparr>)))
   }"

section \<open>Edit, cancel and completion\<close>

definition edit_submit_data :: "f64 \<Rightarrow> SubmitData \<Rightarrow> SubmitData option" where
  "edit_submit_data price s =
     (case sd_order_type s of
        OT_Bitcoin \<Rightarrow> do {
          asset_amount \<leftarrow> types_asset_amount (sd_bitcoin_amount s) price (sd_asset_precision s);
          Some (s\<lparr>sd_price := price, sd_asset_amount := asset_amount\<rparr>) }
      | OT_Asset \<Rightarrow> do {
          bitcoin_amount \<leftarrow> types_bitcoin_amount (sd_asset_amount s) price (sd_asset_precision s);
          Some (s\<lparr>sd_price := price, sd_bitcoin_amount := bitcoin_amount, sd_server_fee := get_server_fee bitcoin_amount\<rparr>) })"

definition try_edit_order :: "OrderId \<Rightarrow> EditData option \<Rightarrow> Data \<Rightarrow> unit outcome" where
  "try_edit_order order_id data d =
     try_op (ok_or data (E ''data is not set'') d) (\<lambda>data d.
     let (price, index_price) = (case data of Edit_Price v \<Rightarrow> (Some v, None) | Edit_IndexPrice v \<Rightarrow> (None, Some v)) in
     try_op (request_as as_edit (Req_Edit \<lparr>er_order_id = order_id, er_price = price, er_index_price = index_price\<rparr>) d) (\<lambda>_ d.
     case (price, bt_get (d_submit_data d) order_id) of
       (Some price, Some s) \<Rightarrow> do {
         s \<leftarrow> edit_submit_data price s;
         Some (Inr (), d\<lparr>d_submit_data := bt_insert order_id s (d_submit_data d)\<rparr>) }
     | _ \<Rightarrow> Some (Inr (), d)))"

definition process_edit_order :: "OrderId \<Rightarrow> EditData option \<Rightarrow> Data \<Rightarrow> Data option" where
  "process_edit_order order_id data d = do {
     (edit_result, d) \<leftarrow> try_edit_order order_id data d;
     Some (send_ui (FM_EditOrder (err_opt edit_result)) d)
   }"

definition process_cancel_order :: "OrderId \<Rightarrow> Data \<Rightarrow> Data option" where
  "process_cancel_order order_id d = do {
     (cancel_result, d) \<leftarrow> request_as as_cancel (Req_Cancel order_id) d;
     Some (send_ui (FM_CancelOrder (err_opt cancel_result)) d)
   }"

definition process_complete :: "OrderId \<Rightarrow> string option \<Rightarrow> Data \<Rightarrow> Data" where
  "process_complete order_id txid d =
     (case txid of
        Some v \<Rightarrow>
          (case bt_get (d_submit_data d) order_id of
             None \<Rightarrow> d
           | Some s \<Rightarrow> d\<lparr>d_submit_data := bt_insert order_id (s\<lparr>sd_txid := Some v\<rparr>) (d_submit_data d)\<rparr>)
      | None \<Rightarrow>
          let d = (if d_visible_submit d = Some order_id \<or> (d_visible_submit d = None \<and> d_waiting_submit d = Some order_id)
               then process_pending_succeed (process_pending_sign_prompts
                 ((send_ui (FM_SubmitResult (SubmitError (E ''Order has been cancelled''))) d)\<lparr>d_visible_submit := None\<rparr>))
               else d)
          in d\<lparr>d_submit_data := bt_remove order_id (d_submit_data d)\<rparr>)"

section \<open>Pending requests\<close>

definition restored_submit_data :: "SignNotification \<Rightarrow> OrderId \<Rightarrow> int \<Rightarrow> SubmitData" where
  "restored_submit_data sign order_id precision =
     (let det = sn_details sign in
      \<lparr>sd_order_id = order_id, sd_side = Requestor, sd_asset = det_asset det, sd_asset_precision = precision,
       sd_order_type = det_order_type det, sd_bitcoin_amount = det_bitcoin_amount det,
       sd_asset_amount = det_asset_amount det, sd_price = det_price det, sd_server_fee = det_server_fee det,
       sd_sell_bitcoin = det_send_bitcoins det, sd_txouts = {}, sd_auto_sign = False, sd_txid = None,
       sd_index_price = False\<rparr>)"

definition download_sign_request :: "OrderId \<Rightarrow> Data \<Rightarrow> unit outcome" where
  "download_sign_request order_id d =
     try_op (request_as as_get_sign (Req_GetSign order_id) d) (\<lambda>sign d.
     try_op (try_add_asset (det_asset (sn_details sign)) d) (\<lambda>_ d.
     try_op (if bt_contains (d_submit_data d) order_id then Some (Inr (), d)
       else try_op (ok_or (bt_get (d_assets d) (det_asset (sn_details sign))) (E ''unknown asset'') d) (\<lambda>asset d.
            try_op (check_amounts (sn_details sign) d) (\<lambda>_ d.
            Some (Inr (), d\<lparr>d_submit_data := bt_insert order_id
              (restored_submit_data sign order_id (a_precision asset)) (d_submit_data d)\<rparr>)))) (\<lambda>_ d. do {
     d \<leftarrow> process_sign sign d;
     Some (Inr (), d) })))"

definition ping_back :: "nat option \<Rightarrow> Data \<Rightarrow> Data" where
  "ping_back pending_sign d =
     (case pending_sign of
        None \<Rightarrow> d
      | Some n \<Rightarrow> d\<lparr>d_io := (d_io d)\<lparr>io_pings := io_pings (d_io d) @ [n]\<rparr>\<rparr>)"

definition process_pending_sign :: "OrderId \<times> nat option \<Rightarrow> Data \<Rightarrow> Data option" where
  "process_pending_sign entry d =
     (let (order_id, pending_sign) = entry in
      if order_id \<in> d_processed_signs d then Some d
      else do {
        (result, d) \<leftarrow> download_sign_request order_id d;
        let d = (case result of Inl e \<Rightarrow> show_message (E_ctx ''sign failed: '' e) d | Inr _ \<Rightarrow> d);
        Some (ping_back pending_sign d) })"

definition process_pending_submit :: "UiSubmitOrder \<Rightarrow> Data \<Rightarrow> Data option" where
  "process_pending_submit req d = do {
     (result, d) \<leftarrow> try_process_submit_order req d;
     (case result of Inl e \<Rightarrow> Some (send_ui (FM_SubmitResult (SubmitError e)) d) | Inr _ \<Rightarrow> Some d)
   }"

definition process_pending_link :: "OrderId \<Rightarrow> Data \<Rightarrow> Data option" where
  "process_pending_link order_id d = do {
     (result, d) \<leftarrow> try_process_link_order order_id d;
     (case result of Inl e \<Rightarrow> Some (show_message e d) | Inr _ \<Rightarrow> Some d)
   }"

definition process_pending_requests :: "Data \<Rightarrow> Data option" where
  "process_pending_requests d =
     (if \<not> d_connected d then Some d
      else case d_ctx d of
        None \<Rightarrow> Some d
      | Some ctx \<Rightarrow> do {
          d \<leftarrow> foldM process_pending_sign (d_pending_signs d) (d\<lparr>d_pending_signs := []\<rparr>);
          (if \<not> cx_sync_complete ctx then Some d
           else do {
             d \<leftarrow> foldM process_pending_submit (d_pending_submits d) (d\<lparr>d_pending_submits := []\<rparr>);
             d \<leftarrow> foldM process_pending_link (d_pending_links d) (d\<lparr>d_pending_links := []\<rparr>);
             Some (process_pending_sign_prompts d) })
        })"

definition process_submit_order :: "UiSubmitOrder \<Rightarrow> Data \<Rightarrow> Data option" where
  "process_submit_order req d = process_pending_requests (d\<lparr>d_pending_submits := d_pending_submits d @ [req]\<rparr>)"

definition process_link_order :: "OrderId \<Rightarrow> Data \<Rightarrow> Data option" where
  "process_link_order order_id d = process_pending_requests (d\<lparr>d_pending_links := d_pending_links d @ [order_id]\<rparr>)"

definition skip_wallet_sync :: "Data \<Rightarrow> bool" where
  "skip_wallet_sync d \<longleftrightarrow> d_pending_submits d = [] \<and> d_pending_links d = []"

definition sync_complete :: "Data \<Rightarrow> Data option" where
  "sync_complete d =
     (case d_ctx d of
        None \<Rightarrow> Some d
      | Some ctx \<Rightarrow>
          if cx_sync_complete ctx then Some d
          else process_pending_requests (send_wallet_loaded (set_ctx (ctx\<lparr>cx_sync_complete := True\<rparr>) d)))"

definition restart_websocket :: "Data \<Rightarrow> Data" where
  "restart_websocket d = send_ws WR_Disconnect (d\<lparr>d_connected := False\<rparr>)"

definition check_connection :: "Data \<Rightarrow> Data option" where
  "check_connection d =
     (if \<not> d_connected d then Some d
      else do {
        (ping_response, d) \<leftarrow> request_as as_ping Req_Ping d;
        Some (if is_ok ping_response then d else restart_websocket d) })"

definition process_push_message :: "string \<Rightarrow> nat option \<Rightarrow> Data \<Rightarrow> Data option" where
  "process_push_message req pending_sign d =
     (case lib_parse_fcm (io_libs (d_io d)) req of
        Some (Fcm_Sign order_id) \<Rightarrow> do {
          let pending_sign = (case bt_get (d_pending_signs d) order_id of None \<Rightarrow> pending_sign | Some old \<Rightarrow> old);
          d \<leftarrow> check_connection (d\<lparr>d_pending_signs := bt_insert order_id pending_sign (d_pending_signs d)\<rparr>);
          process_pending_requests d }
      | _ \<Rightarrow> Some d)"

definition process_background_message :: "string \<Rightarrow> nat \<Rightarrow> Data \<Rightarrow> Data option" where
  "process_background_message data pending_sign d = process_push_message data (Some pending_sign) d"

end
