(* ===== verification/Client_Main.thy ===== *)
theory Client_Main
  imports Client_Submit
begin

text \<open>
  The connection to the server, login and logout, and the message loop of \<^verbatim>\<open>worker.rs\<close>
  (\<^verbatim>\<open>start_processing\<close>).  Between two messages the outside may change what it will answer, the
  clock and the wallet, which the synchronisation thread of the wallet library updates.
\<close>

section \<open>Connection\<close>

definition subscribe_price_update :: "Ticker \<Rightarrow> Data \<Rightarrow> Data option" where
  "subscribe_price_update ticker d =
     (case bt_get (d_tickers d) ticker of
        None \<Rightarrow> Some d
      | Some asset_id \<Rightarrow> map_option snd (request_as as_price_subscribe (Req_PriceUpdateSubscribe asset_id) d))"

definition write_cookie :: "string \<Rightarrow> Data \<Rightarrow> Data" where
  "write_cookie cookie d =
     (if io_disk_ok (d_io d) then d\<lparr>d_io := (d_io d)\<lparr>io_cookie := Some cookie\<rparr>\<rparr> else d)"

text \<open>\<^verbatim>\<open>get_os_type\<close> is fixed at build time; the model is the desktop build.\<close>

definition OS_TYPE_OTHER :: int where "OS_TYPE_OTHER = 0"

definition verify_device :: "Data \<Rightarrow> unit outcome" where
  "verify_device d =
     (case set_device_key (d_settings d) of
        None \<Rightarrow> Some (Inr (), d)
      | Some device_key \<Rightarrow>
          try_op (request_as as_verify_device (Req_VerifyDevice device_key) d) (\<lambda>device_state d.
          Some (Inr (), case device_state of
              Unregistered \<Rightarrow> save_settings (d\<lparr>d_settings := (d_settings d)\<lparr>set_device_key := None\<rparr>\<rparr>)
            | Registered \<Rightarrow> d)))"

definition register_device :: "Data \<Rightarrow> unit outcome" where
  "register_device d =
     (if set_device_key (d_settings d) \<noteq> None then Some (Inr (), d)
      else try_op (request_as as_register_device (Req_RegisterDevice OS_TYPE_OTHER) d) (\<lambda>device_key d. do {
        d \<leftarrow> update_address_registrations (save_settings (d\<lparr>d_settings := (d_settings d)
          \<lparr>set_device_key := Some device_key, set_last_external := None, set_last_internal := None\<rparr>\<rparr>));
        Some (Inr (), d) }))"

definition login_market :: "Data \<Rightarrow> unit outcome" where
  "login_market d =
     try_op (request_as as_login (Req_Login (set_session_id (d_settings d))) d) (\<lambda>(session_id, orders) d. do {
     d \<leftarrow> foldM (\<lambda>order. add_order order False) orders d;
     let d = sync_order_list d;
     Some (Inr (), if Some session_id \<noteq> set_session_id (d_settings d)
       then save_settings (d\<lparr>d_settings := (d_settings d)\<lparr>set_session_id := Some session_id\<rparr>\<rparr>) else d) })"

definition try_process_ws_connected :: "Data \<Rightarrow> unit outcome" where
  "try_process_ws_connected d =
     try_op (request_as as_login_client (Req_LoginClient CLIENT_API_KEY (io_cookie (d_io d)) USER_AGENT (d_version d)) d) (\<lambda>cookie d.
     let d = write_cookie cookie d in
     try_op (request_as as_assets (Req_Assets None) d) (\<lambda>assets d. do {
     d \<leftarrow> foldM subscribe_price_update (map a_ticker (filter (\<lambda>asset. a_ticker asset \<noteq> TICKER_LBTC) assets)) d;
     d \<leftarrow> (if assets \<noteq> d_assets_old d then register_assets assets (save_assets assets d) else Some d);
     try_op (request_as as_server_status Req_ServerStatus d) (\<lambda>server_status d. do {
     d \<leftarrow> update_tx_list (process_server_status server_status d);
     try_op (verify_device d) (\<lambda>_ d.
     try_op (register_device d) (\<lambda>_ d.
     login_market d)) }) }))"

definition process_ws_connected :: "Data \<Rightarrow> Data option" where
  "process_ws_connected d = do {
     (result, d) \<leftarrow> try_process_ws_connected d;
     (case result of
        Inl _ \<Rightarrow> Some (restart_websocket d)
      | Inr _ \<Rightarrow> do {
          d \<leftarrow> process_pending_requests (d\<lparr>d_connected := True\<rparr>);
          d \<leftarrow> update_push_token (resume_peg_monitoring d);
          d \<leftarrow> update_address_registrations d;
          d \<leftarrow> download_contacts d;
          d \<leftarrow> process_unregister_phone_requests d;
          Some (send_ui FM_ServerConnected (send_subscribe_request d)) })
   }"

definition process_ws_disconnected :: "Data \<Rightarrow> Data" where
  "process_ws_disconnected d =
     (let d = sync_order_list (d\<lparr>d_connected := False, d_orders_last := []\<rparr>);
          d = send_ui FM_ServerDisconnected d
      in if d_ctx d \<noteq> None then send_ws WR_Connect d else d)"

section \<open>Login and logout\<close>

definition new_context :: "wallet \<Rightarrow> string \<Rightarrow> PhoneKey option \<Rightarrow> Context" where
  "new_context w wallet_hash_id phone_key =
     \<lparr>cx_wallet = w, cx_wallet_hash_id = wallet_hash_id, cx_last_balances = [], cx_used_utxos = {}, cx_sync_complete = False,
      cx_wallet_loaded_sent = False, cx_pegs = [], cx_txs = [], cx_sent_txs = [], cx_succeed_swap = None,
      cx_active_swap = None, cx_psbt_utxos = None, cx_send_tx = None, cx_internal_peg = None,
      cx_active_extern_peg = None, cx_active_submit = None, cx_active_sign = None, cx_phone_key = phone_key,
      cx_subscribe = Sub_None\<rparr>"

definition process_login_request :: "string \<Rightarrow> string option \<Rightarrow> Data \<Rightarrow> Data option" where
  "process_login_request mnemonic phone_key d = do {
     let d = send_ws WR_Connect d;
     let (login_data, d) = gdk_call gr_wallet (GC_login mnemonic) d;
     (wallet_hash_id, w) \<leftarrow> res_ok login_data;
     let d = set_ctx (new_context w wallet_hash_id phone_key) d;
     let d = (if skip_wallet_sync d then send_wallet_loaded d else d);
     d \<leftarrow> process_pending_requests d;
     d \<leftarrow> update_tx_list d;
     d \<leftarrow> update_address_registrations (resume_peg_monitoring d);
     d \<leftarrow> download_contacts d;
     Some (if d_ctx d \<noteq> None then snd (gdk_call gr_assets (GC_refresh_assets True) d) else d)
   }"

definition process_logout_request :: "Data \<Rightarrow> Data" where
  "process_logout_request d =
     restart_websocket (save_settings (d\<lparr>d_ctx := None,
       d_settings := settings_default\<lparr>set_persistent := set_persistent (d_settings d)\<rparr>\<rparr>))"

definition process_encrypt_pin :: "string \<Rightarrow> string \<Rightarrow> Data \<Rightarrow> Data" where
  "process_encrypt_pin pin mnemonic d =
     (let (r, d) = gdk_call gr_pin (GC_encrypt_pin pin mnemonic) d in send_ui (FM_EncryptPin r) d)"

definition process_decrypt_pin :: "string \<Rightarrow> string \<Rightarrow> string \<Rightarrow> string \<Rightarrow> Data \<Rightarrow> Data" where
  "process_decrypt_pin pin salt encrypted_data pin_identifier d =
     (let (r, d) = gdk_call gr_mnemonic (GC_decrypt_pin pin salt encrypted_data pin_identifier) d
      in send_ui (FM_DecryptPin r) d)"

section \<open>Dispatch\<close>

definition process_wallet_notif :: "string \<Rightarrow> Data \<Rightarrow> Data option" where
  "process_wallet_notif event d =
     (if event = ''transaction'' \<or> event = ''block'' then update_tx_list d
      else if event = ''sync_complete'' then sync_complete d
      else Some d)"

fun process_ui :: "ToMsg \<Rightarrow> Data \<Rightarrow> Data option" where
  "process_ui (TM_Login mnemonic phone_key) d = process_login_request mnemonic phone_key d"
| "process_ui TM_Logout d = Some (process_logout_request d)"
| "process_ui (TM_EncryptPin pin mnemonic) d = Some (process_encrypt_pin pin mnemonic d)"
| "process_ui (TM_DecryptPin pin salt dat i) d = Some (process_decrypt_pin pin salt dat i d)"
| "process_ui (TM_PushMessage req) d = process_push_message req None d"
| "process_ui TM_PegRequest d = process_peg_request_external d"
| "process_ui (TM_SwapRequest req) d = process_swap_request req d"
| "process_ui TM_SwapCancel d = process_swap_cancel d"
| "process_ui (TM_SwapAccept recv_addr recv_amount) d = process_swap_accept recv_addr recv_amount d"
| "process_ui TM_GetRecvAddress d = process_get_recv_address d"
| "process_ui (TM_CreateTx addr asset_id amount is_contact) d = process_create_tx addr asset_id amount is_contact d"
| "process_ui (TM_SendTx memo) d = process_send_tx memo d"
| "process_ui (TM_BlindedValues txid) d = process_blinded_values txid d"
| "process_ui (TM_SetMemo txid memo) d = process_set_memo txid memo d"
| "process_ui (TM_UpdatePushToken token) d = process_update_push_token token d"
| "process_ui (TM_RegisterPhone number) d = process_register_phone number d"
| "process_ui (TM_VerifyPhone phone_key code) d = process_verify_phone phone_key code d"
| "process_ui (TM_UnregisterPhone phone_key) d = process_unregister_phone phone_key d"
| "process_ui (TM_UploadAvatar phone_key img) d = process_upload_avatar phone_key img d"
| "process_ui (TM_UploadContacts phone_key contacts) d = process_upload_contacts phone_key contacts d"
| "process_ui (TM_SubmitOrder req) d = process_submit_order req d"
| "process_ui (TM_LinkOrder order_id) d = process_link_order order_id d"
| "process_ui (TM_SubmitDecision req) d = process_submit_decision req d"
| "process_ui (TM_EditOrder order_id dat) d = process_edit_order order_id dat d"
| "process_ui (TM_CancelOrder order_id) d = process_cancel_order order_id d"
| "process_ui (TM_Subscribe market asset_id) d = process_subscribe market asset_id d"
| "process_ui (TM_SubscribePrice asset_id) d = Some (process_subscribe_price asset_id d)"
| "process_ui (TM_UnsubscribePrice asset_id) d = Some (process_unsubscribe_price asset_id d)"
| "process_ui (TM_AssetDetails asset_id) d = Some (process_asset_details asset_id d)"

fun process_ws_notification :: "Notification \<Rightarrow> Data \<Rightarrow> Data option" where
  "process_ws_notification (Notif_PegStatus status) d = process_peg_status status d"
| "process_ws_notification (Notif_ServerStatus resp) d = Some (process_server_status resp d)"
| "process_ws_notification (Notif_MatchRfq order_id quote) d = process_rfq_update quote d"
| "process_ws_notification (Notif_Swap order_id state) d = process_swap_notification order_id state d"
| "process_ws_notification (Notif_PriceUpdate asset price) d = Some (process_price_update asset price d)"
| "process_ws_notification (Notif_Sign msg) d = process_sign msg d"
| "process_ws_notification (Notif_Complete order_id txid) d = Some (process_complete order_id txid d)"
| "process_ws_notification (Notif_OrderCreated msg) d = process_order_created msg d"
| "process_ws_notification (Notif_OrderRemoved order_id) d = Some (process_order_removed order_id d)"
| "process_ws_notification (Notif_UpdatePrices asset ind) d = Some (process_update_prices asset ind d)"
| "process_ws_notification (Notif_ContactCreated contact) d = Some (process_contact_created contact d)"
| "process_ws_notification (Notif_ContactRemoved contact_key) d = Some (process_contact_removed contact_key d)"
| "process_ws_notification (Notif_ContactTransaction tx) d = Some (process_contact_tx tx d)"
| "process_ws_notification (Notif_AccountStatus registered) d = Some (process_account_status registered d)"
| "process_ws_notification _ d = Some d"

fun client_step :: "Message \<Rightarrow> Data \<Rightarrow> Data option" where
  "client_step (M_Notif event) d = process_wallet_notif event d"
| "client_step (M_Ui msg) d = process_ui msg d"
| "client_step M_ServerConnected d = process_ws_connected d"
| "client_step M_ServerDisconnected d = Some (process_ws_disconnected d)"
| "client_step (M_ServerNotification msg) d = process_ws_notification msg d"
| "client_step (M_PegStatus msg) d = process_peg_status msg d"
| "client_step (M_Subscribe orders) d = process_subscribe_response orders d"
| "client_step M_Unsubscribe d = Some (process_unsubscribe_response d)"
| "client_step (M_AssetDetails msg) d = Some (process_asset_details_response msg d)"
| "client_step (M_BackgroundMessage data sender) d = process_background_message data sender d"

text \<open>
  The thread that reads the websocket: answers of requests that were sent without waiting become
  messages, all others go to the response channel.
\<close>

datatype (plugins only: code) WrappedResponse =
    WS_Connected
  | WS_Disconnected
  | WS_Notification Notification
  | WS_Response "RequestId option" "Error + Response"

fun route_response :: "WrappedResponse \<Rightarrow> Message + RespEvent" where
  "route_response WS_Connected = Inl M_ServerConnected"
| "route_response WS_Disconnected = Inl M_ServerDisconnected"
| "route_response (WS_Notification notif) = Inl (M_ServerNotification notif)"
| "route_response (WS_Response rid (Inr (Resp_PegStatus msg))) = Inl (M_PegStatus msg)"
| "route_response (WS_Response rid (Inr (Resp_Subscribe asset orders))) = Inl (M_Subscribe orders)"
| "route_response (WS_Response rid (Inr (Resp_Unsubscribe asset))) = Inl M_Unsubscribe"
| "route_response (WS_Response rid (Inr (Resp_LoadPrices asset ind))) = Inl (M_ServerNotification (Notif_UpdatePrices asset ind))"
| "route_response (WS_Response rid (Inr (Resp_AssetDetails msg))) = Inl (M_AssetDetails msg)"
| "route_response (WS_Response rid result) = Inr (RE_Resp rid result)"

section \<open>Start\<close>

definition client_data :: "Env \<Rightarrow> string \<Rightarrow> Io \<Rightarrow> Data" where
  "client_data env version io =
     (let settings = prune (io_now io) (case load_settings io of Inl _ \<Rightarrow> settings_default | Inr s \<Rightarrow> s) in
      \<lparr>d_connected = False, d_server_status = None, d_env = env, d_version = version, d_assets = [], d_token_assets = {},
       d_assets_old = [], d_tickers = [], d_ctx = None, d_settings = settings, d_push_token = None,
       d_liquid_asset_id = env_bitcoin_asset_id (env_data env), d_bitcoin_asset_id = replicate 64 CHR ''0'',
       d_submit_data = [], d_pending_signs = [], d_visible_submit = None, d_waiting_submit = None,
       d_processed_signs = {}, d_pending_sign_requests = [], d_pending_sign_prompts = [],
       d_pending_submits = [], d_pending_links = [], d_shown_succeed = {}, d_pending_succeed = [],
       d_utxos_resp = [], d_internal = {}, d_orders_last = [], d_orders_sent = [], d_io = io\<rparr>)"

definition client_init :: "Asset list \<Rightarrow> Env \<Rightarrow> string \<Rightarrow> Io \<Rightarrow> Data option" where
  "client_init embedded env version io = map_option snd (load_assets embedded (client_data env version io))"

text \<open>What the outside may change between two messages.\<close>

definition outside :: "RespEvent list \<Rightarrow> GdkReply list \<Rightarrow> int \<Rightarrow> bool \<Rightarrow> (wallet \<Rightarrow> wallet) \<Rightarrow> Data \<Rightarrow> Data" where
  "outside events replies now disk_ok sync d =
     d\<lparr>d_io := (d_io d)\<lparr>io_events := events, io_gdk := replies, io_now := now, io_disk_ok := disk_ok\<rparr>,
       d_ctx := map_option (\<lambda>ctx. ctx\<lparr>cx_wallet := sync (cx_wallet ctx)\<rparr>) (d_ctx d)\<rparr>"

text \<open>The states of one run, from a start with empty logs.\<close>

inductive client_reachable :: "Data \<Rightarrow> bool" where
  start: "io_ui io = [] \<Longrightarrow> io_ws io = [] \<Longrightarrow> io_gdk_calls io = [] \<Longrightarrow> client_init embedded env version io = Some d \<Longrightarrow>
    client_reachable d"
| message: "client_reachable d \<Longrightarrow> client_step msg (outside events replies now disk_ok sync d) = Some d' \<Longrightarrow>
    client_reachable d'"

end
