(* ===== verification/Client_Frame.thy ===== *)
theory Client_Frame
  imports Client_Main
begin

text \<open>
  What the handlers of the client leave alone.  An observation is a function of the worker's state
  that depends on nothing but the part it watches; the locales state which updates it does not
  see, and the lemmas inside them that no handler of a component changes it.  The order list and
  the book of signatures are the two observations of the development.
\<close>

section \<open>Effects of the primitives\<close>

definition order_msg :: "FromMsg \<Rightarrow> bool" where
  "order_msg m \<longleftrightarrow> (case m of FM_OrderCreated _ \<Rightarrow> True | FM_OrderRemoved _ \<Rightarrow> True | _ \<Rightarrow> False)"

fun sign_req :: "WrappedRequest \<Rightarrow> bool" where
  "sign_req (WR_Request _ (Req_Sign _)) = True"
| "sign_req _ = False"

lemma order_msg_simps [simp]:
  "order_msg (FM_OrderCreated x)" "order_msg (FM_OrderRemoved i)"
  "\<not> order_msg (FM_UpdatedTx a1)" "\<not> order_msg (FM_RemovedTx a2)" "\<not> order_msg (FM_NewAsset a3)"
  "\<not> order_msg (FM_BalanceUpdate a4 b4)" "\<not> order_msg (FM_ServerStatus a5 b5 c5 d5 e5)"
  "\<not> order_msg (FM_PriceUpdate a6 b6 c6)" "\<not> order_msg FM_WalletLoaded" "\<not> order_msg (FM_EncryptPin a7)"
  "\<not> order_msg (FM_DecryptPin a8)" "\<not> order_msg (FM_SwapReview a9)" "\<not> order_msg (FM_SwapWaitTx a10 b10 c10 d10)"
  "\<not> order_msg (FM_SwapSucceed a11)" "\<not> order_msg (FM_SwapFailed a12)" "\<not> order_msg (FM_RecvAddress a13)"
  "\<not> order_msg (FM_CreateTxResult a14)" "\<not> order_msg (FM_SendResult a15)" "\<not> order_msg (FM_BlindedValues a16 b16)"
  "\<not> order_msg (FM_RegisterPhone a17)" "\<not> order_msg (FM_VerifyPhone a18)" "\<not> order_msg (FM_UploadAvatar a19)"
  "\<not> order_msg (FM_UploadContacts a20)" "\<not> order_msg (FM_ContactCreated a21 b21 c21)" "\<not> order_msg (FM_ContactRemoved a22)"
  "\<not> order_msg (FM_ContactTransaction a23 b23)" "\<not> order_msg (FM_AccountStatus a24)" "\<not> order_msg (FM_ShowMessage a25)"
  "\<not> order_msg (FM_SubmitReview a26)" "\<not> order_msg (FM_SubmitResult a27)" "\<not> order_msg (FM_EditOrder a28)"
  "\<not> order_msg (FM_CancelOrder a29)" "\<not> order_msg FM_ServerConnected" "\<not> order_msg FM_ServerDisconnected"
  "\<not> order_msg (FM_IndexPrice a30 b30)" "\<not> order_msg (FM_AssetDetails a31 b31)"
  by (simp_all add: order_msg_def)

text \<open>A request changes the logs only.\<close>

lemma client_request_effect:
  "\<exists>io. snd (client_request req d) = d\<lparr>d_io := io\<rparr> \<and> io_ui io = io_ui (d_io d) \<and>
     (\<exists>rid. io_ws io = io_ws (d_io d) @ [WR_Request rid req]) \<and>
     io_gdk_calls io = io_gdk_calls (d_io d) \<and> io_libs io = io_libs (d_io d) \<and> io_disk io = io_disk (d_io d)"
  by (auto simp: client_request_def send_request_msg_def next_request_id_def send_ws_def Let_def case_prod_beta)

lemma request_asE:
  assumes "request_as want req d = Some (r, d')"
  obtains io rid where "d' = d\<lparr>d_io := io\<rparr>" "io_ui io = io_ui (d_io d)" "io_ws io = io_ws (d_io d) @ [WR_Request rid req]"
    "io_gdk_calls io = io_gdk_calls (d_io d)" "io_libs io = io_libs (d_io d)" "io_disk io = io_disk (d_io d)"
proof -
  have "d' = snd (client_request req d)"
    using assms by (auto simp: request_as_def split: prod.splits sum.splits)
  then show ?thesis using client_request_effect[of req d] that by blast
qed

lemma request_as_not_None [simp]: "request_as want req d \<noteq> None"
  by (simp add: request_as_def split: prod.splits sum.splits)

lemma send_request_msgE:
  assumes "P (snd (send_request_msg req d))"
  obtains io rid where "P (d\<lparr>d_io := io\<rparr>)" "io_ui io = io_ui (d_io d)" "io_ws io = io_ws (d_io d) @ [WR_Request rid req]"
    "io_gdk_calls io = io_gdk_calls (d_io d)" "io_libs io = io_libs (d_io d)" "io_disk io = io_disk (d_io d)"
  using assms by (fastforce simp: send_request_msg_def next_request_id_def send_ws_def Let_def)

lemma gdk_callE:
  assumes "gdk_call want call d = (r, d')"
  obtains io where "d' = d\<lparr>d_io := io\<rparr>" "io_ui io = io_ui (d_io d)" "io_ws io = io_ws (d_io d)"
    "io_gdk_calls io = io_gdk_calls (d_io d) @ [call]" "io_libs io = io_libs (d_io d)" "io_disk io = io_disk (d_io d)"
proof -
  let ?io = "(d_io d)\<lparr>io_gdk := tl (io_gdk (d_io d)), io_gdk_calls := io_gdk_calls (d_io d) @ [call]\<rparr>"
  have "snd (gdk_call want call d) = d\<lparr>d_io := ?io\<rparr>"
  proof (cases "io_gdk (d_io d)")
    case (Cons a list)
    then show ?thesis by (cases a) (simp_all add: gdk_call_def Let_def split: option.split)
  qed (simp add: gdk_call_def)
  then show ?thesis using assms by (intro that[of ?io]) simp_all
qed

lemma gdk_tryE:
  assumes "gdk_try want call err d = Some (r, d')"
  obtains io where "d' = d\<lparr>d_io := io\<rparr>" "io_ui io = io_ui (d_io d)" "io_ws io = io_ws (d_io d)"
    "io_gdk_calls io = io_gdk_calls (d_io d) @ [call]" "io_libs io = io_libs (d_io d)" "io_disk io = io_disk (d_io d)"
proof -
  obtain r' where "gdk_call want call d = (r', d')"
    using assms by (cases "gdk_call want call d") (auto simp: gdk_try_def split: sum.splits)
  then show ?thesis by (rule gdk_callE) (rule that)
qed

lemma client_generate_psbtE:
  assumes "client_generate_psbt info utxos d = Some (r, d')"
  obtains c w where "d_ctx d = Some c" "d' = d\<lparr>d_ctx := Some (c\<lparr>cx_wallet := w\<rparr>)\<rparr>"
  using assms by (auto simp: client_generate_psbt_def set_ctx_def elim!: bind_SomeE)

lemma get_receive_addressE:
  assumes "get_receive_address d = Some (a, d')"
  obtains c w where "d_ctx d = Some c" "d' = d\<lparr>d_ctx := Some (c\<lparr>cx_wallet := w\<rparr>)\<rparr>"
  using assms by (auto simp: get_receive_address_def set_ctx_def elim!: bind_SomeE)

lemma client_sign_psbtE:
  assumes "client_sign_psbt info utxos pset d = Some (r, d')"
  obtains io where "d' = d\<lparr>d_io := io\<rparr>" "io_ui io = io_ui (d_io d)" "io_ws io = io_ws (d_io d)"
    "io_libs io = io_libs (d_io d)" "io_disk io = io_disk (d_io d)"
proof (rule that)
  have "d' = d\<lparr>d_io := d_io d'\<rparr> \<and> io_ui (d_io d') = io_ui (d_io d) \<and> io_ws (d_io d') = io_ws (d_io d) \<and>
    io_libs (d_io d') = io_libs (d_io d) \<and> io_disk (d_io d') = io_disk (d_io d)"
    using assms by (auto simp: client_sign_psbt_def elim!: bind_SomeE split: sum.splits)
  then show "d' = d\<lparr>d_io := d_io d'\<rparr>" "io_ui (d_io d') = io_ui (d_io d)" "io_ws (d_io d') = io_ws (d_io d)"
    "io_libs (d_io d') = io_libs (d_io d)" "io_disk (d_io d') = io_disk (d_io d)" by blast+
qed

lemmas prim_elims = try_opE bind_SomeE request_asE gdk_tryE client_generate_psbtE get_receive_addressE client_sign_psbtE
lemmas prim_defs = send_ui_def send_ws_def save_settings_def set_ctx_def show_message_def ensure_def ok_or_def to_outcome_def

section \<open>The registration loop\<close>

lemma register_loop_rule:
  assumes "register_loop k w d = Some d'" "P d"
    and "\<And>req d r e. P d \<Longrightarrow> request_as as_register_addresses (Req_RegisterAddresses k req) d = Some (r, e) \<Longrightarrow> P e"
    and "\<And>d s. P d \<Longrightarrow> P (save_settings (d\<lparr>d_settings := s\<rparr>))"
  shows "P d'"
  using assms
proof (induction k w d rule: register_loop.induct)
  case (1 k w d)
  obtain ne ni addrs where b: "register_batch w (d_settings d) = Some (ne, ni, addrs)"
    using 1(2) by (subst (asm) register_loop.simps) (auto split: option.splits)
  obtain r e where r: "request_as as_register_addresses (Req_RegisterAddresses k addrs) d = Some (r, e)"
    by (metis request_as_not_None not_None_eq surj_pair)
  then have e: "P e" using 1(3,4) by blast
  show ?case
  proof (cases "addrs = [] \<or> (\<exists>x. r = Inl x)")
    case True
    then show ?thesis using 1(2,3) b r e by (subst (asm) register_loop.simps) (auto split: sum.splits if_splits)
  next
    case False
    then obtain u where u: "r = Inr u" "addrs \<noteq> []" by (cases r) auto
    let ?e = "save_settings (e\<lparr>d_settings := (d_settings e)\<lparr>set_last_external := Some ne, set_last_internal := Some ni\<rparr>\<rparr>)"
    have l: "register_loop k w ?e = Some d'" using 1(2) b r u by (subst (asm) register_loop.simps) simp
    show ?thesis by (rule 1(1)[OF b refl refl u(2) r[unfolded u(1)] refl refl l]) (use 1(4,5) e in blast)+
  qed
qed

section \<open>Observations\<close>

locale observation =
  fixes obs :: "Data \<Rightarrow> 'o"
  assumes obs_io: "filter order_msg (io_ui io) = filter order_msg (io_ui (d_io d)) \<Longrightarrow>
      filter sign_req (io_ws io) = filter sign_req (io_ws (d_io d)) \<Longrightarrow> obs (d\<lparr>d_io := io\<rparr>) = obs d"
    and obs_ctx: "d_ctx d = Some c \<Longrightarrow> cx_active_sign c' = cx_active_sign c \<Longrightarrow> obs (d\<lparr>d_ctx := Some c'\<rparr>) = obs d"
    and obs_field: "obs (d\<lparr>d_connected := b\<rparr>) = obs d" "obs (d\<lparr>d_server_status := st\<rparr>) = obs d"
      "obs (d\<lparr>d_assets := am\<rparr>) = obs d" "obs (d\<lparr>d_token_assets := ta\<rparr>) = obs d"
      "obs (d\<lparr>d_assets_old := al\<rparr>) = obs d" "obs (d\<lparr>d_tickers := tm\<rparr>) = obs d"
      "obs (d\<lparr>d_settings := se\<rparr>) = obs d" "obs (d\<lparr>d_push_token := pt\<rparr>) = obs d"
      "obs (d\<lparr>d_shown_succeed := ss\<rparr>) = obs d" "obs (d\<lparr>d_pending_succeed := ps\<rparr>) = obs d"
begin

lemmas obs_simps = obs_io obs_ctx obs_field

lemma register_asset_obs: "register_asset a b c d = Some d' \<Longrightarrow> obs d' = obs d \<and> d_ctx d' = d_ctx d"
  by (auto simp: register_asset_def prim_defs Let_def obs_simps elim!: bind_SomeE)

lemma load_gdk_asset_obs: "load_gdk_asset a d = Some (r, d') \<Longrightarrow> obs d' = obs d \<and> d_ctx d' = d_ctx d"
  by (auto simp: load_gdk_asset_def prim_defs Let_def obs_simps elim!: prim_elims gdk_callE split: prod.splits sum.splits option.splits)

lemma try_add_asset_obs: "try_add_asset a d = Some (r, d') \<Longrightarrow> obs d' = obs d \<and> d_ctx d' = d_ctx d"
  by (auto simp: try_add_asset_def elim!: try_opE bind_SomeE dest!: load_gdk_asset_obs register_asset_obs split: if_splits prod.splits)

lemma register_assets_obs: "register_assets as d = Some d' \<Longrightarrow> obs d' = obs d \<and> d_ctx d' = d_ctx d"
proof -
  assume "register_assets as d = Some d'"
  then obtain u where "foldM (\<lambda>asset d. register_asset asset (a_asset_id asset \<noteq> d_liquid_asset_id d) None d) as d = Some d'"
    by (auto simp: register_assets_def elim!: bind_SomeE)
  then show ?thesis
    by (rule foldM_relation[where R = "\<lambda>a b. obs b = obs a \<and> d_ctx b = d_ctx a"]) (auto dest: register_asset_obs)
qed

lemma save_obs [simp]: "obs (save_settings d) = obs d" "obs (save_assets as d) = obs d"
  by (simp_all add: save_settings_def save_assets_def obs_simps)

lemma send_obs [simp]: "\<not> order_msg m \<Longrightarrow> obs (send_ui m d) = obs d" "\<not> sign_req r \<Longrightarrow> obs (send_ws r d) = obs d"
  "obs (show_message e d) = obs d"
  by (simp_all add: prim_defs obs_simps)

lemma send_request_msg_obs: "\<not> sign_req (WR_Request (fst (next_request_id d)) r) \<Longrightarrow> obs (snd (send_request_msg r d)) = obs d"
  by (simp add: send_request_msg_def next_request_id_def Let_def send_ws_def obs_simps)

lemma notification_obs [simp]:
  "obs (process_price_update a p d) = obs d" "obs (process_update_prices a i d) = obs d" "obs (process_server_status s d) = obs d"
  "obs (process_contact_created c d) = obs d" "obs (process_contact_removed k d) = obs d" "obs (process_contact_tx t d) = obs d"
  "obs (process_account_status x d) = obs d" "obs (process_asset_details_response m d) = obs d"
  by (simp_all add: process_price_update_def process_update_prices_def process_server_status_def process_contact_created_def
      process_contact_removed_def process_contact_tx_def process_account_status_def process_asset_details_response_def obs_field
      split: option.splits)

lemma request_obs [simp]:
  "obs (send_subscribe_request d) = obs d" "obs (process_subscribe_price a d) = obs d"
  "obs (process_unsubscribe_price a d) = obs d" "obs (process_asset_details a d) = obs d"
  by (simp_all add: send_subscribe_request_def process_subscribe_price_def process_unsubscribe_price_def
      process_asset_details_def send_request_msg_obs split: option.splits SubscribeState.splits)

lemma d_ctx_send_request_msg [simp]: "d_ctx (snd (send_request_msg r d)) = d_ctx d"
  by (simp add: send_request_msg_def next_request_id_def Let_def send_ws_def)

lemma process_subscribe_obs: "process_subscribe m a d = Some d' \<Longrightarrow> obs d' = obs d"
  by (auto simp: process_subscribe_def Let_def set_ctx_def obs_ctx send_request_msg_obs elim!: bind_SomeE split: if_splits)

lemma fold_obs: "(\<And>x d. obs (f x d) = obs d) \<Longrightarrow> obs (fold f xs d) = obs d"
  by (induction xs arbitrary: d) simp_all

lemma foldM_obs: "foldM f xs d = Some d' \<Longrightarrow> (\<And>x d d'. f x d = Some d' \<Longrightarrow> obs d' = obs d) \<Longrightarrow> obs d' = obs d"
  by (rule foldM_relation[where R = "\<lambda>a b. obs b = obs a"]) auto

lemma download_contacts_obs: "download_contacts d = Some d' \<Longrightarrow> obs d' = obs d"
  by (auto simp: download_contacts_def fold_obs obs_io elim!: bind_SomeE request_asE split: option.splits bool.splits sum.splits)

lemma phone_obs:
  "process_register_phone n d = Some d' \<Longrightarrow> obs d' = obs d"
  "process_upload_avatar k i d = Some d' \<Longrightarrow> obs d' = obs d"
  "process_upload_contacts k cs d = Some d' \<Longrightarrow> obs d' = obs d"
  "unregister_phone_one k d = Some d' \<Longrightarrow> obs d' = obs d"
  by (auto simp: process_register_phone_def process_upload_avatar_def process_upload_contacts_def unregister_phone_one_def
      obs_io obs_field elim!: bind_SomeE request_asE split: if_splits)

lemma process_verify_phone_obs: "process_verify_phone k c d = Some d' \<Longrightarrow> obs d' = obs d"
  by (auto simp: process_verify_phone_def Let_def obs_io obs_ctx set_ctx_def send_ui_def elim!: bind_SomeE request_asE
      dest!: download_contacts_obs split: if_splits)

lemma process_unregister_phone_obs:
  "process_unregister_phone_requests d = Some d' \<Longrightarrow> obs d' = obs d"
  "process_unregister_phone k d = Some d' \<Longrightarrow> obs d' = obs d"
proof -
  show 1: "obs d' = obs d" if "process_unregister_phone_requests d = Some d'" for d
    using that by (auto simp: process_unregister_phone_requests_def Let_def obs_field phone_obs split: if_splits
        dest!: foldM_obs)
  show "process_unregister_phone k d = Some d' \<Longrightarrow> obs d' = obs d"
    by (auto simp: process_unregister_phone_def obs_field dest!: 1)
qed

lemma register_loop_obs: "register_loop k w d = Some d' \<Longrightarrow> obs d' = obs d \<and> d_ctx d' = d_ctx d"
  by (erule register_loop_rule[where P = "\<lambda>e. obs e = obs d \<and> d_ctx e = d_ctx d"])
    (auto simp: obs_io obs_field save_settings_def elim!: request_asE)

lemma update_address_registrations_obs:
  "update_address_registrations d = Some d' \<Longrightarrow> obs d' = obs d \<and> d_ctx d' = d_ctx d"
  by (auto simp: update_address_registrations_def dest: register_loop_obs split: option.splits bool.splits)

lemma process_pending_succeed_obs [simp]: "obs (process_pending_succeed d) = obs d"
  by (simp add: process_pending_succeed_def fold_obs obs_field)

lemma sync_tx_item_obs: "sync_tx_item sent x d = Some d' \<Longrightarrow> obs d' = obs d"
  by (auto simp: sync_tx_item_def Let_def prim_defs obs_simps elim!: bind_SomeE split: if_splits prod.splits option.splits)

lemma try_sync_tx_list_obs: "try_sync_tx_list d = Some (r, d') \<Longrightarrow> obs d' = obs d"
  by (auto simp: try_sync_tx_list_def Let_def set_ctx_def obs_ctx obs_io fold_obs elim!: bind_SomeE try_opE gdk_tryE
      dest!: update_address_registrations_obs foldM_obs[OF _ sync_tx_item_obs])

lemma sync_tx_list_obs: "sync_tx_list d = Some d' \<Longrightarrow> obs d' = obs d"
  by (auto simp: sync_tx_list_def dest: try_sync_tx_list_obs)

lemma send_balance_obs: "send_balance x d = Some d' \<Longrightarrow> obs d' = obs d"
  by (auto simp: send_balance_def set_ctx_def obs_ctx send_ui_def obs_io elim!: bind_SomeE split: if_splits prod.splits)

lemma update_balances_obs: "update_balances d = Some d' \<Longrightarrow> obs d' = obs d"
  by (auto simp: update_balances_def Let_def obs_io elim!: gdk_callE dest!: foldM_obs[OF _ send_balance_obs]
      split: option.splits sum.splits prod.splits)

lemma add_new_asset_obs: "add_new_asset a d = Some d' \<Longrightarrow> obs d' = obs d"
  by (auto simp: add_new_asset_def elim!: bind_SomeE dest!: load_gdk_asset_obs register_asset_obs split: sum.splits prod.splits)

lemma try_update_tx_list_obs: "try_update_tx_list d = Some (r, d') \<Longrightarrow> obs d' = obs d"
  by (auto simp: try_update_tx_list_def Let_def set_ctx_def obs_ctx obs_io elim!: bind_SomeE try_opE gdk_tryE
      dest!: sync_tx_list_obs update_balances_obs foldM_obs[OF _ add_new_asset_obs] split: if_splits)

lemma update_tx_list_obs: "update_tx_list d = Some d' \<Longrightarrow> obs d' = obs d"
  by (auto simp: update_tx_list_def dest: try_update_tx_list_obs)

lemma send_wallet_loaded_obs [simp]: "obs (send_wallet_loaded d) = obs d"
  by (auto simp: send_wallet_loaded_def set_ctx_def obs_ctx split: option.splits)

lemma process_blinded_values_obs: "process_blinded_values t d = Some d' \<Longrightarrow> obs d' = obs d"
  by (auto simp: process_blinded_values_def elim!: bind_SomeE)

lemma peg_monitoring_obs [simp]:
  "obs (start_peg_monitoring p d) = obs d" "obs (resume_peg_monitoring d) = obs d" "obs (add_peg_monitoring i q d) = obs d"
proof -
  show 1: "obs (start_peg_monitoring p d) = obs d" for p d
    by (cases "peg_dir p") (simp_all add: start_peg_monitoring_def send_request_msg_obs)
  show "obs (resume_peg_monitoring d) = obs d" by (simp add: resume_peg_monitoring_def fold_obs 1)
  show "obs (add_peg_monitoring i q d) = obs d" by (simp add: add_peg_monitoring_def Let_def 1 obs_field)
qed

lemma cleanup_swaps_obs: "cleanup_swaps d = Some d' \<Longrightarrow> obs d' = obs d"
  by (auto simp: cleanup_swaps_def set_ctx_def obs_ctx elim!: bind_SomeE)

lemma process_peg_status_obs: "process_peg_status s d = Some d' \<Longrightarrow> obs d' = obs d"
  by (auto simp: process_peg_status_def set_ctx_def obs_ctx elim!: bind_SomeE dest!: sync_tx_list_obs cleanup_swaps_obs
      split: option.splits list.splits if_splits)

lemma update_push_token_obs: "update_push_token d = Some d' \<Longrightarrow> obs d' = obs d"
  "process_update_push_token t d = Some d' \<Longrightarrow> obs d' = obs d"
  by (auto simp: process_update_push_token_def update_push_token_def obs_io obs_field elim!: request_asE split: option.splits bool.splits)

lemma process_rfq_update_obs: "process_rfq_update q d = Some d' \<Longrightarrow> obs d' = obs d"
  by (auto simp: process_rfq_update_def rfq_update_def Let_def prim_defs obs_simps elim!: try_opE split: option.splits)

lemma swap_send_psbt_obs: "process_swap_send_psbt x d = Some d' \<Longrightarrow> obs d' = obs d"
  by (auto simp: process_swap_send_psbt_def swap_send_psbt_def Let_def prim_defs obs_simps elim!: prim_elims split: option.splits)

lemma swap_send_sign_obs: "process_swap_send_sign x d = Some d' \<Longrightarrow> obs d' = obs d"
  by (auto simp: process_swap_send_sign_def swap_send_sign_def Let_def prim_defs obs_simps elim!: prim_elims split: option.splits)

lemma swap_end_obs: "swap_failed e d = Some d' \<Longrightarrow> obs d' = obs d" "swap_succeed t d = Some d' \<Longrightarrow> obs d' = obs d"
  by (auto simp: swap_failed_def swap_succeed_def Let_def set_ctx_def obs_ctx elim!: bind_SomeE dest!: cleanup_swaps_obs
      split: SwapError.splits)

lemma process_swap_notification_obs: "process_swap_notification i s d = Some d' \<Longrightarrow> obs d' = obs d"
  by (auto simp: process_swap_notification_def dest: swap_send_psbt_obs swap_send_sign_obs swap_end_obs
      split: option.splits if_splits SwapState.splits)

lemma request_pegE:
  assumes "request_peg req d = Some (r, d')"
  obtains io rid where "d' = d\<lparr>d_io := io\<rparr>" "io_ui io = io_ui (d_io d)" "io_ws io = io_ws (d_io d) @ [WR_Request rid (Req_Peg req)]"
proof -
  have "d' = snd (client_request (Req_Peg req) d)"
    using assms by (auto simp: request_peg_def split: prod.splits sum.splits)
  then show ?thesis using client_request_effect[of "Req_Peg req" d] that by blast
qed

lemma process_peg_request_external_obs: "process_peg_request_external d = Some d' \<Longrightarrow> obs d' = obs d"
  by (auto simp: process_peg_request_external_def try_process_peg_request_external_def Let_def set_ctx_def ensure_def obs_ctx obs_io
      elim!: bind_SomeE try_opE get_receive_addressE request_pegE split: option.splits sum.splits if_splits)

lemma process_pegout_request_local_obs: "process_pegout_request_local q d = Some (r, d') \<Longrightarrow> obs d' = obs d"
  by (auto simp: process_pegout_request_local_def Let_def prim_defs obs_ctx elim!: try_opE split: option.splits if_splits)

lemma process_swap_request_atomic_obs: "process_swap_request_atomic q d = Some (r, d') \<Longrightarrow> obs d' = obs d"
  by (auto simp: process_swap_request_atomic_def Let_def prim_defs obs_ctx obs_io elim!: bind_SomeE try_opE gdk_tryE request_asE
      split: option.splits if_splits sum.splits)

lemma process_swap_request_obs: "process_swap_request q d = Some d' \<Longrightarrow> obs d' = obs d"
  by (auto simp: process_swap_request_def elim!: bind_SomeE dest!: process_pegout_request_local_obs process_swap_request_atomic_obs
      split: if_splits)

lemma process_swap_cancel_obs: "process_swap_cancel d = Some d' \<Longrightarrow> obs d' = obs d"
  by (auto simp: process_swap_cancel_def set_ctx_def obs_ctx obs_io elim!: bind_SomeE request_asE dest!: cleanup_swaps_obs split: option.splits)

lemma accept_swap_obs: "accept_swap a s d = Some (r, d') \<Longrightarrow> obs d' = obs d"
  by (auto simp: accept_swap_def Let_def prim_defs obs_ctx obs_io elim!: bind_SomeE try_opE request_asE split: option.splits)

lemma send_peg_out_obs: "send_peg_out p a resp d = Some (r, d') \<Longrightarrow> obs d' = obs d"
  by (auto simp: send_peg_out_def Let_def ensure_def ok_or_def to_outcome_def obs_io elim!: bind_SomeE try_opE gdk_tryE gdk_callE
      dest!: cleanup_swaps_obs split: option.splits prod.splits)

lemma process_swap_accept_obs: "process_swap_accept a b d = Some d' \<Longrightarrow> obs d' = obs d"
  by (auto simp: process_swap_accept_def try_process_swap_accept_def Let_def ensure_def set_ctx_def obs_ctx obs_io
      elim!: bind_SomeE try_opE request_pegE dest!: accept_swap_obs send_peg_out_obs process_swap_cancel_obs
      split: option.splits sum.splits)

lemma payee_address_obs: "payee_address a b c d = Some (r, d') \<Longrightarrow> obs d' = obs d \<and> d_ctx d' = d_ctx d"
  by (auto simp: payee_address_def ok_or_def obs_io elim!: bind_SomeE try_opE request_asE split: option.splits if_splits sum.splits)

lemma process_create_tx_obs: "process_create_tx a b c e d = Some d' \<Longrightarrow> obs d' = obs d"
  by (auto simp: process_create_tx_def create_tx_def Let_def prim_defs obs_ctx obs_io elim!: bind_SomeE try_opE gdk_tryE
      dest!: payee_address_obs split: option.splits if_splits)

lemma broadcast_tx_obs: "broadcast_tx s t c d = Some (r, d') \<Longrightarrow> obs d' = obs d \<and> d_ctx d' = d_ctx d"
  by (auto simp: broadcast_tx_def ok_or_def obs_io elim!: bind_SomeE try_opE gdk_tryE request_asE split: option.splits sum.splits)

lemma process_send_tx_obs: "process_send_tx m d = Some d' \<Longrightarrow> obs d' = obs d"
proof -
  have g: "obs (snd (gdk_call w c d)) = obs d" for w :: "GdkReply \<Rightarrow> unit option" and c d
    by (cases "gdk_call w c d") (auto simp: obs_io elim!: gdk_callE)
  show "process_send_tx m d = Some d' \<Longrightarrow> obs d' = obs d"
    by (auto simp: process_send_tx_def send_tx_def Let_def prim_defs obs_ctx obs_io g elim!: bind_SomeE try_opE gdk_tryE
        dest!: broadcast_tx_obs split: option.splits)
qed

lemma process_set_memo_obs: "process_set_memo t m d = Some d' \<Longrightarrow> obs d' = obs d"
  by (auto simp: process_set_memo_def obs_io elim!: bind_SomeE gdk_callE split: prod.splits)

lemma process_get_recv_address_obs: "process_get_recv_address d = Some d' \<Longrightarrow> obs d' = obs d"
  by (auto simp: process_get_recv_address_def obs_ctx elim!: bind_SomeE get_receive_addressE)

end

text \<open>The parts of the connection's handlers that concern neither the orders nor the queues.\<close>

context observation
begin

lemma subscribe_price_update_obs: "subscribe_price_update t d = Some d' \<Longrightarrow> obs d' = obs d"
  by (auto simp: subscribe_price_update_def obs_io elim!: request_asE split: option.splits)

lemma write_cookie_obs [simp]: "obs (write_cookie c d) = obs d"
  by (simp add: write_cookie_def obs_io)

lemma verify_device_obs: "verify_device d = Some (r, d') \<Longrightarrow> obs d' = obs d"
  by (auto simp: verify_device_def obs_io obs_field elim!: try_opE request_asE split: option.splits DeviceState.splits)

lemma register_device_obs: "register_device d = Some (r, d') \<Longrightarrow> obs d' = obs d"
  by (auto simp: register_device_def obs_io obs_field elim!: try_opE bind_SomeE request_asE dest!: update_address_registrations_obs
      split: if_splits)

lemma connect_prefix_obs:
  assumes "try_process_ws_connected d = Some (r, d')"
    and "\<And>e r e'. login_market e = Some (r, e') \<Longrightarrow> R (obs e) (obs e')" "\<And>x. R x x"
  shows "R (obs d) (obs d')"
proof -
  have *: "obs d' = obs d \<or> (\<exists>e r. obs e = obs d \<and> login_market e = Some (r, d'))"
    using assms(1)
    by (auto simp: try_process_ws_connected_def Let_def obs_io elim!: try_opE bind_SomeE request_asE
        dest!: foldM_obs[OF _ subscribe_price_update_obs] register_assets_obs update_tx_list_obs verify_device_obs register_device_obs
        split: if_splits)
  then show ?thesis using assms(2,3) by metis
qed

lemma restart_websocket_obs [simp]: "obs (restart_websocket d) = obs d"
  by (simp add: restart_websocket_def obs_field)

lemma check_connection_obs: "check_connection d = Some d' \<Longrightarrow> obs d' = obs d"
  by (auto simp: check_connection_def obs_io elim!: bind_SomeE request_asE split: if_splits)

lemma pin_obs [simp]: "obs (process_encrypt_pin p m d) = obs d" "obs (process_decrypt_pin p s e i d) = obs d"
  by (auto simp: process_encrypt_pin_def process_decrypt_pin_def obs_io elim!: gdk_callE split: prod.splits)

end

section \<open>Observations that do not see the order list\<close>

locale blind_to_orders = observation +
  assumes obs_any_ui: "filter sign_req (io_ws io) = filter sign_req (io_ws (d_io d)) \<Longrightarrow> obs (d\<lparr>d_io := io\<rparr>) = obs d"
    and obs_orders: "obs (d\<lparr>d_orders_last := ol\<rparr>) = obs d" "obs (d\<lparr>d_orders_sent := os\<rparr>) = obs d"
begin

lemma send_any_ui_obs [simp]: "obs (send_ui m d) = obs d"
  by (simp add: send_ui_def obs_any_ui)

lemma add_order_obs: "add_order m b d = Some d' \<Longrightarrow> obs d' = obs d"
  by (auto simp: add_order_def obs_orders elim!: bind_SomeE dest!: try_add_asset_obs)

lemma foldM_add_order_obs: "foldM (\<lambda>order. add_order order b) os d = Some d' \<Longrightarrow> obs d' = obs d"
  by (erule foldM_obs) (rule add_order_obs)

lemma sync_order_list_obs [simp]: "obs (sync_order_list d) = obs d"
  by (simp add: sync_order_list_def Let_def fold_obs send_order_removed_def send_order_update_def obs_orders split: prod.splits)

lemma order_list_obs:
  "process_order_created m d = Some d' \<Longrightarrow> obs d' = obs d" "obs (process_order_removed i d) = obs d"
  "process_subscribe_response os d = Some d' \<Longrightarrow> obs d' = obs d" "obs (process_unsubscribe_response d) = obs d"
  by (auto simp: process_order_created_def process_order_removed_def remove_order_def process_subscribe_response_def
      process_unsubscribe_response_def obs_orders dest!: add_order_obs foldM_add_order_obs)

lemma login_market_obs: "login_market d = Some (r, d') \<Longrightarrow> obs d' = obs d"
  by (auto simp: login_market_def Let_def obs_io obs_field elim!: try_opE bind_SomeE request_asE
      dest!: foldM_add_order_obs split: if_splits prod.splits)

lemma try_process_ws_connected_obs: "try_process_ws_connected d = Some (r, d') \<Longrightarrow> obs d' = obs d"
  by (rule connect_prefix_obs[where R = "\<lambda>a b. b = a"]) (auto dest: login_market_obs)

lemma process_ws_disconnected_obs [simp]: "obs (process_ws_disconnected d) = obs d"
  by (simp add: process_ws_disconnected_def Let_def obs_orders obs_field)

end

section \<open>Observations that do not see the queues of orders to sign\<close>

locale blind_to_signing = observation +
  assumes obs_any_ws: "filter order_msg (io_ui io) = filter order_msg (io_ui (d_io d)) \<Longrightarrow> obs (d\<lparr>d_io := io\<rparr>) = obs d"
    and obs_any_ctx: "obs (d\<lparr>d_ctx := co\<rparr>) = obs d"
    and obs_queue: "obs (d\<lparr>d_submit_data := sm\<rparr>) = obs d" "obs (d\<lparr>d_pending_signs := pm\<rparr>) = obs d"
      "obs (d\<lparr>d_visible_submit := vo\<rparr>) = obs d" "obs (d\<lparr>d_waiting_submit := wo\<rparr>) = obs d"
      "obs (d\<lparr>d_processed_signs := pr\<rparr>) = obs d" "obs (d\<lparr>d_pending_sign_requests := sr\<rparr>) = obs d"
      "obs (d\<lparr>d_pending_sign_prompts := pp\<rparr>) = obs d" "obs (d\<lparr>d_pending_submits := su\<rparr>) = obs d"
      "obs (d\<lparr>d_pending_links := pl\<rparr>) = obs d" "obs (d\<lparr>d_utxos_resp := ur\<rparr>) = obs d" "obs (d\<lparr>d_internal := it\<rparr>) = obs d"
begin

lemma prompt_loop_obs [simp]: "obs (prompt_loop ms c d) = obs d"
  by (induction ms c d rule: prompt_loop.induct) (auto simp: Let_def set_ctx_def obs_queue obs_any_ctx split: option.splits)

lemma process_pending_sign_prompts_obs [simp]: "obs (process_pending_sign_prompts d) = obs d"
  by (simp add: process_pending_sign_prompts_def split: option.splits)

lemma take_stored_utxos_obs: "take_stored_utxos s i d = (u, d') \<Longrightarrow> obs d' = obs d"
  by (auto simp: take_stored_utxos_def Let_def obs_queue obs_field split: OrderSide.splits)

lemma request_any_obs: "request_as w r d = Some (x, d') \<Longrightarrow> obs d' = obs d"
  by (auto simp: obs_any_ws elim!: request_asE)

lemma try_sign_obs: "try_sign m d = Some (r, d') \<Longrightarrow> obs d' = obs d"
  by (auto simp: try_sign_def ensure_def ok_or_def obs_any_ws elim!: try_opE client_sign_psbtE
      dest!: take_stored_utxos_obs request_any_obs split: option.splits if_splits prod.splits)

lemma check_amounts_state: "check_amounts x d = Some (r, d') \<Longrightarrow> d' = d"
  by (auto simp: check_amounts_def elim!: bind_SomeE)

lemma check_match_state: "check_match x s d = Some (r, d') \<Longrightarrow> d' = d"
  by (auto simp: check_match_def ensure_def elim!: try_opE split: OrderType.splits)

lemma try_process_sign_obs: "try_process_sign m d = Some (r, d') \<Longrightarrow> obs d' = obs d"
  by (auto simp: try_process_sign_def Let_def ensure_def ok_or_def obs_queue elim!: try_opE
      dest!: check_amounts_state check_match_state try_sign_obs split: if_splits option.splits)

lemma try_process_sign_shown_obs: "try_process_sign_shown m d = Some d' \<Longrightarrow> obs d' = obs d"
  by (auto simp: try_process_sign_shown_def elim!: bind_SomeE dest!: try_process_sign_obs split: sum.splits)

lemma process_sign_obs: "process_sign m d = Some d' \<Longrightarrow> obs d' = obs d"
  by (auto simp: process_sign_def process_pending_sign_requests_def Let_def obs_queue
      dest!: foldM_obs try_process_sign_shown_obs split: if_splits)

lemma try_process_link_order_obs: "try_process_link_order i d = Some (r, d') \<Longrightarrow> obs d' = obs d"
  by (auto simp: try_process_link_order_def Let_def ensure_def ok_or_def set_ctx_def obs_any_ctx obs_queue elim!: try_opE bind_SomeE
      dest!: request_any_obs try_add_asset_obs split: option.splits if_splits prod.splits)

lemma submit_bitcoin_amount_state: "submit_bitcoin_amount a d = Some (r, d') \<Longrightarrow> d' = d"
  by (auto simp: submit_bitcoin_amount_def Let_def elim!: bind_SomeE split: option.splits if_splits)

lemma try_process_submit_order_obs: "try_process_submit_order q d = Some (r, d') \<Longrightarrow> obs d' = obs d"
  by (auto simp: try_process_submit_order_def Let_def ok_or_def obs_queue elim!: try_opE
      dest!: submit_bitcoin_amount_state request_any_obs try_process_link_order_obs split: option.splits if_splits)

lemma store_utxos_obs [simp]: "obs (store_utxos s i u d) = obs d"
  by (simp add: store_utxos_def Let_def obs_queue obs_field split: OrderSide.splits)

lemma submit_accepted_obs: "submit_accepted q resp d = Some (r, d') \<Longrightarrow> obs d' = obs d"
  by (auto simp: submit_accepted_def Let_def ensure_def ok_or_def obs_any_ctx obs_any_ws obs_queue
      elim!: try_opE bind_SomeE gdk_tryE client_generate_psbtE get_receive_addressE
      dest!: check_amounts_state request_any_obs split: option.splits if_splits prod.splits)

lemma process_submit_decision_obs: "process_submit_decision q d = Some d' \<Longrightarrow> obs d' = obs d"
  by (auto simp: process_submit_decision_def try_process_submit_decision_def ok_or_def set_ctx_def obs_any_ctx obs_queue
      elim!: bind_SomeE try_opE dest!: try_sign_obs submit_accepted_obs split: option.splits if_splits sum.splits bool.splits)

lemma order_requests_obs:
  "process_edit_order i e d = Some d' \<Longrightarrow> obs d' = obs d" "process_cancel_order i d = Some d' \<Longrightarrow> obs d' = obs d"
  "obs (process_complete i t d) = obs d"
  by (auto simp: process_edit_order_def try_edit_order_def process_cancel_order_def process_complete_def ok_or_def Let_def obs_queue
      elim!: bind_SomeE try_opE dest!: request_any_obs split: option.splits if_splits prod.splits EditData.splits)

lemma download_sign_request_obs: "download_sign_request i d = Some (r, d') \<Longrightarrow> obs d' = obs d"
  by (auto simp: download_sign_request_def ok_or_def obs_queue elim!: bind_SomeE try_opE
      dest!: request_any_obs try_add_asset_obs check_amounts_state process_sign_obs split: option.splits if_splits)

lemma pending_obs:
  "process_pending_sign x d = Some d' \<Longrightarrow> obs d' = obs d" "process_pending_submit q d = Some d' \<Longrightarrow> obs d' = obs d"
  "process_pending_link i d = Some d' \<Longrightarrow> obs d' = obs d"
  by (auto simp: process_pending_sign_def process_pending_submit_def process_pending_link_def ping_back_def obs_any_ws Let_def
      elim!: bind_SomeE dest!: download_sign_request_obs try_process_submit_order_obs try_process_link_order_obs
      split: option.splits if_splits prod.splits sum.splits)

lemma foldM_pending_obs:
  "foldM process_pending_sign xs d = Some d' \<Longrightarrow> obs d' = obs d" "foldM process_pending_submit qs d = Some d' \<Longrightarrow> obs d' = obs d"
  "foldM process_pending_link is d = Some d' \<Longrightarrow> obs d' = obs d"
  by (erule foldM_obs, rule pending_obs, assumption)+

lemma process_pending_requests_obs: "process_pending_requests d = Some d' \<Longrightarrow> obs d' = obs d"
  by (auto simp: process_pending_requests_def obs_queue elim!: bind_SomeE dest!: foldM_pending_obs
      split: if_splits option.splits)

lemma queue_obs:
  "process_submit_order q d = Some d' \<Longrightarrow> obs d' = obs d" "process_link_order i d = Some d' \<Longrightarrow> obs d' = obs d"
  "sync_complete d = Some d' \<Longrightarrow> obs d' = obs d" "process_push_message m p d = Some d' \<Longrightarrow> obs d' = obs d"
  by (auto simp: process_submit_order_def process_link_order_def sync_complete_def process_push_message_def set_ctx_def Let_def
      obs_any_ctx obs_queue elim!: bind_SomeE dest!: process_pending_requests_obs check_connection_obs
      split: if_splits option.splits FcmMessage.splits)

lemma process_login_request_obs: "process_login_request m p d = Some d' \<Longrightarrow> obs d' = obs d"
proof -
  have g: "obs (snd (gdk_call w c d)) = obs d" for w :: "GdkReply \<Rightarrow> GdkAssets option" and c d
    by (cases "gdk_call w c d") (auto simp: obs_io elim!: gdk_callE)
  show "process_login_request m p d = Some d' \<Longrightarrow> obs d' = obs d"
    by (auto simp: process_login_request_def Let_def set_ctx_def obs_any_ctx obs_any_ws g elim!: bind_SomeE gdk_callE
        dest!: process_pending_requests_obs update_tx_list_obs update_address_registrations_obs download_contacts_obs
        split: if_splits prod.splits)
qed

lemma process_logout_request_obs [simp]: "obs (process_logout_request d) = obs d"
proof -
  have "obs (d\<lparr>d_ctx := None, d_settings := s\<rparr>) = obs d" for s
    using obs_field(7)[where d = "d\<lparr>d_ctx := None\<rparr>" and se = s] obs_any_ctx[where d = d and co = None] by simp
  then show ?thesis by (simp add: process_logout_request_def)
qed

end

end
