(* ===== verification/Client_Order_Props.thy ===== *)
theory Client_Order_Props
  imports Client_Frame
begin

text \<open>
  The order list on the screen.  The user interface only sees messages: an order that is created
  or changed, and one that is removed.  \<open>order_view\<close> is what it has after replaying them, the
  abstract state that the worker's two maps implement.
\<close>

section \<open>The screen\<close>

fun show_order :: "FromMsg \<Rightarrow> (string \<rightharpoonup> ProtoOrder) \<Rightarrow> (string \<rightharpoonup> ProtoOrder)" where
  "show_order (FM_OrderCreated order) v = v(or_order_id order \<mapsto> order)"
| "show_order (FM_OrderRemoved order_id) v = v(order_id := None)"
| "show_order _ v = v"

definition order_view :: "FromMsg list \<Rightarrow> string \<rightharpoonup> ProtoOrder" where
  "order_view ms = fold show_order ms Map.empty"

text \<open>Equal orders, or orders that \<^verbatim>\<open>==\<close> does not tell apart.\<close>

definition same_order :: "ProtoOrder option \<Rightarrow> ProtoOrder option \<Rightarrow> bool" where
  "same_order a b \<longleftrightarrow> a = b \<or> (\<exists>x y. a = Some x \<and> b = Some y \<and> order_eq x y)"

definition keyed :: "(OrderId, ProtoOrder) btree \<Rightarrow> bool" where
  "keyed m \<longleftrightarrow> bt_wf m \<and> (\<forall>(i, x) \<in> set m. or_order_id x = i)"

lemma show_order_other: "\<not> order_msg m \<Longrightarrow> show_order m v = v"
  by (cases m) simp_all

lemma fold_show_order_filter: "fold show_order (filter order_msg ms) v = fold show_order ms v"
  by (induction ms arbitrary: v) (simp_all add: show_order_other)

lemma order_view_filter: "order_view (filter order_msg ms) = order_view ms"
  by (simp add: order_view_def fold_show_order_filter)

lemma order_view_snoc [simp]: "order_view (ms @ [m]) = show_order m (order_view ms)"
  by (simp add: order_view_def)

section \<open>One synchronisation\<close>

text \<open>The screen shows what the worker believes to have sent.\<close>

definition in_sync :: "Data \<Rightarrow> bool" where
  "in_sync d \<longleftrightarrow> order_view (io_ui (d_io d)) = bt_get (d_orders_sent d)"

lemma io_ui_send_ui [simp]: "io_ui (d_io (send_ui m d)) = io_ui (d_io d) @ [m]"
  by (simp add: send_ui_def)

lemma orders_send_ui [simp]: "d_orders_sent (send_ui m d) = d_orders_sent d" "d_orders_last (send_ui m d) = d_orders_last d"
  by (simp_all add: send_ui_def)

lemma send_order_removed_effect:
  "in_sync d \<Longrightarrow> in_sync (send_order_removed i d)"
  "d_orders_sent (send_order_removed i d) = bt_remove i (d_orders_sent d)"
  "d_orders_last (send_order_removed i d) = d_orders_last d"
  by (auto simp: send_order_removed_def in_sync_def btree_simps fun_eq_iff)

lemma fold_removed_effect:
  "in_sync d \<Longrightarrow> in_sync (fold send_order_removed is d)"
  "d_orders_sent (fold send_order_removed is d) = fold bt_remove is (d_orders_sent d)"
  "d_orders_last (fold send_order_removed is d) = d_orders_last d"
  by (induction "is" arbitrary: d) (simp_all add: send_order_removed_effect)

lemma send_order_update_effect:
  "or_order_id x = i \<Longrightarrow> in_sync d \<Longrightarrow> in_sync (send_order_update (i, x) d)"
  "d_orders_last (send_order_update (i, x) d) = d_orders_last d"
  "bt_wf (d_orders_sent d) \<Longrightarrow> bt_wf (d_orders_sent (send_order_update (i, x) d))"
  "bt_get (d_orders_sent (send_order_update (i, x) d)) j =
     (if j = i \<and> \<not> (\<exists>y. bt_get (d_orders_sent d) i = Some y \<and> order_eq y x) then Some x else bt_get (d_orders_sent d) j)"
  by (auto simp: send_order_update_def in_sync_def btree_simps fun_eq_iff bt_wf_insert split: option.splits)

lemma fold_updates_effect:
  assumes "\<forall>(i, x) \<in> set xs. or_order_id x = i" "in_sync d" "bt_wf (d_orders_sent d)"
  shows "in_sync (fold send_order_update xs d) \<and> d_orders_last (fold send_order_update xs d) = d_orders_last d \<and>
    bt_wf (d_orders_sent (fold send_order_update xs d))"
  using assms by (induction xs arbitrary: d) (auto simp: send_order_update_effect)

lemma fold_updates_get:
  assumes "distinct (map fst xs)"
  shows "bt_get (d_orders_sent (fold send_order_update xs d)) j =
    (case map_of xs j of
       None \<Rightarrow> bt_get (d_orders_sent d) j
     | Some x \<Rightarrow> if \<exists>y. bt_get (d_orders_sent d) j = Some y \<and> order_eq y x then bt_get (d_orders_sent d) j else Some x)"
  using assms
proof (induction xs arbitrary: d)
  case Nil
  then show ?case by simp
next
  case (Cons e xs)
  obtain i x where e: "e = (i, x)" by (cases e)
  have "map_of xs i = None" using Cons.prems by (simp add: e map_of_eq_None_iff)
  then show ?case
    using Cons by (cases "j = i") (auto simp: e send_order_update_effect(4) split: option.split)
qed

lemma keyed_distinct: "keyed m \<Longrightarrow> distinct (map fst m)"
  by (simp add: keyed_def bt_wf_def strict_sorted_iff)

lemma sync_order_list_effect:
  assumes "in_sync d" "keyed (d_orders_last d)" "bt_wf (d_orders_sent d)"
  shows "in_sync (sync_order_list d)" "d_orders_last (sync_order_list d) = d_orders_last d"
    "bt_wf (d_orders_sent (sync_order_list d))"
    "same_order (bt_get (d_orders_sent (sync_order_list d)) j) (bt_get (d_orders_last d) j)"
proof -
  let ?removed = "filter (\<lambda>order_id. \<not> bt_contains (d_orders_last d) order_id) (bt_keys (d_orders_sent d))"
  let ?d = "fold send_order_removed ?removed d"
  have sent: "bt_get (d_orders_sent ?d) j = (if bt_contains (d_orders_last d) j then bt_get (d_orders_sent d) j else None)" for j
    by (simp add: fold_removed_effect btree_simps btm.keys_get)
  have r: "in_sync ?d" "d_orders_last ?d = d_orders_last d" "bt_wf (d_orders_sent ?d)"
    using assms by (simp_all add: fold_removed_effect btm.wf_fold_remove)
  have s: "sync_order_list d = fold send_order_update (d_orders_last d) ?d"
    by (simp add: sync_order_list_def Let_def r(2))
  have "\<forall>(i, x) \<in> set (d_orders_last d). or_order_id x = i" using assms(2) by (simp add: keyed_def)
  then show "in_sync (sync_order_list d)" "d_orders_last (sync_order_list d) = d_orders_last d"
    "bt_wf (d_orders_sent (sync_order_list d))"
    using fold_updates_effect[OF _ r(1,3)] r(2) by (simp_all add: s)
  have "bt_get (d_orders_sent (sync_order_list d)) j =
    (case bt_get (d_orders_last d) j of
       None \<Rightarrow> None
     | Some x \<Rightarrow> if \<exists>y. bt_get (d_orders_sent d) j = Some y \<and> order_eq y x then bt_get (d_orders_sent d) j else Some x)"
    unfolding s fold_updates_get[OF keyed_distinct[OF assms(2)]] sent
    by (simp add: bt_contains_def bt_get_def split: option.split)
  then show "same_order (bt_get (d_orders_sent (sync_order_list d)) j) (bt_get (d_orders_last d) j)"
    by (auto simp: same_order_def split: option.splits if_splits)
qed

section \<open>The invariant\<close>

definition orders_obs :: "Data \<Rightarrow> (OrderId, ProtoOrder) btree \<times> (OrderId, ProtoOrder) btree \<times> FromMsg list" where
  "orders_obs d = (d_orders_last d, d_orders_sent d, filter order_msg (io_ui (d_io d)))"

interpretation ord: blind_to_signing orders_obs
  by unfold_locales (auto simp: orders_obs_def)

definition orders_inv :: "Data \<Rightarrow> bool" where
  "orders_inv d \<longleftrightarrow> keyed (d_orders_last d) \<and> bt_wf (d_orders_sent d) \<and> in_sync d \<and>
     (\<forall>i. same_order (bt_get (d_orders_sent d) i) (bt_get (d_orders_last d) i))"

definition orders_obs_inv :: "(OrderId, ProtoOrder) btree \<times> (OrderId, ProtoOrder) btree \<times> FromMsg list \<Rightarrow> bool" where
  "orders_obs_inv = (\<lambda>(last, sent, ms). keyed last \<and> bt_wf sent \<and> order_view ms = bt_get sent \<and>
     (\<forall>i. same_order (bt_get sent i) (bt_get last i)))"

lemma orders_inv_obs: "orders_inv d \<longleftrightarrow> orders_obs_inv (orders_obs d)"
  by (simp add: orders_inv_def orders_obs_inv_def orders_obs_def in_sync_def order_view_filter)

lemma orders_inv_cong: "orders_obs d' = orders_obs d \<Longrightarrow> orders_inv d \<Longrightarrow> orders_inv d'"
  by (simp add: orders_inv_obs)

lemma sync_order_list_inv: "in_sync d \<Longrightarrow> keyed (d_orders_last d) \<Longrightarrow> bt_wf (d_orders_sent d) \<Longrightarrow> orders_inv (sync_order_list d)"
  by (simp add: orders_inv_def sync_order_list_effect)

text \<open>What holds between the changes of the list and its synchronisation.\<close>

definition orders_pre :: "Data \<Rightarrow> bool" where
  "orders_pre d \<longleftrightarrow> in_sync d \<and> keyed (d_orders_last d) \<and> bt_wf (d_orders_sent d)"

lemma orders_pre_cong: "orders_obs d' = orders_obs d \<Longrightarrow> orders_pre d \<Longrightarrow> orders_pre d'"
  by (simp add: orders_pre_def orders_obs_def in_sync_def) (metis order_view_filter)

lemma keyed_update:
  "keyed m \<Longrightarrow> or_order_id x = i \<Longrightarrow> keyed (bt_insert i x m)"
  "keyed m \<Longrightarrow> keyed (bt_remove i m)" "keyed m \<Longrightarrow> keyed (filter P m)" "keyed []"
proof -
  show "keyed m \<Longrightarrow> or_order_id x = i \<Longrightarrow> keyed (bt_insert i x m)"
    using set_bt_insert[of i x m] by (auto simp: keyed_def bt_wf_insert)
  show 1: "keyed m \<Longrightarrow> keyed (filter P m)" for P
    by (auto simp: keyed_def bt_wf_def sorted_wrt_filter sorted_wrt_map)
  show "keyed m \<Longrightarrow> keyed (bt_remove i m)" by (simp add: bt_remove_def 1)
  show "keyed []" by (simp add: keyed_def bt_wf_def)
qed

lemma add_order_pre: "add_order m b d = Some d' \<Longrightarrow> orders_pre d \<Longrightarrow> orders_pre d'"
proof -
  assume "add_order m b d = Some d'" "orders_pre d"
  then obtain r e where e: "try_add_asset (det_asset (oc_details m)) d = Some (r, e)"
    and d': "d' = e\<lparr>d_orders_last := bt_insert (oc_order_id m) (make_order m b e) (d_orders_last e)\<rparr>"
    by (auto simp: add_order_def elim!: bind_SomeE)
  have "orders_pre e" using ord.try_add_asset_obs[OF e] \<open>orders_pre d\<close> orders_pre_cong by blast
  then show ?thesis
    by (simp add: d' orders_pre_def in_sync_def keyed_update make_order_def Let_def)
qed

lemma foldM_add_order_pre: "foldM (\<lambda>order. add_order order b) os d = Some d' \<Longrightarrow> orders_pre d \<Longrightarrow> orders_pre d'"
  by (rule foldM_invariant) (auto dest: add_order_pre)

lemma orders_inv_pre: "orders_inv d \<Longrightarrow> orders_pre d"
  by (simp add: orders_inv_def orders_pre_def)

lemma orders_pre_sync: "orders_pre d \<Longrightarrow> orders_inv (sync_order_list d)"
  by (simp add: orders_pre_def sync_order_list_inv)

lemma order_handlers_inv:
  assumes "orders_inv d"
  shows "process_order_created m d = Some d' \<Longrightarrow> orders_inv d'"
    "orders_inv (process_order_removed i d)"
    "process_subscribe_response os d = Some d' \<Longrightarrow> orders_inv d'"
    "orders_inv (process_unsubscribe_response d)"
    "orders_inv (process_ws_disconnected d)"
proof -
  note pre = orders_inv_pre[OF assms]
  show "process_order_created m d = Some d' \<Longrightarrow> orders_inv d'"
    using pre by (auto simp: process_order_created_def dest!: add_order_pre intro: orders_pre_sync)
  show "process_subscribe_response os d = Some d' \<Longrightarrow> orders_inv d'"
    using pre by (auto simp: process_subscribe_response_def dest!: foldM_add_order_pre intro: orders_pre_sync)
  show "orders_inv (process_order_removed i d)" "orders_inv (process_unsubscribe_response d)"
    using pre by (auto simp: process_order_removed_def remove_order_def process_unsubscribe_response_def orders_pre_def in_sync_def
        keyed_update intro!: orders_pre_sync)
  have "orders_inv (sync_order_list (d\<lparr>d_connected := False, d_orders_last := []\<rparr>))"
    using pre by (intro orders_pre_sync) (simp add: orders_pre_def in_sync_def keyed_update)
  then show "orders_inv (process_ws_disconnected d)"
    by (rule orders_inv_cong[rotated]) (simp add: process_ws_disconnected_def Let_def)
qed

lemma login_market_inv: "login_market d = Some (r, d') \<Longrightarrow> orders_inv d \<Longrightarrow> orders_inv d'"
proof -
  assume "login_market d = Some (r, d')" and inv: "orders_inv d"
  then consider e where "request_as as_login (Req_Login (set_session_id (d_settings d))) d = Some (Inl e, d')"
    | sid os e f where "request_as as_login (Req_Login (set_session_id (d_settings d))) d = Some (Inr (sid, os), e)"
      "foldM (\<lambda>order. add_order order False) os e = Some f" "orders_obs d' = orders_obs (sync_order_list f)"
    by (auto simp: login_market_def Let_def ord.obs_field elim!: try_opE bind_SomeE split: if_splits)
  then show "orders_inv d'"
  proof cases
    case 1
    then show ?thesis using inv ord.request_any_obs orders_inv_cong by blast
  next
    case 2
    have "orders_pre e" using 2(1) inv ord.request_any_obs orders_inv_cong orders_inv_pre by blast
    then show ?thesis using 2(2,3) foldM_add_order_pre orders_pre_sync orders_inv_cong by blast
  qed
qed

lemma process_ws_connected_inv:
  assumes "process_ws_connected d = Some d'" "orders_inv d"
  shows "orders_inv d'"
proof -
  obtain r e where e: "try_process_ws_connected d = Some (r, e)"
    using assms(1) by (auto simp: process_ws_connected_def elim!: bind_SomeE)
  have "orders_obs_inv (orders_obs d) \<longrightarrow> orders_obs_inv (orders_obs e)"
    by (rule ord.connect_prefix_obs[OF e]) (use login_market_inv in \<open>auto simp: orders_inv_obs\<close>)
  then have "orders_inv e" using assms(2) by (simp add: orders_inv_obs)
  moreover have "orders_obs d' = orders_obs e"
    using assms(1) e
    by (auto simp: process_ws_connected_def ord.obs_field elim!: bind_SomeE dest!: ord.process_pending_requests_obs
        ord.update_push_token_obs ord.update_address_registrations_obs ord.download_contacts_obs
        ord.process_unregister_phone_obs(1) split: sum.splits)
  ultimately show ?thesis using orders_inv_cong by blast
qed

lemma orders_obs_outside [simp]: "orders_obs (outside es gs n b f d) = orders_obs d"
  by (simp add: outside_def orders_obs_def)

lemma process_ui_orders: "process_ui m d = Some d' \<Longrightarrow> orders_obs d' = orders_obs d"
  by (cases m) (auto dest: ord.process_login_request_obs ord.queue_obs ord.process_peg_request_external_obs
      ord.process_swap_request_obs ord.process_swap_cancel_obs ord.process_swap_accept_obs
      ord.process_get_recv_address_obs ord.process_create_tx_obs ord.process_send_tx_obs ord.process_blinded_values_obs
      ord.process_set_memo_obs ord.update_push_token_obs ord.phone_obs ord.process_verify_phone_obs
      ord.process_unregister_phone_obs ord.process_submit_decision_obs ord.order_requests_obs(1,2) ord.process_subscribe_obs)

lemma process_ws_notification_other:
  assumes "process_ws_notification m d = Some d'" "\<And>x. m \<noteq> Notif_OrderCreated x" "\<And>i. m \<noteq> Notif_OrderRemoved i"
  shows "orders_obs d' = orders_obs d"
  using assms by (cases m) (auto simp: ord.order_requests_obs
      dest: ord.process_peg_status_obs ord.process_rfq_update_obs ord.process_swap_notification_obs ord.process_sign_obs)

lemma process_ws_notification_orders:
  assumes "process_ws_notification m d = Some d'" "orders_inv d"
  shows "orders_inv d'"
proof (cases "(\<exists>x. m = Notif_OrderCreated x) \<or> (\<exists>i. m = Notif_OrderRemoved i)")
  case True
  then show ?thesis using assms order_handlers_inv(1,2) by auto
next
  case False
  then show ?thesis using process_ws_notification_other[OF assms(1)] assms(2) orders_inv_cong by blast
qed

lemma process_wallet_notif_orders: "process_wallet_notif e d = Some d' \<Longrightarrow> orders_obs d' = orders_obs d"
  by (auto simp: process_wallet_notif_def dest: ord.update_tx_list_obs ord.queue_obs(3) split: if_splits)

lemma client_step_orders:
  assumes "client_step m d = Some d'" "orders_inv d"
  shows "orders_inv d'"
proof (cases m)
  case (M_Ui x)
  then show ?thesis using assms process_ui_orders orders_inv_cong by auto
next
  case M_ServerConnected
  then show ?thesis using assms process_ws_connected_inv by auto
next
  case M_ServerDisconnected
  then show ?thesis using assms order_handlers_inv(5) by auto
next
  case (M_ServerNotification x)
  then show ?thesis using assms process_ws_notification_orders by auto
next
  case (M_Notif x)
  then show ?thesis using assms process_wallet_notif_orders orders_inv_cong by auto
next
  case (M_PegStatus x)
  then show ?thesis using assms ord.process_peg_status_obs orders_inv_cong by auto
next
  case (M_Subscribe x)
  then show ?thesis using assms order_handlers_inv(3) by auto
next
  case M_Unsubscribe
  then show ?thesis using assms order_handlers_inv(4) by auto
next
  case (M_AssetDetails x)
  then show ?thesis using assms ord.notification_obs(8) orders_inv_cong by auto
next
  case (M_BackgroundMessage x y)
  then show ?thesis using assms ord.queue_obs(4) orders_inv_cong by (auto simp: process_background_message_def)
qed

lemma load_assets_orders: "load_assets em d = Some (r, d') \<Longrightarrow> orders_obs d' = orders_obs d"
  by (auto simp: load_assets_def ord.obs_field elim!: try_opE bind_SomeE dest!: ord.register_assets_obs split: option.splits if_splits)

lemma reachable_orders_inv: "client_reachable d \<Longrightarrow> orders_inv d"
proof (induction rule: client_reachable.induct)
  case (start io embedded env version d)
  have "orders_inv (client_data env version io)"
    using start(1) by (simp add: orders_inv_def client_data_def Let_def in_sync_def order_view_def keyed_update same_order_def
        bt_wf_def fun_eq_iff)
  moreover obtain r where "load_assets embedded (client_data env version io) = Some (r, d)"
    using start(4) by (auto simp: client_init_def)
  ultimately show ?case using load_assets_orders orders_inv_cong by blast
next
  case (message d msg events replies now disk_ok sync d')
  have "orders_inv (outside events replies now disk_ok sync d)"
    using message.IH by (rule orders_inv_cong[rotated]) simp
  with message.hyps(2) show ?case by (rule client_step_orders)
qed

end
