(* ===== verification/Libwally_Props.thy ===== *)
theory Libwally_Props
  imports Libwally
begin

text \<open>
  What a signature means for the wallet.  The specification counts the wallet's coins in the
  transaction directly: the inputs that are among its outputs, and the outputs that its blinding
  key opens.  \<^verbatim>\<open>sign_psbt\<close> signs only when the difference is the agreed trade.
\<close>

section \<open>The wallet's share of a transaction\<close>

definition own_out :: "wally \<Rightarrow> bytes \<Rightarrow> TxOutput \<times> PsbtOut \<Rightarrow> (bytes \<times> int) option" where
  "own_out W master txo =
     (if two_script (fst txo) = [] then None
      else do { priv_key \<leftarrow> wl_blinding_key W master (two_script (fst txo));
                unblind_own W priv_key (fst txo) (snd txo) })"

definition own_received :: "wally \<Rightarrow> bytes \<Rightarrow> bytes \<Rightarrow> (TxOutput \<times> PsbtOut) list \<Rightarrow> int" where
  "own_received W master asset outs =
     (\<Sum>txo\<leftarrow>outs. case own_out W master txo of None \<Rightarrow> 0 | Some (a, v) \<Rightarrow> if a = asset then v else 0)"

definition own_spent :: "wally \<Rightarrow> UnspentOutput list \<Rightarrow> TxIn list \<Rightarrow> int" where
  "own_spent W utxos ins = (\<Sum>i\<leftarrow>ins. case own_utxo W utxos i of None \<Rightarrow> 0 | Some u \<Rightarrow> uo_satoshi u)"

text \<open>The commitments that are signed are those of the explicit asset and amount.\<close>

definition committed :: "wally \<Rightarrow> TxOutput \<times> PsbtOut \<Rightarrow> bool" where
  "committed W txo \<longleftrightarrow>
     (\<exists>amount gen. wl_value_to_satoshi W (two_value (fst txo)) = Some amount \<and>
        wl_asset_generator W (tl (two_asset (fst txo))) (out_abf (snd txo)) = Some gen \<and>
        out_asset_commitment (snd txo) = gen \<and>
        wl_asset_value_commitment W amount (out_vbf (snd txo)) gen = Some (out_value_commitment (snd txo)))"

text \<open>
  Documented behaviour of \<^verbatim>\<open>wally_psbt_sign\<close> and \<^verbatim>\<open>wally_psbt_finalize\<close>: they add signatures and
  final scripts to the inputs, and leave the transaction and the inputs' assets as they are.
\<close>

definition keeps_tx :: "(Pset \<Rightarrow> Pset option) \<Rightarrow> bool" where
  "keeps_tx f \<longleftrightarrow> (\<forall>p q. f p = Some q \<longrightarrow>
     pset_tx_inputs q = pset_tx_inputs p \<and> map in_asset (pset_inputs q) = map in_asset (pset_inputs p))"

definition adds_signatures_only :: "wally \<Rightarrow> bool" where
  "adds_signatures_only W \<longleftrightarrow> keeps_tx (wl_finalize W) \<and> (\<forall>k. keeps_tx (\<lambda>p. wl_sign W p k))"

section \<open>The loops\<close>

lemma count_own_spec:
  assumes "count_own W master send recv asset amount txo out t = Some (Inr u, t')"
    and "two_script txo \<noteq> []"
  shows "t_fee t' = t_fee t" "send \<noteq> recv \<Longrightarrow> t_change t' = t_change t + own_received W master send [(txo, out)]"
    "t_recv t' = t_recv t + own_received W master recv [(txo, out)]"
    "own_out W master (txo, out) = Some (a, v) \<Longrightarrow> a \<in> {send, recv} \<and> a = asset \<and> v = amount"
  using assms
  by (auto simp: count_own_def own_out_def own_received_def u64_checked_add_def ok_or_def
      elim!: try_op_InrE bind_SomeE split: option.splits prod.splits if_splits)

lemma check_commitments_spec:
  assumes "check_commitments W asset amount out t = Some (Inr u, t')"
  shows "t' = t" "\<exists>gen. wl_asset_generator W asset (out_abf out) = Some gen \<and> out_asset_commitment out = gen \<and>
    wl_asset_value_commitment W amount (out_vbf out) gen = Some (out_value_commitment out)"
  using assms
  by (auto simp: check_commitments_def ok_or_def ensure_def elim!: try_op_InrE split: if_splits option.splits)

lemma own_received_Cons:
  "own_received W master a (x # xs) = own_received W master a [x] + own_received W master a xs"
  by (simp add: own_received_def)

lemma check_output_spec:
  assumes "check_output W master send recv txo out t = Some (Inr txo', t')"
  shows "send \<noteq> recv \<Longrightarrow> t_change t' = t_change t + own_received W master send [(txo, out)]"
    "t_recv t' = t_recv t + own_received W master recv [(txo, out)]"
    "own_out W master (txo, out) = Some (a, v) \<Longrightarrow> a \<in> {send, recv}"
    "two_script txo \<noteq> [] \<Longrightarrow> committed W (txo, out)"
    "txo' = txo\<lparr>two_asset := out_asset_commitment out, two_value := out_value_commitment out, two_nonce := out_nonce out\<rparr>"
proof -
  have own: "two_script txo = [] \<Longrightarrow> own_out W master (txo, out) = None"
    by (simp add: own_out_def)
  consider (fee) "two_script txo = []" "t_change t' = t_change t" "t_recv t' = t_recv t"
    | (paid) amount u v where "two_script txo \<noteq> []" "wl_value_to_satoshi W (two_value txo) = Some amount"
      "count_own W master send recv (tl (two_asset txo)) amount txo out t = Some (Inr u, t')"
      "check_commitments W (tl (two_asset txo)) amount out t' = Some (Inr v, t')"
    using assms
    by (auto simp: check_output_def Let_def ok_or_def
        elim!: try_op_InrE split: option.splits if_splits) (metis check_commitments_spec(1))+
  then have "(send \<noteq> recv \<longrightarrow> t_change t' = t_change t + own_received W master send [(txo, out)]) \<and>
    t_recv t' = t_recv t + own_received W master recv [(txo, out)] \<and>
    (\<forall>a v. own_out W master (txo, out) = Some (a, v) \<longrightarrow> a \<in> {send, recv}) \<and>
    (two_script txo \<noteq> [] \<longrightarrow> committed W (txo, out))"
  proof cases
    case fee
    then show ?thesis by (simp add: own own_received_def)
  next
    case paid
    note c = count_own_spec[OF paid(3,1)]
    have "a \<in> {send, recv}" if "own_out W master (txo, out) = Some (a, v)" for a v
      using c(4)[OF that] by blast
    moreover have "committed W (txo, out)"
      using check_commitments_spec(2)[OF paid(4)] paid(2) by (simp add: committed_def)
    ultimately show ?thesis using c(2,3) by blast
  qed
  then show "send \<noteq> recv \<Longrightarrow> t_change t' = t_change t + own_received W master send [(txo, out)]"
    "t_recv t' = t_recv t + own_received W master recv [(txo, out)]"
    "own_out W master (txo, out) = Some (a, v) \<Longrightarrow> a \<in> {send, recv}"
    "two_script txo \<noteq> [] \<Longrightarrow> committed W (txo, out)"
    by blast+
  show "txo' = txo\<lparr>two_asset := out_asset_commitment out, two_value := out_value_commitment out, two_nonce := out_nonce out\<rparr>"
    using assms by (auto simp: check_output_def Let_def elim!: try_op_InrE split: if_splits)
qed

lemma check_outputs_spec:
  assumes "check_outputs W master send recv outs t = Some (Inr txos, t')"
  shows "(send \<noteq> recv \<longrightarrow> t_change t' = t_change t + own_received W master send outs) \<and>
    t_recv t' = t_recv t + own_received W master recv outs \<and>
    (\<forall>txo \<in> set outs. two_script (fst txo) \<noteq> [] \<longrightarrow> committed W txo) \<and>
    (\<forall>txo \<in> set outs. \<forall>a v. own_out W master txo = Some (a, v) \<longrightarrow> a \<in> {send, recv})"
  using assms
proof (induction outs arbitrary: t txos)
  case Nil
  then show ?case by (simp add: own_received_def)
next
  case (Cons x outs)
  obtain txo out where x: "x = (txo, out)" by (cases x)
  obtain txo' s txos' where 1: "check_output W master send recv txo out t = Some (Inr txo', s)"
    and 2: "check_outputs W master send recv outs s = Some (Inr txos', t')"
    using Cons.prems by (auto simp: x elim!: try_op_InrE)
  have "a \<in> {send, recv}" if "own_out W master (txo, out) = Some (a, v)" for a v
    using check_output_spec(3)[OF 1 that] .
  then show ?case
    using Cons.IH[OF 2] check_output_spec(1,2,4)[OF 1]
    by (simp add: x own_received_Cons[of _ _ _ "(txo, out)" outs]) blast
qed

lemma keeps_txD:
  assumes "keeps_tx f" "f p = Some q"
  shows "pset_tx_inputs q = pset_tx_inputs p \<and> map in_asset (pset_inputs q) = map in_asset (pset_inputs p)"
  using assms by (auto simp: keeps_tx_def)

lemma map_in_asset_update [simp]:
  "in_asset x = in_asset (xs ! i) \<Longrightarrow> map in_asset (xs[i := x]) = map in_asset xs"
  by (metis list_update_id map_update)

lemma sign_input_keeps:
  assumes "adds_signatures_only W" "sign_input W utxo i p = Some q"
  shows "pset_tx_inputs q = pset_tx_inputs p \<and> map in_asset (pset_inputs q) = map in_asset (pset_inputs p)"
proof -
  obtain k where "wl_sign W (p\<lparr>pset_inputs := (pset_inputs p)[i := (pset_inputs p ! i)
      \<lparr>in_keypaths := Some (wl_public_key W k, k)\<rparr>]\<rparr>) k = Some q"
    using assms(2) by (auto simp: sign_input_def elim!: bind_SomeE)
  then show ?thesis
    using keeps_txD[of "\<lambda>p. wl_sign W p k"] assms(1) by (simp_all add: adds_signatures_only_def)
qed

lemma check_input_spec:
  assumes "adds_signatures_only W" "check_input W send utxos i g = Some (Inr u, g')"
  shows "pset_tx_inputs (sg_pset g') = pset_tx_inputs (sg_pset g)"
    "map in_asset (pset_inputs (sg_pset g')) = map in_asset (pset_inputs (sg_pset g))"
    "sg_input_amount g' = sg_input_amount g + own_spent W utxos [pset_tx_inputs (sg_pset g) ! i]"
    "own_utxo W utxos (pset_tx_inputs (sg_pset g) ! i) \<noteq> None \<Longrightarrow> in_asset (pset_inputs (sg_pset g) ! i) = send"
proof -
  have fin: "keeps_tx (wl_finalize W)" using assms(1) by (simp add: adds_signatures_only_def)
  show "pset_tx_inputs (sg_pset g') = pset_tx_inputs (sg_pset g)"
    "map in_asset (pset_inputs (sg_pset g')) = map in_asset (pset_inputs (sg_pset g))"
    "sg_input_amount g' = sg_input_amount g + own_spent W utxos [pset_tx_inputs (sg_pset g) ! i]"
    "own_utxo W utxos (pset_tx_inputs (sg_pset g) ! i) \<noteq> None \<Longrightarrow> in_asset (pset_inputs (sg_pset g) ! i) = send"
    using assms(2)
    by (auto simp: check_input_def Let_def own_spent_def u64_checked_add_def
        dest!: keeps_txD[OF fin] sign_input_keeps[OF assms(1)]
        elim!: bind_SomeE split: option.splits if_splits)
qed

lemma check_inputs_spec:
  assumes "adds_signatures_only W" "check_inputs W send utxos is g = Some (Inr u, g')"
  shows "pset_tx_inputs (sg_pset g') = pset_tx_inputs (sg_pset g) \<and>
    map in_asset (pset_inputs (sg_pset g')) = map in_asset (pset_inputs (sg_pset g)) \<and>
    sg_input_amount g' = sg_input_amount g + own_spent W utxos (map ((!) (pset_tx_inputs (sg_pset g))) is) \<and>
    (\<forall>i \<in> set is. i < length (pset_inputs (sg_pset g)) \<longrightarrow> own_utxo W utxos (pset_tx_inputs (sg_pset g) ! i) \<noteq> None \<longrightarrow>
       in_asset (pset_inputs (sg_pset g) ! i) = send)"
  using assms(2)
proof (induction "is" arbitrary: g)
  case Nil
  then show ?case by (simp add: own_spent_def)
next
  case (Cons i "is")
  obtain v h where 1: "check_input W send utxos i g = Some (Inr v, h)" and 2: "check_inputs W send utxos is h = Some (Inr u, g')"
    using Cons.prems by (auto elim!: try_op_InrE)
  note s = check_input_spec[OF assms(1) 1]
  have len: "length (pset_inputs (sg_pset h)) = length (pset_inputs (sg_pset g))"
    using s(2) by (metis length_map)
  have asset: "in_asset (pset_inputs (sg_pset h) ! j) = in_asset (pset_inputs (sg_pset g) ! j)"
    if "j < length (pset_inputs (sg_pset g))" for j
    using s(2) that len by (metis nth_map)
  show ?case
    using Cons.IH[OF 2] s(1,3,4) len by (auto simp: s(2) own_spent_def asset)
qed

text \<open>The facts a successful signature rests on.\<close>

lemma sign_psbt_succeeds:
  assumes "sign_psbt W w info utxos psbt = Some (Inr signed)"
  obtains master send recv p txos t u g where
    "wal_master_blinding w = Some master" "map_option reversed (wl_hex_decode W (pinfo_send_asset info)) = Some send"
    "map_option reversed (wl_hex_decode W (pinfo_recv_asset info)) = Some recv"
    "wl_from_base64 W psbt = Some p" "length (pset_inputs p) = length (pset_tx_inputs p)"
    "length (pset_outputs p) = length (pset_tx_outputs p)"
    "check_outputs W master send recv (zip (pset_tx_outputs p) (pset_outputs p))
       \<lparr>t_fee = 0, t_recv = 0, t_change = 0\<rparr> = Some (Inr txos, t)"
    "t_fee t \<noteq> 0"
    "check_inputs W send utxos [0..<length (pset_inputs p)]
       \<lparr>sg_pset = p\<lparr>pset_tx_outputs := txos\<rparr>, sg_input_amount = 0, sg_witness = []\<rparr> = Some (Inr u, g)"
    "t_change t < sg_input_amount g" "sg_input_amount g - t_change t = wrap_u64 (pinfo_send_amount info)"
    "t_recv t = wrap_u64 (pinfo_recv_amount info)"
  using assms
  by (auto simp: sign_psbt_def Let_def ok_or_def map_option_case
      elim!: bind_SomeE try_op_InrE split: option.splits if_splits prod.splits)

section \<open>What a signature means\<close>

lemma sign_psbt_wallet_effect:
  assumes "adds_signatures_only W" "sign_psbt W w info utxos psbt = Some (Inr signed)"
    and "wal_master_blinding w = Some master" "wl_hex_decode W (pinfo_send_asset info) = Some s"
    and "wl_hex_decode W (pinfo_recv_asset info) = Some r" "s \<noteq> r"
  shows "\<exists>p. wl_from_base64 W psbt = Some p \<and>
    (let outs = zip (pset_tx_outputs p) (pset_outputs p) in
     own_spent W utxos (pset_tx_inputs p) - own_received W master (rev s) outs = wrap_u64 (pinfo_send_amount info) \<and>
     own_received W master (rev r) outs = wrap_u64 (pinfo_recv_amount info) \<and>
     (\<forall>txo \<in> set outs. \<forall>a v. own_out W master txo = Some (a, v) \<longrightarrow> a \<in> {rev s, rev r}) \<and>
     (\<forall>txo \<in> set outs. two_script (fst txo) \<noteq> [] \<longrightarrow> committed W txo) \<and>
     (\<forall>i < length (pset_inputs p). own_utxo W utxos (pset_tx_inputs p ! i) \<noteq> None \<longrightarrow>
        in_asset (pset_inputs p ! i) = rev s))"
proof -
  obtain master' send recv p txos t u g where *:
    "wal_master_blinding w = Some master'" "map_option reversed (wl_hex_decode W (pinfo_send_asset info)) = Some send"
    "map_option reversed (wl_hex_decode W (pinfo_recv_asset info)) = Some recv"
    "wl_from_base64 W psbt = Some p" "length (pset_inputs p) = length (pset_tx_inputs p)"
    "check_outputs W master' send recv (zip (pset_tx_outputs p) (pset_outputs p))
       \<lparr>t_fee = 0, t_recv = 0, t_change = 0\<rparr> = Some (Inr txos, t)"
    "check_inputs W send utxos [0..<length (pset_inputs p)]
       \<lparr>sg_pset = p\<lparr>pset_tx_outputs := txos\<rparr>, sg_input_amount = 0, sg_witness = []\<rparr> = Some (Inr u, g)"
    "sg_input_amount g - t_change t = wrap_u64 (pinfo_send_amount info)"
    "t_recv t = wrap_u64 (pinfo_recv_amount info)"
    by (rule sign_psbt_succeeds[OF assms(2)]) blast
  have e: "master' = master" "send = rev s" "recv = rev r" using *(1-3) assms(3-5) by (auto simp: reversed_def)
  have ne: "rev s \<noteq> rev r" using assms(6) by simp
  note o = check_outputs_spec[OF *(6), unfolded e, simplified, rule_format]
  note i = check_inputs_spec[OF assms(1) *(7), simplified, unfolded *(5) map_nth e]
  show ?thesis
    using o i *(8,9) ne *(5) by (intro exI[of _ p]) (simp add: *(4) Let_def)
qed

section \<open>What the client proposes\<close>







section \<open>A wallet at work\<close>

text \<open>
  A small instance: identifiers are their own encodings, a one byte value is its code, and the
  blinding key opens the outputs whose script starts with \<open>w\<close>.  The wallet spends one output of
  90 units of asset \<open>L\<close> and gets 50 units of asset \<open>U\<close> and a change of 20 units of \<open>L\<close>.
\<close>

definition wdemo_asset :: "char \<Rightarrow> bytes" where
  "wdemo_asset c = replicate 32 c"

definition wdemo_out :: "string \<Rightarrow> bytes \<Rightarrow> nat \<Rightarrow> TxOutput \<times> PsbtOut" where
  "wdemo_out script asset v =
     (\<lparr>two_script = script, two_asset = CHR 0x01 # asset, two_value = [char_of v], two_nonce = []\<rparr>,
      \<lparr>out_redeem_script = [], out_blinding_pubkey = [], out_abf = ''a'', out_vbf = ''v'', out_nonce = [],
       out_rangeproof = [], out_value_commitment = [char_of v], out_asset_commitment = asset\<rparr>)"

definition wdemo_in :: PsbtIn where
  "wdemo_in = \<lparr>in_sighash = 0, in_asset = wdemo_asset CHR ''L'', in_value = 90, in_abf = [], in_vbf = [],
     in_witness_utxo = [], in_redeem_script = [], in_keypaths = None, in_final_witness = Some [''sig'']\<rparr>"

definition wdemo_pset :: Pset where
  "wdemo_pset =
     (let outs = [wdemo_out ''w1'' (wdemo_asset CHR ''U'') 50, wdemo_out ''w2'' (wdemo_asset CHR ''L'') 20,
        wdemo_out ''x'' (wdemo_asset CHR ''L'') 69, wdemo_out [] (wdemo_asset CHR ''L'') 1]
      in \<lparr>pset_inputs = [wdemo_in], pset_tx_inputs = [\<lparr>txi_txhash = ''tx'', txi_index = 0, txi_sequence = 0\<rparr>],
          pset_outputs = map snd outs, pset_tx_outputs = map fst outs, pset_magic = []\<rparr>)"

definition wdemo_wally :: wally where
  "wdemo_wally = \<lparr>wl_hex_decode = Some, wl_hex_encode = rev,
     wl_from_base64 = (\<lambda>s. if s = ''pset'' then Some wdemo_pset else None), wl_to_base64 = (\<lambda>_. ''signed''),
     wl_value_to_satoshi = (\<lambda>b. Some (of_char (hd b))), wl_value_from_satoshi = (\<lambda>n. [char_of n]),
     wl_blinding_key = (\<lambda>m s. Some s), wl_blinding_pubkey = (\<lambda>m s. s),
     wl_unblind = (\<lambda>n k r v s a. if hd s = CHR ''w'' then Some (a, of_char (hd v)) else None),
     wl_asset_generator = (\<lambda>a abf. Some a), wl_asset_value_commitment = (\<lambda>v vbf g. Some [char_of v]),
     wl_sign = (\<lambda>p k. Some p), wl_finalize = Some, wl_derive_priv = (\<lambda>p. Some ''k''),
     wl_public_key = (\<lambda>k. k), wl_hash160 = (\<lambda>k. k), wl_p2shwpkh_script = (\<lambda>k. ''w'' @ k),
     wl_tx_output_at = (\<lambda>h i. Some [])\<rparr>"

definition wdemo_wallet :: wallet where
  "wdemo_wallet = \<lparr>wal_external = 3, wal_internal = 0, wal_derive_address = (\<lambda>c p. Some (''ca'', ''ua'')),
     wal_txs = [(''tx'', ''hex'')], wal_unblinded = (\<lambda>_. Some \<lparr>ub_asset_hex = [], ub_abf = [], ub_vbf = [], ub_value = 90\<rparr>),
     wal_master_blinding = Some ''m''\<rparr>"

definition wdemo_utxo :: UnspentOutput where
  "wdemo_utxo = \<lparr>uo_txhash = ''tx'', uo_satoshi = 90, uo_pt_idx = 0, uo_derivation_path = [0, 1]\<rparr>"

definition wdemo_info :: PsbtInfo where
  "wdemo_info = \<lparr>pinfo_send_asset = wdemo_asset CHR ''L'', pinfo_recv_asset = wdemo_asset CHR ''U'',
     pinfo_send_amount = 70, pinfo_recv_amount = 50\<rparr>"

lemma wdemo_sign: "sign_psbt wdemo_wally wdemo_wallet wdemo_info [wdemo_utxo] ''pset'' = Some (Inr ''signed'')"
  by code_simp


lemma wdemo_adds_signatures: "adds_signatures_only wdemo_wally"
  by (simp add: adds_signatures_only_def keeps_tx_def wdemo_wally_def)


text \<open>C7: a signature of \<^verbatim>\<open>sign_psbt\<close> means the agreed trade.  When it returns a signed PSET, the wallet's own
  inputs less its change are exactly the amount to send, the outputs it can open in the received
  asset add up to exactly the amount to receive, no output of a third asset belongs to it, each
  of its inputs carries the sent asset, and every blinded output commits to the asset and the
  amount that were counted.\<close>

theorem signature_is_the_trade:
  assumes "adds_signatures_only W" "sign_psbt W w info utxos psbt = Some (Inr signed)"
    and "wal_master_blinding w = Some master" "wl_hex_decode W (pinfo_send_asset info) = Some s"
    and "wl_hex_decode W (pinfo_recv_asset info) = Some r" "s \<noteq> r"
  shows "\<exists>p. wl_from_base64 W psbt = Some p \<and>
    (let outs = zip (pset_tx_outputs p) (pset_outputs p) in
     own_spent W utxos (pset_tx_inputs p) - own_received W master (rev s) outs = wrap_u64 (pinfo_send_amount info) \<and>
     own_received W master (rev r) outs = wrap_u64 (pinfo_recv_amount info) \<and>
     (\<forall>txo \<in> set outs. \<forall>a v. own_out W master txo = Some (a, v) \<longrightarrow> a \<in> {rev s, rev r}) \<and>
     (\<forall>txo \<in> set outs. two_script (fst txo) \<noteq> [] \<longrightarrow> committed W txo) \<and>
     (\<forall>i < length (pset_inputs p). own_utxo W utxos (pset_tx_inputs p ! i) \<noteq> None \<longrightarrow>
        in_asset (pset_inputs p ! i) = rev s))"
  using assms by (rule sign_psbt_wallet_effect)

theorem signature_is_the_trade_witness:
  "\<exists>p. wl_from_base64 wdemo_wally ''pset'' = Some p \<and>
    own_spent wdemo_wally [wdemo_utxo] (pset_tx_inputs p) -
      own_received wdemo_wally ''m'' (rev (wdemo_asset CHR ''L'')) (zip (pset_tx_outputs p) (pset_outputs p)) = wrap_u64 70 \<and>
    own_received wdemo_wally ''m'' (rev (wdemo_asset CHR ''U'')) (zip (pset_tx_outputs p) (pset_outputs p)) = wrap_u64 50"
proof -
  have h: "wal_master_blinding wdemo_wallet = Some ''m''"
    "wl_hex_decode wdemo_wally (pinfo_send_asset wdemo_info) = Some (wdemo_asset CHR ''L'')"
    "wl_hex_decode wdemo_wally (pinfo_recv_asset wdemo_info) = Some (wdemo_asset CHR ''U'')"
    "wdemo_asset CHR ''L'' \<noteq> wdemo_asset CHR ''U''"
    by (simp_all add: wdemo_wallet_def wdemo_wally_def wdemo_info_def wdemo_asset_def)
  show ?thesis
    using signature_is_the_trade[OF wdemo_adds_signatures wdemo_sign h]
    by (simp add: Let_def wdemo_info_def) blast
qed

end
