(* ===== verification/Client_Demo.thy ===== *)
theory Client_Demo
  imports Client_Main Libwally_Props
begin

text \<open>
  Concrete states of the client for the witnesses: the start of a run on the local environment
  with two known assets and one listed order, and a state in which an order to sell 10000
  satoshi for 20000 units of an asset is submitted with automatic signature and has been matched.
\<close>

text \<open>As in the small instance, with values of two bytes.\<close>

definition run_value :: "int \<Rightarrow> bytes" where
  "run_value n = [char_of (n div 256), char_of (n mod 256)]"

definition run_satoshi :: "bytes \<Rightarrow> int" where
  "run_satoshi b = 256 * of_char (hd b) + of_char (hd (tl b))"

definition run_out :: "string \<Rightarrow> bytes \<Rightarrow> int \<Rightarrow> TxOutput \<times> PsbtOut" where
  "run_out script asset v =
     (\<lparr>two_script = script, two_asset = CHR 0x01 # asset, two_value = run_value v, two_nonce = []\<rparr>,
      \<lparr>out_redeem_script = [], out_blinding_pubkey = [], out_abf = ''a'', out_vbf = ''v'', out_nonce = [],
       out_rangeproof = [], out_value_commitment = run_value v, out_asset_commitment = asset\<rparr>)"

definition run_pset :: Pset where
  "run_pset =
     (let L = rev (take 32 (env_bitcoin_asset_id ENV_LOCAL));
          outs = [run_out ''w1'' (replicate 32 CHR ''5'') 20000, run_out ''w2'' L 1500, run_out ''x'' L 10460, run_out [] L 40]
      in \<lparr>pset_inputs = [wdemo_in\<lparr>in_asset := L\<rparr>], pset_tx_inputs = [\<lparr>txi_txhash = ''tx'', txi_index = 0, txi_sequence = 0\<rparr>],
          pset_outputs = map snd outs, pset_tx_outputs = map fst outs, pset_magic = []\<rparr>)"

definition run_wally :: wally where
  "run_wally = \<lparr>wl_hex_decode = (\<lambda>s. Some (take 32 s)), wl_hex_encode = rev,
     wl_from_base64 = (\<lambda>s. if s = ''matched'' then Some run_pset else None), wl_to_base64 = (\<lambda>_. ''signed''),
     wl_value_to_satoshi = (\<lambda>b. Some (run_satoshi b)), wl_value_from_satoshi = (\<lambda>n. run_value n),
     wl_blinding_key = (\<lambda>m s. Some s), wl_blinding_pubkey = (\<lambda>m s. s),
     wl_unblind = (\<lambda>n k r v s a. if hd s = CHR ''w'' then Some (a, run_satoshi v) else None),
     wl_asset_generator = (\<lambda>a abf. Some a), wl_asset_value_commitment = (\<lambda>v vbf g. Some (run_value v)),
     wl_sign = (\<lambda>p k. Some p), wl_finalize = Some, wl_derive_priv = (\<lambda>p. Some ''k''),
     wl_public_key = (\<lambda>k. k), wl_hash160 = (\<lambda>k. k), wl_p2shwpkh_script = (\<lambda>k. ''w'' @ k),
     wl_tx_output_at = (\<lambda>h i. Some [])\<rparr>"

definition run_libs :: libs where
  "run_libs = \<lparr>lib_wally = run_wally, lib_parse_gdk_time = (\<lambda>_. Some 0), lib_parse_fcm = (\<lambda>_. None), lib_default_icon = [],
     lib_tx_addresses = (\<lambda>_ _. Inr []), lib_unconfidential = Inr, lib_is_redeposit = (\<lambda>_ _. Some False),
     lib_find_tx = (\<lambda>_ _. Inl (E ''not found''))\<rparr>"

definition run_assets :: "Asset list" where
  "run_assets = [
     \<lparr>a_asset_id = env_bitcoin_asset_id ENV_LOCAL, a_name = ''Bitcoin'', a_ticker = TICKER_LBTC, a_icon = Some [], a_precision = 8, a_icon_url = None\<rparr>,
     \<lparr>a_asset_id = replicate 64 CHR ''5'', a_name = ''Asset'', a_ticker = ''AS'', a_icon = Some [], a_precision = 8, a_icon_url = None\<rparr>]"

definition run_io :: Io where
  "run_io = \<lparr>io_events = [], io_next_id = 0, io_ws = [], io_ui = [], io_gdk = [], io_gdk_calls = [], io_disk = None,
     io_disk_ok = True, io_cookie = None, io_assets_file = Some run_assets, io_now = 0, io_pings = [], io_libs = run_libs\<rparr>"

definition run_details :: Details where
  "run_details = \<lparr>det_asset = replicate 64 CHR ''5'', det_bitcoin_amount = 10000, det_asset_amount = 20000, det_price = f64_lit 2,
     det_server_fee = 500, det_side = Requestor, det_send_bitcoins = True, det_order_type = OT_Bitcoin\<rparr>"

definition run_sign :: SignNotification where
  "run_sign = \<lparr>sn_order_id = ''order'', sn_pset = ''matched'', sn_details = run_details\<rparr>"

definition run_created :: OrderCreatedNotification where
  "run_created = \<lparr>oc_order_id = ''other'', oc_details = run_details, oc_created_at = 0, oc_expires_at = 0, oc_own = None\<rparr>"

definition run_listed :: "Data option" where
  "run_listed = do {
     d \<leftarrow> client_init [] Local ''1'' run_io;
     client_step (M_ServerNotification (Notif_OrderCreated run_created)) (outside [] [] 0 True (\<lambda>w. w) d) }"

lemma run_listed_reachable: "run_listed = Some d \<Longrightarrow> client_reachable d"
proof -
  assume "run_listed = Some d"
  then obtain e where e: "client_init [] Local ''1'' run_io = Some e"
    "client_step (M_ServerNotification (Notif_OrderCreated run_created)) (outside [] [] 0 True (\<lambda>w. w) e) = Some d"
    by (auto simp: run_listed_def elim!: bind_SomeE)
  have "client_reachable e" by (rule client_reachable.start[OF _ _ _ e(1)]) (simp_all add: run_io_def)
  then show "client_reachable d" using e(2) by (rule client_reachable.message)
qed

lemma run_listed_exists: "\<exists>d. run_listed = Some d"
proof -
  have "client_init [] Local ''1'' run_io \<noteq> None"
    by (simp add: client_init_def load_assets_def client_data_def Let_def run_io_def run_assets_def register_assets_def
        check_assets_def ENV_LOCAL_def register_asset_def)
  then obtain d where d: "client_init [] Local ''1'' run_io = Some d" by auto
  have r: "register_assets as e = Some f \<Longrightarrow> d_ctx f = d_ctx e" for as e f
    by (auto simp: register_assets_def register_asset_def send_ui_def Let_def elim!: bind_SomeE
        dest!: foldM_invariant[where P = "\<lambda>x. d_ctx x = d_ctx e"])
  have "d_ctx d = None"
    using d by (auto simp: client_init_def load_assets_def client_data_def Let_def elim!: bind_SomeE try_opE dest!: r split: if_splits option.splits)
  then show ?thesis
    by (simp add: run_listed_def d outside_def process_order_created_def add_order_def try_add_asset_def load_gdk_asset_def ok_or_def)
qed

text \<open>The matched order.\<close>

definition run_submit :: SubmitData where
  "run_submit = \<lparr>sd_order_id = ''order'', sd_side = Requestor, sd_asset = replicate 64 CHR ''5'', sd_asset_precision = 8,
     sd_order_type = OT_Bitcoin, sd_bitcoin_amount = 10000, sd_asset_amount = 20000, sd_price = f64_lit 2, sd_server_fee = 500,
     sd_sell_bitcoin = True, sd_txouts = {(''tx'', 0)}, sd_auto_sign = True, sd_txid = None, sd_index_price = False\<rparr>"

definition run_utxo :: UnspentOutput where
  "run_utxo = \<lparr>uo_txhash = ''tx'', uo_satoshi = 12000, uo_pt_idx = 0, uo_derivation_path = [0, 1]\<rparr>"

definition run_matched :: Data where
  "run_matched =
     (let d = client_data Local ''1'' (run_io\<lparr>io_events := [RE_Resp (Some (RId_Int 0)) (Inr Resp_Sign)]\<rparr>)
      in d\<lparr>d_connected := True, d_assets := bt_from_list (map (\<lambda>a. (a_asset_id a, a)) run_assets),
           d_ctx := Some (new_context wdemo_wallet ''id'' None), d_submit_data := [(''order'', run_submit)],
           d_settings := (d_settings d)\<lparr>set_utxos_req := Some [(''order'', \<lparr>su_utxos = [run_utxo], su_created_at = 0\<rparr>)]\<rparr>\<rparr>)"

lemma run_verify: "verify_amounts (run_matched\<lparr>d_processed_signs := x\<rparr>) run_details = Some (Inr ())"
proof -
  have "verify_amounts run_matched run_details = Some (Inr ())" by code_simp
  then show ?thesis by (simp add: verify_amounts_def)
qed

lemma run_signed: "sign_psbt run_wally wdemo_wallet (order_psbt_info (env_bitcoin_asset_id ENV_LOCAL) run_submit) [run_utxo] ''matched'' =
    Some (Inr ''signed'')"
  by code_simp

lemma run_match:
  "auto_sign_allowed run_details run_submit"
  "f64_eq (price_change (det_price run_details) (sd_price run_submit)) (f64_lit 0)"
  "update_selected run_details run_submit = run_submit"
  by code_simp+

lemma run_adds_signatures: "adds_signatures_only run_wally"
  by (simp add: adds_signatures_only_def keeps_tx_def run_wally_def)

lemma run_matched_fields:
  "d_ctx run_matched = Some (new_context wdemo_wallet ''id'' None)" "the_wally run_matched = run_wally"
  "io_libs (d_io run_matched) = run_libs" "lib_wally run_libs = run_wally" "io_disk_ok (d_io run_matched) = True"
  "d_liquid_asset_id run_matched = env_bitcoin_asset_id ENV_LOCAL" "d_processed_signs run_matched = {}"
  "bt_get (d_submit_data run_matched) ''order'' = Some run_submit" "io_ws (d_io run_matched) = []"
  "io_events (d_io run_matched) = [RE_Resp (Some (RId_Int 0)) (Inr Resp_Sign)]" "io_next_id (d_io run_matched) = 0"
  "set_utxos_req (d_settings run_matched) = Some [(''order'', \<lparr>su_utxos = [run_utxo], su_created_at = 0\<rparr>)]"
  by (simp_all add: run_matched_def client_data_def Let_def the_wally_def run_io_def run_libs_def btree_simps)

end
