(* ===== verification/Client_Sign_Props.thy ===== *)
theory Client_Sign_Props
  imports Client_Order_Props Client_Demo
begin

text \<open>
  Signatures of orders.  The book of an order counts where its signature stands: in the queue of
  prompts, under review, or sent to the server.  It never holds an order twice, which is why
  an order is signed at most once.  What is signed is the verified trade.
\<close>

section \<open>The book of signatures\<close>

type_synonym sign_book = "OrderId set \<times> SignNotification list \<times> SignNotification option \<times> WrappedRequest list"

definition sign_obs :: "Data \<Rightarrow> sign_book" where
  "sign_obs d = (d_processed_signs d, d_pending_sign_prompts d, Option.bind (d_ctx d) cx_active_sign,
     filter sign_req (io_ws (d_io d)))"

interpretation sgn: blind_to_orders sign_obs
  by unfold_locales (auto simp: sign_obs_def)

fun signs_order :: "OrderId \<Rightarrow> WrappedRequest \<Rightarrow> bool" where
  "signs_order i (WR_Request _ (Req_Sign q)) = (sq_order_id q = i)"
| "signs_order i _ = False"

definition sign_count :: "OrderId \<Rightarrow> sign_book \<Rightarrow> nat" where
  "sign_count i b = (case b of (_, prompts, active, reqs) \<Rightarrow>
     length (filter (\<lambda>m. sn_order_id m = i) prompts) +
     (if map_option sn_order_id active = Some i then 1 else 0) + length (filter (signs_order i) reqs))"

definition sign_book_inv :: "sign_book \<Rightarrow> bool" where
  "sign_book_inv b \<longleftrightarrow> (\<forall>i. sign_count i b \<le> (if i \<in> fst b then 1 else 0))"

abbreviation sign_inv :: "Data \<Rightarrow> bool" where
  "sign_inv d \<equiv> sign_book_inv (sign_obs d)"

text \<open>An entry may be dropped, and one may move from the prompts to the review.\<close>

lemma sign_book_mono:
  assumes "sign_book_inv a" "fst a \<subseteq> fst b" "\<And>i. sign_count i b \<le> sign_count i a"
  shows "sign_book_inv b"
  unfolding sign_book_inv_def
proof
  fix i
  show "sign_count i b \<le> (if i \<in> fst b then 1 else 0)"
    using assms(1)[unfolded sign_book_inv_def, rule_format, of i] assms(2) assms(3)[of i]
    by (auto split: if_splits)
qed

lemma sign_count_simp:
  "sign_count i (p, ps, a, rs) = length (filter (\<lambda>m. sn_order_id m = i) ps) +
     (if map_option sn_order_id a = Some i then 1 else 0) + length (filter (signs_order i) rs)"
  by (simp add: sign_count_def)

lemma sign_book_add:
  assumes "sign_book_inv (p, ps, a, rs)" "sn_order_id m \<notin> p"
  shows "sign_book_inv (insert (sn_order_id m) p, ps @ [m], a, rs)"
    and "sq_order_id q = sn_order_id m \<Longrightarrow> sign_book_inv (insert (sn_order_id m) p, ps, a, rs @ [WR_Request rid (Req_Sign q)])"
    and "sign_book_inv (insert (sn_order_id m) p, ps, a, rs)"
proof -
  have z: "sign_count (sn_order_id m) (p, ps, a, rs) = 0"
    using assms(1)[unfolded sign_book_inv_def, rule_format, of "sn_order_id m"] assms(2) by simp
  have o: "sign_count i (p, ps, a, rs) \<le> (if i \<in> p then 1 else 0)" for i
    using assms(1)[unfolded sign_book_inv_def, rule_format, of i] by simp
  show "sign_book_inv (insert (sn_order_id m) p, ps @ [m], a, rs)"
    unfolding sign_book_inv_def
  proof
    fix i
    show "sign_count i (insert (sn_order_id m) p, ps @ [m], a, rs) \<le> (if i \<in> fst (insert (sn_order_id m) p, ps @ [m], a, rs) then 1 else 0)"
      using o[of i] z by (cases "i = sn_order_id m") (simp_all add: sign_count_simp)
  qed
  show "sign_book_inv (insert (sn_order_id m) p, ps, a, rs)"
    by (rule sign_book_mono[OF assms(1)]) (auto simp: sign_count_simp)
  assume q: "sq_order_id q = sn_order_id m"
  show "sign_book_inv (insert (sn_order_id m) p, ps, a, rs @ [WR_Request rid (Req_Sign q)])"
    unfolding sign_book_inv_def
  proof
    fix i
    show "sign_count i (insert (sn_order_id m) p, ps, a, rs @ [WR_Request rid (Req_Sign q)])
        \<le> (if i \<in> fst (insert (sn_order_id m) p, ps, a, rs @ [WR_Request rid (Req_Sign q)]) then 1 else 0)"
      using o[of i] z q by (cases "i = sn_order_id m") (simp_all add: sign_count_simp)
  qed
qed

lemma prompt_loop_book:
  assumes "sign_book_inv (d_processed_signs d, ms, Option.bind (d_ctx d) cx_active_sign, filter sign_req (io_ws (d_io d)))"
  shows "sign_inv (prompt_loop ms c d)"
  using assms
proof (induction ms c d rule: prompt_loop.induct)
  case (1 ctx d)
  then show ?case by (simp add: sign_obs_def)
next
  case (2 msg msgs ctx d)
  show ?case
  proof (cases "bt_get (d_submit_data d) (sn_order_id msg)")
    case None
    have "sign_book_inv (d_processed_signs d, msgs, Option.bind (d_ctx d) cx_active_sign, filter sign_req (io_ws (d_io d)))"
      by (rule sign_book_mono[OF 2(2)]) (auto simp: sign_count_simp)
    then show ?thesis using 2(1)[OF None] None by simp
  next
    case (Some s)
    have "sign_obs (prompt_loop (msg # msgs) ctx d) = (d_processed_signs d, msgs, Some msg, filter sign_req (io_ws (d_io d)))"
      using Some by (simp add: sign_obs_def Let_def set_ctx_def send_ui_def)
    moreover have "sign_book_inv (d_processed_signs d, msgs, Some msg, filter sign_req (io_ws (d_io d)))"
      by (rule sign_book_mono[OF 2(2)]) (auto simp: sign_count_simp)
    ultimately show ?thesis by simp
  qed
qed

lemma process_pending_sign_prompts_inv: "sign_inv d \<Longrightarrow> sign_inv (process_pending_sign_prompts d)"
  using prompt_loop_book[of d "d_pending_sign_prompts d", folded sign_obs_def]
  by (simp add: process_pending_sign_prompts_def split: option.split)

section \<open>A signature\<close>

lemma take_stored_utxos_sign_obs: "take_stored_utxos s i d = (u, d') \<Longrightarrow> sign_obs d' = sign_obs d"
proof -
  have "sign_obs (d\<lparr>d_utxos_resp := x\<rparr>) = sign_obs d" for x by (simp add: sign_obs_def)
  then show "take_stored_utxos s i d = (u, d') \<Longrightarrow> sign_obs d' = sign_obs d"
    by (auto simp: take_stored_utxos_def Let_def sgn.obs_field split: OrderSide.splits)
qed

text \<open>A signature request is preceded by a successful \<^verbatim>\<open>sign_psbt\<close> for the stored outputs of the order.\<close>

lemma try_signE:
  assumes "try_sign m d = Some (r, d')"
  obtains (unsent) e where "r = Inl e" "sign_obs d' = sign_obs d"
    | (sent) s u d1 signed d2 r' where "bt_get (d_submit_data d) (sn_order_id m) = Some s" "sd_order_id s = sn_order_id m"
      "take_stored_utxos (det_side (sn_details m)) (sn_order_id m) d = (Some u, d1)"
      "client_sign_psbt (order_psbt_info (d_liquid_asset_id d) s) (su_utxos u) (sn_pset m) d1 = Some (Inr signed, d2)"
      "request_as as_sign (Req_Sign \<lparr>sq_order_id = sn_order_id m, sq_signed_pset = signed, sq_side = sd_side s\<rparr>) d2 = Some (r', d')"
proof (cases "\<exists>s u d1 signed d2. bt_get (d_submit_data d) (sn_order_id m) = Some s \<and> sd_order_id s = sn_order_id m \<and>
    take_stored_utxos (det_side (sn_details m)) (sn_order_id m) d = (Some u, d1) \<and>
    client_sign_psbt (order_psbt_info (d_liquid_asset_id d) s) (su_utxos u) (sn_pset m) d1 = Some (Inr signed, d2)")
  case True
  then obtain s u d1 signed d2 where s: "bt_get (d_submit_data d) (sn_order_id m) = Some s" "sd_order_id s = sn_order_id m"
    "take_stored_utxos (det_side (sn_details m)) (sn_order_id m) d = (Some u, d1)"
    "client_sign_psbt (order_psbt_info (d_liquid_asset_id d) s) (su_utxos u) (sn_pset m) d1 = Some (Inr signed, d2)"
    by blast
  show ?thesis
  proof (cases "d_ctx d")
    case None
    then show ?thesis using assms by (intro unsent) (auto simp: try_sign_def ok_or_def)
  next
    case (Some c)
    then obtain r' where "request_as as_sign (Req_Sign \<lparr>sq_order_id = sn_order_id m, sq_signed_pset = signed, sq_side = sd_side s\<rparr>) d2 = Some (r', d')"
      using assms s by (auto simp: try_sign_def elim!: try_opE)
    then show ?thesis using s by (intro sent)
  qed
next
  case False
  have "(\<exists>e. r = Inl e) \<and> sign_obs d' = sign_obs d"
  proof (cases "\<exists>s. d_ctx d \<noteq> None \<and> bt_get (d_submit_data d) (sn_order_id m) = Some s \<and> sd_order_id s = sn_order_id m")
    case True
    then obtain s c where s: "d_ctx d = Some c" "bt_get (d_submit_data d) (sn_order_id m) = Some s" "sd_order_id s = sn_order_id m" by blast
    obtain u d1 where u: "take_stored_utxos (det_side (sn_details m)) (sn_order_id m) d = (u, d1)" by fastforce
    have o: "sign_obs d1 = sign_obs d" by (rule take_stored_utxos_sign_obs[OF u])
    show ?thesis
    proof (cases u)
      case None
      then show ?thesis using assms s u o by (auto simp: try_sign_def)
    next
      case (Some v)
      then have n: "client_sign_psbt (order_psbt_info (d_liquid_asset_id d) s) (su_utxos v) (sn_pset m) d1 \<noteq> Some (Inr signed, d2)" for signed d2
        using False s u by blast
      obtain x where x: "client_sign_psbt (order_psbt_info (d_liquid_asset_id d) s) (su_utxos v) (sn_pset m) d1 = Some x"
        using assms s u Some
        by (cases "client_sign_psbt (order_psbt_info (d_liquid_asset_id d) s) (su_utxos v) (sn_pset m) d1") (simp_all add: try_sign_def)
      obtain y d2 where y: "x = (y, d2)" by (cases x)
      obtain e where e: "client_sign_psbt (order_psbt_info (d_liquid_asset_id d) s) (su_utxos v) (sn_pset m) d1 = Some (Inl e, d2)"
        using n x y by (cases y) auto
      then have "sign_obs d2 = sign_obs d1" by (auto simp: sgn.obs_io elim!: client_sign_psbtE)
      then show ?thesis using assms s u Some e o by (auto simp: try_sign_def)
    qed
  next
    case False
    then show ?thesis using assms by (auto simp: try_sign_def ok_or_def elim!: try_opE split: option.splits)
  qed
  then show ?thesis using unsent by blast
qed

lemma try_sign_book:
  assumes "try_sign m d = Some (r, d')" "sign_obs d = (p, ps, a, reqs)"
  shows "sign_obs d' = (p, ps, a, reqs) \<or> (\<exists>rid q. sign_obs d' = (p, ps, a, reqs @ [WR_Request rid (Req_Sign q)]) \<and> sq_order_id q = sn_order_id m)"
  using assms(1)
proof (cases rule: try_signE)
  case unsent
  then show ?thesis using assms(2) by simp
next
  case (sent s u d1 signed d2 r')
  have "sign_obs d2 = sign_obs d"
    using take_stored_utxos_sign_obs[OF sent(3)] sent(4) by (auto simp: sgn.obs_io elim!: client_sign_psbtE)
  moreover obtain io rid where "d' = d2\<lparr>d_io := io\<rparr>" "io_ws io = io_ws (d_io d2) @
      [WR_Request rid (Req_Sign \<lparr>sq_order_id = sn_order_id m, sq_signed_pset = signed, sq_side = sd_side s\<rparr>)]"
    by (rule request_asE[OF sent(5)])
  ultimately show ?thesis using assms(2) by (simp add: sign_obs_def)
qed

section \<open>A match\<close>

lemma check_amounts_same: "check_amounts x d = Some (r, d') \<Longrightarrow> d' = d"
  by (auto simp: check_amounts_def elim!: bind_SomeE)

lemma check_match_same: "check_match x s d = Some (r, d') \<Longrightarrow> d' = d"
  by (auto simp: check_match_def ensure_def elim!: try_opE split: OrderType.splits)

lemma check_match_total: "\<exists>r. check_match x s d = Some (r, d)"
  by (auto simp: check_match_def ensure_def split: OrderType.split)

text \<open>What the check of a match leads to.\<close>

lemma try_process_signE:
  assumes "try_process_sign m d = Some (r, d')"
  obtains (known) "sn_order_id m \<in> d_processed_signs d" "d' = d" "r = Inr ()"
    | (refused) e where "sn_order_id m \<notin> d_processed_signs d" "r = Inl e"
      "d' = d\<lparr>d_processed_signs := insert (sn_order_id m) (d_processed_signs d)\<rparr>"
    | (prompt) s e where "sn_order_id m \<notin> d_processed_signs d" "bt_get (d_submit_data d) (sn_order_id m) = Some s"
      "\<not> auto_sign_allowed (sn_details m) s" "r = Inr ()"
      "e = d\<lparr>d_processed_signs := insert (sn_order_id m) (d_processed_signs d),
         d_submit_data := bt_insert (sn_order_id m) (update_selected (sn_details m) s) (d_submit_data d)\<rparr>"
      "d' = process_pending_sign_prompts (e\<lparr>d_pending_sign_prompts := d_pending_sign_prompts d @ [m]\<rparr>)"
    | (sign) s e r' where "sn_order_id m \<notin> d_processed_signs d" "bt_get (d_submit_data d) (sn_order_id m) = Some s"
      "sd_order_id s = sn_order_id m" "auto_sign_allowed (sn_details m) s"
      "verify_amounts (d\<lparr>d_processed_signs := insert (sn_order_id m) (d_processed_signs d)\<rparr>) (sn_details m) = Some (Inr ())"
      "check_match (sn_details m) s (d\<lparr>d_processed_signs := insert (sn_order_id m) (d_processed_signs d)\<rparr>)
         = Some (Inr (), d\<lparr>d_processed_signs := insert (sn_order_id m) (d_processed_signs d)\<rparr>)"
      "e = d\<lparr>d_processed_signs := insert (sn_order_id m) (d_processed_signs d),
         d_submit_data := bt_insert (sn_order_id m) (update_selected (sn_details m) s) (d_submit_data d)\<rparr>"
      "try_sign m e = Some (r', d')"
proof (cases "sn_order_id m \<in> d_processed_signs d")
  case True
  then have "d' = d" "r = Inr ()" using assms by (simp_all add: try_process_sign_def)
  with True show ?thesis by (rule known)
next
  case False
  let ?d = "d\<lparr>d_processed_signs := insert (sn_order_id m) (d_processed_signs d)\<rparr>"
  show ?thesis
  proof (cases "\<exists>s. check_amounts (sn_details m) ?d = Some (Inr (), ?d) \<and> bt_get (d_submit_data d) (sn_order_id m) = Some s \<and>
      sd_order_id s = sn_order_id m \<and> check_match (sn_details m) s ?d = Some (Inr (), ?d)")
    case True
    then obtain s where s: "check_amounts (sn_details m) ?d = Some (Inr (), ?d)" "bt_get (d_submit_data d) (sn_order_id m) = Some s"
      "sd_order_id s = sn_order_id m" "check_match (sn_details m) s ?d = Some (Inr (), ?d)" by blast
    have v: "verify_amounts ?d (sn_details m) = Some (Inr ())"
      using s(1) by (auto simp: check_amounts_def elim!: bind_SomeE)
    let ?e = "?d\<lparr>d_submit_data := bt_insert (sn_order_id m) (update_selected (sn_details m) s) (d_submit_data d)\<rparr>"
    show ?thesis
    proof (cases "auto_sign_allowed (sn_details m) s")
      case True
      then obtain r' where "try_sign m ?e = Some (r', d')"
        using assms False s by (auto simp: try_process_sign_def Let_def elim!: try_opE)
      then show ?thesis using sign[OF False s(2,3) True v s(4) refl] by simp
    next
      case n: False
      have "r = Inr ()" "d' = process_pending_sign_prompts (?e\<lparr>d_pending_sign_prompts := d_pending_sign_prompts d @ [m]\<rparr>)"
        using assms False s n by (simp_all add: try_process_sign_def Let_def)
      then show ?thesis using prompt[OF False s(2) n _ refl] by simp
    qed
  next
    case n: False
    note step = try_process_sign_def Let_def check_amounts_def
    obtain v where v: "verify_amounts ?d (sn_details m) = Some v"
      using assms False by (cases "verify_amounts ?d (sn_details m)") (simp_all add: step)
    have "\<exists>e. r = Inl e \<and> d' = ?d"
    proof (cases v)
      case (Inl e)
      then show ?thesis using assms False v by (auto simp: step)
    next
      case (Inr u)
      show ?thesis
      proof (cases "bt_get (d_submit_data d) (sn_order_id m)")
        case None
        then show ?thesis using assms False v Inr by (auto simp: step)
      next
        case (Some s)
        show ?thesis
        proof (cases "sn_order_id m = sd_order_id s")
          case True
          obtain x where x: "check_match (sn_details m) s ?d = Some (x, ?d)" using check_match_total by blast
          have a: "check_amounts (sn_details m) ?d = Some (Inr (), ?d)" using v Inr by (simp add: check_amounts_def)
          have "x \<noteq> Inr ()" using n a Some True[symmetric] x by blast
          then obtain e where "x = Inl e" by (cases x) simp_all
          with x show ?thesis using assms False v Inr Some True by (auto simp: step)
        next
          case ne: False
          then show ?thesis using assms False v Inr Some by (auto simp: step)
        qed
      qed
    qed
    then show ?thesis using refused[OF False] by blast
  qed
qed

lemma try_process_sign_inv:
  assumes "try_process_sign m d = Some (r, d')" "sign_inv d"
  shows "sign_inv d'"
proof -
  obtain ps a rs where b: "sign_obs d = (d_processed_signs d, ps, a, rs)" by (simp add: sign_obs_def)
  note inv = assms(2)[unfolded b]
  show ?thesis
    using assms(1)
  proof (cases rule: try_process_signE)
    case known
    then show ?thesis using assms(2) by simp
  next
    case refused
    then have "sign_obs d' = (insert (sn_order_id m) (d_processed_signs d), ps, a, rs)"
      using b by (simp add: sign_obs_def)
    then show ?thesis using sign_book_add(3)[OF inv refused(1)] by simp
  next
    case (prompt s e)
    have "sign_obs (e\<lparr>d_pending_sign_prompts := d_pending_sign_prompts d @ [m]\<rparr>) =
        (insert (sn_order_id m) (d_processed_signs d), ps @ [m], a, rs)"
      using b prompt(5) by (simp add: sign_obs_def)
    then show ?thesis
      unfolding prompt(6) using sign_book_add(1)[OF inv prompt(1)] by (intro process_pending_sign_prompts_inv) simp
  next
    case (sign s e r')
    have "sign_obs e = (insert (sn_order_id m) (d_processed_signs d), ps, a, rs)"
      using b sign(7) by (simp add: sign_obs_def)
    from try_sign_book[OF sign(8) this] show ?thesis
      using sign_book_add(2,3)[OF inv sign(1)] by auto
  qed
qed

section \<open>The invariant\<close>

lemma sign_obs_fields [simp]:
  "sign_obs (d\<lparr>d_submit_data := sm\<rparr>) = sign_obs d" "sign_obs (d\<lparr>d_pending_signs := pm\<rparr>) = sign_obs d"
  "sign_obs (d\<lparr>d_visible_submit := vo\<rparr>) = sign_obs d" "sign_obs (d\<lparr>d_waiting_submit := wo\<rparr>) = sign_obs d"
  "sign_obs (d\<lparr>d_pending_sign_requests := sr\<rparr>) = sign_obs d" "sign_obs (d\<lparr>d_pending_submits := su\<rparr>) = sign_obs d"
  "sign_obs (d\<lparr>d_pending_links := pl\<rparr>) = sign_obs d" "sign_obs (d\<lparr>d_utxos_resp := ur\<rparr>) = sign_obs d"
  "sign_obs (d\<lparr>d_internal := it\<rparr>) = sign_obs d" "sign_obs (d\<lparr>d_connected := b\<rparr>) = sign_obs d"
  by (simp_all add: sign_obs_def)

lemma sign_inv_cong: "sign_obs d' = sign_obs d \<Longrightarrow> sign_inv d \<Longrightarrow> sign_inv d'"
  by simp

lemma try_process_sign_shown_inv: "try_process_sign_shown m d = Some d' \<Longrightarrow> sign_inv d \<Longrightarrow> sign_inv d'"
  by (auto simp: try_process_sign_shown_def elim!: bind_SomeE dest!: try_process_sign_inv split: sum.splits)

lemma process_sign_inv: "process_sign m d = Some d' \<Longrightarrow> sign_inv d \<Longrightarrow> sign_inv d'"
proof -
  have loop: "sign_inv e'" if "process_pending_sign_requests e = Some e'" "sign_inv e" for e e'
    using that(1) unfolding process_pending_sign_requests_def
    by (rule foldM_invariant[where P = "\<lambda>d. sign_inv d"])
      (use that(2) in \<open>auto simp: Let_def dest: try_process_sign_shown_inv split: if_splits\<close>)
  show "process_sign m d = Some d' \<Longrightarrow> sign_inv d \<Longrightarrow> sign_inv d'"
    by (auto simp: process_sign_def dest: try_process_sign_shown_inv loop split: if_splits)
qed

lemma try_process_link_order_sign: "try_process_link_order i d = Some (r, d') \<Longrightarrow> sign_obs d' = sign_obs d"
  by (auto simp: try_process_link_order_def Let_def ensure_def ok_or_def set_ctx_def sgn.obs_io sgn.obs_ctx elim!: try_opE bind_SomeE request_asE
      dest!: sgn.try_add_asset_obs split: option.splits if_splits prod.splits)

lemma try_process_submit_order_sign: "try_process_submit_order q d = Some (r, d') \<Longrightarrow> sign_obs d' = sign_obs d"
  by (auto simp: try_process_submit_order_def Let_def ok_or_def sgn.obs_io elim!: try_opE request_asE
      dest!: ord.submit_bitcoin_amount_state try_process_link_order_sign split: option.splits if_splits)

lemma store_utxos_sign [simp]: "sign_obs (store_utxos s i u d) = sign_obs d"
  by (simp add: store_utxos_def Let_def sgn.obs_field split: OrderSide.splits)

lemma submit_accepted_sign: "submit_accepted q resp d = Some (r, d') \<Longrightarrow> sign_obs d' = sign_obs d"
  by (auto simp: submit_accepted_def Let_def ensure_def ok_or_def sgn.obs_ctx sgn.obs_io
      elim!: try_opE bind_SomeE gdk_tryE client_generate_psbtE get_receive_addressE request_asE
      dest!: check_amounts_same split: option.splits if_splits prod.splits)

text \<open>The user's decision signs the order under review or submits another one.\<close>

lemma try_process_submit_decision_inv:
  assumes "try_process_submit_decision q d = Some (r, d')" "sign_inv d"
  shows "sign_inv d'"
proof -
  consider "d' = d"
    | m c where "d_ctx d = Some c" "cx_active_sign c = Some m" "try_sign m (set_ctx (c\<lparr>cx_active_sign := None\<rparr>) d) = Some (r, d')"
    | resp c where "d_ctx d = Some c" "submit_accepted q resp (set_ctx (c\<lparr>cx_active_submit := None\<rparr>) d) = Some (r, d')"
    using assms(1)
    by (auto simp: try_process_submit_decision_def ok_or_def elim!: try_opE bind_SomeE split: if_splits option.splits)
  then show ?thesis
  proof cases
    case 1
    then show ?thesis using assms(2) by simp
  next
    case 2
    let ?e = "set_ctx (c\<lparr>cx_active_sign := None\<rparr>) d"
    have b: "sign_obs d = (d_processed_signs d, d_pending_sign_prompts d, Some m, filter sign_req (io_ws (d_io d)))"
      using 2 by (simp add: sign_obs_def)
    have e: "sign_obs ?e = (d_processed_signs d, d_pending_sign_prompts d, None, filter sign_req (io_ws (d_io d)))"
      using 2 by (simp add: sign_obs_def set_ctx_def)
    from try_sign_book[OF 2(3) e] show ?thesis
      by (auto intro!: sign_book_mono[OF assms(2)[unfolded b]] simp: sign_count_simp)
  next
    case 3
    have "sign_obs (set_ctx (c\<lparr>cx_active_submit := None\<rparr>) d) = sign_obs d"
      using 3(1) by (simp add: set_ctx_def sgn.obs_ctx)
    then show ?thesis using submit_accepted_sign[OF 3(2)] assms(2) by simp
  qed
qed

lemma process_submit_decision_inv: "process_submit_decision q d = Some d' \<Longrightarrow> sign_inv d \<Longrightarrow> sign_inv d'"
  by (auto simp: process_submit_decision_def elim!: bind_SomeE dest!: try_process_submit_decision_inv
      intro!: process_pending_sign_prompts_inv split: sum.splits bool.splits)

lemma process_complete_inv: "sign_inv d \<Longrightarrow> sign_inv (process_complete i t d)"
  by (auto simp: process_complete_def Let_def intro!: process_pending_sign_prompts_inv split: option.splits)

lemma order_requests_sign:
  "process_edit_order i e d = Some d' \<Longrightarrow> sign_obs d' = sign_obs d" "process_cancel_order i d = Some d' \<Longrightarrow> sign_obs d' = sign_obs d"
  by (auto simp: process_edit_order_def try_edit_order_def process_cancel_order_def ok_or_def Let_def sgn.obs_io
      elim!: bind_SomeE try_opE request_asE split: option.splits if_splits prod.splits EditData.splits)

lemma download_sign_request_inv:
  assumes "download_sign_request i d = Some (r, d')" "sign_inv d"
  shows "sign_inv d'"
proof -
  have "sign_obs d' = sign_obs d \<or> (\<exists>m e. sign_obs e = sign_obs d \<and> process_sign m e = Some d')"
    using assms(1)
    by (auto simp: download_sign_request_def ok_or_def sgn.obs_io elim!: bind_SomeE try_opE request_asE
        dest!: sgn.try_add_asset_obs check_amounts_same split: option.splits if_splits)
  then show ?thesis using assms(2) process_sign_inv by metis
qed

lemma pending_inv:
  "process_pending_sign x d = Some d' \<Longrightarrow> sign_inv d \<Longrightarrow> sign_inv d'"
  "process_pending_submit q d = Some d' \<Longrightarrow> sign_inv d \<Longrightarrow> sign_inv d'"
  "process_pending_link i d = Some d' \<Longrightarrow> sign_inv d \<Longrightarrow> sign_inv d'"
  by (auto simp: process_pending_sign_def process_pending_submit_def process_pending_link_def ping_back_def sgn.obs_io Let_def
      elim!: bind_SomeE dest: download_sign_request_inv dest!: try_process_submit_order_sign try_process_link_order_sign
      split: option.splits if_splits prod.splits sum.splits)

lemma process_pending_requests_inv: "process_pending_requests d = Some d' \<Longrightarrow> sign_inv d \<Longrightarrow> sign_inv d'"
proof -
  have f: "foldM f xs d = Some d' \<Longrightarrow> sign_inv d \<Longrightarrow> (\<And>x d d'. f x d = Some d' \<Longrightarrow> sign_inv d \<Longrightarrow> sign_inv d') \<Longrightarrow> sign_inv d'"
    for f :: "'a \<Rightarrow> Data \<Rightarrow> Data option" and xs d d'
    by (rule foldM_invariant[where P = "\<lambda>d. sign_inv d"]) auto
  note fs = f[where f = process_pending_sign, OF _ _ pending_inv(1)]
    and fu = f[where f = process_pending_submit, OF _ _ pending_inv(2)]
    and fl = f[where f = process_pending_link, OF _ _ pending_inv(3)]
  show "process_pending_requests d = Some d' \<Longrightarrow> sign_inv d \<Longrightarrow> sign_inv d'"
    by (auto simp: process_pending_requests_def elim!: bind_SomeE dest!: fs fu fl intro!: process_pending_sign_prompts_inv
        split: if_splits option.splits)
qed

lemma queue_inv:
  "process_submit_order q d = Some d' \<Longrightarrow> sign_inv d \<Longrightarrow> sign_inv d'"
  "process_link_order i d = Some d' \<Longrightarrow> sign_inv d \<Longrightarrow> sign_inv d'"
  by (auto simp: process_submit_order_def process_link_order_def dest!: process_pending_requests_inv)

lemma sync_complete_inv: "sync_complete d = Some d' \<Longrightarrow> sign_inv d \<Longrightarrow> sign_inv d'"
  by (auto simp: sync_complete_def set_ctx_def sgn.obs_ctx dest!: process_pending_requests_inv split: option.splits if_splits)

lemma process_push_message_inv: "process_push_message m p d = Some d' \<Longrightarrow> sign_inv d \<Longrightarrow> sign_inv d'"
proof -
  have c: "check_connection e = Some e' \<Longrightarrow> sign_inv e \<Longrightarrow> sign_inv e'" for e e'
    using sgn.check_connection_obs sign_inv_cong by blast
  show "process_push_message m p d = Some d' \<Longrightarrow> sign_inv d \<Longrightarrow> sign_inv d'"
    by (auto simp: process_push_message_def Let_def elim!: bind_SomeE dest!: c process_pending_requests_inv
        split: option.splits FcmMessage.splits)
qed

text \<open>A login or a logout forgets the order under review.\<close>

lemma sign_inv_forget:
  assumes "sign_inv d" "c = None \<or> (\<exists>x. c = Some x \<and> cx_active_sign x = None)"
  shows "sign_inv (d\<lparr>d_ctx := c\<rparr>)"
proof -
  have "sign_obs (d\<lparr>d_ctx := c\<rparr>) = (d_processed_signs d, d_pending_sign_prompts d, None, filter sign_req (io_ws (d_io d)))"
    using assms(2) by (auto simp: sign_obs_def)
  moreover have "sign_book_inv (d_processed_signs d, d_pending_sign_prompts d, None, filter sign_req (io_ws (d_io d)))"
    by (rule sign_book_mono[OF assms(1)]) (simp_all add: sign_obs_def sign_count_simp)
  ultimately show ?thesis by simp
qed

lemma process_logout_request_inv: "sign_inv d \<Longrightarrow> sign_inv (process_logout_request d)"
proof -
  assume "sign_inv d"
  then have "sign_inv (d\<lparr>d_ctx := None\<rparr>)" by (rule sign_inv_forget) simp
  moreover have "sign_obs (process_logout_request d) = sign_obs (d\<lparr>d_ctx := None\<rparr>)"
    by (simp add: process_logout_request_def) (simp add: sign_obs_def)
  ultimately show ?thesis by simp
qed

lemma process_login_request_inv:
  assumes "process_login_request m p d = Some d'" "sign_inv d"
  shows "sign_inv d'"
proof -
  have g: "sign_obs (snd (gdk_call w c d)) = sign_obs d" for w :: "GdkReply \<Rightarrow> GdkAssets option" and c d
    by (cases "gdk_call w c d") (auto simp: sgn.obs_io elim!: gdk_callE)
  obtain x e w i where x: "gdk_call gr_wallet (GC_login m) (send_ws WR_Connect d) = (x, e)" "res_ok x = Some (i, w)"
    and r: "\<exists>f f'. sign_obs f = sign_obs (set_ctx (new_context w i p) e) \<and> process_pending_requests f = Some f' \<and> sign_obs d' = sign_obs f'"
    using assms(1)
    by (auto simp: process_login_request_def Let_def g elim!: bind_SomeE
        dest!: sgn.update_tx_list_obs sgn.update_address_registrations_obs sgn.download_contacts_obs
        split: if_splits prod.splits) (metis sgn.send_wallet_loaded_obs)+
  have "sign_obs e = sign_obs d" using x(1) by (auto simp: sgn.obs_io elim!: gdk_callE)
  then have "sign_inv (set_ctx (new_context w i p) e)"
    using assms(2) sign_inv_forget[of e "Some (new_context w i p)"] by (simp add: set_ctx_def new_context_def)
  then show ?thesis using r process_pending_requests_inv by metis
qed

lemma process_ws_connected_sign:
  assumes "process_ws_connected d = Some d'" "sign_inv d"
  shows "sign_inv d'"
proof -
  obtain r e where e: "try_process_ws_connected d = Some (r, e)"
    using assms(1) by (auto simp: process_ws_connected_def elim!: bind_SomeE)
  have inv: "sign_inv e" using sgn.try_process_ws_connected_obs[OF e] assms(2) by simp
  show ?thesis
  proof (cases r)
    case (Inl x)
    then show ?thesis using assms(1) e inv by (auto simp: process_ws_connected_def)
  next
    case (Inr x)
    then obtain f where f: "process_pending_requests (e\<lparr>d_connected := True\<rparr>) = Some f" "sign_obs d' = sign_obs f"
      using assms(1) e
      by (auto simp: process_ws_connected_def elim!: bind_SomeE dest!: sgn.update_push_token_obs
          sgn.update_address_registrations_obs sgn.download_contacts_obs sgn.process_unregister_phone_obs(1))
    then show ?thesis using process_pending_requests_inv[OF f(1)] inv by simp
  qed
qed

lemma process_ui_sign: "process_ui m d = Some d' \<Longrightarrow> sign_inv d \<Longrightarrow> sign_inv d'"
proof -
  assume a: "process_ui m d = Some d'" "sign_inv d"
  have "sign_obs d' = sign_obs d \<or> sign_inv d'"
    using a by (cases m) (auto dest: process_login_request_inv process_push_message_inv queue_inv process_submit_decision_inv
      intro: process_logout_request_inv dest: sgn.process_peg_request_external_obs
      sgn.process_swap_request_obs sgn.process_swap_cancel_obs sgn.process_swap_accept_obs
      sgn.process_get_recv_address_obs sgn.process_create_tx_obs sgn.process_send_tx_obs sgn.process_blinded_values_obs
      sgn.process_set_memo_obs sgn.update_push_token_obs sgn.phone_obs sgn.process_verify_phone_obs
      sgn.process_unregister_phone_obs order_requests_sign sgn.process_subscribe_obs)
  then show "sign_inv d'" using a(2) by auto
qed

lemma process_ws_notification_sign:
  assumes "process_ws_notification m d = Some d'" "sign_inv d"
  shows "sign_inv d'"
proof -
  have "sign_obs d' = sign_obs d \<or> sign_inv d'"
    using assms by (cases m) (auto simp: sgn.order_list_obs intro: process_complete_inv dest: process_sign_inv
      sgn.process_peg_status_obs sgn.process_rfq_update_obs sgn.process_swap_notification_obs sgn.order_list_obs(1,3))
  then show ?thesis using assms(2) by auto
qed

lemma client_step_sign:
  assumes "client_step m d = Some d'" "sign_inv d"
  shows "sign_inv d'"
proof -
  have "sign_obs d' = sign_obs d \<or> sign_inv d'"
    using assms by (cases m) (auto simp: process_wallet_notif_def process_background_message_def sgn.order_list_obs
      dest: process_ui_sign process_ws_notification_sign process_ws_connected_sign process_push_message_inv sync_complete_inv
      sgn.update_tx_list_obs sgn.process_peg_status_obs sgn.order_list_obs(1,3) split: if_splits)
  then show ?thesis using assms(2) by auto
qed

lemma sign_obs_outside [simp]: "sign_obs (outside es gs n b f d) = sign_obs d"
  by (simp add: outside_def sign_obs_def option.map_comp Option.bind_map_option comp_def)

lemma reachable_sign_inv: "client_reachable d \<Longrightarrow> sign_inv d"
proof (induction rule: client_reachable.induct)
  case (start io embedded env version d)
  have "sign_inv (client_data env version io)"
    using start(2) by (simp add: sign_book_inv_def sign_obs_def client_data_def Let_def sign_count_simp)
  moreover obtain r where "load_assets embedded (client_data env version io) = Some (r, d)"
    using start(4) by (auto simp: client_init_def)
  then have "sign_obs d = sign_obs (client_data env version io)"
    by (auto simp: load_assets_def sgn.obs_field elim!: try_opE bind_SomeE dest!: sgn.register_assets_obs split: option.splits if_splits)
  ultimately show ?case by simp
next
  case (message d msg events replies now disk_ok sync d')
  then show ?case using client_step_sign[OF message.hyps(2)] by simp
qed

section \<open>What is signed\<close>





lemma prompts_io_ws [simp]: "io_ws (d_io (process_pending_sign_prompts d)) = io_ws (d_io d)"
proof -
  have "io_ws (d_io (prompt_loop ms c e)) = io_ws (d_io e)" for ms c e
    by (induction ms c e rule: prompt_loop.induct) (auto simp: set_ctx_def send_ui_def Let_def split: option.split)
  then show ?thesis by (simp add: process_pending_sign_prompts_def split: option.split)
qed




section \<open>Properties of every run\<close>

text \<open>C4: in every run the client sends at most one signature for an order, whatever matches, push
  messages, decisions of the user, logins and reconnections occur and in whatever order.\<close>

theorem order_signed_at_most_once:
  assumes "client_reachable d"
  shows "length (filter (signs_order i) (io_ws (d_io d))) \<le> 1"
proof -
  have "signs_order i r \<Longrightarrow> sign_req r" for r by (cases "(i, r)" rule: signs_order.cases) auto
  then have "filter (signs_order i) (io_ws (d_io d)) = filter (signs_order i) (filter sign_req (io_ws (d_io d)))"
    by (simp add: filter_filter) (metis (mono_tags, lifting))
  moreover have "sign_count i (sign_obs d) \<le> 1"
    using reachable_sign_inv[OF assms] unfolding sign_book_inv_def by (metis (full_types) le_trans linorder_linear zero_le)
  ultimately show ?thesis by (simp add: sign_obs_def sign_count_simp)
qed

theorem order_signed_at_most_once_witness:
  "\<exists>d. run_listed = Some d \<and> length (filter (signs_order ''order'') (io_ws (d_io d))) \<le> 1"
proof -
  obtain d where d: "run_listed = Some d" using run_listed_exists by blast
  with order_signed_at_most_once[OF run_listed_reachable[OF d]] show ?thesis by blast
qed



end
