(* ===== verification/Client_Tx_Props.thy ===== *)
theory Client_Tx_Props
  imports Client_Demo Client_Frame
begin

text \<open>
  The requests of the client and the registration of its addresses, the transaction list and the
  balances that the user interface is sent, and the settings file.
\<close>

section \<open>A request and its response\<close>

text \<open>The events before the one that ends a request.\<close>

fun passes :: "RequestId \<Rightarrow> RespEvent \<Rightarrow> bool" where
  "passes rid (RE_Resp (Some i) _) = (i \<noteq> rid)"
| "passes rid (RE_Resp None _) = True"
| "passes rid (RE_Poll spent) = (spent \<le> SERVER_REQUEST_TIMEOUT)"

lemma await_response_spec:
  "await_response rid es =
     (case dropWhile (passes rid) es of
        RE_Resp _ (Inr x) # rest \<Rightarrow> (Inr x, rest)
      | RE_Resp _ (Inl e) # rest \<Rightarrow> (Inl (E (err_message e)), rest)
      | RE_Poll _ # rest \<Rightarrow> (Inl (E ''request timeout''), rest)
      | [] \<Rightarrow> (Inl (E ''request timeout''), []))"
  by (induction rid es rule: await_response.induct) (auto split: sum.split)

text \<open>C36: a request is sent once, under the next request number, and ends with the first event of the
  channel that is a response with this number, or a poll after the time limit.  Only a response
  with the request's own number is returned; responses to other requests are dropped.\<close>

theorem request_gets_its_own_response:
  "\<exists>io. snd (client_request req d) = d\<lparr>d_io := io\<rparr> \<and>
    io_ws io = io_ws (d_io d) @ [WR_Request (RId_Int (io_next_id (d_io d))) req] \<and>
    io_next_id io = wrap_i64 (io_next_id (d_io d) + 1) \<and>
    (fst (client_request req d), io_events io) =
      (case dropWhile (passes (RId_Int (io_next_id (d_io d)))) (io_events (d_io d)) of
         RE_Resp _ (Inr x) # rest \<Rightarrow> (Inr x, rest)
       | RE_Resp _ (Inl e) # rest \<Rightarrow> (Inl (E (err_message e)), rest)
       | RE_Poll _ # rest \<Rightarrow> (Inl (E ''request timeout''), rest)
       | [] \<Rightarrow> (Inl (E ''request timeout''), []))"
  unfolding await_response_spec[symmetric]
  by (auto simp: client_request_def send_request_msg_def next_request_id_def send_ws_def Let_def case_prod_beta)

section \<open>Registration of addresses\<close>

definition last_ext :: "Settings \<Rightarrow> int" where
  "last_ext s = (case set_last_external s of None \<Rightarrow> 0 | Some n \<Rightarrow> n)"

definition last_int :: "Settings \<Rightarrow> int" where
  "last_int s = (case set_last_internal s of None \<Rightarrow> 0 | Some n \<Rightarrow> n)"

definition derivable :: "wallet \<Rightarrow> bool" where
  "derivable w \<longleftrightarrow> (\<forall>is_change p. get_address is_change p False w \<noteq> None)"

definition addresses :: "wallet \<Rightarrow> bool \<Rightarrow> int \<Rightarrow> int \<Rightarrow> string list" where
  "addresses w is_change a b = map (\<lambda>p. the (get_address is_change p False w)) [a..b - 1]"

lemma range_addresses_total: "derivable w \<Longrightarrow> range_addresses c False w [a..b - 1] = Some (addresses w c a b)"
proof -
  have "derivable w \<Longrightarrow> range_addresses c False w ps = Some (map (\<lambda>p. the (get_address c p False w)) ps)" for ps
  proof (induction ps)
    case (Cons p ps)
    obtain a where "get_address c p False w = Some a" using Cons.prems by (auto simp: derivable_def)
    then show ?case using Cons by simp
  qed simp
  then show "derivable w \<Longrightarrow> ?thesis" by (simp add: addresses_def)
qed

lemma addresses_split: "a \<le> b \<Longrightarrow> b \<le> c \<Longrightarrow> addresses w x a c = addresses w x a b @ addresses w x b c"
  using upto_split1[of a b "c - 1"] by (cases "b = c") (simp_all add: addresses_def)

lemma length_addresses: "a \<le> b \<Longrightarrow> int (length (addresses w x a b)) = b - a"
  by (simp add: addresses_def)

text \<open>The next limits of a round, when no index is near the end of its type.\<close>

definition next_ext :: "wallet \<Rightarrow> Settings \<Rightarrow> int" where
  "next_ext w s = min (wal_external w + 100) (last_ext s + 100)"

definition next_int :: "wallet \<Rightarrow> Settings \<Rightarrow> int" where
  "next_int w s = min (wal_internal w + 100) (last_int s + 100 - (next_ext w s - last_ext s))"

definition within_limits :: "wallet \<Rightarrow> Settings \<Rightarrow> bool" where
  "within_limits w s \<longleftrightarrow> 0 \<le> wal_external w \<and> wal_external w < 2 ^ 31 \<and> 0 \<le> wal_internal w \<and> wal_internal w < 2 ^ 31 \<and>
     0 \<le> last_ext s \<and> last_ext s \<le> wal_external w + 100 \<and> 0 \<le> last_int s \<and> last_int s \<le> wal_internal w + 100"

lemma register_batch_spec:
  assumes "derivable w" "within_limits w s"
  shows "register_batch w s = Some (next_ext w s, next_int w s,
    addresses w False (last_ext s) (next_ext w s) @ addresses w True (last_int s) (next_int w s))"
proof -
  have u: "wrap_u32 x = x" if "0 \<le> x" "x < 2 ^ 32" for x using that by (simp add: wrap_u32_def)
  let ?e = "next_ext w s - last_ext s"
  have e: "last_ext s \<le> next_ext w s" "?e \<le> 100" using assms(2) by (simp_all add: next_ext_def within_limits_def)
  have ext: "min (wrap_u32 (wal_external w + 100)) (wrap_u32 (last_ext s + 100)) = next_ext w s"
    using assms(2) by (simp add: u next_ext_def within_limits_def)
  have cnt: "(if last_ext s < next_ext w s then ?e else 0) = ?e" using e by auto
  have "wrap_u32 (wrap_u32 (last_int s + 100) - ?e) = last_int s + 100 - ?e"
    using assms(2) e by (simp add: u within_limits_def)
  then have "min (wrap_u32 (wal_internal w + 100)) (wrap_u32 (wrap_u32 (last_int s + 100) - ?e)) = next_int w s"
    using assms(2) by (simp add: u next_int_def within_limits_def)
  then show ?thesis
    unfolding register_batch_def Let_def EXTRA_ADDRESS_COUNT_def MAX_REGISTER_ADDRESS_COUNT_def
      last_ext_def[symmetric] last_int_def[symmetric] ext cnt
    by (simp add: range_addresses_total[OF assms(1)])
qed

lemma next_limits:
  assumes "within_limits w s"
  shows "last_ext s \<le> next_ext w s" "next_ext w s \<le> wal_external w + 100"
    "last_int s \<le> next_int w s" "next_int w s \<le> wal_internal w + 100"
    "next_ext w s - last_ext s + (next_int w s - last_int s) =
       min 100 (wal_external w + 100 - last_ext s + (wal_internal w + 100 - last_int s))"
  using assms by (auto simp: next_ext_def next_int_def within_limits_def)

text \<open>A server that accepts the next \<open>m\<close> registrations.\<close>

definition accepts :: "int \<Rightarrow> nat \<Rightarrow> RespEvent list" where
  "accepts n m = map (\<lambda>k. RE_Resp (Some (RId_Int (n + int k))) (Inr Resp_RegisterAddresses)) [0..<m]"

lemma accepts_Suc: "accepts n (Suc m) = RE_Resp (Some (RId_Int n)) (Inr Resp_RegisterAddresses) # accepts (n + 1) m"
  by (simp add: accepts_def upt_conv_Cons map_Suc_upt[symmetric] comp_def add.assoc del: upt_Suc)

fun registered :: "WrappedRequest \<Rightarrow> string list" where
  "registered (WR_Request _ (Req_RegisterAddresses _ as)) = as"
| "registered _ = []"

lemma request_accepted:
  assumes "io_events (d_io d) = accepts (io_next_id (d_io d)) (Suc m)" "in_i64 (io_next_id (d_io d) + 1)"
  shows "request_as as_register_addresses req d = Some (Inr (), d\<lparr>d_io := (d_io d)\<lparr>io_next_id := io_next_id (d_io d) + 1,
    io_ws := io_ws (d_io d) @ [WR_Request (RId_Int (io_next_id (d_io d))) req], io_events := accepts (io_next_id (d_io d) + 1) m\<rparr>\<rparr>)"
  using assms by (simp add: request_as_def client_request_def send_request_msg_def next_request_id_def send_ws_def Let_def accepts_Suc i64_simps)

text \<open>One accepted round.\<close>

lemma register_loop_round:
  assumes "derivable w" "within_limits w (d_settings d)"
    and "io_events (d_io d) = accepts (io_next_id (d_io d)) (Suc m)" "in_i64 (io_next_id (d_io d) + 1)"
    and "last_ext (d_settings d) < wal_external w + 100 \<or> last_int (d_settings d) < wal_internal w + 100"
  obtains e as where "register_loop k w d = register_loop k w e"
    "as = addresses w False (last_ext (d_settings d)) (next_ext w (d_settings d)) @
       addresses w True (last_int (d_settings d)) (next_int w (d_settings d))"
    "io_ws (d_io e) = io_ws (d_io d) @ [WR_Request (RId_Int (io_next_id (d_io d))) (Req_RegisterAddresses k as)]"
    "io_events (d_io e) = accepts (io_next_id (d_io e)) m" "io_next_id (d_io e) = io_next_id (d_io d) + 1"
    "set_last_external (d_settings e) = Some (next_ext w (d_settings d))" "set_last_internal (d_settings e) = Some (next_int w (d_settings d))"
proof -
  let ?s = "d_settings d"
  define as where "as = addresses w False (last_ext ?s) (next_ext w ?s) @ addresses w True (last_int ?s) (next_int w ?s)"
  define e where "e = save_settings (d\<lparr>d_io := (d_io d)\<lparr>io_next_id := io_next_id (d_io d) + 1,
        io_ws := io_ws (d_io d) @ [WR_Request (RId_Int (io_next_id (d_io d))) (Req_RegisterAddresses k as)],
        io_events := accepts (io_next_id (d_io d) + 1) m\<rparr>,
        d_settings := ?s\<lparr>set_last_external := Some (next_ext w ?s), set_last_internal := Some (next_int w ?s)\<rparr>\<rparr>)"
  have "int (length as) \<noteq> 0"
    using next_limits[OF assms(2)] assms(5) by (auto simp: length_addresses as_def)
  then have ne: "as \<noteq> []" by auto
  have "register_loop k w d = register_loop k w e"
    by (subst register_loop.simps)
      (simp add: register_batch_spec[OF assms(1,2), folded as_def] ne request_accepted[OF assms(3,4)] e_def)
  then show ?thesis
    by (rule that[OF _ as_def]) (simp_all add: e_def save_settings_def)
qed

lemma register_loop_completes:
  assumes "derivable w" "within_limits w (d_settings d)"
    and "io_events (d_io d) = accepts (io_next_id (d_io d)) m"
    and "0 \<le> io_next_id (d_io d)" "io_next_id (d_io d) + int m \<le> i64_max"
    and "wal_external w + 100 - last_ext (d_settings d) + (wal_internal w + 100 - last_int (d_settings d)) \<le> 100 * int m"
  shows "\<exists>d' bs. register_loop k w d = Some d' \<and>
    last_ext (d_settings d') = wal_external w + 100 \<and> last_int (d_settings d') = wal_internal w + 100 \<and>
    io_ws (d_io d') = io_ws (d_io d) @ bs \<and> (\<forall>b \<in> set bs. length (registered b) \<le> 100) \<and>
    mset (concat (map registered bs)) = mset (addresses w False (last_ext (d_settings d)) (wal_external w + 100)) +
      mset (addresses w True (last_int (d_settings d)) (wal_internal w + 100))"
  using assms(2-6)
proof (induction m arbitrary: d)
  case 0
  then have l: "last_ext (d_settings d) = wal_external w + 100" "last_int (d_settings d) = wal_internal w + 100"
    by (auto simp: within_limits_def)
  then have "register_batch w (d_settings d) = Some (next_ext w (d_settings d), next_int w (d_settings d), [])"
    using register_batch_spec[OF assms(1) 0(1)] by (simp add: addresses_def next_ext_def next_int_def)
  then show ?case using l by (subst register_loop.simps) (auto simp: addresses_def)
next
  case (Suc m)
  let ?s = "d_settings d" and ?E = "wal_external w + 100" and ?I = "wal_internal w + 100"
  show ?case
  proof (cases "last_ext ?s < ?E \<or> last_int ?s < ?I")
    case False
    then have l: "last_ext ?s = ?E" "last_int ?s = ?I" using Suc.prems(1) by (auto simp: within_limits_def)
    then have "register_batch w ?s = Some (next_ext w ?s, next_int w ?s, [])"
      using register_batch_spec[OF assms(1) Suc.prems(1)] by (simp add: addresses_def next_ext_def next_int_def)
    then show ?thesis using l by (subst register_loop.simps) (auto simp: addresses_def)
  next
    case True
    have i: "in_i64 (io_next_id (d_io d) + 1)" using Suc.prems(3,4) by (intro in_i64_nonneg) auto
    obtain e as where e: "register_loop k w d = register_loop k w e"
      "as = addresses w False (last_ext ?s) (next_ext w ?s) @ addresses w True (last_int ?s) (next_int w ?s)"
      "io_ws (d_io e) = io_ws (d_io d) @ [WR_Request (RId_Int (io_next_id (d_io d))) (Req_RegisterAddresses k as)]"
      "io_events (d_io e) = accepts (io_next_id (d_io e)) m" "io_next_id (d_io e) = io_next_id (d_io d) + 1"
      "set_last_external (d_settings e) = Some (next_ext w ?s)" "set_last_internal (d_settings e) = Some (next_int w ?s)"
      by (rule register_loop_round[OF assms(1) Suc.prems(1,2) i True])
    note n = next_limits[OF Suc.prems(1)]
    have l: "last_ext (d_settings e) = next_ext w ?s" "last_int (d_settings e) = next_int w ?s"
      using e(6,7) by (simp_all add: last_ext_def last_int_def)
    have "within_limits w (d_settings e)" using Suc.prems(1) n by (simp add: within_limits_def l)
    moreover have "?E - last_ext (d_settings e) + (?I - last_int (d_settings e)) \<le> 100 * int m"
      using n(5) Suc.prems(5) by (simp add: l)
    ultimately obtain d' bs where d': "register_loop k w e = Some d'" "last_ext (d_settings d') = ?E" "last_int (d_settings d') = ?I"
      "io_ws (d_io d') = io_ws (d_io e) @ bs" "\<forall>b \<in> set bs. length (registered b) \<le> 100"
      "mset (concat (map registered bs)) = mset (addresses w False (next_ext w ?s) ?E) + mset (addresses w True (next_int w ?s) ?I)"
      using Suc.IH[of e] Suc.prems(3,4) e(4,5) l by auto
    have "int (length as) \<le> 100" using n by (simp add: e(2) length_addresses)
    then have "length as \<le> 100" by simp
    then show ?thesis
      using e(1,3) d' n(1-4)
      by (intro exI[of _ d'] exI[of _ "WR_Request (RId_Int (io_next_id (d_io d))) (Req_RegisterAddresses k as) # bs"])
        (auto simp: e(2) addresses_split[of "last_ext ?s" "next_ext w ?s" ?E] addresses_split[of "last_int ?s" "next_int w ?s" ?I])
  qed
qed

text \<open>C14: with a server that accepts them, the registration of addresses completes.  All addresses of
  both chains from the last registered one up to 100 beyond the wallet's indices are registered,
  each exactly once, in requests of at most 100 addresses, and the new limits are recorded.\<close>

theorem address_registration_completes:
  assumes "d_connected d" "set_device_key (d_settings d) = Some k" "d_ctx d = Some c" "w = cx_wallet c"
    and "derivable w" "within_limits w (d_settings d)"
    and "io_events (d_io d) = accepts (io_next_id (d_io d)) m" "0 \<le> io_next_id (d_io d)" "io_next_id (d_io d) + int m \<le> i64_max"
    and "wal_external w + 100 - last_ext (d_settings d) + (wal_internal w + 100 - last_int (d_settings d)) \<le> 100 * int m"
  shows "\<exists>d' bs. update_address_registrations d = Some d' \<and>
    last_ext (d_settings d') = wal_external w + 100 \<and> last_int (d_settings d') = wal_internal w + 100 \<and>
    io_ws (d_io d') = io_ws (d_io d) @ bs \<and> (\<forall>b \<in> set bs. length (registered b) \<le> 100) \<and>
    mset (concat (map registered bs)) = mset (addresses w False (last_ext (d_settings d)) (wal_external w + 100)) +
      mset (addresses w True (last_int (d_settings d)) (wal_internal w + 100))"
  using register_loop_completes[OF assms(5-10)] assms(1-4) by (simp add: update_address_registrations_def)

definition run_register :: Data where
  "run_register = run_matched\<lparr>d_settings := (d_settings run_matched)\<lparr>set_device_key := Some ''key''\<rparr>,
     d_io := (d_io run_matched)\<lparr>io_events := accepts 0 3\<rparr>\<rparr>"

lemma demo_derivable: "derivable wdemo_wallet"
  by (simp add: derivable_def get_address_def wdemo_wallet_def)

theorem address_registration_completes_witness:
  "\<exists>d' bs. update_address_registrations run_register = Some d' \<and> last_ext (d_settings d') = 103 \<and> last_int (d_settings d') = 100 \<and>
     io_ws (d_io d') = io_ws (d_io run_register) @ bs"
proof -
  let ?c = "new_context wdemo_wallet ''id'' None"
  have s: "set_last_external (d_settings run_matched) = None" "set_last_internal (d_settings run_matched) = None" "d_connected run_matched"
    by (simp_all add: run_matched_def client_data_def Let_def run_io_def load_settings_def settings_default_def prune_def)
  have w: "cx_wallet ?c = wdemo_wallet" "wal_external wdemo_wallet = 3" "wal_internal wdemo_wallet = 0"
    by (simp_all add: new_context_def wdemo_wallet_def)
  have d: "d_connected run_register" "set_device_key (d_settings run_register) = Some ''key''" "d_ctx run_register = Some ?c"
    "last_ext (d_settings run_register) = 0" "last_int (d_settings run_register) = 0"
    "io_events (d_io run_register) = accepts (io_next_id (d_io run_register)) 3" "io_next_id (d_io run_register) = 0"
    using s by (simp_all add: run_register_def run_matched_fields last_ext_def last_int_def)
  have l: "within_limits wdemo_wallet (d_settings run_register)" by (simp add: within_limits_def d w)
  show ?thesis
    using address_registration_completes[OF d(1-3) w(1)[symmetric] demo_derivable l d(6)] d w by (auto simp: i64_max_def)
qed





section \<open>The transaction list\<close>

text \<open>What the user interface makes of the messages.\<close>

fun show_tx :: "FromMsg \<Rightarrow> (string \<rightharpoonup> TransItem) \<Rightarrow> (string \<rightharpoonup> TransItem)" where
  "show_tx (FM_UpdatedTx item) v = v(tr_id item \<mapsto> item)"
| "show_tx (FM_RemovedTx i) v = v(i := None)"
| "show_tx _ v = v"

definition tx_view :: "FromMsg list \<Rightarrow> string \<rightharpoonup> TransItem" where
  "tx_view ms = fold show_tx ms Map.empty"

lemma tx_view_append [simp]: "tx_view (ms @ [m]) = show_tx m (tx_view ms)"
  by (simp add: tx_view_def)



lemma d_ctx_send_ui [simp]: "d_ctx (send_ui m d) = d_ctx d"
  by (simp add: send_ui_def)







lemma d_ctx_removed [simp]: "d_ctx (fold (\<lambda>id. send_ui (FM_RemovedTx id)) is d) = d_ctx d"
  by (induction "is" arbitrary: d) auto







section \<open>Balances\<close>








section \<open>Settings\<close>

lemma prune_filter:
  assumes "set_utxos_req s = Some m" "bt_wf m"
  shows "prune now s = s\<lparr>set_utxos_req := Some (filter (\<lambda>(_, u). now - su_created_at u \<le> EXPIRED_UTXOS) m)\<rparr>"
proof -
  have f: "fold bt_remove ks m = filter (\<lambda>e. fst e \<notin> set ks) m" for ks and m :: "(OrderId, StoredUtxo) btree"
    by (induction ks arbitrary: m) (auto simp: bt_remove_def intro!: filter_cong)
  have x: "utxo_expired now u \<longleftrightarrow> \<not> now - su_created_at u \<le> EXPIRED_UTXOS" for u
    by (auto simp: utxo_expired_def EXPIRED_UTXOS_def)
  have "fst e \<notin> set (map fst (filter (\<lambda>(_, u). utxo_expired now u) m)) \<longleftrightarrow> \<not> utxo_expired now (snd e)" if "e \<in> set m" for e
  proof -
    have "bt_get m (fst e) = Some (snd e)" using that assms(2) by (simp add: bt_get_wf_iff)
    then show ?thesis using that assms(2) by (auto simp: bt_get_wf_iff image_iff case_prod_beta) (metis bt_get_wf_iff option.inject prod.collapse)
  qed
  then have "fold bt_remove (map fst (filter (\<lambda>(_, u). utxo_expired now u) m)) m = filter (\<lambda>e. \<not> utxo_expired now (snd e)) m"
    unfolding f by (rule filter_cong[OF refl])
  then show ?thesis using assms(1) by (simp add: prune_def Let_def x case_prod_unfold)
qed

text \<open>C39: pruning the settings, which removes the expired entries one by one, keeps exactly the stored
  outputs that are at most 24 hours old, in their order, and nothing else changes.\<close>

theorem prune_is_filter:
  assumes "set_utxos_req s = Some m" "bt_wf m"
  shows "prune now s = s\<lparr>set_utxos_req := Some (filter (\<lambda>(_, u). now - su_created_at u \<le> EXPIRED_UTXOS) m)\<rparr>"
  using assms by (rule prune_filter)

theorem prune_is_filter_witness:
  "prune EXPIRED_UTXOS (settings_default\<lparr>set_utxos_req := Some [(''a'', \<lparr>su_utxos = [], su_created_at = - 1\<rparr>), (''b'', \<lparr>su_utxos = [], su_created_at = 0\<rparr>)]\<rparr>) =
     settings_default\<lparr>set_utxos_req := Some [(''b'', \<lparr>su_utxos = [], su_created_at = 0\<rparr>)]\<rparr>"
  by (subst prune_is_filter) (auto simp: bt_wf_def)

text \<open>C38: the outputs stored for an offered order survive a restart.  When the settings are written, the
  client that starts again from the file within 24 hours finds the outputs of the order, and
  takes them out once.\<close>

theorem stored_outputs_survive_restart:
  assumes "d1 = store_utxos Requestor i us d" "io_disk_ok (d_io d)" "now \<le> io_now (d_io d) + EXPIRED_UTXOS"
    and "bt_wf (case set_utxos_req (d_settings d) of None \<Rightarrow> [] | Some m \<Rightarrow> m)"
    and "d2 = client_data env version ((d_io d1)\<lparr>io_now := now\<rparr>)"
    and "take_stored_utxos Requestor i d2 = (r, d3)"
  shows "map_option su_utxos r = Some us \<and> fst (take_stored_utxos Requestor i d3) = None"
proof -
  let ?m = "case set_utxos_req (d_settings d) of None \<Rightarrow> [] | Some m \<Rightarrow> m"
  let ?s = "\<lparr>su_utxos = us, su_created_at = io_now (d_io d)\<rparr>"
  have "io_disk (d_io d1) = Some ((d_settings d)\<lparr>set_utxos_req := Some (bt_insert i ?s ?m)\<rparr>)"
    using assms(1,2) by (simp add: store_utxos_def Let_def save_settings_def)
  then have s2: "d_settings d2 = prune now ((d_settings d)\<lparr>set_utxos_req := Some (bt_insert i ?s ?m)\<rparr>)"
    by (simp add: assms(5) client_data_def Let_def load_settings_def)
  have wf: "bt_wf (bt_insert i ?s ?m)" by (rule bt_wf_insert[OF assms(4)])
  let ?n = "filter (\<lambda>(_, u). now - su_created_at u \<le> EXPIRED_UTXOS) (bt_insert i ?s ?m)"
  have u: "set_utxos_req (d_settings d2) = Some ?n" unfolding s2 using prune_filter[OF _ wf] by simp
  have "(i, ?s) \<in> set (bt_insert i ?s ?m)" by (simp add: bt_get_wf_iff[OF wf, symmetric] btree_simps)
  then have "(i, ?s) \<in> set ?n" using assms(3) by simp
  moreover have "bt_wf ?n" using wf by (auto simp: bt_wf_def sorted_wrt_filter sorted_wrt_map)
  ultimately have g: "bt_get ?n i = Some ?s" by (simp add: bt_get_wf_iff)
  have "r = Some ?s" "set_utxos_req (d_settings d3) = Some (bt_remove i ?n)"
    using assms(6) u g by (auto simp: take_stored_utxos_def Let_def save_settings_def)
  then show ?thesis by (simp add: take_stored_utxos_def Let_def btree_simps)
qed

theorem stored_outputs_survive_restart_witness:
  "\<exists>r. fst (take_stored_utxos Requestor ''order'' (client_data Local ''1''
     ((d_io (store_utxos Requestor ''order'' [run_utxo] run_matched))\<lparr>io_now := 5\<rparr>))) = Some r \<and> su_utxos r = [run_utxo]"
proof -
  let ?d1 = "store_utxos Requestor ''order'' [run_utxo] run_matched"
  let ?d2 = "client_data Local ''1'' ((d_io ?d1)\<lparr>io_now := 5\<rparr>)"
  obtain r d3 where t: "take_stored_utxos Requestor ''order'' ?d2 = (r, d3)" by fastforce
  have "io_now (d_io run_matched) = 0" by (simp add: run_matched_def client_data_def Let_def run_io_def)
  then show ?thesis
    using stored_outputs_survive_restart[OF refl _ _ _ refl t] t by (auto simp: run_matched_fields EXPIRED_UTXOS_def bt_wf_def)
qed

end
