(* ===== verification/Client_Swap_Props.thy ===== *)
theory Client_Swap_Props
  imports Client_Demo Client_Frame
begin









end
