(* ===== verification/Gdk_Types.thy ===== *)
theory Gdk_Types
  imports F64 "HOL-Library.AList"
begin

text \<open>
  The data of the wallet library \<^verbatim>\<open>gdk_rust\<close> (\<^verbatim>\<open>gdk_common/src\<close>: \<^verbatim>\<open>be/*.rs\<close>,
  \<^verbatim>\<open>network.rs\<close>, \<^verbatim>\<open>scripts.rs\<close>, \<^verbatim>\<open>model.rs\<close>, \<^verbatim>\<open>error.rs\<close>): networks, script
  types, Bitcoin and Liquid transactions and what the library keeps about their outputs.

  The crates \<^verbatim>\<open>bitcoin\<close>, \<^verbatim>\<open>elements\<close>, \<^verbatim>\<open>hex\<close>, \<^verbatim>\<open>rand\<close>, \<^verbatim>\<open>secp256k1\<close> and the C library
  \<^verbatim>\<open>libwally\<close> are parameters, the fields of the record \<open>gdk_lib\<close>; \<open>lib_ok\<close> collects
  what the wallet relies on.  A \<^verbatim>\<open>HashMap\<close> is the list of its entries.  The order of the
  entries of a stored map stands for the order in which Rust iterates over it, which is not
  specified: the theorems hold for every order.  Where the code iterates over a map that it has
  just built, the order is the parameter \<open>gl_iter\<close>.
\<close>

section \<open>Hash maps\<close>

type_synonym ('k, 'v) hmap = "('k \<times> 'v) list"

definition hm_get :: "('k, 'v) hmap \<Rightarrow> 'k \<Rightarrow> 'v option" where
  "hm_get m k = map_of m k"

definition hm_insert :: "'k \<Rightarrow> 'v \<Rightarrow> ('k, 'v) hmap \<Rightarrow> ('k, 'v) hmap" where
  "hm_insert k v m = AList.update k v m"

definition hm_remove :: "'k \<Rightarrow> ('k, 'v) hmap \<Rightarrow> ('k, 'v) hmap" where
  "hm_remove k m = AList.delete k m"

definition hm_contains :: "('k, 'v) hmap \<Rightarrow> 'k \<Rightarrow> bool" where
  "hm_contains m k \<longleftrightarrow> hm_get m k \<noteq> None"

definition hm_extend :: "('k \<times> 'v) list \<Rightarrow> ('k, 'v) hmap \<Rightarrow> ('k, 'v) hmap" where
  "hm_extend xs m = fold (\<lambda>(k, v) m. hm_insert k v m) xs m"

definition hm_wf :: "('k, 'v) hmap \<Rightarrow> bool" where
  "hm_wf m \<longleftrightarrow> distinct (map fst m)"

text \<open>The amount of a key, and \<^verbatim>\<open>*m.entry(k).or_insert(0) += v\<close>.\<close>

definition hm_amount :: "('k, int) hmap \<Rightarrow> 'k \<Rightarrow> int" where
  "hm_amount m k = (case hm_get m k of None \<Rightarrow> 0 | Some v \<Rightarrow> v)"

definition hm_add_u64 :: "'k \<Rightarrow> int \<Rightarrow> ('k, int) hmap \<Rightarrow> ('k, int) hmap" where
  "hm_add_u64 k v m = hm_insert k (wrap_u64 (hm_amount m k + v)) m"

definition hm_add_i64 :: "'k \<Rightarrow> int \<Rightarrow> ('k, int) hmap \<Rightarrow> ('k, int) hmap" where
  "hm_add_i64 k v m = hm_insert k (i64_add (hm_amount m k) v) m"

lemma hm_get_Nil [simp]: "hm_get [] k = None"
  by (simp add: hm_get_def)

lemma hm_get_Cons [simp]: "hm_get (e # m) k = (if k = fst e then Some (snd e) else hm_get m k)"
  by (cases e) (simp add: hm_get_def)

lemma hm_get_insert [simp]: "hm_get (hm_insert k v m) k' = (if k' = k then Some v else hm_get m k')"
  by (simp add: hm_get_def hm_insert_def update_conv')

lemma hm_get_remove [simp]: "hm_get (hm_remove k m) k' = (if k' = k then None else hm_get m k')"
  by (simp add: hm_get_def hm_remove_def delete_conv')

lemma hm_get_iff: "hm_wf m \<Longrightarrow> hm_get m k = Some v \<longleftrightarrow> (k, v) \<in> set m"
  by (simp add: hm_get_def hm_wf_def)

lemma hm_get_in_set: "hm_get m k = Some v \<Longrightarrow> (k, v) \<in> set m"
  by (simp add: hm_get_def map_of_SomeD)

lemma hm_get_None: "hm_get m k = None \<longleftrightarrow> k \<notin> fst ` set m"
  by (simp add: hm_get_def map_of_eq_None_iff)

lemma hm_wf_simps [simp]:
  "hm_wf []" "hm_wf m \<Longrightarrow> hm_wf (hm_insert k v m)" "hm_wf m \<Longrightarrow> hm_wf (hm_remove k m)"
  by (simp_all add: hm_wf_def hm_insert_def hm_remove_def distinct_update distinct_delete)

interpretation hmm: finite_map "[] :: ('k \<times> 'v) list" hm_get hm_insert hm_remove "map fst" hm_wf
  by unfold_locales (simp_all add: hm_get_None, simp add: hm_wf_def)

lemma hm_wf_add_u64 [simp]: "hm_wf m \<Longrightarrow> hm_wf (hm_add_u64 k v m)"
  by (simp add: hm_add_u64_def)

lemma hm_get_extend:
  "hm_get (hm_extend xs m) k = (case map_of (rev xs) k of None \<Rightarrow> hm_get m k | Some v \<Rightarrow> Some v)"
  by (induction xs arbitrary: m)
    (auto simp: hm_extend_def map_add_def split: option.splits)

lemma hm_wf_extend [simp]: "hm_wf m \<Longrightarrow> hm_wf (hm_extend xs m)"
  unfolding hm_extend_def case_prod_beta by (rule hmm.wf_fold_insert)

lemma hm_amount_Nil [simp]: "hm_amount [] k = 0"
  by (simp add: hm_amount_def)

lemma hm_amount_add_u64 [simp]:
  "hm_amount (hm_add_u64 k v m) k' = (if k' = k then wrap_u64 (hm_amount m k + v) else hm_amount m k')"
  by (simp add: hm_amount_def hm_add_u64_def)

lemma hm_amount_add_i64 [simp]:
  "hm_amount (hm_add_i64 k v m) k' = (if k' = k then i64_add (hm_amount m k) v else hm_amount m k')"
  by (simp add: hm_amount_def hm_add_i64_def)

text \<open>A stronger condition that one more element fails keeps fewer elements.\<close>

lemma length_filter_strict:
  assumes "y \<in> set xs" and "Q y" and "\<not> P y" and "\<And>x. P x \<Longrightarrow> Q x"
  shows "length (filter P xs) < length (filter Q xs)"
proof -
  have "length (filter P (filter Q xs)) < length (filter Q xs)"
    by (rule length_filter_less[of y]) (use assms in simp_all)
  moreover have "filter P (filter Q xs) = filter P xs"
    unfolding filter_filter by (rule filter_cong) (use assms(4) in auto)
  ultimately show ?thesis by simp
qed

section \<open>Networks\<close>

datatype BitcoinNetwork = Mainnet | Testnet | Regtest | Signet

datatype ElementsNetwork = Liquid | ElementsRegtest

datatype NetworkId = Net_Elements ElementsNetwork | Net_Bitcoin BitcoinNetwork

text \<open>The fields of \<^verbatim>\<open>Network\<close> that the wallet reads.\<close>

record Network =
  net_name :: string
  net_development :: bool
  net_liquid :: bool
  net_mainnet :: bool
  net_policy_asset :: "string option"
  net_ct_bits :: "int option"
  net_ct_exponent :: "int option"
  net_spv_enabled :: "bool option"
  net_spv_multi :: "bool option"
  net_spv_servers :: "string list option"
  net_electrum_url :: "string option"
  net_electrum_tls :: "bool option"
  net_validate_domain :: "bool option"
  net_sync_interval :: "int option"
  net_asset_registry_url :: "string option"

definition network_id :: "Network \<Rightarrow> NetworkId option" where
  "network_id n =
     (case (net_liquid n, net_mainnet n, net_development n) of
        (True, True, False) \<Rightarrow> Some (Net_Elements Liquid)
      | (True, False, False) \<Rightarrow> Some (Net_Elements ElementsRegtest)
      | (True, False, True) \<Rightarrow> Some (Net_Elements ElementsRegtest)
      | (False, True, False) \<Rightarrow> Some (Net_Bitcoin Mainnet)
      | (False, False, False) \<Rightarrow> Some (Net_Bitcoin Testnet)
      | (False, False, True) \<Rightarrow> Some (Net_Bitcoin Regtest)
      | _ \<Rightarrow> None)"

fun get_bitcoin_network :: "NetworkId \<Rightarrow> BitcoinNetwork option" where
  "get_bitcoin_network (Net_Bitcoin net) = Some net"
| "get_bitcoin_network (Net_Elements net) = None"

section \<open>Errors\<close>

text \<open>
  \<^verbatim>\<open>gdk_common::error::Error\<close> and \<^verbatim>\<open>gdk_electrum::error::Error\<close>; of the errors of other
  crates only the kind is kept.
\<close>

datatype CommonError = C_Generic string | C_InvalidAddress | C_InputValidationFailed

datatype GdkError =
    G_Generic string | G_InsufficientFunds | G_InvalidAddress | G_InvalidAmount
  | G_EmptyAddressees | G_AssetEmpty | G_InvalidHeaders | G_InvalidSubaccount int
  | G_AccountGapsDisallowed | G_InvalidReplacementRequest | G_SendAll
  | G_InvalidElectrumUrl string | G_InvalidMnemonic | G_InvalidPin | G_PinError | G_Secp256k1
  | G_Send | G_Json | G_BitcoinBIP32Error | G_Hex | G_ClientError | G_Serialization | G_Encryption | G_StdIOError
  | G_Common CommonError

text \<open>
  A call that can panic, fail or return, and the \<^verbatim>\<open>?\<close> operator on it.
\<close>

type_synonym 'a gres = "(GdkError + 'a) option"

definition gtry :: "('e + 'a) option \<Rightarrow> ('a \<Rightarrow> ('e + 'b) option) \<Rightarrow> ('e + 'b) option" where
  "gtry m f = (case m of None \<Rightarrow> None | Some (Inl e) \<Rightarrow> Some (Inl e) | Some (Inr x) \<Rightarrow> f x)"

lemma gtry_simps [simp]:
  "gtry None f = None"
  "gtry (Some (Inl e)) f = Some (Inl e)"
  "gtry (Some (Inr x)) f = f x"
  by (simp_all add: gtry_def)

lemma gtry_InrE:
  assumes "gtry m f = Some (Inr y)"
  obtains x where "m = Some (Inr x)" "f x = Some (Inr y)"
  using assms by (auto simp: gtry_def split: option.splits sum.splits)

lemma gtryE:
  assumes "gtry m f = Some r"
  obtains (err) e where "m = Some (Inl e)" "r = Inl e"
    | (ok) x where "m = Some (Inr x)" "f x = Some r"
  using assms by (auto simp: gtry_def split: option.splits sum.splits)

text \<open>\<^verbatim>\<open>map_err\<close>, \<^verbatim>\<open>ok_or\<close> and \<^verbatim>\<open>bail!\<close>.\<close>

definition gmap_err :: "('e \<Rightarrow> 'f) \<Rightarrow> ('e + 'a) option \<Rightarrow> ('f + 'a) option" where
  "gmap_err g m = map_option (map_sum g id) m"

definition gok_or :: "'a option \<Rightarrow> 'e \<Rightarrow> ('e + 'a) option" where
  "gok_or v e = Some (case v of None \<Rightarrow> Inl e | Some x \<Rightarrow> Inr x)"

definition gensure :: "bool \<Rightarrow> 'e \<Rightarrow> ('e + unit) option" where
  "gensure b e = Some (if b then Inr () else Inl e)"

lemma gmap_err_Inr [simp]: "gmap_err g m = Some (Inr x) \<longleftrightarrow> m = Some (Inr x)"
proof (cases m)
  case (Some r)
  then show ?thesis by (cases r) (auto simp: gmap_err_def)
qed (simp add: gmap_err_def)

lemma gok_or_Inr [simp]: "gok_or v e = Some (Inr x) \<longleftrightarrow> v = Some x"
  by (auto simp: gok_or_def split: option.splits)

lemma gtry_gok_or [simp]:
  "gtry (gok_or None e) f = Some (Inl e)" "gtry (gok_or (Some x) e) f = f x"
  by (simp_all add: gok_or_def)

lemma gtry_gensure [simp]: "gtry (gensure b e) f = (if b then f () else Some (Inl e))"
  by (simp add: gensure_def)

text \<open>A loop whose body can panic or fail.\<close>

fun gfold :: "('a \<Rightarrow> 's \<Rightarrow> ('e + 's) option) \<Rightarrow> 'a list \<Rightarrow> 's \<Rightarrow> ('e + 's) option" where
  "gfold f [] s = Some (Inr s)"
| "gfold f (x # xs) s = gtry (f x s) (gfold f xs)"

lemma gfold_invariant:
  assumes "gfold f xs s = Some (Inr t)" and "P s"
    and "\<And>x s s'. x \<in> set xs \<Longrightarrow> P s \<Longrightarrow> f x s = Some (Inr s') \<Longrightarrow> P s'"
  shows "P t"
  using assms
proof (induction xs arbitrary: s)
  case Nil
  then show ?case by simp
next
  case (Cons x xs)
  from Cons.prems(1) obtain s' where s': "f x s = Some (Inr s')" and t: "gfold f xs s' = Some (Inr t)"
    by (auto elim: gtry_InrE)
  have "P s'" by (rule Cons.prems(3)[of x s]) (use Cons.prems(2) s' in simp_all)
  with t show ?case
    by (rule Cons.IH) (use Cons.prems(3) in auto)
qed

section \<open>Scripts and keys\<close>

datatype ScriptType = P2shP2wpkh | P2wpkh | P2pkh

definition script_types :: "ScriptType list" where
  "script_types = [P2shP2wpkh, P2wpkh, P2pkh]"

fun first_account_num :: "ScriptType \<Rightarrow> int" where
  "first_account_num P2shP2wpkh = 0"
| "first_account_num P2wpkh = 1"
| "first_account_num P2pkh = 2"

fun is_segwit :: "ScriptType \<Rightarrow> bool" where
  "is_segwit P2wpkh = True"
| "is_segwit P2shP2wpkh = True"
| "is_segwit P2pkh = False"

text \<open>Witnesses and scripts of the size that signing gives them.\<close>

definition zero_bytes :: "nat \<Rightarrow> bytes" where
  "zero_bytes n = replicate n (CHR 0x00)"

fun mock_witness :: "ScriptType \<Rightarrow> bytes list" where
  "mock_witness P2wpkh = [zero_bytes 72, zero_bytes 33]"
| "mock_witness P2shP2wpkh = [zero_bytes 72, zero_bytes 33]"
| "mock_witness P2pkh = []"

fun mock_script_sig :: "ScriptType \<Rightarrow> bytes" where
  "mock_script_sig P2wpkh = []"
| "mock_script_sig P2shP2wpkh = zero_bytes 23"
| "mock_script_sig P2pkh = zero_bytes 107"

fun mock_script_pubkey :: "ScriptType \<Rightarrow> bytes" where
  "mock_script_pubkey P2wpkh = zero_bytes 22"
| "mock_script_pubkey P2shP2wpkh = zero_bytes 23"
| "mock_script_pubkey P2pkh = zero_bytes 25"

datatype ChildNumber = Normal int | Hardened int

type_synonym GdkPath = "ChildNumber list"

datatype BEScript = Script_Bitcoin bytes | Script_Elements bytes

fun script_bytes :: "BEScript \<Rightarrow> bytes" where
  "script_bytes (Script_Bitcoin s) = s"
| "script_bytes (Script_Elements s) = s"

definition script_is_empty :: "BEScript \<Rightarrow> bool" where
  "script_is_empty s \<longleftrightarrow> script_bytes s = []"

definition script_into_bitcoin :: "BEScript \<Rightarrow> bytes" where
  "script_into_bitcoin s = script_bytes s"

section \<open>Transactions\<close>

datatype BETxid = Txid_Bitcoin bytes | Txid_Elements bytes

fun txid_into_bitcoin :: "BETxid \<Rightarrow> bytes" where
  "txid_into_bitcoin (Txid_Bitcoin t) = t"
| "txid_into_bitcoin (Txid_Elements t) = t"

fun txid_into_net :: "bytes \<Rightarrow> NetworkId \<Rightarrow> BETxid" where
  "txid_into_net t (Net_Bitcoin n) = Txid_Bitcoin t"
| "txid_into_net t (Net_Elements n) = Txid_Elements t"

text \<open>An \<^verbatim>\<open>OutPoint\<close> of either chain: the transaction and the number of its output.\<close>

type_synonym OutPoint = "bytes \<times> int"

datatype BEOutPoint = Out_Bitcoin OutPoint | Out_Elements OutPoint

fun outpoint_txid :: "BEOutPoint \<Rightarrow> BETxid" where
  "outpoint_txid (Out_Bitcoin x) = Txid_Bitcoin (fst x)"
| "outpoint_txid (Out_Elements x) = Txid_Elements (fst x)"

fun outpoint_vout :: "BEOutPoint \<Rightarrow> int" where
  "outpoint_vout (Out_Bitcoin x) = snd x"
| "outpoint_vout (Out_Elements x) = snd x"

record BtcTxIn =
  bin_previous_output :: OutPoint
  bin_script_sig :: bytes
  bin_sequence :: int
  bin_witness :: "bytes list"

record BtcTxOut =
  bout_value :: int
  bout_script_pubkey :: bytes

record BtcTx =
  btx_version :: int
  btx_lock_time :: int
  btx_input :: "BtcTxIn list"
  btx_output :: "BtcTxOut list"

datatype ConfAsset = Asset_Null | Asset_Explicit bytes | Asset_Confidential char bytes

datatype ConfValue = Value_Null | Value_Explicit int | Value_Confidential char bytes

datatype ConfNonce = Nonce_Null | Nonce_Explicit bytes | Nonce_Confidential char bytes

text \<open>
  An input and an output of a Liquid transaction.  The issuance of an input has its default
  value everywhere in the library, and of the witness of an input only the script witness is
  ever set.
\<close>

record ElmTxIn =
  ein_previous_output :: OutPoint
  ein_is_pegin :: bool
  ein_has_issuance :: bool
  ein_script_sig :: bytes
  ein_sequence :: int
  ein_script_witness :: "bytes list"

record ElmTxOut =
  eout_asset :: ConfAsset
  eout_value :: ConfValue
  eout_nonce :: ConfNonce
  eout_script_pubkey :: bytes
  eout_surjection_proof :: bytes
  eout_rangeproof :: bytes

record ElmTx =
  etx_version :: int
  etx_lock_time :: int
  etx_input :: "ElmTxIn list"
  etx_output :: "ElmTxOut list"

datatype BETransaction = Tx_Bitcoin BtcTx | Tx_Elements ElmTx

record BETransactionEntry =
  ent_tx :: BETransaction
  ent_size :: nat
  ent_weight :: nat

type_synonym BETransactions = "(BETxid, BETransactionEntry) hmap"

record GdkUnblinded =
  ub_asset :: bytes
  ub_abf :: bytes
  ub_vbf :: bytes
  ub_value :: int

definition ub_confidential :: "GdkUnblinded \<Rightarrow> bool" where
  "ub_confidential u \<longleftrightarrow> ub_abf u \<noteq> zero_bytes 32 \<or> ub_vbf u \<noteq> zero_bytes 32"

type_synonym Unblindeds = "(OutPoint, GdkUnblinded) hmap"

record UTXOInfo =
  ui_asset :: string
  ui_value :: int
  ui_script :: BEScript
  ui_height :: "int option"
  ui_path :: GdkPath

type_synonym GdkUtxos = "(BEOutPoint \<times> UTXOInfo) list"

record AssetValue =
  av_asset :: string
  av_satoshi :: int

type_synonym Balances = "(string, int) hmap"

definition DUST_VALUE :: int where "DUST_VALUE = 546"

text \<open>\<^verbatim>\<open>TxOut::default()\<close>.\<close>

definition default_elm_txout :: ElmTxOut where
  "default_elm_txout =
     \<lparr>eout_asset = Asset_Null, eout_value = Value_Null, eout_nonce = Nonce_Null,
      eout_script_pubkey = [], eout_surjection_proof = [], eout_rangeproof = []\<rparr>"

section \<open>The libraries\<close>

record BtcAddress =
  ba_network :: BitcoinNetwork
  ba_witness_version :: "nat option"  \<comment> \<open>of a witness program\<close>
  ba_script_pubkey :: bytes

record ElmAddress =
  ea_network :: ElementsNetwork  \<comment> \<open>whose parameters the address has\<close>
  ea_blinding_pubkey :: "(char \<times> bytes) option"  \<comment> \<open>first byte and the other 32\<close>
  ea_script_pubkey :: bytes

record gdk_lib =
  gl_hex_encode :: "bytes \<Rightarrow> string"
  gl_hex_decode :: "string \<Rightarrow> bytes option"
  gl_txid_hex :: "bytes \<Rightarrow> string"
  gl_txid_parse :: "string \<Rightarrow> bytes option"
  gl_txid_le :: "bytes \<Rightarrow> bytes \<Rightarrow> bool"
  gl_btc_txid :: "BtcTx \<Rightarrow> bytes"
  gl_elm_txid :: "ElmTx \<Rightarrow> bytes"
  gl_btc_weight :: "BtcTx \<Rightarrow> nat"
  gl_elm_weight :: "ElmTx \<Rightarrow> nat"
  gl_btc_ser :: "BtcTx \<Rightarrow> bytes"
  gl_elm_ser :: "ElmTx \<Rightarrow> bytes"
  gl_btc_des :: "bytes \<Rightarrow> string + BtcTx"
  gl_elm_des :: "bytes \<Rightarrow> string + ElmTx"
  gl_btc_address :: "string \<Rightarrow> string + BtcAddress"
  gl_elm_address :: "string \<Rightarrow> ElmAddress option"
  gl_btc_from_script :: "bytes \<Rightarrow> BitcoinNetwork \<Rightarrow> string option"
  gl_elm_from_script :: "bytes \<Rightarrow> ElementsNetwork \<Rightarrow> string option"
  gl_is_fee :: "ElmTxOut \<Rightarrow> bool"
  gl_minimum_value :: "ElmTxOut \<Rightarrow> int"
  gl_new_fee :: "int \<Rightarrow> bytes \<Rightarrow> ElmTxOut"
  gl_surjectionproof_size :: "nat \<Rightarrow> nat"
  gl_shuffle_inputs :: "nat \<Rightarrow> nat list"   \<comment> \<open>the order \<^verbatim>\<open>shuffle\<close> draws for a length\<close>
  gl_shuffle_outputs :: "nat \<Rightarrow> nat list"
  gl_iter :: "(string \<times> int) list \<Rightarrow> (string \<times> int) list"

text \<open>
  What the wallet relies on: hexadecimal text decodes to what it encodes, the script of a
  Liquid address is not empty, \<^verbatim>\<open>shuffle\<close> permutes,
  iterating over a map visits each entry once, an output is a fee when its script is empty and
  its asset and value are explicit, and the minimum value of an explicit value is the value.
\<close>

definition lib_ok :: "gdk_lib \<Rightarrow> bool" where
  "lib_ok L \<longleftrightarrow>
     (\<forall>b. gl_hex_decode L (gl_hex_encode L b) = Some b) \<and>
     (\<forall>t. gl_txid_parse L (gl_txid_hex L t) = Some t) \<and>
     (\<forall>s a. gl_elm_address L s = Some a \<longrightarrow> ea_script_pubkey a \<noteq> []) \<and>
     (\<forall>n. mset (gl_shuffle_inputs L n) = mset [0..<n]) \<and>
     (\<forall>n. mset (gl_shuffle_outputs L n) = mset [0..<n]) \<and>
     (\<forall>m. mset (gl_iter L m) = mset m) \<and>
     (\<forall>x. gl_is_fee L x \<longleftrightarrow> eout_script_pubkey x = [] \<and>
        (\<exists>a. eout_asset x = Asset_Explicit a) \<and> (\<exists>v. eout_value x = Value_Explicit v)) \<and>
     (\<forall>x v. eout_value x = Value_Explicit v \<longrightarrow> gl_minimum_value L x = v)"

lemma lib_hex: "lib_ok L \<Longrightarrow> gl_hex_decode L (gl_hex_encode L b) = Some b"
  and lib_shuffle: "lib_ok L \<Longrightarrow> mset (gl_shuffle_inputs L n) = mset [0..<n]"
    "lib_ok L \<Longrightarrow> mset (gl_shuffle_outputs L n) = mset [0..<n]"
  and lib_txid: "lib_ok L \<Longrightarrow> gl_txid_parse L (gl_txid_hex L t) = Some t"
  and lib_address: "lib_ok L \<Longrightarrow> gl_elm_address L s = Some a \<Longrightarrow> ea_script_pubkey a \<noteq> []"
  and lib_iter: "lib_ok L \<Longrightarrow> mset (gl_iter L m) = mset m"
  and lib_minimum_value:
    "lib_ok L \<Longrightarrow> eout_value x = Value_Explicit v \<Longrightarrow> gl_minimum_value L x = v"
  by (simp_all add: lib_ok_def)

lemma lib_is_fee:
  "lib_ok L \<Longrightarrow> gl_is_fee L x \<longleftrightarrow> eout_script_pubkey x = [] \<and>
     (\<exists>a. eout_asset x = Asset_Explicit a) \<and> (\<exists>v. eout_value x = Value_Explicit v)"
  unfolding lib_ok_def by blast

section \<open>Assets\<close>

definition asset_to_bin :: "gdk_lib \<Rightarrow> string \<Rightarrow> CommonError + bytes" where
  "asset_to_bin L asset =
     (case gl_hex_decode L asset of
        None \<Rightarrow> Inl (C_Generic ''hex'')
      | Some bytes \<Rightarrow>
          if length bytes = 32 then Inr (rev bytes) else Inl (C_Generic ''could not convert slice to array''))"

definition asset_to_hex :: "gdk_lib \<Rightarrow> bytes \<Rightarrow> string" where
  "asset_to_hex L asset = gl_hex_encode L (rev asset)"

definition ub_asset_hex :: "gdk_lib \<Rightarrow> GdkUnblinded \<Rightarrow> string" where
  "ub_asset_hex L u = asset_to_hex L (ub_asset u)"

definition network_policy_asset_id :: "gdk_lib \<Rightarrow> Network \<Rightarrow> CommonError + bytes" where
  "network_policy_asset_id L n =
     (case net_policy_asset n of
        Some s \<Rightarrow> asset_to_bin L s
      | None \<Rightarrow> Inl (C_Generic ''no policy asset''))"

definition network_policy_asset :: "gdk_lib \<Rightarrow> Network \<Rightarrow> CommonError + ConfAsset" where
  "network_policy_asset L n =
     (case network_policy_asset_id L n of Inl e \<Rightarrow> Inl e | Inr asset_id \<Rightarrow> Inr (Asset_Explicit asset_id))"

lemma asset_to_bin_hex: "lib_ok L \<Longrightarrow> length a = 32 \<Longrightarrow> asset_to_bin L (asset_to_hex L a) = Inr a"
  by (simp add: asset_to_bin_def asset_to_hex_def lib_hex)

lemma asset_to_hex_inj: "lib_ok L \<Longrightarrow> asset_to_hex L a = asset_to_hex L b \<longleftrightarrow> a = b"
  unfolding asset_to_hex_def by (metis lib_hex option.inject rev_is_rev_conv)

lemma asset_to_bin_length: "asset_to_bin L s = Inr a \<Longrightarrow> length a = 32"
  by (auto simp: asset_to_bin_def split: option.splits if_splits)

text \<open>The elements in the order that a permutation of the positions gives them.\<close>

definition permute :: "nat list \<Rightarrow> 'a list \<Rightarrow> 'a list" where
  "permute p xs = map (\<lambda>i. xs ! i) p"

lemma mset_permute: "mset p = mset [0..<length xs] \<Longrightarrow> mset (permute p xs) = mset xs"
  by (metis map_nth mset_map permute_def)

section \<open>Keys and signatures\<close>

text \<open>
  Key derivation, addresses, signature hashes and signatures of the crates \<^verbatim>\<open>bitcoin\<close>,
  \<^verbatim>\<open>elements\<close> and \<^verbatim>\<open>secp256k1\<close>, and the blinding functions of \<^verbatim>\<open>libwally\<close> that
  \<^verbatim>\<open>gdk_common/src/wally\<close> wraps.  Keys are their serializations; a private key stands for the
  point of the key tree it was derived at.
\<close>

record gdk_keys =
  gk_derive_priv :: "bytes \<Rightarrow> GdkPath \<Rightarrow> bytes option"  \<comment> \<open>extended private keys\<close>
  gk_xpub_of_priv :: "bytes \<Rightarrow> bytes"
  gk_ckd_pub :: "bytes \<Rightarrow> int \<Rightarrow> bytes option"
  gk_derive_pub :: "bytes \<Rightarrow> GdkPath \<Rightarrow> bytes option"
  gk_public_key :: "bytes \<Rightarrow> bytes"  \<comment> \<open>of an extended public key\<close>
  gk_btc_address :: "ScriptType \<Rightarrow> bytes \<Rightarrow> BitcoinNetwork \<Rightarrow> string \<times> bytes"
    \<comment> \<open>text and script of the address of a public key\<close>
  gk_elm_script :: "ScriptType \<Rightarrow> bytes \<Rightarrow> bytes"
  gk_elm_address :: "bytes \<Rightarrow> ElementsNetwork \<Rightarrow> bytes \<Rightarrow> string"
    \<comment> \<open>text of the confidential address of a script and a blinding key\<close>
  gk_blinding_priv :: "bytes \<Rightarrow> bytes \<Rightarrow> bytes"  \<comment> \<open>master blinding key, script\<close>
  gk_ec_public_key :: "bytes \<Rightarrow> bytes"
  gk_p2pkh_script :: "bytes \<Rightarrow> bytes"
  gk_hash160 :: "bytes \<Rightarrow> bytes"
  gk_push_slice :: "bytes \<Rightarrow> bytes"  \<comment> \<open>the script that pushes some bytes\<close>
  gk_push_zero :: bytes
  gk_first_push :: "bytes \<Rightarrow> bytes option"  \<comment> \<open>the bytes that the first instruction pushes\<close>
  gk_btc_sighash_segwit :: "BtcTx \<Rightarrow> nat \<Rightarrow> bytes \<Rightarrow> int \<Rightarrow> bytes"
  gk_btc_sighash_legacy :: "BtcTx \<Rightarrow> nat \<Rightarrow> bytes \<Rightarrow> bytes"
  gk_elm_sighash_segwit :: "ElmTx \<Rightarrow> nat \<Rightarrow> bytes \<Rightarrow> ConfValue \<Rightarrow> bytes"
  gk_elm_sighash_legacy :: "ElmTx \<Rightarrow> nat \<Rightarrow> bytes \<Rightarrow> bytes"
  gk_sign_der :: "bytes \<Rightarrow> bytes \<Rightarrow> bytes"  \<comment> \<open>message, extended private key\<close>
  gk_is_der :: "bytes \<Rightarrow> bool"
  gk_verify_der :: "bytes \<Rightarrow> bytes \<Rightarrow> bytes \<Rightarrow> bool"  \<comment> \<open>message, signature, public key\<close>

end
