(* ===== verification/Gdk_Tx.thy ===== *)
theory Gdk_Tx
  imports Gdk_Types
begin

text \<open>
  \<^verbatim>\<open>gdk_common/src/be/transaction.rs\<close>: the operations on a transaction of either chain from
  which the wallet builds its payments.  \<^verbatim>\<open>needs\<close> is what a transaction under construction
  still lacks, \<^verbatim>\<open>changes\<close> what it has too much, \<^verbatim>\<open>fee\<close> what it pays.  The output of another
  transaction is looked up in the transactions of the account; an index out of range and an
  output that is not unblinded panic.
\<close>

section \<open>Transactions\<close>

fun new_tx :: "NetworkId \<Rightarrow> BETransaction" where
  "new_tx (Net_Bitcoin n) =
     Tx_Bitcoin \<lparr>btx_version = 2, btx_lock_time = 0, btx_input = [], btx_output = []\<rparr>"
| "new_tx (Net_Elements n) =
     Tx_Elements \<lparr>etx_version = 2, etx_lock_time = 0, etx_input = [], etx_output = []\<rparr>"

fun tx_serialize :: "gdk_lib \<Rightarrow> BETransaction \<Rightarrow> bytes" where
  "tx_serialize L (Tx_Bitcoin tx) = gl_btc_ser L tx"
| "tx_serialize L (Tx_Elements tx) = gl_elm_ser L tx"

fun tx_deserialize :: "gdk_lib \<Rightarrow> bytes \<Rightarrow> NetworkId \<Rightarrow> CommonError + BETransaction" where
  "tx_deserialize L b (Net_Bitcoin n) =
     (case gl_btc_des L b of Inl e \<Rightarrow> Inl (C_Generic e) | Inr tx \<Rightarrow> Inr (Tx_Bitcoin tx))"
| "tx_deserialize L b (Net_Elements n) =
     (case gl_elm_des L b of Inl e \<Rightarrow> Inl (C_Generic e) | Inr tx \<Rightarrow> Inr (Tx_Elements tx))"

definition tx_from_hex :: "gdk_lib \<Rightarrow> string \<Rightarrow> NetworkId \<Rightarrow> CommonError + BETransaction" where
  "tx_from_hex L s n =
     (case gl_hex_decode L s of
        None \<Rightarrow> Inl (C_Generic ''hex'')
      | Some b \<Rightarrow> tx_deserialize L b n)"

fun tx_id :: "gdk_lib \<Rightarrow> BETransaction \<Rightarrow> BETxid" where
  "tx_id L (Tx_Bitcoin tx) = Txid_Bitcoin (gl_btc_txid L tx)"
| "tx_id L (Tx_Elements tx) = Txid_Elements (gl_elm_txid L tx)"

text \<open>\<^verbatim>\<open>strip_witness\<close> panics if it changes the transaction id.\<close>

fun strip_witnesses :: "BETransaction \<Rightarrow> BETransaction" where
  "strip_witnesses (Tx_Bitcoin tx) =
     Tx_Bitcoin (tx\<lparr>btx_input := map (\<lambda>i. i\<lparr>bin_witness := []\<rparr>) (btx_input tx)\<rparr>)"
| "strip_witnesses (Tx_Elements tx) =
     Tx_Elements (tx\<lparr>etx_input := map (\<lambda>i. i\<lparr>ein_script_witness := []\<rparr>) (etx_input tx),
       etx_output := map (\<lambda>x. x\<lparr>eout_surjection_proof := [], eout_rangeproof := []\<rparr>) (etx_output tx)\<rparr>)"

definition strip_witness :: "gdk_lib \<Rightarrow> BETransaction \<Rightarrow> BETransaction option" where
  "strip_witness L tx =
     (let tx' = strip_witnesses tx in if tx_id L tx' = tx_id L tx then Some tx' else None)"

fun previous_outputs :: "BETransaction \<Rightarrow> BEOutPoint list" where
  "previous_outputs (Tx_Bitcoin tx) = map (Out_Bitcoin \<circ> bin_previous_output) (btx_input tx)"
| "previous_outputs (Tx_Elements tx) = map (Out_Elements \<circ> ein_previous_output) (etx_input tx)"

definition previous_output_txids :: "BETransaction \<Rightarrow> BETxid list" where
  "previous_output_txids tx = map outpoint_txid (previous_outputs tx)"

fun output_len :: "BETransaction \<Rightarrow> nat" where
  "output_len (Tx_Bitcoin tx) = length (btx_output tx)"
| "output_len (Tx_Elements tx) = length (etx_output tx)"

fun input_len :: "BETransaction \<Rightarrow> nat" where
  "input_len (Tx_Bitcoin tx) = length (btx_input tx)"
| "input_len (Tx_Elements tx) = length (etx_input tx)"

text \<open>\<^verbatim>\<open>v[i as usize]\<close> for a \<^verbatim>\<open>u32\<close> index.\<close>

definition vec_at :: "'a list \<Rightarrow> int \<Rightarrow> 'a option" where
  "vec_at xs i = (if 0 \<le> i \<and> nat i < length xs then Some (xs ! nat i) else None)"

fun output_value :: "gdk_lib \<Rightarrow> BETransaction \<Rightarrow> int \<Rightarrow> Unblindeds \<Rightarrow> int option" where
  "output_value L (Tx_Bitcoin tx) vout all_unblinded = map_option bout_value (vec_at (btx_output tx) vout)"
| "output_value L (Tx_Elements tx) vout all_unblinded =
     map_option ub_value (hm_get all_unblinded (gl_elm_txid L tx, vout))"

fun output_script :: "BETransaction \<Rightarrow> int \<Rightarrow> BEScript option" where
  "output_script (Tx_Bitcoin tx) vout =
     map_option (\<lambda>x. Script_Bitcoin (bout_script_pubkey x)) (vec_at (btx_output tx) vout)"
| "output_script (Tx_Elements tx) vout =
     map_option (\<lambda>x. Script_Elements (eout_script_pubkey x)) (vec_at (etx_output tx) vout)"

fun output_address :: "gdk_lib \<Rightarrow> BETransaction \<Rightarrow> int \<Rightarrow> NetworkId \<Rightarrow> string option option" where
  "output_address L (Tx_Bitcoin tx) vout (Net_Bitcoin net) =
     map_option (\<lambda>x. gl_btc_from_script L (bout_script_pubkey x) net) (vec_at (btx_output tx) vout)"
| "output_address L (Tx_Elements tx) vout (Net_Elements net) =
     map_option (\<lambda>x. gl_elm_from_script L (eout_script_pubkey x) net) (vec_at (etx_output tx) vout)"
| "output_address L tx vout net = None"

fun output_asset_hex :: "gdk_lib \<Rightarrow> BETransaction \<Rightarrow> int \<Rightarrow> Unblindeds \<Rightarrow> string option option" where
  "output_asset_hex L (Tx_Bitcoin tx) vout all_unblinded = Some None"
| "output_asset_hex L (Tx_Elements tx) vout all_unblinded =
     map_option (\<lambda>u. Some (ub_asset_hex L u)) (hm_get all_unblinded (gl_elm_txid L tx, vout))"

fun get_weight :: "gdk_lib \<Rightarrow> BETransaction \<Rightarrow> nat" where
  "get_weight L (Tx_Bitcoin tx) = gl_btc_weight L tx"
| "get_weight L (Tx_Elements tx) = gl_elm_weight L tx"

text \<open>\<^verbatim>\<open>BETransactions\<close>: outputs of the transactions that the account knows.\<close>

definition get_previous_output_script_pubkey :: "BETransactions \<Rightarrow> BEOutPoint \<Rightarrow> BEScript option option" where
  "get_previous_output_script_pubkey all_txs outpoint =
     (case hm_get all_txs (outpoint_txid outpoint) of
        None \<Rightarrow> Some None
      | Some txe \<Rightarrow> map_option Some (output_script (ent_tx txe) (outpoint_vout outpoint)))"

definition get_previous_output_value ::
  "gdk_lib \<Rightarrow> BETransactions \<Rightarrow> BEOutPoint \<Rightarrow> Unblindeds \<Rightarrow> int option option" where
  "get_previous_output_value L all_txs outpoint all_unblinded =
     (case hm_get all_txs (outpoint_txid outpoint) of
        None \<Rightarrow> Some None
      | Some txe \<Rightarrow> map_option Some (output_value L (ent_tx txe) (outpoint_vout outpoint) all_unblinded))"

definition get_previous_output_asset_hex ::
  "gdk_lib \<Rightarrow> BETransactions \<Rightarrow> OutPoint \<Rightarrow> Unblindeds \<Rightarrow> string option option" where
  "get_previous_output_asset_hex L all_txs outpoint all_unblinded =
     (case hm_get all_txs (Txid_Elements (fst outpoint)) of
        None \<Rightarrow> Some None
      | Some txe \<Rightarrow> do {
          asset \<leftarrow> output_asset_hex L (ent_tx txe) (snd outpoint) all_unblinded;
          map_option Some asset })"

text \<open>\<^verbatim>\<open>BETransactionEntry::from\<close>.\<close>

definition entry_of_tx :: "gdk_lib \<Rightarrow> BETransaction \<Rightarrow> BETransactionEntry option" where
  "entry_of_tx L tx = do {
     tx' \<leftarrow> strip_witness L tx;
     Some \<lparr>ent_tx = tx', ent_size = length (tx_serialize L tx), ent_weight = get_weight L tx\<rparr> }"

section \<open>Building a transaction\<close>

fun add_output ::
  "gdk_lib \<Rightarrow> string \<Rightarrow> int \<Rightarrow> string option \<Rightarrow> BETransaction \<Rightarrow> (CommonError + BETransaction) option" where
  "add_output L address value asset_hex (Tx_Bitcoin tx) =
     (case gl_btc_address L address of
        Inl e \<Rightarrow> Some (Inl (C_Generic e))
      | Inr a \<Rightarrow>
          let new_out = \<lparr>bout_value = value, bout_script_pubkey = ba_script_pubkey a\<rparr> in
          Some (Inr (Tx_Bitcoin (tx\<lparr>btx_output := btx_output tx @ [new_out]\<rparr>))))"
| "add_output L address value asset_hex (Tx_Elements tx) =
     gtry (gok_or (gl_elm_address L address) C_InvalidAddress) (\<lambda>a.
     gtry (gok_or (ea_blinding_pubkey a) C_InvalidAddress) (\<lambda>blinding_pubkey. do {
       hex \<leftarrow> asset_hex;
       asset_id \<leftarrow> expect_ok (asset_to_bin L hex);
       let new_out = \<lparr>eout_asset = Asset_Explicit asset_id, eout_value = Value_Explicit value,
         eout_nonce = Nonce_Confidential (fst blinding_pubkey) (snd blinding_pubkey),
         eout_script_pubkey = ea_script_pubkey a, eout_surjection_proof = [], eout_rangeproof = []\<rparr>;
       Some (Inr (Tx_Elements (tx\<lparr>etx_output := etx_output tx @ [new_out]\<rparr>))) }))"

fun scramble :: "gdk_lib \<Rightarrow> BETransaction \<Rightarrow> BETransaction" where
  "scramble L (Tx_Bitcoin tx) =
     Tx_Bitcoin (tx\<lparr>btx_input := permute (gl_shuffle_inputs L (length (btx_input tx))) (btx_input tx),
       btx_output := permute (gl_shuffle_outputs L (length (btx_output tx))) (btx_output tx)\<rparr>)"
| "scramble L (Tx_Elements tx) =
     Tx_Elements (tx\<lparr>etx_input := permute (gl_shuffle_inputs L (length (etx_input tx))) (etx_input tx),
       etx_output := permute (gl_shuffle_outputs L (length (etx_output tx))) (etx_output tx)\<rparr>)"

text \<open>
  The transaction that \<^verbatim>\<open>estimated_fee\<close> weighs: mock witnesses, one mock output per change
  and, on Liquid, mock proofs and a mock fee output.
\<close>

fun dummy_tx :: "gdk_lib \<Rightarrow> nat \<Rightarrow> ScriptType \<Rightarrow> BETransaction \<Rightarrow> BETransaction" where
  "dummy_tx L more_changes script_type (Tx_Bitcoin tx) =
     Tx_Bitcoin (tx\<lparr>
       btx_input := map (\<lambda>i. i\<lparr>bin_witness := mock_witness script_type,
         bin_script_sig := mock_script_sig script_type\<rparr>) (btx_input tx),
       btx_output := btx_output tx @ replicate more_changes
         \<lparr>bout_value = 0, bout_script_pubkey = mock_script_pubkey script_type\<rparr>\<rparr>)"
| "dummy_tx L more_changes script_type (Tx_Elements tx) =
     (let inputs = map (\<lambda>i. i\<lparr>ein_script_witness := mock_witness script_type,
            ein_script_sig := mock_script_sig script_type\<rparr>) (etx_input tx);
          outputs = etx_output tx @ replicate more_changes (default_elm_txout\<lparr>
            eout_asset := Asset_Confidential (CHR 0x00) (zero_bytes 32),
            eout_value := Value_Confidential (CHR 0x00) (zero_bytes 32),
            eout_nonce := Nonce_Confidential (CHR 0x00) (zero_bytes 32),
            eout_script_pubkey := mock_script_pubkey script_type\<rparr>);
          sur_size = gl_surjectionproof_size L (max 1 (length inputs));
          outputs = map (\<lambda>x. x\<lparr>eout_surjection_proof := zero_bytes sur_size,
            eout_rangeproof := zero_bytes 4174\<rparr>) outputs
      in Tx_Elements (tx\<lparr>etx_input := inputs, etx_output := outputs @ [gl_new_fee L 0 (zero_bytes 32)]\<rparr>))"

definition fee_factor :: "BETransaction \<Rightarrow> f64" where
  "fee_factor tx = (case tx of Tx_Bitcoin _ \<Rightarrow> f64_lit (102 / 100) | Tx_Elements _ \<Rightarrow> f64_lit (104 / 100))"

definition estimated_fee :: "gdk_lib \<Rightarrow> BETransaction \<Rightarrow> f64 \<Rightarrow> int \<Rightarrow> ScriptType \<Rightarrow> int" where
  "estimated_fee L tx fee_rate more_changes script_type =
     (let vbytes = f64_div (f64_of_int (int (get_weight L (dummy_tx L (nat more_changes) script_type tx)))) (f64_lit 4)
      in f64_as_u64 (f64_mul (f64_mul vbytes fee_rate) (fee_factor tx)))"

text \<open>The asset of each input; an unknown previous output panics.\<close>

definition input_assets :: "gdk_lib \<Rightarrow> ElmTx \<Rightarrow> BETransactions \<Rightarrow> Unblindeds \<Rightarrow> string list option" where
  "input_assets L tx all_txs unblinded =
     those (map (\<lambda>i. Option.bind (get_previous_output_asset_hex L all_txs (ein_previous_output i) unblinded) id)
       (etx_input tx))"

definition u8_of_bool :: "bool \<Rightarrow> int" where
  "u8_of_bool b = (if b then 1 else 0)"

fun estimated_changes :: "gdk_lib \<Rightarrow> BETransaction \<Rightarrow> bool \<Rightarrow> BETransactions \<Rightarrow> Unblindeds \<Rightarrow> int option" where
  "estimated_changes L (Tx_Bitcoin tx) send_all all_txs unblinded = Some (1 - u8_of_bool send_all)"
| "estimated_changes L (Tx_Elements tx) send_all all_txs unblinded = do {
     assets \<leftarrow> input_assets L tx all_txs unblinded;
     let different_assets = remdups assets;
     Some (if different_assets = [] then 0
           else wrap_u8 (wrap_u8 (int (length different_assets)) - u8_of_bool send_all)) }"

definition sum_inputs :: "gdk_lib \<Rightarrow> BtcTx \<Rightarrow> BETransactions \<Rightarrow> int option" where
  "sum_inputs L tx all_txs = do {
     values \<leftarrow> those (map (\<lambda>i. get_previous_output_value L all_txs (Out_Bitcoin (bin_previous_output i)) [])
       (btx_input tx));
     Some (u64_sum (List.map_filter id values)) }"

text \<open>The amounts of the outputs and of the inputs per asset.\<close>

definition output_amounts :: "gdk_lib \<Rightarrow> ElmTx \<Rightarrow> (string, int) hmap option" where
  "output_amounts L tx =
     foldM (\<lambda>output outputs.
       case (eout_asset output, eout_value output) of
         (Asset_Explicit asset, Value_Explicit value) \<Rightarrow> Some (hm_add_u64 (asset_to_hex L asset) value outputs)
       | _ \<Rightarrow> None) (etx_output tx) []"

definition input_amounts ::
  "gdk_lib \<Rightarrow> ElmTx \<Rightarrow> BETransactions \<Rightarrow> Unblindeds \<Rightarrow> (string, int) hmap option" where
  "input_amounts L tx all_txs unblinded =
     foldM (\<lambda>input inputs. do {
       asset_hex \<leftarrow> Option.bind (get_previous_output_asset_hex L all_txs (ein_previous_output input) unblinded) id;
       value \<leftarrow> Option.bind (get_previous_output_value L all_txs (Out_Elements (ein_previous_output input)) unblinded) id;
       Some (hm_add_u64 asset_hex value inputs) }) (etx_input tx) []"

text \<open>\<^verbatim>\<open>swap\<close> of a vector.\<close>

definition vec_swap :: "nat \<Rightarrow> nat \<Rightarrow> 'a list \<Rightarrow> 'a list" where
  "vec_swap i j xs = xs[i := xs ! j, j := xs ! i]"

text \<open>The loop of \<^verbatim>\<open>needs\<close> over the outputs: what the inputs do not cover.\<close>

definition need_step ::
  "string \<times> int \<Rightarrow> (string, int) hmap \<times> AssetValue list \<Rightarrow> (string, int) hmap \<times> AssetValue list" where
  "need_step av s = (case (av, s) of ((asset, value), (inputs, result)) \<Rightarrow>
     let have = hm_amount inputs asset; inputs' = hm_remove asset inputs in
     case u64_checked_sub value have of
       Some lack \<Rightarrow> if 0 < lack then (inputs', result @ [\<lparr>av_asset = asset, av_satoshi = lack\<rparr>]) else (inputs', result)
     | None \<Rightarrow> (inputs', result))"

definition uncovered :: "(string \<times> int) list \<Rightarrow> (string, int) hmap \<Rightarrow> AssetValue list" where
  "uncovered outputs inputs = snd (fold need_step outputs (inputs, []))"

definition policy_last :: "string \<Rightarrow> AssetValue list \<Rightarrow> AssetValue list" where
  "policy_last policy_asset result =
     (case position (\<lambda>e. av_asset e = policy_asset) result of
        None \<Rightarrow> result
      | Some index \<Rightarrow>
          let last_index = length result - 1 in
          if index \<noteq> last_index then vec_swap index last_index result else result)"

fun needs ::
  "gdk_lib \<Rightarrow> BETransaction \<Rightarrow> f64 \<Rightarrow> bool \<Rightarrow> string option \<Rightarrow> BETransactions \<Rightarrow> Unblindeds \<Rightarrow> ScriptType \<Rightarrow>
   AssetValue list option" where
  "needs L (Tx_Bitcoin tx) fee_rate no_change policy_asset all_txs unblinded script_type = do {
     sum_inputs \<leftarrow> sum_inputs L tx all_txs;
     let sum_outputs = u64_sum (map bout_value (btx_output tx));
     more_changes \<leftarrow> estimated_changes L (Tx_Bitcoin tx) no_change all_txs unblinded;
     let fee = estimated_fee L (Tx_Bitcoin tx) fee_rate more_changes script_type;
     let total = wrap_u64 (sum_outputs + fee);
     Some (if sum_inputs < total
           then [\<lparr>av_asset = ''btc'', av_satoshi = wrap_u64 (total - sum_inputs)\<rparr>] else []) }"
| "needs L (Tx_Elements tx) fee_rate no_change policy_asset all_txs unblinded script_type = do {
     policy_asset \<leftarrow> policy_asset;
     outputs \<leftarrow> output_amounts L tx;
     inputs \<leftarrow> input_amounts L tx all_txs unblinded;
     more_changes \<leftarrow> estimated_changes L (Tx_Elements tx) no_change all_txs unblinded;
     let fee = estimated_fee L (Tx_Elements tx) fee_rate more_changes script_type;
     let outputs = hm_add_u64 policy_asset fee outputs;
     Some (policy_last policy_asset (uncovered (gl_iter L outputs) inputs)) }"

text \<open>
  The loop of \<^verbatim>\<open>changes\<close> over the inputs; the outputs that no input covers are left and
  must be none.
\<close>

definition change_step ::
  "string option \<Rightarrow> int \<Rightarrow> string \<times> int \<Rightarrow> (string, int) hmap \<times> AssetValue list \<Rightarrow>
   ((string, int) hmap \<times> AssetValue list) option" where
  "change_step policy_asset fee av s = (case (av, s) of ((asset, value), (outputs, result)) \<Rightarrow> do {
     let surplus = wrap_u64 (value - hm_amount outputs asset);
     let outputs = hm_remove asset outputs;
     policy \<leftarrow> policy_asset;
     if asset = policy
     then let surplus = wrap_u64 (surplus - fee) in
       Some (outputs, if DUST_VALUE < surplus then result @ [\<lparr>av_asset = asset, av_satoshi = surplus\<rparr>] else result)
     else Some (outputs, if 0 < surplus then result @ [\<lparr>av_asset = asset, av_satoshi = surplus\<rparr>] else result) })"

fun changes ::
  "gdk_lib \<Rightarrow> BETransaction \<Rightarrow> int \<Rightarrow> string option \<Rightarrow> BETransactions \<Rightarrow> Unblindeds \<Rightarrow> AssetValue list option" where
  "changes L (Tx_Bitcoin tx) fee policy_asset all_txs unblinded = do {
     sum_inputs \<leftarrow> sum_inputs L tx all_txs;
     let sum_outputs = u64_sum (map bout_value (btx_output tx));
     let change_value = wrap_u64 (wrap_u64 (sum_inputs - sum_outputs) - fee);
     Some (if DUST_VALUE < change_value
           then [\<lparr>av_asset = ''btc'', av_satoshi = change_value\<rparr>] else []) }"
| "changes L (Tx_Elements tx) fee policy_asset all_txs unblinded = do {
     outputs \<leftarrow> output_amounts L tx;
     inputs \<leftarrow> input_amounts L tx all_txs unblinded;
     (outputs, result) \<leftarrow> foldM (change_step policy_asset fee) (gl_iter L inputs) (outputs, []);
     rust_assert (outputs = []);
     Some result }"

fun add_fee_if_elements ::
  "int \<Rightarrow> ConfAsset option \<Rightarrow> BETransaction \<Rightarrow> (CommonError + BETransaction) option" where
  "add_fee_if_elements value policy_asset (Tx_Elements tx) =
     gtry (gok_or policy_asset (C_Generic ''Missing policy asset'')) (\<lambda>asset.
       let new_out = default_elm_txout\<lparr>eout_asset := asset, eout_value := Value_Explicit value\<rparr> in
       Some (Inr (Tx_Elements (tx\<lparr>etx_output := etx_output tx @ [new_out]\<rparr>))))"
| "add_fee_if_elements value policy_asset (Tx_Bitcoin tx) = Some (Inr (Tx_Bitcoin tx))"

fun add_input :: "BEOutPoint \<Rightarrow> BETransaction \<Rightarrow> BETransaction option" where
  "add_input (Out_Bitcoin outpoint) (Tx_Bitcoin tx) =
     Some (Tx_Bitcoin (tx\<lparr>btx_input := btx_input tx @
       [\<lparr>bin_previous_output = outpoint, bin_script_sig = [], bin_sequence = 0xfffffffd, bin_witness = []\<rparr>]\<rparr>))"
| "add_input (Out_Elements outpoint) (Tx_Elements tx) =
     Some (Tx_Elements (tx\<lparr>etx_input := etx_input tx @
       [\<lparr>ein_previous_output = outpoint, ein_is_pegin = False, ein_has_issuance = False, ein_script_sig = [],
         ein_sequence = 0xfffffffe, ein_script_witness = []\<rparr>]\<rparr>))"
| "add_input outpoint tx = None"

fun tx_fee ::
  "gdk_lib \<Rightarrow> BETransaction \<Rightarrow> BETransactions \<Rightarrow> Unblindeds \<Rightarrow> ConfAsset option \<Rightarrow> (CommonError + int) option" where
  "tx_fee L (Tx_Bitcoin tx) all_txs all_unblinded policy_asset = do {
     sum_inputs \<leftarrow> sum_inputs L tx all_txs;
     let sum_outputs = u64_sum (map bout_value (btx_output tx));
     Some (Inr (wrap_u64 (sum_inputs - sum_outputs))) }"
| "tx_fee L (Tx_Elements tx) all_txs all_unblinded policy_asset =
     (if list_ex (gl_is_fee L) (etx_output tx)
      then gtry (gok_or policy_asset (C_Generic ''Missing policy asset'')) (\<lambda>policy_asset.
        Some (Inr (u64_sum (map (gl_minimum_value L)
          (filter (\<lambda>x. policy_asset = eout_asset x) (filter (gl_is_fee L) (etx_output tx)))))))
      else do {
        let sum_outputs = u64_sum (map (gl_minimum_value L) (etx_output tx));
        values \<leftarrow> those (map (\<lambda>i. get_previous_output_value L all_txs (Out_Elements (ein_previous_output i)) all_unblinded)
          (etx_input tx));
        let sum_inputs = u64_sum (List.map_filter id values);
        Some (Inr (wrap_u64 (sum_inputs - sum_outputs))) })"

fun rbf_optin :: "BETransaction \<Rightarrow> bool" where
  "rbf_optin (Tx_Bitcoin tx) = list_ex (\<lambda>e. bin_sequence e < 0xfffffffe) (btx_input tx)"
| "rbf_optin (Tx_Elements tx) = list_ex (\<lambda>e. ein_sequence e < 0xfffffffe) (etx_input tx)"

section \<open>What a transaction means for the wallet\<close>

text \<open>The scripts of the previous outputs that the account knows.\<close>

definition previous_scripts :: "BETransactions \<Rightarrow> BETransaction \<Rightarrow> BEScript list option" where
  "previous_scripts all_txs tx =
     map_option (List.map_filter id) (those (map (get_previous_output_script_pubkey all_txs) (previous_outputs tx)))"

fun is_redeposit :: "gdk_lib \<Rightarrow> BETransaction \<Rightarrow> (BEScript, GdkPath) hmap \<Rightarrow> BETransactions \<Rightarrow> bool option" where
  "is_redeposit L (Tx_Bitcoin tx) all_scripts all_txs = do {
     scripts \<leftarrow> previous_scripts all_txs (Tx_Bitcoin tx);
     Some (length scripts = length (btx_input tx) \<and> list_all (hm_contains all_scripts) scripts \<and>
       list_all (\<lambda>x. hm_contains all_scripts (Script_Bitcoin (bout_script_pubkey x))) (btx_output tx)) }"
| "is_redeposit L (Tx_Elements tx) all_scripts all_txs = do {
     scripts \<leftarrow> previous_scripts all_txs (Tx_Elements tx);
     Some (length scripts = length (etx_input tx) \<and> list_all (hm_contains all_scripts) scripts \<and>
       list_all (\<lambda>x. hm_contains all_scripts (Script_Elements (eout_script_pubkey x)))
         (filter (\<lambda>x. \<not> gl_is_fee L x) (etx_output tx))) }"

fun my_balance_changes ::
  "gdk_lib \<Rightarrow> BETransaction \<Rightarrow> BETransactions \<Rightarrow> (BEScript, GdkPath) hmap \<Rightarrow> Unblindeds \<Rightarrow> Balances option" where
  "my_balance_changes L (Tx_Bitcoin tx) all_txs all_scripts all_unblinded = do {
     my_out \<leftarrow> foldM (\<lambda>input my_out. do {
         let outpoint = Out_Bitcoin (bin_previous_output input);
         script \<leftarrow> get_previous_output_script_pubkey all_txs outpoint;
         case script of
           None \<Rightarrow> Some my_out
         | Some script \<Rightarrow>
             if hm_contains all_scripts script
             then do {
               value \<leftarrow> get_previous_output_value L all_txs outpoint all_unblinded;
               Some (i64_add my_out (wrap_i64 (case value of None \<Rightarrow> 0 | Some v \<Rightarrow> v))) }
             else Some my_out }) (btx_input tx) 0;
     let my_in = i64_sum (map (\<lambda>x. wrap_i64 (bout_value x))
           (filter (\<lambda>x. hm_contains all_scripts (Script_Bitcoin (bout_script_pubkey x))) (btx_output tx)));
     Some [(''btc'', i64_sub my_in my_out)] }"
| "my_balance_changes L (Tx_Elements tx) all_txs all_scripts all_unblinded =
     (let spent = fold (\<lambda>input result.
            case hm_get all_unblinded (ein_previous_output input) of
              None \<Rightarrow> result
            | Some u \<Rightarrow>
                let a = ub_asset_hex L u in
                hm_insert a (i64_sub (hm_amount result a) (wrap_i64 (ub_value u))) result) (etx_input tx) [];
          result = fold (\<lambda>i result.
            case hm_get all_unblinded (gl_elm_txid L tx, int i) of
              None \<Rightarrow> result
            | Some u \<Rightarrow> hm_add_i64 (ub_asset_hex L u) (wrap_i64 (ub_value u)) result) [0..<length (etx_output tx)] spent
      in Some (filter (\<lambda>(_, v). v \<noteq> 0) result))"

text \<open>
  \<^verbatim>\<open>filter_outputs\<close> keeps the outputs that a closure accepts; the closure sees the number, the
  script and the asset of each output in order and may change what it captures.
\<close>

fun retain_outputs ::
  "gdk_lib \<Rightarrow> BETransaction \<Rightarrow> Unblindeds \<Rightarrow> (int \<Rightarrow> BEScript \<Rightarrow> string option \<Rightarrow> 's \<Rightarrow> (bool \<times> 's) option) \<Rightarrow>
   'a list \<Rightarrow> int \<Rightarrow> 's \<Rightarrow> ('a list \<times> 's) option" where
  "retain_outputs L tx all_unblinded f [] vout s = Some ([], s)"
| "retain_outputs L tx all_unblinded f (x # xs) vout s = do {
     script \<leftarrow> output_script tx vout;
     asset \<leftarrow> output_asset_hex L tx vout all_unblinded;
     (matched, s) \<leftarrow> f vout script asset s;
     (ys, s) \<leftarrow> retain_outputs L tx all_unblinded f xs (vout + 1) s;
     Some (if matched then x # ys else ys, s) }"

fun filter_outputs ::
  "gdk_lib \<Rightarrow> BETransaction \<Rightarrow> Unblindeds \<Rightarrow> (int \<Rightarrow> BEScript \<Rightarrow> string option \<Rightarrow> 's \<Rightarrow> (bool \<times> 's) option) \<Rightarrow>
   's \<Rightarrow> (BETransaction \<times> 's) option" where
  "filter_outputs L (Tx_Bitcoin tx) all_unblinded f s = do {
     (outputs, s) \<leftarrow> retain_outputs L (Tx_Bitcoin tx) all_unblinded f (btx_output tx) 0 s;
     Some (Tx_Bitcoin (tx\<lparr>btx_output := outputs\<rparr>), s) }"
| "filter_outputs L (Tx_Elements tx) all_unblinded f s = do {
     (outputs, s) \<leftarrow> retain_outputs L (Tx_Elements tx) all_unblinded f (etx_output tx) 0 s;
     Some (Tx_Elements (tx\<lparr>etx_output := outputs\<rparr>), s) }"

text \<open>\<^verbatim>\<open>SigHashType::All\<close>.\<close>

definition sighash_all :: char where "sighash_all = CHR 0x01"

fun verify_input_sig ::
  "gdk_keys \<Rightarrow> BETransaction \<Rightarrow> nat \<Rightarrow> bytes \<Rightarrow> int \<Rightarrow> ScriptType \<Rightarrow> (CommonError + unit) option" where
  "verify_input_sig K (Tx_Elements tx) vin public_key value script_type = None"
| "verify_input_sig K (Tx_Bitcoin tx) vin public_key value script_type = do {
     let script_code = gk_p2pkh_script K public_key;
     let message = (if is_segwit script_type then gk_btc_sighash_segwit K tx vin script_code value
       else gk_btc_sighash_legacy K tx vin script_code);
     input \<leftarrow> vec_at (btx_input tx) (int vin);
     let sig = (if is_segwit script_type
       then case bin_witness input of [] \<Rightarrow> None | w # _ \<Rightarrow> Some w
       else gk_first_push K (bin_script_sig input));
     gtry (gok_or sig C_InputValidationFailed) (\<lambda>sig.
     gtry (gensure (sig \<noteq> [] \<and> last sig = sighash_all) C_InputValidationFailed) (\<lambda>_.
     let sig = butlast sig in
     gtry (gensure (gk_is_der K sig) (C_Generic ''secp256k1'')) (\<lambda>_.
     gensure (gk_verify_der K message sig public_key) (C_Generic ''secp256k1'')))) }"

end
