(* ===== verification/Gdk_Store.thy ===== *)
theory Gdk_Store
  imports Gdk_Tx
begin

text \<open>
  \<^verbatim>\<open>gdk_electrum/src/store.rs\<close>: what the wallet keeps.  The cache can be rebuilt from the
  Electrum server, the store holds settings and memos; both are written to files, encrypted
  under a key that is derived from the public key of the wallet.  The disk is the map from
  directory and file name to contents.  The ciphers, the CBOR and RON encodings, the random
  nonces and how many bytes the operating system takes of a write are parameters, the fields of
  \<open>store_lib\<close>.
\<close>

section \<open>State\<close>

record Indexes =
  ix_external :: int
  ix_internal :: int

record RawAccountCache =
  ac_all_txs :: BETransactions
  ac_paths :: "(BEScript, GdkPath) hmap"
  ac_scripts :: "(GdkPath, BEScript) hmap"
  ac_heights :: "(BETxid, int option) hmap"
  ac_unblinded :: Unblindeds
  ac_indexes :: Indexes

text \<open>
  The headers of Bitcoin and of Liquid blocks, with what a Liquid header has in place of a proof
  of work: the challenge and the solution of the signers, or the parameters of dynamic federations.
\<close>

record BlockHeader =
  bh_version :: int
  bh_prev_blockhash :: bytes
  bh_merkle_root :: bytes
  bh_time :: int
  bh_bits :: int
  bh_nonce :: int

datatype BlockExtData = Ext_Proof (ext_challenge: bytes) (ext_solution: bytes) | Ext_Dynafed bytes

record ElmBlockHeader =
  eh_version :: int
  eh_prev_blockhash :: bytes
  eh_merkle_root :: bytes
  eh_time :: int
  eh_height :: int
  eh_ext :: BlockExtData

datatype BEBlockHeader = Header_Bitcoin BlockHeader | Header_Elements ElmBlockHeader

fun header_time :: "BEBlockHeader \<Rightarrow> int" where
  "header_time (Header_Bitcoin h) = bh_time h"
| "header_time (Header_Elements h) = eh_time h"

text \<open>The address of an Electrum server; the flag says whether the domain name is validated.\<close>

datatype ElectrumUrl = Url_Tls string bool | Url_Plaintext string

datatype BEBlockHash = Hash_Bitcoin bytes | Hash_Elements bytes

datatype SPVVerifyResult = Spv_Unconfirmed | Spv_InProgress | Spv_Verified | Spv_NotVerified | Spv_NotLongest | Spv_Disabled

record CrossValidationInvalid =
  cv_our_height :: int
  cv_common_ancestor :: int
  cv_longest_height :: int
  cv_longest_work :: int
  cv_work_diff :: int
  cv_origin_server :: ElectrumUrl

datatype CrossValidationResult = Cross_Valid | Cross_Invalid CrossValidationInvalid

record RawCache =
  rc_accounts :: "(int, RawAccountCache) hmap"
  rc_headers :: "(int, BEBlockHeader) hmap"
  rc_txs_verif :: "(BETxid, SPVVerifyResult) hmap"
  rc_fee_estimates :: "int list"
  rc_tip :: "int \<times> BEBlockHash"
  rc_assets_last_modified :: string
  rc_icons_last_modified :: string
  rc_cross_validation_result :: "CrossValidationResult option"
  rc_accounts_recovered :: bool

record GdkSettings =
  gs_unit :: string
  gs_required_num_blocks :: int
  gs_altimeout :: int
  gs_pricing :: "string \<times> string"
  gs_sound :: bool

record AccountSettings =
  as_name :: string
  as_hidden :: bool

record RawStore =
  rs_settings :: "GdkSettings option"
  rs_memos :: "(bytes, string) hmap"
  rs_accounts_settings :: "(int, AccountSettings) hmap option"

record StoreMeta =
  sm_cache :: RawCache
  sm_store :: RawStore
  sm_id :: NetworkId
  sm_path :: string
  sm_cipher :: bytes

text \<open>The default values.\<close>

definition default_account_cache :: RawAccountCache where
  "default_account_cache =
     \<lparr>ac_all_txs = [], ac_paths = [], ac_scripts = [], ac_heights = [], ac_unblinded = [],
      ac_indexes = \<lparr>ix_external = 0, ix_internal = 0\<rparr>\<rparr>"

definition default_cache :: RawCache where
  "default_cache =
     \<lparr>rc_accounts = [], rc_headers = [], rc_txs_verif = [], rc_fee_estimates = [],
      rc_tip = (0, Hash_Bitcoin (zero_bytes 32)), rc_assets_last_modified = [], rc_icons_last_modified = [],
      rc_cross_validation_result = None, rc_accounts_recovered = False\<rparr>"

definition default_store :: RawStore where
  "default_store = \<lparr>rs_settings = None, rs_memos = [], rs_accounts_settings = None\<rparr>"

definition default_account_settings :: AccountSettings where
  "default_account_settings = \<lparr>as_name = [], as_hidden = False\<rparr>"

definition default_gdk_settings :: GdkSettings where
  "default_gdk_settings =
     \<lparr>gs_unit = ''BTC'', gs_required_num_blocks = 12, gs_altimeout = 5,
      gs_pricing = (''USD'', ''BITFINEX''), gs_sound = False\<rparr>"

section \<open>Files\<close>

record store_lib =
  sl_encrypt :: "bytes \<Rightarrow> bytes \<Rightarrow> bytes \<Rightarrow> bytes"  \<comment> \<open>key, nonce, plaintext\<close>
  sl_decrypt :: "bytes \<Rightarrow> bytes \<Rightarrow> bytes \<Rightarrow> bytes option"
  sl_nonce :: bytes  \<comment> \<open>the 12 random bytes of the next write\<close>
  sl_written :: "bytes \<Rightarrow> nat"  \<comment> \<open>how many bytes a write takes\<close>
  sl_cache_ser :: "bool \<Rightarrow> RawCache \<Rightarrow> bytes"  \<comment> \<open>in RON on regtest\<close>
  sl_cache_des :: "bool \<Rightarrow> bytes \<Rightarrow> RawCache option"
  sl_store_ser :: "RawStore \<Rightarrow> bytes"
  sl_store_des :: "bytes \<Rightarrow> RawStore option"
  sl_cipher :: "bytes \<Rightarrow> bytes"  \<comment> \<open>the key that is derived from an extended public key\<close>
  sl_regtest :: bool

type_synonym disk = "string \<times> string \<Rightarrow> bytes option"

text \<open>
  \<^verbatim>\<open>File::create\<close> and two calls of \<^verbatim>\<open>write\<close>, whose results the code does not look at.
\<close>

definition flush_serializable :: "store_lib \<Rightarrow> string \<Rightarrow> bytes \<Rightarrow> string \<Rightarrow> bytes \<Rightarrow> disk \<Rightarrow> disk" where
  "flush_serializable S path cipher name plaintext d =
     (let nonce = sl_nonce S; ciphertext = sl_encrypt S cipher nonce plaintext
      in d((path, name) \<mapsto> take (sl_written S nonce) nonce @ take (sl_written S ciphertext) ciphertext))"

definition flush_store :: "store_lib \<Rightarrow> StoreMeta \<Rightarrow> disk \<Rightarrow> disk" where
  "flush_store S m d = flush_serializable S (sm_path m) (sm_cipher m) ''store'' (sl_store_ser S (sm_store m)) d"

definition flush_cache :: "store_lib \<Rightarrow> StoreMeta \<Rightarrow> disk \<Rightarrow> disk" where
  "flush_cache S m d =
     flush_serializable S (sm_path m) (sm_cipher m) ''cache'' (sl_cache_ser S (sl_regtest S) (sm_cache m)) d"

definition flush_meta :: "store_lib \<Rightarrow> StoreMeta \<Rightarrow> disk \<Rightarrow> disk" where
  "flush_meta S m d = flush_cache S m (flush_store S m d)"

definition load_decrypt :: "store_lib \<Rightarrow> string \<Rightarrow> string \<Rightarrow> bytes \<Rightarrow> disk \<Rightarrow> GdkError + bytes" where
  "load_decrypt S name path cipher d =
     (case d (path, name) of
        None \<Rightarrow> Inl (G_Generic ''do not exist'')
      | Some content \<Rightarrow>
          if length content < 12 then Inl G_StdIOError
          else case sl_decrypt S cipher (take 12 content) (drop 12 content) of
            None \<Rightarrow> Inl G_Encryption
          | Some plaintext \<Rightarrow> Inr plaintext)"

definition try_new_cache :: "store_lib \<Rightarrow> string \<Rightarrow> bytes \<Rightarrow> disk \<Rightarrow> GdkError + RawCache" where
  "try_new_cache S path cipher d =
     (case load_decrypt S ''cache'' path cipher d of
        Inl e \<Rightarrow> Inl e
      | Inr decrypted \<Rightarrow>
          (case sl_cache_des S (sl_regtest S) decrypted of None \<Rightarrow> Inl G_Serialization | Some c \<Rightarrow> Inr c))"

definition try_new_store :: "store_lib \<Rightarrow> string \<Rightarrow> bytes \<Rightarrow> disk \<Rightarrow> GdkError + RawStore" where
  "try_new_store S path cipher d =
     (case load_decrypt S ''store'' path cipher d of
        Inl e \<Rightarrow> Inl e
      | Inr decrypted \<Rightarrow> (case sl_store_des S decrypted of None \<Rightarrow> Inl G_Serialization | Some s \<Rightarrow> Inr s))"

text \<open>\<^verbatim>\<open>RawCache::new\<close> and \<^verbatim>\<open>RawStore::new\<close>: the file, the fallback file or the default.\<close>

definition new_or_fallback ::
  "(string \<Rightarrow> bytes \<Rightarrow> GdkError + 'a) \<Rightarrow> 'a \<Rightarrow> string \<Rightarrow> bytes \<Rightarrow> string option \<Rightarrow> bytes option \<Rightarrow> 'a" where
  "new_or_fallback try_new dflt path cipher fallback_path fallback_cipher =
     (case try_new path cipher of
        Inr x \<Rightarrow> x
      | Inl _ \<Rightarrow>
          (case (fallback_path, fallback_cipher) of
             (Some fpath, Some fcipher) \<Rightarrow> (case try_new fpath fcipher of Inr x \<Rightarrow> x | Inl _ \<Rightarrow> dflt)
           | _ \<Rightarrow> dflt))"

definition new_store_meta ::
  "store_lib \<Rightarrow> string \<Rightarrow> bytes \<Rightarrow> string option \<Rightarrow> bytes option \<Rightarrow> NetworkId \<Rightarrow> disk \<Rightarrow> StoreMeta" where
  "new_store_meta S path xpub fallback_path fallback_xpub net d =
     (let cipher = sl_cipher S xpub;
          fallback_cipher = map_option (sl_cipher S) fallback_xpub;
          cache = new_or_fallback (\<lambda>p c. try_new_cache S p c d) default_cache path cipher fallback_path fallback_cipher;
          store = new_or_fallback (\<lambda>p c. try_new_store S p c d) default_store path cipher fallback_path fallback_cipher;
          cache = (if hm_contains (rc_accounts cache) 0 then cache
                   else cache\<lparr>rc_accounts := hm_insert 0 default_account_cache (rc_accounts cache)\<rparr>);
          store = (case rs_accounts_settings store of
                     Some _ \<Rightarrow> store
                   | None \<Rightarrow> store\<lparr>rs_accounts_settings := Some []\<rparr>)
      in \<lparr>sm_cache = cache, sm_store = store, sm_id = net, sm_path = path, sm_cipher = cipher\<rparr>)"

section \<open>Operations\<close>

definition account_cache :: "StoreMeta \<Rightarrow> int \<Rightarrow> GdkError + RawAccountCache" where
  "account_cache m account_num =
     (case hm_get (rc_accounts (sm_cache m)) account_num of
        None \<Rightarrow> Inl (G_InvalidSubaccount account_num)
      | Some acc \<Rightarrow> Inr acc)"

text \<open>What a caller of \<^verbatim>\<open>account_cache_mut\<close> writes back.\<close>

definition set_account_cache :: "int \<Rightarrow> RawAccountCache \<Rightarrow> StoreMeta \<Rightarrow> StoreMeta" where
  "set_account_cache account_num acc m =
     m\<lparr>sm_cache := (sm_cache m)\<lparr>rc_accounts := hm_insert account_num acc (rc_accounts (sm_cache m))\<rparr>\<rparr>"

definition make_account_cache :: "int \<Rightarrow> StoreMeta \<Rightarrow> StoreMeta" where
  "make_account_cache account_num m =
     (if hm_contains (rc_accounts (sm_cache m)) account_num then m
      else set_account_cache account_num default_account_cache m)"

definition account_nums :: "StoreMeta \<Rightarrow> int list" where
  "account_nums m = map fst (rc_accounts (sm_cache m))"

definition fee_estimates :: "StoreMeta \<Rightarrow> int list" where
  "fee_estimates m =
     (if rc_fee_estimates (sm_cache m) = []
      then replicate 25 (case sm_id m of Net_Bitcoin _ \<Rightarrow> 1000 | Net_Elements _ \<Rightarrow> 100)
      else rc_fee_estimates (sm_cache m))"

definition insert_memo :: "store_lib \<Rightarrow> BETxid \<Rightarrow> string \<Rightarrow> StoreMeta \<Rightarrow> disk \<Rightarrow> StoreMeta \<times> disk" where
  "insert_memo S txid memo m d =
     (let m' = m\<lparr>sm_store := (sm_store m)\<lparr>rs_memos := hm_insert (txid_into_bitcoin txid) memo (rs_memos (sm_store m))\<rparr>\<rparr>
      in (m', flush_store S m' d))"

definition get_memo :: "StoreMeta \<Rightarrow> BETxid \<Rightarrow> string option" where
  "get_memo m txid = hm_get (rs_memos (sm_store m)) (txid_into_bitcoin txid)"

definition insert_settings :: "store_lib \<Rightarrow> GdkSettings option \<Rightarrow> StoreMeta \<Rightarrow> disk \<Rightarrow> StoreMeta \<times> disk" where
  "insert_settings S settings m d =
     (let m' = m\<lparr>sm_store := (sm_store m)\<lparr>rs_settings := settings\<rparr>\<rparr> in (m', flush_store S m' d))"

definition get_settings :: "StoreMeta \<Rightarrow> GdkSettings option" where
  "get_settings m = rs_settings (sm_store m)"

definition get_account_settings :: "StoreMeta \<Rightarrow> int \<Rightarrow> AccountSettings option option" where
  "get_account_settings m account_num =
     map_option (\<lambda>s. hm_get s account_num) (rs_accounts_settings (sm_store m))"

definition get_account_name :: "StoreMeta \<Rightarrow> int \<Rightarrow> string option option" where
  "get_account_name m account_num = map_option (map_option as_name) (get_account_settings m account_num)"

definition set_account_settings :: "int \<Rightarrow> AccountSettings \<Rightarrow> StoreMeta \<Rightarrow> StoreMeta option" where
  "set_account_settings account_num settings m =
     map_option (\<lambda>s. m\<lparr>sm_store := (sm_store m)\<lparr>rs_accounts_settings := Some (hm_insert account_num settings s)\<rparr>\<rparr>)
       (rs_accounts_settings (sm_store m))"

definition spv_verification_status :: "StoreMeta \<Rightarrow> int \<Rightarrow> BETxid \<Rightarrow> SPVVerifyResult" where
  "spv_verification_status m account_num txid =
     (case account_cache m account_num of
        Inl _ \<Rightarrow> Spv_NotVerified
      | Inr acc \<Rightarrow>
          (case hm_get (ac_heights acc) txid of
             Some (Some height) \<Rightarrow>
               let verif = (case hm_get (rc_txs_verif (sm_cache m)) txid of None \<Rightarrow> Spv_InProgress | Some v \<Rightarrow> v)
               in (case rc_cross_validation_result (sm_cache m) of
                     Some (Cross_Invalid i) \<Rightarrow> if cv_common_ancestor i < height then Spv_NotLongest else verif
                   | _ \<Rightarrow> verif)
           | _ \<Rightarrow> Spv_Unconfirmed))"

definition export_cache :: "store_lib \<Rightarrow> StoreMeta \<Rightarrow> disk \<Rightarrow> (GdkError + RawCache) \<times> disk" where
  "export_cache S m d =
     (let d' = flush_cache S m d in (try_new_cache S (sm_path m) (sm_cipher m) d', d'))"

definition get_bitcoin_tx :: "RawAccountCache \<Rightarrow> bytes \<Rightarrow> GdkError + BtcTx" where
  "get_bitcoin_tx acc txid =
     (case map_option ent_tx (hm_get (ac_all_txs acc) (Txid_Bitcoin txid)) of
        Some (Tx_Bitcoin tx) \<Rightarrow> Inr tx
      | _ \<Rightarrow> Inl (G_Generic ''expected bitcoin tx''))"

definition get_liquid_tx :: "RawAccountCache \<Rightarrow> bytes \<Rightarrow> GdkError + ElmTx" where
  "get_liquid_tx acc txid =
     (case map_option ent_tx (hm_get (ac_all_txs acc) (Txid_Elements txid)) of
        Some (Tx_Elements tx) \<Rightarrow> Inr tx
      | _ \<Rightarrow> Inl (G_Generic ''expected liquid tx''))"

end
