(* ===== verification/Gdk_Account.thy ===== *)
theory Gdk_Account
  imports Gdk_Store
begin

text \<open>
  \<^verbatim>\<open>gdk_electrum/src/account.rs\<close>, first part: accounts, their keys and addresses, and what an
  account owns (\<^verbatim>\<open>utxos\<close>, \<^verbatim>\<open>spent\<close>, \<^verbatim>\<open>balance\<close>, \<^verbatim>\<open>list_tx\<close>), with the types of
  \<^verbatim>\<open>gdk_common/src/model.rs\<close> that they return.  An account does not change; the store that it
  shares with the other accounts is passed to its operations and returned by those that change it.
\<close>

section \<open>Account numbers\<close>

definition NUM_RESERVED_ACCOUNT_TYPES :: int where "NUM_RESERVED_ACCOUNT_TYPES = 16"

text \<open>
  \<^verbatim>\<open>(first..).step_by(16).take_while(contains)\<close>: the numbers from the first that exist
  without a gap.
\<close>

function consecutive_accounts :: "int list \<Rightarrow> int \<Rightarrow> int list" where
  "consecutive_accounts existing n =
     (if n \<in> set existing then n # consecutive_accounts existing (n + NUM_RESERVED_ACCOUNT_TYPES) else [])"
  by auto
termination
proof (relation "measure (\<lambda>(existing, n). length (filter (\<lambda>x. n \<le> x) existing))")
  fix existing and n :: int
  assume "n \<in> set existing"
  then show "((existing, n + NUM_RESERVED_ACCOUNT_TYPES), existing, n)
    \<in> measure (\<lambda>(existing, n). length (filter (\<lambda>x. n \<le> x) existing))"
    by (auto simp: NUM_RESERVED_ACCOUNT_TYPES_def intro: length_filter_strict)
qed simp

declare consecutive_accounts.simps [simp del]

definition get_last_next_account_nums :: "int list \<Rightarrow> ScriptType \<Rightarrow> int option \<times> int" where
  "get_last_next_account_nums existing script_type =
     (let first = first_account_num script_type;
          accounts = consecutive_accounts existing first;
          last_account = (if accounts = [] then None else Some (last accounts));
          next_account = (case last_account of None \<Rightarrow> first | Some n \<Rightarrow> wrap_u32 (n + NUM_RESERVED_ACCOUNT_TYPES))
      in (last_account, next_account))"

definition get_account_script_purpose :: "int \<Rightarrow> GdkError + (ScriptType \<times> int)" where
  "get_account_script_purpose account_num =
     (let r = account_num mod NUM_RESERVED_ACCOUNT_TYPES in
      if r = 0 then Inr (P2shP2wpkh, 49)
      else if r = 1 then Inr (P2wpkh, 84)
      else if r = 2 then Inr (P2pkh, 44)
      else Inl (G_InvalidSubaccount account_num))"

fun get_coin_type :: "NetworkId \<Rightarrow> int" where
  "get_coin_type (Net_Bitcoin Mainnet) = 0"
| "get_coin_type (Net_Bitcoin Testnet) = 1"
| "get_coin_type (Net_Bitcoin Regtest) = 1"
| "get_coin_type (Net_Bitcoin Signet) = 1"
| "get_coin_type (Net_Elements Liquid) = 1776"
| "get_coin_type (Net_Elements ElementsRegtest) = 1"

text \<open>The text \<^verbatim>\<open>m/purpose'/coin_type'/account'\<close> parses to the path of its three numbers.\<close>

definition get_account_derivation :: "int \<Rightarrow> NetworkId \<Rightarrow> GdkError + (ScriptType \<times> GdkPath)" where
  "get_account_derivation account_num net =
     (case get_account_script_purpose account_num of
        Inl e \<Rightarrow> Inl e
      | Inr (script_type, purpose) \<Rightarrow>
          Inr (script_type, [Hardened purpose, Hardened (get_coin_type net),
            Hardened (account_num div NUM_RESERVED_ACCOUNT_TYPES)]))"

section \<open>Addresses\<close>

record GdkAddress =
  ga_text :: string
  ga_script_pubkey :: BEScript

definition bitcoin_address :: "gdk_keys \<Rightarrow> bytes \<Rightarrow> ScriptType \<Rightarrow> BitcoinNetwork \<Rightarrow> GdkAddress" where
  "bitcoin_address K public_key script_type net =
     (case gk_btc_address K script_type public_key net of
        (text, script) \<Rightarrow> \<lparr>ga_text = text, ga_script_pubkey = Script_Bitcoin script\<rparr>)"

definition elements_address :: "gdk_keys \<Rightarrow> bytes \<Rightarrow> bytes \<Rightarrow> ScriptType \<Rightarrow> ElementsNetwork \<Rightarrow> GdkAddress" where
  "elements_address K public_key master_blinding_key script_type net =
     (let script_pubkey = gk_elm_script K script_type public_key;
          blinding_prv = gk_blinding_priv K master_blinding_key script_pubkey;
          blinding_pub = gk_ec_public_key K blinding_prv
      in \<lparr>ga_text = gk_elm_address K script_pubkey net blinding_pub,
          ga_script_pubkey = Script_Elements script_pubkey\<rparr>)"

definition derive_address_at ::
  "gdk_keys \<Rightarrow> bytes \<Rightarrow> int \<Rightarrow> ScriptType \<Rightarrow> NetworkId \<Rightarrow> bytes option \<Rightarrow> GdkAddress gres" where
  "derive_address_at K xpub index script_type net master_blinding =
     gtry (gok_or (gk_ckd_pub K xpub index) G_BitcoinBIP32Error) (\<lambda>child_key.
       case net of
         Net_Bitcoin network \<Rightarrow> Some (Inr (bitcoin_address K (gk_public_key K child_key) script_type network))
       | Net_Elements network \<Rightarrow> do {
           blinding \<leftarrow> master_blinding;
           Some (Inr (elements_address K (gk_public_key K child_key) blinding script_type network)) })"

record Account =
  acc_account_num :: int
  acc_script_type :: ScriptType
  acc_xprv :: bytes
  acc_xpub :: bytes
  acc_chains :: "bytes \<times> bytes"  \<comment> \<open>external and internal\<close>
  acc_network :: Network
  acc_master_blinding :: "bytes option"

definition new_account ::
  "gdk_keys \<Rightarrow> Network \<Rightarrow> bytes \<Rightarrow> bytes option \<Rightarrow> int \<Rightarrow> StoreMeta \<Rightarrow> (Account \<times> StoreMeta) gres" where
  "new_account K network master_xprv master_blinding account_num store = do {
     net \<leftarrow> network_id network;
     gtry (Some (get_account_derivation account_num net)) (\<lambda>(script_type, path).
     gtry (gok_or (gk_derive_priv K master_xprv path) G_BitcoinBIP32Error) (\<lambda>xprv.
     let xpub = gk_xpub_of_priv K xprv in
     gtry (gok_or (gk_ckd_pub K xpub 0) G_BitcoinBIP32Error) (\<lambda>external.
     gtry (gok_or (gk_ckd_pub K xpub 1) G_BitcoinBIP32Error) (\<lambda>internal.
     let store = make_account_cache account_num store in
     Some (Inr (\<lparr>acc_account_num = account_num, acc_script_type = script_type, acc_xprv = xprv, acc_xpub = xpub,
       acc_chains = (external, internal), acc_network = network, acc_master_blinding = master_blinding\<rparr>, store)))))) }"

definition derive_address :: "gdk_keys \<Rightarrow> Account \<Rightarrow> bool \<Rightarrow> int \<Rightarrow> GdkAddress gres" where
  "derive_address K account is_change index = do {
     net \<leftarrow> network_id (acc_network account);
     derive_address_at K ((if is_change then snd else fst) (acc_chains account)) index (acc_script_type account)
       net (acc_master_blinding account) }"

text \<open>\<^verbatim>\<open>Account::get_next_address\<close>: the address text and its index.\<close>

definition account_next_address :: "gdk_keys \<Rightarrow> Account \<Rightarrow> StoreMeta \<Rightarrow> ((string \<times> int) gres \<times> StoreMeta)" where
  "account_next_address K account store =
     (case account_cache store (acc_account_num account) of
        Inl e \<Rightarrow> (Some (Inl e), store)
      | Inr acc \<Rightarrow>
          let pointer = wrap_u32 (ix_external (ac_indexes acc) + 1);
              store' = set_account_cache (acc_account_num account)
                (acc\<lparr>ac_indexes := (ac_indexes acc)\<lparr>ix_external := pointer\<rparr>\<rparr>) store
          in (gtry (derive_address K account False pointer) (\<lambda>a. Some (Inr (ga_text a, pointer))), store'))"

definition BATCH_SIZE :: int where "BATCH_SIZE = 20"

record ScriptBatch =
  sb_cached :: bool
  sb_value :: "(BEScript \<times> GdkPath) list"

definition get_script_batch :: "gdk_keys \<Rightarrow> Account \<Rightarrow> bool \<Rightarrow> int \<Rightarrow> StoreMeta \<Rightarrow> ScriptBatch gres" where
  "get_script_batch K account is_change batch store =
     gtry (Some (account_cache store (acc_account_num account))) (\<lambda>acc.
     let start = wrap_u32 (batch * BATCH_SIZE); stop = wrap_u32 (start + BATCH_SIZE) in
     gfold (\<lambda>j result.
       let path = [Normal (if is_change then 1 else 0), Normal j] in
       case hm_get (ac_scripts acc) path of
         Some script \<Rightarrow> Some (Inr (result\<lparr>sb_value := sb_value result @ [(script, path)]\<rparr>))
       | None \<Rightarrow> gtry (derive_address K account is_change j) (\<lambda>a.
           Some (Inr (result\<lparr>sb_cached := False, sb_value := sb_value result @ [(ga_script_pubkey a, path)]\<rparr>))))
       [start..stop - 1] \<lparr>sb_cached = True, sb_value = []\<rparr>)"

text \<open>The chain of an own script: 0 to receive, 1 for change.\<close>

definition get_wallet_chain_type :: "RawAccountCache \<Rightarrow> BEScript \<Rightarrow> int option option" where
  "get_wallet_chain_type acc script =
     (case hm_get (ac_paths acc) script of
        None \<Rightarrow> Some None
      | Some [] \<Rightarrow> None
      | Some (Normal index # _) \<Rightarrow> Some (Some index)
      | Some (Hardened _ # _) \<Rightarrow> Some None)"

section \<open>Settings\<close>

record UpdateAccountOpt =
  uao_subaccount :: int
  uao_name :: "string option"
  uao_hidden :: "bool option"

definition set_settings :: "Account \<Rightarrow> UpdateAccountOpt \<Rightarrow> StoreMeta \<Rightarrow> StoreMeta option" where
  "set_settings account opt store = do {
     current \<leftarrow> get_account_settings store (acc_account_num account);
     let settings = (case current of None \<Rightarrow> default_account_settings | Some s \<Rightarrow> s);
     let settings = (case uao_name opt of None \<Rightarrow> settings | Some name \<Rightarrow> settings\<lparr>as_name := name\<rparr>);
     let settings = (case uao_hidden opt of None \<Rightarrow> settings | Some hidden \<Rightarrow> settings\<lparr>as_hidden := hidden\<rparr>);
     set_account_settings (acc_account_num account) settings store }"

definition set_name :: "Account \<Rightarrow> string \<Rightarrow> StoreMeta \<Rightarrow> StoreMeta option" where
  "set_name account name store =
     set_settings account \<lparr>uao_subaccount = 0, uao_name = Some name, uao_hidden = None\<rparr> store"

section \<open>What an account owns\<close>

text \<open>The number of confirmations of a transaction, 0 when it is not in a block.\<close>

definition confirmations :: "int \<Rightarrow> int option \<Rightarrow> int" where
  "confirmations tip_height height =
     (case height of None \<Rightarrow> 0 | Some h \<Rightarrow> wrap_u32 (wrap_u32 (tip_height - h) + 1))"

definition spent :: "RawAccountCache \<Rightarrow> BEOutPoint list" where
  "spent acc = concat (map (\<lambda>(_, txe). previous_outputs (ent_tx txe)) (ac_all_txs acc))"

text \<open>The numbered outputs whose script is one of the account's and that are not spent.\<close>

definition own_outputs ::
  "(BEScript, GdkPath) hmap \<Rightarrow> BEOutPoint list \<Rightarrow> ('a \<Rightarrow> BEScript) \<Rightarrow> (BEOutPoint \<times> 'a) list \<Rightarrow>
   (BEOutPoint \<times> 'a \<times> GdkPath) list" where
  "own_outputs paths spents script outputs =
     filter (\<lambda>(outpoint, _, _). outpoint \<notin> set spents)
       (List.map_filter (\<lambda>(outpoint, output).
          map_option (\<lambda>path. (outpoint, output, path)) (hm_get paths (script output))) outputs)"

definition btc_utxos ::
  "gdk_lib \<Rightarrow> RawAccountCache \<Rightarrow> BEOutPoint list \<Rightarrow> int option \<Rightarrow> BtcTx \<Rightarrow> GdkUtxos" where
  "btc_utxos L acc spents height tx =
     map (\<lambda>(outpoint, output, path).
       (outpoint, \<lparr>ui_asset = ''btc'', ui_value = bout_value output,
          ui_script = Script_Bitcoin (bout_script_pubkey output), ui_height = height, ui_path = path\<rparr>))
     (own_outputs (ac_paths acc) spents (\<lambda>x. Script_Bitcoin (bout_script_pubkey x))
       (map (\<lambda>(vout, output). (Out_Bitcoin (gl_btc_txid L tx, int vout), output))
         (filter (\<lambda>(_, output). DUST_VALUE < bout_value output) (enumerate 0 (btx_output tx)))))"

text \<open>
  An output of the policy asset below the dust limit and, on request, one that is not
  confidential are left out, as is one that could not be unblinded.
\<close>

definition elm_utxo ::
  "gdk_lib \<Rightarrow> RawAccountCache \<Rightarrow> bytes \<Rightarrow> bool \<Rightarrow> int option \<Rightarrow> BEOutPoint \<times> ElmTxOut \<times> GdkPath \<Rightarrow>
   (BEOutPoint \<times> UTXOInfo) option" where
  "elm_utxo L acc policy_asset confidential_utxos_only height e = (case e of (outpoint, output, path) \<Rightarrow>
     (case outpoint of
        Out_Elements el_outpoint \<Rightarrow>
          (case hm_get (ac_unblinded acc) el_outpoint of
             None \<Rightarrow> None
           | Some unblinded \<Rightarrow>
               if ub_value unblinded < DUST_VALUE \<and> ub_asset unblinded = policy_asset then None
               else if confidential_utxos_only \<and> \<not> ub_confidential unblinded then None
               else Some (outpoint, \<lparr>ui_asset = ub_asset_hex L unblinded, ui_value = ub_value unblinded,
                 ui_script = Script_Elements (eout_script_pubkey output), ui_height = height, ui_path = path\<rparr>))
      | Out_Bitcoin _ \<Rightarrow> None))"

definition elm_utxos ::
  "gdk_lib \<Rightarrow> RawAccountCache \<Rightarrow> BEOutPoint list \<Rightarrow> bytes \<Rightarrow> bool \<Rightarrow> int option \<Rightarrow> ElmTx \<Rightarrow> GdkUtxos" where
  "elm_utxos L acc spents policy_asset confidential_utxos_only height tx =
     List.map_filter (elm_utxo L acc policy_asset confidential_utxos_only height)
     (own_outputs (ac_paths acc) spents (\<lambda>x. Script_Elements (eout_script_pubkey x))
       (map (\<lambda>(vout, output). (Out_Elements (gl_elm_txid L tx, int vout), output)) (enumerate 0 (etx_output tx))))"

definition tx_utxos ::
  "gdk_lib \<Rightarrow> Network \<Rightarrow> RawAccountCache \<Rightarrow> BEOutPoint list \<Rightarrow> bool \<Rightarrow> int option \<Rightarrow> BETransaction \<Rightarrow> GdkError + GdkUtxos" where
  "tx_utxos L network acc spents confidential_utxos_only height tx =
     (case tx of
        Tx_Bitcoin tx \<Rightarrow> Inr (btc_utxos L acc spents height tx)
      | Tx_Elements tx \<Rightarrow>
          (case network_policy_asset_id L network of
             Inl e \<Rightarrow> Inl (G_Common e)
           | Inr policy_asset \<Rightarrow> Inr (elm_utxos L acc spents policy_asset confidential_utxos_only height tx)))"

definition utxos :: "gdk_lib \<Rightarrow> Account \<Rightarrow> int \<Rightarrow> bool \<Rightarrow> StoreMeta \<Rightarrow> GdkUtxos gres" where
  "utxos L account num_confs confidential_utxos_only store =
     gtry (Some (account_cache store (acc_account_num account))) (\<lambda>acc.
     let tip_height = fst (rc_tip (sm_cache store)); spents = spent acc in
     gtry (gfold (\<lambda>(txid, height) utxos.
         if confirmations tip_height height < num_confs then Some (Inr utxos)
         else gtry (gok_or (hm_get (ac_all_txs acc) txid) (G_Generic ''utxos no tx'')) (\<lambda>txe.
           gtry (Some (tx_utxos L (acc_network account) acc spents confidential_utxos_only height (ent_tx txe)))
             (\<lambda>us. Some (Inr (utxos @ us))))) (ac_heights acc) []) (\<lambda>utxos.
     Some (Inr (sort_key (\<lambda>u. - ui_value (snd u)) utxos))))"

definition balance :: "gdk_lib \<Rightarrow> Account \<Rightarrow> int \<Rightarrow> bool \<Rightarrow> StoreMeta \<Rightarrow> Balances gres" where
  "balance L account num_confs confidential_utxos_only store = do {
     net \<leftarrow> network_id (acc_network account);
     asset \<leftarrow> (case net of
         Net_Bitcoin _ \<Rightarrow> Some ''btc''
       | Net_Elements _ \<Rightarrow> net_policy_asset (acc_network account));
     gtry (utxos L account num_confs confidential_utxos_only store) (\<lambda>us.
       Some (Inr (fold (\<lambda>(_, info) result. hm_add_i64 (ui_asset info) (wrap_i64 (ui_value info)) result) us
         [(asset, 0)]))) }"

definition has_transactions :: "Account \<Rightarrow> StoreMeta \<Rightarrow> bool option" where
  "has_transactions account store =
     map_option (\<lambda>acc. ac_heights acc \<noteq> []) (expect_ok (account_cache store (acc_account_num account)))"

record AccountInfo =
  ai_account_num :: int
  ai_script_type :: ScriptType
  ai_settings :: AccountSettings
  ai_has_transactions :: bool
  ai_satoshi :: Balances

definition account_info :: "gdk_lib \<Rightarrow> Account \<Rightarrow> int \<Rightarrow> StoreMeta \<Rightarrow> AccountInfo gres" where
  "account_info L account num_confs store = do {
     settings \<leftarrow> get_account_settings store (acc_account_num account);
     has_txs \<leftarrow> has_transactions account store;
     gtry (balance L account num_confs False store) (\<lambda>satoshi.
       Some (Inr \<lparr>ai_account_num = acc_account_num account, ai_script_type = acc_script_type account,
         ai_settings = (case settings of None \<Rightarrow> default_account_settings | Some s \<Rightarrow> s),
         ai_has_transactions = has_txs, ai_satoshi = satoshi\<rparr>)) }"

section \<open>Requests and results\<close>

record AddressAmount =
  aa_address :: string
  aa_satoshi :: int
  aa_asset_id :: "string option"

record UnspentOut =
  un_address_type :: string
  un_block_height :: int
  un_pointer :: int
  un_pt_idx :: int
  un_satoshi :: int
  un_txhash :: string
  un_derivation_path :: GdkPath
  un_scriptpubkey :: BEScript

type_synonym GetUnspentOutputs = "(string, UnspentOut list) hmap"

definition new_unspent_out :: "gdk_lib \<Rightarrow> BEOutPoint \<times> UTXOInfo \<Rightarrow> UnspentOut" where
  "new_unspent_out L u = (case u of (outpoint, info) \<Rightarrow>
     \<lparr>un_address_type = ''p2shwpkh'',
      un_block_height = (case ui_height info of None \<Rightarrow> 0 | Some h \<Rightarrow> h),
      un_pointer = (if ui_path info = [] then 0 else case last (ui_path info) of Normal index \<Rightarrow> index | Hardened _ \<Rightarrow> 0),
      un_pt_idx = outpoint_vout outpoint, un_satoshi = ui_value info,
      un_txhash = gl_txid_hex L (txid_into_bitcoin (outpoint_txid outpoint)),
      un_derivation_path = ui_path info, un_scriptpubkey = ui_script info\<rparr>)"

text \<open>\<^verbatim>\<open>ElectrumSession::get_unspent_outputs\<close>, for the account of the request.\<close>

definition get_unspent_outputs :: "gdk_lib \<Rightarrow> Account \<Rightarrow> int option \<Rightarrow> bool option \<Rightarrow> StoreMeta \<Rightarrow> GetUnspentOutputs gres" where
  "get_unspent_outputs L account num_confs confidential store =
     gtry (utxos L account (case num_confs of None \<Rightarrow> 0 | Some n \<Rightarrow> n) (confidential = Some True) store) (\<lambda>us.
       Some (Inr (fold (\<lambda>u m.
         let asset = ui_asset (snd u); cur = (case hm_get m asset of None \<Rightarrow> [] | Some v \<Rightarrow> v) in
         hm_insert asset (cur @ [new_unspent_out L u]) m) us [])))"

definition utxo_of_unspent :: "gdk_lib \<Rightarrow> string \<Rightarrow> UnspentOut \<Rightarrow> CommonError + (BEOutPoint \<times> UTXOInfo)" where
  "utxo_of_unspent L asset e =
     (case gl_txid_parse L (un_txhash e) of
        None \<Rightarrow> Inl (C_Generic ''hex'')
      | Some txid \<Rightarrow>
          Inr (if asset = ''btc'' then Out_Bitcoin (txid, un_pt_idx e) else Out_Elements (txid, un_pt_idx e),
            \<lparr>ui_asset = asset, ui_value = un_satoshi e, ui_script = un_scriptpubkey e,
             ui_height = (if un_block_height e = 0 then None else Some (un_block_height e)),
             ui_path = un_derivation_path e\<rparr>))"

definition utxos_of_unspents :: "gdk_lib \<Rightarrow> GetUnspentOutputs \<Rightarrow> (CommonError + GdkUtxos) option" where
  "utxos_of_unspents L m =
     gfold (\<lambda>(asset, v) us. gfold (\<lambda>e us.
       gtry (Some (utxo_of_unspent L asset e)) (\<lambda>u. Some (Inr (us @ [u])))) v us) m []"

text \<open>Of the transaction that a request replaces, its hexadecimal text and its memo are read.\<close>

record GdkCreateTransaction =
  ct_addressees :: "AddressAmount list"
  ct_fee_rate :: "int option"
  ct_subaccount :: int
  ct_send_all :: bool
  ct_previous_transaction :: "(string \<times> string) option"
  ct_memo :: "string option"
  ct_utxos :: "GetUnspentOutputs option"
  ct_num_confs :: int
  ct_confidential_utxos_only :: bool

text \<open>
  \<^verbatim>\<open>TransactionMeta\<close>, less the text of the timestamp, the virtual size and the fields that
  are constant.
\<close>

record GdkTransactionMeta =
  tm_create_transaction :: "GdkCreateTransaction option"
  tm_hex :: string
  tm_txid :: string
  tm_height :: "int option"
  tm_timestamp :: int
  tm_addressees_read_only :: bool
  tm_satoshi :: Balances
  tm_fee :: int
  tm_network :: "BitcoinNetwork option"
  tm_type :: string
  tm_changes_used :: "int option"
  tm_rbf_optin :: bool
  tm_user_signed :: bool
  tm_spv_verified :: SPVVerifyResult
  tm_weight :: nat
  tm_size :: nat

definition meta_of_tx :: "gdk_lib \<Rightarrow> int \<Rightarrow> BETransaction \<Rightarrow> GdkTransactionMeta" where
  "meta_of_tx L now tx =
     \<lparr>tm_create_transaction = None, tm_hex = gl_hex_encode L (tx_serialize L tx),
      tm_txid = gl_txid_hex L (txid_into_bitcoin (tx_id L tx)), tm_height = None, tm_timestamp = now,
      tm_addressees_read_only = False, tm_satoshi = [], tm_fee = 0, tm_network = None, tm_type = ''unknown'',
      tm_changes_used = None, tm_rbf_optin = rbf_optin tx, tm_user_signed = False, tm_spv_verified = Spv_InProgress,
      tm_weight = get_weight L tx, tm_size = length (tx_serialize L tx)\<rparr>"

definition meta_of_entry :: "gdk_lib \<Rightarrow> int \<Rightarrow> BETransactionEntry \<Rightarrow> GdkTransactionMeta" where
  "meta_of_entry L now txe = (meta_of_tx L now (ent_tx txe))\<lparr>tm_weight := ent_weight txe, tm_size := ent_size txe\<rparr>"

definition new_meta ::
  "GdkTransactionMeta \<Rightarrow> int \<Rightarrow> int option \<Rightarrow> int option \<Rightarrow> Balances \<Rightarrow> int \<Rightarrow> BitcoinNetwork \<Rightarrow> string \<Rightarrow>
   GdkCreateTransaction \<Rightarrow> bool \<Rightarrow> SPVVerifyResult \<Rightarrow> GdkTransactionMeta" where
  "new_meta wgtx now height timestamp satoshi fee network tx_kind create_transaction user_signed spv_verified =
     wgtx\<lparr>tm_create_transaction := Some create_transaction, tm_height := height,
       tm_timestamp := (case timestamp of None \<Rightarrow> now | Some t \<Rightarrow> t), tm_satoshi := satoshi,
       tm_network := Some network, tm_fee := fee, tm_type := tx_kind, tm_user_signed := user_signed,
       tm_spv_verified := spv_verified\<rparr>"

section \<open>The list of transactions\<close>

text \<open>
  \<^verbatim>\<open>sort_by\<close> with a comparison, the first argument being the relation of an element that
  stays before another.
\<close>

fun insort_by :: "('a \<Rightarrow> 'a \<Rightarrow> bool) \<Rightarrow> 'a \<Rightarrow> 'a list \<Rightarrow> 'a list" where
  "insort_by le x [] = [x]"
| "insort_by le x (y # ys) = (if le x y then x # y # ys else y # insort_by le x ys)"

definition sort_by :: "('a \<Rightarrow> 'a \<Rightarrow> bool) \<Rightarrow> 'a list \<Rightarrow> 'a list" where
  "sort_by le xs = foldr (insort_by le) xs []"

text \<open>Newest first: unconfirmed, then by descending height, ties by descending transaction id.\<close>

fun txid_le :: "gdk_lib \<Rightarrow> BETxid \<Rightarrow> BETxid \<Rightarrow> bool" where
  "txid_le L (Txid_Bitcoin a) (Txid_Bitcoin b) = gl_txid_le L a b"
| "txid_le L (Txid_Bitcoin a) (Txid_Elements b) = True"
| "txid_le L (Txid_Elements a) (Txid_Bitcoin b) = False"
| "txid_le L (Txid_Elements a) (Txid_Elements b) = gl_txid_le L a b"

definition sort_height :: "int option \<Rightarrow> int" where
  "sort_height h = (case h of None \<Rightarrow> 2 ^ 32 - 1 | Some h \<Rightarrow> h)"

definition newer_tx :: "gdk_lib \<Rightarrow> BETxid \<times> int option \<Rightarrow> BETxid \<times> int option \<Rightarrow> bool" where
  "newer_tx L a b =
     (if sort_height (snd a) = sort_height (snd b) then txid_le L (fst b) (fst a)
      else sort_height (snd b) < sort_height (snd a))"

text \<open>The recipients that are not the account's own.\<close>

definition list_addressees :: "gdk_lib \<Rightarrow> NetworkId \<Rightarrow> RawAccountCache \<Rightarrow> BETransaction \<Rightarrow> AddressAmount list option" where
  "list_addressees L net acc tx =
     foldM (\<lambda>i addressees. do {
       script \<leftarrow> output_script tx (int i);
       if \<not> script_is_empty script \<and> \<not> hm_contains (ac_paths acc) script
       then do {
         address \<leftarrow> output_address L tx (int i) net;
         Some (addressees @ [\<lparr>aa_address = (case address of None \<Rightarrow> [] | Some a \<Rightarrow> a), aa_satoshi = 0, aa_asset_id = None\<rparr>]) }
       else Some addressees }) [0..<output_len tx] []"

definition default_create_transaction :: GdkCreateTransaction where
  "default_create_transaction =
     \<lparr>ct_addressees = [], ct_fee_rate = None, ct_subaccount = 0, ct_send_all = False,
      ct_previous_transaction = None, ct_memo = None, ct_utxos = None, ct_num_confs = 0,
      ct_confidential_utxos_only = False\<rparr>"

definition tx_type :: "Balances \<Rightarrow> bool \<Rightarrow> string \<times> bool" where
  "tx_type satoshi redeposit =
     (let negatives = length (filter (\<lambda>(_, v). v < 0) satoshi);
          positives = length (filter (\<lambda>(_, v). 0 < v) satoshi)
      in if redeposit then (''redeposit'', True)
         else if negatives < positives then (''incoming'', False)
         else (''outgoing'', True))"

definition list_tx_item ::
  "gdk_lib \<Rightarrow> int \<Rightarrow> Account \<Rightarrow> StoreMeta \<Rightarrow> RawAccountCache \<Rightarrow> BETxid \<times> int option \<Rightarrow>
   GdkTransactionMeta gres" where
  "list_tx_item L now account store acc e = (case e of (txid, height) \<Rightarrow>
     gtry (gok_or (hm_get (ac_all_txs acc) txid) (G_Generic ''list_tx no tx'')) (\<lambda>txe. do {
       let tx = ent_tx txe;
       let header = Option.bind height (hm_get (rc_headers (sm_cache store)));
       net \<leftarrow> network_id (acc_network account);
       addressees \<leftarrow> list_addressees L net acc tx;
       let create_transaction = default_create_transaction\<lparr>ct_addressees := addressees, ct_memo := get_memo store txid\<rparr>;
       gtry (gmap_err G_Common (tx_fee L tx (ac_all_txs acc) (ac_unblinded acc) (res_ok (network_policy_asset L (acc_network account)))))
         (\<lambda>fee. do {
         satoshi \<leftarrow> my_balance_changes L tx (ac_all_txs acc) (ac_paths acc) (ac_unblinded acc);
         redeposit \<leftarrow> is_redeposit L tx (ac_paths acc) (ac_all_txs acc);
         let (tx_kind, user_signed) = tx_type satoshi redeposit;
         let spv_verified = (if net_spv_enabled (acc_network account) = Some True
           then spv_verification_status store (acc_account_num account) txid else Spv_Disabled);
         Some (Inr (new_meta (meta_of_entry L now txe) now height (map_option header_time header) satoshi fee
           (case get_bitcoin_network net of None \<Rightarrow> Mainnet | Some n \<Rightarrow> n) tx_kind create_transaction user_signed
           spv_verified)) }) }))"

definition list_tx ::
  "gdk_lib \<Rightarrow> int \<Rightarrow> Account \<Rightarrow> nat \<Rightarrow> nat \<Rightarrow> int option \<Rightarrow> StoreMeta \<Rightarrow> GdkTransactionMeta list gres" where
  "list_tx L now account opt_first opt_count opt_num_confs store =
     gtry (Some (account_cache store (acc_account_num account))) (\<lambda>acc.
     let tip_height = fst (rc_tip (sm_cache store));
         num_confs = (case opt_num_confs of None \<Rightarrow> 0 | Some n \<Rightarrow> n);
         my_txids = sort_by (newer_tx L) (filter (\<lambda>(_, height). num_confs \<le> confirmations tip_height height) (ac_heights acc))
     in gfold (\<lambda>e txs. gtry (list_tx_item L now account store acc e) (\<lambda>t. Some (Inr (txs @ [t]))))
          (take opt_count (drop opt_first my_txids)) [])"

end
