(* ===== verification/Gdk_Create.thy ===== *)
theory Gdk_Create
  imports Gdk_Account
begin

text \<open>
  \<^verbatim>\<open>gdk_electrum/src/account.rs\<close>, second part: \<^verbatim>\<open>create_tx\<close> builds a payment and \<^verbatim>\<open>sign\<close>
  blinds and signs it.  A payment is built in three steps, one definition each: the requested
  outputs (or the outputs of the transaction that is replaced), inputs until nothing is needed
  (\<open>select_inputs\<close>), and the change.
\<close>

section \<open>Checks of a request\<close>

definition check_address :: "gdk_lib \<Rightarrow> NetworkId \<Rightarrow> string \<Rightarrow> GdkError + unit" where
  "check_address L net address =
     (case net of
        Net_Bitcoin network \<Rightarrow>
          (case gl_btc_address L address of
             Inr a \<Rightarrow>
               if ba_network a = network \<or> (ba_network a = Testnet \<and> network = Regtest) then Inr ()
               else (case ba_witness_version a of
                   Some v \<Rightarrow> if 0 < v then Inl G_InvalidAddress else Inl G_InvalidAddress
                 | None \<Rightarrow> Inl G_InvalidAddress)
           | Inl _ \<Rightarrow> Inl G_InvalidAddress)
      | Net_Elements network \<Rightarrow>
          (case gl_elm_address L address of
             Some a \<Rightarrow> if ea_network a = network then Inr () else Inl G_InvalidAddress
           | None \<Rightarrow> Inl G_InvalidAddress))"

definition check_addresses :: "gdk_lib \<Rightarrow> NetworkId \<Rightarrow> AddressAmount list \<Rightarrow> unit gres" where
  "check_addresses L net addressees =
     gfold (\<lambda>a _. Some (check_address L net (aa_address a))) addressees ()"

text \<open>The checks of a request that does not replace a transaction.\<close>

definition check_new_request :: "NetworkId \<Rightarrow> Network \<Rightarrow> GdkCreateTransaction \<Rightarrow> GdkError + unit" where
  "check_new_request net network request =
     (let addressees = ct_addressees request; send_all = ct_send_all request in
      if addressees = [] then Inl G_EmptyAddressees
      else if \<not> send_all \<and> list_ex (\<lambda>a. aa_satoshi a = 0) addressees then Inl G_InvalidAmount
      else if \<not> send_all \<and> list_ex (\<lambda>a. aa_satoshi a \<le> DUST_VALUE \<and>
          (case net of Net_Bitcoin _ \<Rightarrow> True | Net_Elements _ \<Rightarrow> aa_asset_id a = net_policy_asset network)) addressees
      then Inl G_InvalidAmount
      else case net of
          Net_Elements _ \<Rightarrow> if list_ex (\<lambda>a. aa_asset_id a = None) addressees then Inl G_AssetEmpty else Inr ()
        | Net_Bitcoin _ \<Rightarrow> Inr ())"

text \<open>
  The transaction that is replaced, without its change; the address of the change is kept.
\<close>

definition strip_change ::
  "gdk_lib \<Rightarrow> NetworkId \<Rightarrow> RawAccountCache \<Rightarrow> string \<Rightarrow> BETransaction \<Rightarrow> int \<Rightarrow> BEScript \<Rightarrow> string option \<Rightarrow>
   (string, string) hmap \<Rightarrow> (bool \<times> (string, string) hmap) option" where
  "strip_change L net acc policy_asset prev_tx vout script asset change_addresses = do {
     chain \<leftarrow> get_wallet_chain_type acc script;
     if (asset = None \<or> asset = Some policy_asset) \<and> chain = Some 1
     then do {
       address \<leftarrow> output_address L prev_tx vout net;
       change_address \<leftarrow> address;
       Some (False, hm_insert policy_asset change_address change_addresses) }
     else Some (True, change_addresses) }"

definition replaced_addressees :: "gdk_lib \<Rightarrow> BitcoinNetwork \<Rightarrow> BtcTx \<Rightarrow> AddressAmount list" where
  "replaced_addressees L net tx =
     List.map_filter (\<lambda>x. map_option (\<lambda>a. \<lparr>aa_address = a, aa_satoshi = bout_value x, aa_asset_id = None\<rparr>)
       (gl_btc_from_script L (bout_script_pubkey x) net)) (btx_output tx)"

text \<open>
  The request as it goes on, the template of the transaction and the change addresses: for a
  replacement from the previous transaction, otherwise after the checks.
\<close>

definition prepare_request ::
  "gdk_lib \<Rightarrow> NetworkId \<Rightarrow> Account \<Rightarrow> GdkCreateTransaction \<Rightarrow> StoreMeta \<Rightarrow>
   (GdkCreateTransaction \<times> BETransaction option \<times> (string, string) hmap) gres" where
  "prepare_request L net account request store =
     (let network = acc_network account in
      case ct_previous_transaction request of
        Some (prev_hex, prev_memo) \<Rightarrow>
          if ct_send_all request \<or> net_liquid network then Some (Inl G_InvalidReplacementRequest)
          else gtry (gmap_err G_Common (Some (tx_from_hex L prev_hex net))) (\<lambda>prev_tx.
            let policy_asset = (case net_policy_asset network of None \<Rightarrow> ''btc'' | Some a \<Rightarrow> a) in
            gtry (Some (account_cache store (acc_account_num account))) (\<lambda>acc. do {
              (template_tx, change_addresses) \<leftarrow>
                filter_outputs L prev_tx (ac_unblinded acc) (strip_change L net acc policy_asset prev_tx) [];
              case (template_tx, net) of
                (Tx_Bitcoin tx, Net_Bitcoin n) \<Rightarrow>
                  let request = request\<lparr>ct_addressees := replaced_addressees L n tx\<rparr>;
                      request = (if ct_memo request = None \<and> prev_memo \<noteq> [] then request\<lparr>ct_memo := Some prev_memo\<rparr> else request)
                  in Some (Inr (request, Some template_tx, change_addresses))
              | _ \<Rightarrow> Some (Inl G_InvalidReplacementRequest) }))
      | None \<Rightarrow> gtry (Some (check_new_request net network request)) (\<lambda>_. Some (Inr (request, None, []))))"

text \<open>\<^verbatim>\<open>send_all\<close>: the amount is what the outputs of the asset hold, less the fee.\<close>

definition send_all_amount ::
  "gdk_lib \<Rightarrow> NetworkId \<Rightarrow> Account \<Rightarrow> f64 \<Rightarrow> GdkCreateTransaction \<Rightarrow> GdkUtxos \<Rightarrow> GdkCreateTransaction gres" where
  "send_all_amount L net account fee_rate request coins =
     (case ct_addressees request of
        [out] \<Rightarrow>
          let asset = (case aa_asset_id out of None \<Rightarrow> ''btc'' | Some a \<Rightarrow> a);
              all_utxos = filter (\<lambda>(_, i). ui_asset i = asset) coins;
              total_amount_utxos = u64_sum (map (\<lambda>(_, i). ui_value i) all_utxos);
              finish = (\<lambda>to_send. Some (Inr (request\<lparr>ct_addressees := [out\<lparr>aa_satoshi := to_send\<rparr>]\<rparr>)))
          in if asset = ''btc'' \<or> Some asset = net_policy_asset (acc_network account)
             then do {
               dummy_tx \<leftarrow> foldM (\<lambda>u tx. add_input (fst u) tx) all_utxos (new_tx net);
               gtry (gmap_err (\<lambda>_. G_InvalidAddress) (add_output L (aa_address out) (aa_satoshi out) (aa_asset_id out) dummy_tx))
                 (\<lambda>dummy_tx.
                   let fee = wrap_u64 (estimated_fee L dummy_tx fee_rate 0 (acc_script_type account) + 2) in
                   gtry (gok_or (u64_checked_sub total_amount_utxos fee) G_InsufficientFunds) finish) }
             else finish total_amount_utxos
      | _ \<Rightarrow> Some (Inl G_SendAll))"

section \<open>The three steps\<close>

definition requested_outputs :: "gdk_lib \<Rightarrow> NetworkId \<Rightarrow> AddressAmount list \<Rightarrow> BETransaction gres" where
  "requested_outputs L net addressees =
     gfold (\<lambda>out tx. gmap_err (\<lambda>_. G_InvalidAddress)
       (add_output L (aa_address out) (aa_satoshi out) (aa_asset_id out) tx)) addressees (new_tx net)"

text \<open>
  The outputs that a pass of the selection takes: on Bitcoin all that have the script of the
  chosen one, on Liquid the chosen one alone.
\<close>

definition taken_utxos :: "NetworkId \<Rightarrow> GdkUtxos \<Rightarrow> BEOutPoint \<times> UTXOInfo \<Rightarrow> GdkUtxos" where
  "taken_utxos net coins utxo =
     (case net of
        Net_Bitcoin _ \<Rightarrow> filter (\<lambda>other. ui_script (snd other) = ui_script (snd utxo)) coins
      | Net_Elements _ \<Rightarrow> [utxo])"

definition asset_utxos :: "string \<Rightarrow> BEOutPoint list \<Rightarrow> GdkUtxos \<Rightarrow> GdkUtxos" where
  "asset_utxos asset used_utxo coins =
     sort_key (\<lambda>u. ui_value (snd u)) (filter (\<lambda>(x, i). ui_asset i = asset \<and> x \<notin> set used_utxo) coins)"

lemma asset_utxos_in: "u \<in> set (asset_utxos asset used coins) \<Longrightarrow>
    u \<in> set coins \<and> ui_asset (snd u) = asset \<and> fst u \<notin> set used"
  by (auto simp: asset_utxos_def)

lemma taken_utxos_self: "u \<in> set coins \<Longrightarrow> u \<in> set (taken_utxos net coins u)"
  by (simp add: taken_utxos_def split: NetworkId.split)

text \<open>Step 2: inputs are added until the transaction needs nothing or nothing is left.\<close>

function select_inputs ::
  "gdk_lib \<Rightarrow> NetworkId \<Rightarrow> f64 \<Rightarrow> bool \<Rightarrow> string option \<Rightarrow> RawAccountCache \<Rightarrow> ScriptType \<Rightarrow> GdkUtxos \<Rightarrow>
   BEOutPoint list \<Rightarrow> BETransaction \<Rightarrow> BETransaction gres" where
  "select_inputs L net fee_rate send_all policy acc script_type coins used_utxo tx =
     (case needs L tx fee_rate send_all policy (ac_all_txs acc) (ac_unblinded acc) script_type of
        None \<Rightarrow> None
      | Some ns \<Rightarrow>
          if ns = [] then Some (Inr tx)
          else let us = asset_utxos (av_asset (last ns)) used_utxo coins in
            if us = [] then Some (Inl G_InsufficientFunds)
            else let taken = taken_utxos net coins (last us) in
              case foldM (\<lambda>u tx. add_input (fst u) tx) taken tx of
                None \<Rightarrow> None
              | Some tx' \<Rightarrow>
                  select_inputs L net fee_rate send_all policy acc script_type coins (map fst taken @ used_utxo) tx')"
  by pat_completeness auto
termination
proof (relation "measure (\<lambda>(_, _, _, _, _, _, _, coins, used_utxo, _). length (filter (\<lambda>u. fst u \<notin> set used_utxo) coins))")
  fix L :: gdk_lib and net fee_rate send_all policy acc script_type and coins :: GdkUtxos and used_utxo tx
    and ns us taken and tx' :: BETransaction
  assume us: "us = asset_utxos (av_asset (last ns)) used_utxo coins" "us \<noteq> []"
    and taken: "taken = taken_utxos net coins (last us)"
  from us have l: "last us \<in> set coins" "fst (last us) \<notin> set used_utxo"
    using asset_utxos_in last_in_set by metis+
  have "fst (last us) \<in> set (map fst taken)" using taken_utxos_self[OF l(1), of net] taken by auto
  with l show "((L, net, fee_rate, send_all, policy, acc, script_type, coins, map fst taken @ used_utxo, tx'),
      L, net, fee_rate, send_all, policy, acc, script_type, coins, used_utxo, tx)
    \<in> measure (\<lambda>(_, _, _, _, _, _, _, coins, used_utxo, _). length (filter (\<lambda>u. fst u \<notin> set used_utxo) coins))"
    by (auto intro: length_filter_strict[of "last us"])
qed simp

declare select_inputs.simps [simp del]

text \<open>Step 3: one output per change, to a kept address or to the next address of the change chain.\<close>

definition add_change ::
  "gdk_lib \<Rightarrow> gdk_keys \<Rightarrow> Account \<Rightarrow> RawAccountCache \<Rightarrow> nat \<times> AssetValue \<Rightarrow> BETransaction \<times> (string, string) hmap \<Rightarrow>
   (BETransaction \<times> (string, string) hmap) gres" where
  "add_change L K account acc ic s = (case (ic, s) of ((i, change), (tx, change_addresses)) \<Rightarrow>
     gtry (case hm_get change_addresses (av_asset change) of
         Some a \<Rightarrow> Some (Inr a)
       | None \<Rightarrow> gtry (derive_address K account True (wrap_u32 (ix_internal (ac_indexes acc) + int i + 1)))
           (\<lambda>a. Some (Inr (ga_text a)))) (\<lambda>change_address.
     gtry (gmap_err G_Common (add_output L change_address (av_satoshi change) (Some (av_asset change)) tx)) (\<lambda>tx.
     Some (Inr (tx, hm_remove (av_asset change) change_addresses)))))"

definition add_changes ::
  "gdk_lib \<Rightarrow> gdk_keys \<Rightarrow> Account \<Rightarrow> RawAccountCache \<Rightarrow> AssetValue list \<Rightarrow> (string, string) hmap \<Rightarrow> BETransaction \<Rightarrow>
   BETransaction gres" where
  "add_changes L K account acc cs change_addresses tx =
     gtry (gfold (add_change L K account acc) (enumerate 0 cs) (tx, change_addresses)) (\<lambda>(tx, _). Some (Inr tx))"

section \<open>\<^verbatim>\<open>create_tx\<close>\<close>

definition fee_rate_of :: "NetworkId \<Rightarrow> GdkCreateTransaction \<Rightarrow> int" where
  "fee_rate_of net request =
     (case ct_fee_rate request of
        Some r \<Rightarrow> r
      | None \<Rightarrow> (case net of Net_Bitcoin _ \<Rightarrow> 1000 | Net_Elements _ \<Rightarrow> 100))"

text \<open>The steps after the outputs are known: the transaction, its fee and the number of changes.\<close>

definition fund_tx ::
  "gdk_lib \<Rightarrow> gdk_keys \<Rightarrow> NetworkId \<Rightarrow> Account \<Rightarrow> f64 \<Rightarrow> bool \<Rightarrow> RawAccountCache \<Rightarrow> GdkUtxos \<Rightarrow> (string, string) hmap \<Rightarrow>
   BETransaction \<Rightarrow> (BETransaction \<times> int \<times> nat) gres" where
  "fund_tx L K net account fee_rate send_all acc coins change_addresses tx =
     (let policy = net_policy_asset (acc_network account) in
      gtry (select_inputs L net fee_rate send_all policy acc (acc_script_type account) coins [] tx) (\<lambda>tx. do {
        more_changes \<leftarrow> estimated_changes L tx send_all (ac_all_txs acc) (ac_unblinded acc);
        let fee = estimated_fee L tx fee_rate more_changes (acc_script_type account);
        cs \<leftarrow> changes L tx fee policy (ac_all_txs acc) (ac_unblinded acc);
        gtry (add_changes L K account acc cs change_addresses tx) (\<lambda>tx.
          let tx = scramble L tx; policy_asset = res_ok (network_policy_asset L (acc_network account)) in
          gtry (gmap_err G_Common (tx_fee L tx (ac_all_txs acc) (ac_unblinded acc) policy_asset)) (\<lambda>fee_val.
          gtry (gmap_err G_Common (add_fee_if_elements fee_val policy_asset tx)) (\<lambda>tx.
          Some (Inr (tx, fee_val, length cs))))) }))"

definition create_tx_at ::
  "gdk_lib \<Rightarrow> gdk_keys \<Rightarrow> int \<Rightarrow> Account \<Rightarrow> GdkCreateTransaction \<Rightarrow> StoreMeta \<Rightarrow> (BETransaction \<times> GdkTransactionMeta) gres" where
  "create_tx_at L K now account request store = do {
     let network = acc_network account;
     net \<leftarrow> network_id network;
     let fee_rate_sat_kb = fee_rate_of net request;
     let request = request\<lparr>ct_fee_rate := Some fee_rate_sat_kb\<rparr>;
     let fee_rate = f64_div (f64_of_int fee_rate_sat_kb) (f64_lit 1000);
     gtry (check_addresses L net (ct_addressees request)) (\<lambda>_.
     let send_all = ct_send_all request in
     gtry (gensure (send_all \<or> \<not> list_ex (\<lambda>a. aa_satoshi a = 0) (ct_addressees request)) G_InvalidAmount) (\<lambda>_.
     gtry (prepare_request L net account request store) (\<lambda>(request, template_tx, change_addresses).
     gtry (case ct_utxos request of
         None \<Rightarrow> utxos L account (ct_num_confs request) (ct_confidential_utxos_only request) store
       | Some us \<Rightarrow> gmap_err G_Common (utxos_of_unspents L us)) (\<lambda>coins.
     gtry (if send_all then send_all_amount L net account fee_rate request coins else Some (Inr request)) (\<lambda>request.
     gtry (case template_tx of
         Some tx \<Rightarrow> Some (Inr tx)
       | None \<Rightarrow> requested_outputs L net (ct_addressees request)) (\<lambda>tx.
     gtry (Some (account_cache store (acc_account_num account))) (\<lambda>acc.
     gtry (fund_tx L K net account fee_rate send_all acc coins change_addresses tx) (\<lambda>(tx, fee_val, num_changes). do {
       satoshi \<leftarrow> my_balance_changes L tx (ac_all_txs acc) (ac_paths acc) (ac_unblinded acc);
       let satoshi = map (\<lambda>(a, v). (a, i64_abs v)) satoshi;
       let created_tx = new_meta (meta_of_tx L now tx) now None None satoshi fee_val
         (case get_bitcoin_network net of None \<Rightarrow> Mainnet | Some n \<Rightarrow> n) ''outgoing'' request True Spv_InProgress;
       Some (Inr (tx, created_tx\<lparr>tm_changes_used := Some (int num_changes),
         tm_addressees_read_only := ct_previous_transaction request \<noteq> None\<rparr>)) })))))))) }"

text \<open>\<^verbatim>\<open>Account::create_tx\<close>; the transaction itself is returned beside what describes it.\<close>

definition gdk_create_tx ::
  "gdk_lib \<Rightarrow> gdk_keys \<Rightarrow> int \<Rightarrow> Account \<Rightarrow> GdkCreateTransaction \<Rightarrow> StoreMeta \<Rightarrow> (BETransaction \<times> GdkTransactionMeta) gres" where
  "gdk_create_tx L K now account request store =
     (if ct_subaccount request \<noteq> acc_account_num account
      then Some (Inl (G_InvalidSubaccount (ct_subaccount request)))
      else create_tx_at L K now account request store)"

end
