(* ===== verification/Gdk_Sign.thy ===== *)
theory Gdk_Sign
  imports Gdk_Create
begin

text \<open>
  \<^verbatim>\<open>gdk_electrum/src/account.rs\<close>, third part: blinding and signing (\<^verbatim>\<open>blind_tx\<close>,
  \<^verbatim>\<open>internal_sign_bitcoin\<close>, \<^verbatim>\<open>internal_sign_elements\<close>, \<^verbatim>\<open>sign\<close>) and the check of the
  account's own signatures (\<^verbatim>\<open>verify_own_txs\<close>).  The commitments and proofs of \<^verbatim>\<open>libwally\<close>
  and the random numbers are parameters, the fields of \<open>gdk_blind\<close>.
\<close>

section \<open>Blinding\<close>

record gdk_blind =
  gb_random_abf :: "nat \<Rightarrow> bytes"  \<comment> \<open>the random blinding factors, by output\<close>
  gb_random_vbf :: "nat \<Rightarrow> bytes"
  gb_ephemeral :: "nat \<Rightarrow> bytes"
  gb_ephemeral_pub :: "bytes \<Rightarrow> char \<times> bytes"
  gb_generator :: "bytes \<Rightarrow> bytes \<Rightarrow> ConfAsset"
  gb_generator_ser :: "ConfAsset \<Rightarrow> bytes"
  gb_final_vbf :: "int list \<Rightarrow> nat \<Rightarrow> bytes \<Rightarrow> bytes \<Rightarrow> bytes"
  gb_value_commitment :: "int \<Rightarrow> bytes \<Rightarrow> ConfAsset \<Rightarrow> ConfValue"
  gb_public_key :: "char \<Rightarrow> bytes \<Rightarrow> bytes option"
  gb_provably_unspendable :: "bytes \<Rightarrow> bool"
  gb_rangeproof :: "int \<Rightarrow> bytes \<Rightarrow> bytes \<Rightarrow> bytes \<Rightarrow> bytes \<Rightarrow> bytes \<Rightarrow> ConfValue \<Rightarrow> bytes \<Rightarrow> ConfAsset \<Rightarrow> int \<Rightarrow> int \<Rightarrow> int \<Rightarrow> bytes"
    \<comment> \<open>value, blinding key, ephemeral key, asset, abf, vbf, commitment, script, generator, minimum, exponent, bits\<close>
  gb_surjectionproof :: "bytes \<Rightarrow> bytes \<Rightarrow> ConfAsset \<Rightarrow> bytes \<Rightarrow> bytes \<Rightarrow> bytes \<Rightarrow> bytes \<Rightarrow> nat \<Rightarrow> bytes"
    \<comment> \<open>asset, abf, generator, seed, assets, abfs and generators of the inputs, their number\<close>

record blind_inputs =
  bi_values :: "int list"
  bi_assets :: bytes
  bi_abfs :: bytes
  bi_vbfs :: bytes
  bi_ags :: bytes

definition collect_inputs :: "gdk_blind \<Rightarrow> RawAccountCache \<Rightarrow> ElmTx \<Rightarrow> blind_inputs gres" where
  "collect_inputs B acc tx =
     gfold (\<lambda>input s.
       gtry (gok_or (hm_get (ac_unblinded acc) (ein_previous_output input)) (G_Generic ''cannot find unblinded values''))
         (\<lambda>u. Some (Inr (s\<lparr>bi_values := bi_values s @ [ub_value u], bi_assets := bi_assets s @ ub_asset u,
           bi_abfs := bi_abfs s @ ub_abf u, bi_vbfs := bi_vbfs s @ ub_vbf u,
           bi_ags := bi_ags s @ gb_generator_ser B (gb_generator B (ub_asset u) (ub_abf u))\<rparr>))))
       (etx_input tx) \<lparr>bi_values = [], bi_assets = [], bi_abfs = [], bi_vbfs = [], bi_ags = []\<rparr>"

definition blind_output ::
  "gdk_lib \<Rightarrow> gdk_blind \<Rightarrow> int \<Rightarrow> int \<Rightarrow> blind_inputs \<Rightarrow> nat \<Rightarrow> bytes list \<Rightarrow> bytes list \<Rightarrow> nat \<times> ElmTxOut \<Rightarrow> ElmTxOut option" where
  "blind_output L B ct_exp ct_bits ins in_num output_abfs output_vbfs io = (case io of (i, output) \<Rightarrow>
     if gl_is_fee L output then Some output
     else (case (eout_value output, eout_asset output, eout_nonce output) of
         (Value_Explicit value, Asset_Explicit asset, Nonce_Confidential n0 n1) \<Rightarrow> do {
           blinding_pubkey \<leftarrow> gb_public_key B n0 n1;
           let ephemeral_sk = gb_ephemeral B i;
           output_abf \<leftarrow> vec_at output_abfs (int i);
           output_vbf \<leftarrow> vec_at output_vbfs (int i);
           let generator = gb_generator B asset output_abf;
           let commitment = gb_value_commitment B value output_vbf generator;
           let min_value = (if gb_provably_unspendable B (eout_script_pubkey output) then 0 else 1);
           Some (output\<lparr>
             eout_nonce := (case gb_ephemeral_pub B ephemeral_sk of (b, bs) \<Rightarrow> Nonce_Confidential b bs),
             eout_asset := generator, eout_value := commitment,
             eout_surjection_proof := gb_surjectionproof B asset output_abf generator output_abf
               (bi_assets ins) (bi_abfs ins) (bi_ags ins) in_num,
             eout_rangeproof := gb_rangeproof B value blinding_pubkey ephemeral_sk asset output_abf output_vbf
               commitment (eout_script_pubkey output) generator min_value ct_exp ct_bits\<rparr>) }
       | _ \<Rightarrow> None))"

text \<open>
  A transaction has at least two outputs here: with fewer \<^verbatim>\<open>out_num - 2\<close> wraps and the
  allocation of the blinding factors fails.
\<close>

definition blind_tx :: "gdk_lib \<Rightarrow> gdk_blind \<Rightarrow> Account \<Rightarrow> RawAccountCache \<Rightarrow> ElmTx \<Rightarrow> ElmTx gres" where
  "blind_tx L B account acc tx =
     gtry (collect_inputs B acc tx) (\<lambda>ins. do {
       ct_exp \<leftarrow> net_ct_exponent (acc_network account);
       ct_bits \<leftarrow> net_ct_bits (acc_network account);
       let output_blinded_values = map (gl_minimum_value L) (filter (\<lambda>x. \<not> gl_is_fee L x) (etx_output tx));
       let all_values = bi_values ins @ output_blinded_values;
       let in_num = length (etx_input tx);
       let out_num = length (etx_output tx);
       rust_assert (2 \<le> out_num);
       let output_abfs = map (gb_random_abf B) [0..<out_num - 1];
       let output_vbfs = map (gb_random_vbf B) [0..<out_num - 2];
       let last_vbf = gb_final_vbf B all_values in_num (bi_abfs ins @ concat output_abfs) (bi_vbfs ins @ concat output_vbfs);
       let output_vbfs = output_vbfs @ [last_vbf];
       outputs \<leftarrow> those (map (blind_output L B ct_exp ct_bits ins in_num output_abfs output_vbfs)
         (enumerate 0 (etx_output tx)));
       Some (Inr (tx\<lparr>etx_output := outputs\<rparr>)) })"

section \<open>Signing\<close>

definition p2shwpkh_script_sig :: "gdk_keys \<Rightarrow> bytes \<Rightarrow> bytes" where
  "p2shwpkh_script_sig K public_key =
     gk_push_slice K (gk_push_zero K @ gk_push_slice K (gk_hash160 K public_key))"

fun prepare_input :: "gdk_keys \<Rightarrow> bytes \<Rightarrow> bytes \<Rightarrow> ScriptType \<Rightarrow> bytes \<times> bytes list" where
  "prepare_input K public_key signature P2shP2wpkh = (p2shwpkh_script_sig K public_key, [signature, public_key])"
| "prepare_input K public_key signature P2wpkh = ([], [signature, public_key])"
| "prepare_input K public_key signature P2pkh = (gk_push_slice K signature @ gk_push_slice K public_key, [])"

definition internal_sign_bitcoin ::
  "gdk_keys \<Rightarrow> BtcTx \<Rightarrow> nat \<Rightarrow> bytes \<Rightarrow> GdkPath \<Rightarrow> int \<Rightarrow> ScriptType \<Rightarrow> (bytes \<times> bytes list) option" where
  "internal_sign_bitcoin K tx input_index xprv path value script_type = do {
     xprv \<leftarrow> gk_derive_priv K xprv path;
     let public_key = gk_public_key K (gk_xpub_of_priv K xprv);
     let script_code = gk_p2pkh_script K public_key;
     let message = (if is_segwit script_type then gk_btc_sighash_segwit K tx input_index script_code value
       else gk_btc_sighash_legacy K tx input_index script_code);
     Some (prepare_input K public_key (gk_sign_der K message xprv @ [sighash_all]) script_type) }"

definition internal_sign_elements ::
  "gdk_keys \<Rightarrow> ElmTx \<Rightarrow> nat \<Rightarrow> bytes \<Rightarrow> GdkPath \<Rightarrow> ConfValue \<Rightarrow> ScriptType \<Rightarrow> (bytes \<times> bytes list) option" where
  "internal_sign_elements K tx input_index xprv path value script_type = do {
     xprv \<leftarrow> gk_derive_priv K xprv path;
     let public_key = gk_public_key K (gk_xpub_of_priv K xprv);
     let script_code = gk_p2pkh_script K public_key;
     let message = (if is_segwit script_type then gk_elm_sighash_segwit K tx input_index script_code value
       else gk_elm_sighash_legacy K tx input_index script_code);
     Some (prepare_input K public_key (gk_sign_der K message xprv @ [sighash_all]) script_type) }"

text \<open>The loops over the inputs; on Liquid each input is signed in the transaction signed so far.\<close>

definition sign_bitcoin_input ::
  "gdk_keys \<Rightarrow> Account \<Rightarrow> RawAccountCache \<Rightarrow> BtcTx \<Rightarrow> nat \<Rightarrow> BtcTx \<Rightarrow> BtcTx gres" where
  "sign_bitcoin_input K account acc tx i out_tx = do {
     input \<leftarrow> vec_at (btx_input tx) (int i);
     let prev_output = bin_previous_output input;
     gtry (Some (get_bitcoin_tx acc (fst prev_output))) (\<lambda>prev_tx. do {
       prev \<leftarrow> vec_at (btx_output prev_tx) (snd prev_output);
       gtry (gok_or (hm_get (ac_paths acc) (Script_Bitcoin (bout_script_pubkey prev))) (G_Generic ''can't find derivation path'')) (\<lambda>derivation_path. do {
         (script_sig, witness) \<leftarrow> internal_sign_bitcoin K tx i (acc_xprv account) derivation_path (bout_value prev)
           (acc_script_type account);
         Some (Inr (out_tx\<lparr>btx_input := (btx_input out_tx)[i := (btx_input out_tx ! i)
           \<lparr>bin_script_sig := script_sig, bin_witness := witness\<rparr>]\<rparr>)) }) }) }"

definition sign_elements_input ::
  "gdk_keys \<Rightarrow> Account \<Rightarrow> RawAccountCache \<Rightarrow> nat \<Rightarrow> ElmTx \<Rightarrow> ElmTx gres" where
  "sign_elements_input K account acc i tx = do {
     input \<leftarrow> vec_at (etx_input tx) (int i);
     let prev_output = ein_previous_output input;
     gtry (Some (get_liquid_tx acc (fst prev_output))) (\<lambda>prev_tx. do {
       prev \<leftarrow> vec_at (etx_output prev_tx) (snd prev_output);
       gtry (gok_or (hm_get (ac_paths acc) (Script_Elements (eout_script_pubkey prev))) (G_Generic ''can't find derivation path'')) (\<lambda>derivation_path. do {
         (script_sig, witness) \<leftarrow> internal_sign_elements K tx i (acc_xprv account) derivation_path (eout_value prev)
           (acc_script_type account);
         Some (Inr (tx\<lparr>etx_input := (etx_input tx)[i := (etx_input tx ! i)
           \<lparr>ein_script_sig := script_sig, ein_script_witness := witness\<rparr>]\<rparr>)) }) }) }"

fun sign_inputs :: "gdk_lib \<Rightarrow> gdk_keys \<Rightarrow> gdk_blind \<Rightarrow> Account \<Rightarrow> RawAccountCache \<Rightarrow> BETransaction \<Rightarrow> BETransaction gres" where
  "sign_inputs L K B account acc (Tx_Bitcoin tx) =
     gtry (gfold (sign_bitcoin_input K account acc tx) [0..<length (btx_input tx)] tx)
       (\<lambda>out_tx. Some (Inr (Tx_Bitcoin out_tx)))"
| "sign_inputs L K B account acc (Tx_Elements tx) =
     gtry (blind_tx L B account acc tx) (\<lambda>tx.
     gtry (gfold (sign_elements_input K account acc) [0..<length (etx_input tx)] tx)
       (\<lambda>tx. Some (Inr (Tx_Elements tx))))"

definition sign ::
  "gdk_lib \<Rightarrow> gdk_keys \<Rightarrow> gdk_blind \<Rightarrow> store_lib \<Rightarrow> int \<Rightarrow> Account \<Rightarrow> GdkTransactionMeta \<Rightarrow> StoreMeta \<Rightarrow> disk \<Rightarrow>
   (GdkTransactionMeta \<times> StoreMeta \<times> disk) gres" where
  "sign L K B S now account request store d = do {
     net \<leftarrow> network_id (acc_network account);
     gtry (gok_or (gl_hex_decode L (tm_hex request)) G_Hex) (\<lambda>b.
     gtry (gmap_err G_Common (Some (tx_deserialize L b net))) (\<lambda>be_tx.
     gtry (Some (account_cache store (acc_account_num account))) (\<lambda>acc.
     gtry (sign_inputs L K B account acc be_tx) (\<lambda>tx.
     let betx = (meta_of_tx L now tx)\<lparr>tm_fee := tm_fee request, tm_create_transaction := tm_create_transaction request\<rparr>;
         changes_used = (case tm_changes_used request of None \<Rightarrow> 0 | Some n \<Rightarrow> n);
         store = (if 0 < changes_used
           then set_account_cache (acc_account_num account) (acc\<lparr>ac_indexes := (ac_indexes acc)
             \<lparr>ix_internal := wrap_u32 (ix_internal (ac_indexes acc) + changes_used)\<rparr>\<rparr>) store
           else store)
     in case Option.bind (tm_create_transaction request) ct_memo of
          None \<Rightarrow> Some (Inr (betx, store, d))
        | Some memo \<Rightarrow> (case insert_memo S (tx_id L tx) memo store d of
            (store, d) \<Rightarrow> Some (Inr (betx, store, d))))))) }"

section \<open>Own signatures\<close>

text \<open>The first input of the account in a transaction whose signature does not verify.\<close>

definition own_input_valid ::
  "gdk_lib \<Rightarrow> gdk_keys \<Rightarrow> Account \<Rightarrow> RawAccountCache \<Rightarrow> BETransaction \<Rightarrow> nat \<times> BEOutPoint \<Rightarrow> bool gres" where
  "own_input_valid L K account acc tx io = (case io of (vin, outpoint) \<Rightarrow> do {
     script \<leftarrow> Option.bind (get_previous_output_script_pubkey (ac_all_txs acc) outpoint) id;
     case hm_get (ac_paths acc) script of
       None \<Rightarrow> Some (Inr True)
     | Some path \<Rightarrow> gtry (gok_or (gk_derive_pub K (acc_xpub account) path) G_BitcoinBIP32Error) (\<lambda>xpub. do {
         value \<leftarrow> Option.bind (get_previous_output_value L (ac_all_txs acc) outpoint (ac_unblinded acc)) id;
         r \<leftarrow> verify_input_sig K tx vin (gk_public_key K xpub) value (acc_script_type account);
         Some (Inr (is_ok r)) }) })"

fun own_inputs_valid ::
  "gdk_lib \<Rightarrow> gdk_keys \<Rightarrow> Account \<Rightarrow> RawAccountCache \<Rightarrow> BETransaction \<Rightarrow> (nat \<times> BEOutPoint) list \<Rightarrow> bool gres" where
  "own_inputs_valid L K account acc tx [] = Some (Inr True)"
| "own_inputs_valid L K account acc tx (io # ios) =
     gtry (own_input_valid L K account acc tx io) (\<lambda>valid.
       if valid then own_inputs_valid L K account acc tx ios else Some (Inr False))"

text \<open>
  The loop over the new transactions.  Only unconfirmed Bitcoin transactions are verified; an
  invalid one is removed.  An error leaves what has been removed so far removed.
\<close>

fun verify_own_loop ::
  "gdk_lib \<Rightarrow> gdk_keys \<Rightarrow> Account \<Rightarrow> (BETxid \<times> BETransaction) list \<Rightarrow> RawAccountCache \<Rightarrow> bool \<Rightarrow>
   ((GdkError + bool) \<times> RawAccountCache) option" where
  "verify_own_loop L K account [] acc all_valid = Some (Inr all_valid, acc)"
| "verify_own_loop L K account ((txid, tx) # txs) acc all_valid =
     (if (case tx of Tx_Bitcoin _ \<Rightarrow> False | Tx_Elements _ \<Rightarrow> True) \<or> hm_get (ac_heights acc) txid \<noteq> Some None
      then verify_own_loop L K account txs acc all_valid
      else case own_inputs_valid L K account acc tx (enumerate 0 (previous_outputs tx)) of
          None \<Rightarrow> None
        | Some (Inl e) \<Rightarrow> Some (Inl e, acc)
        | Some (Inr valid) \<Rightarrow>
            if valid then verify_own_loop L K account txs acc all_valid
            else verify_own_loop L K account txs (acc\<lparr>ac_all_txs := hm_remove txid (ac_all_txs acc),
              ac_heights := hm_remove txid (ac_heights acc)\<rparr>) False)"

definition verify_own_txs ::
  "gdk_lib \<Rightarrow> gdk_keys \<Rightarrow> store_lib \<Rightarrow> Account \<Rightarrow> (BETxid \<times> BETransaction) list \<Rightarrow> StoreMeta \<Rightarrow> disk \<Rightarrow>
   ((GdkError + bool) \<times> StoreMeta \<times> disk) option" where
  "verify_own_txs L K S account txs store d = do {
     acc \<leftarrow> expect_ok (account_cache store (acc_account_num account));
     (r, acc) \<leftarrow> verify_own_loop L K account txs acc True;
     let store = set_account_cache (acc_account_num account) acc store;
     Some (r, store, if r = Inr False then flush_meta S store d else d) }"

end
