(* ===== verification/Gdk_Headers.thy ===== *)
theory Gdk_Headers
  imports Gdk_Store
begin

text \<open>
  Block headers (\<^verbatim>\<open>gdk_electrum/src/headers\<close> and \<^verbatim>\<open>calc_difficulty_retarget\<close> of
  \<^verbatim>\<open>spv.rs\<close>): the chain of Bitcoin headers that is kept in a file, the check of the
  signatures of a Liquid block, proofs that a transaction is in a block, the cache of the
  transactions whose proof was checked and the function \<^verbatim>\<open>spv_verify_tx\<close> that is called
  through the C interface.

  Encodings, hashes, proof of work and signatures of the crates \<^verbatim>\<open>bitcoin\<close>,
  \<^verbatim>\<open>elements\<close> and \<^verbatim>\<open>secp256k1\<close> are the parameters \<open>hdr_lib\<close>, and the Electrum server
  is the record \<open>Electrum\<close> of its answers.  A file is the list of its bytes.  Subtractions wrap
  as in a release build.
\<close>

section \<open>The libraries and the server\<close>

datatype Instruction = PushBytes bytes | Op int

record hdr_lib =
  hl_ser :: "BlockHeader \<Rightarrow> bytes"
  hl_des :: "bytes \<Rightarrow> BlockHeader option"
  hl_block_hash :: "BlockHeader \<Rightarrow> bytes"
  hl_target :: "int \<Rightarrow> int"  \<comment> \<open>the target of the compact form\<close>
  hl_compact :: "int \<Rightarrow> int"  \<comment> \<open>the compact form of a target\<close>
  hl_pow_ok :: "BlockHeader \<Rightarrow> int \<Rightarrow> bool"
  hl_work :: "BlockHeader \<Rightarrow> int"
  hl_max_target :: int  \<comment> \<open>of the Bitcoin network\<close>
  hl_genesis :: "BitcoinNetwork \<Rightarrow> BlockHeader"
  hl_hash_hex :: "string \<Rightarrow> bytes"  \<comment> \<open>the block hash of a literal\<close>
  hl_sha256 :: "bytes \<Rightarrow> bytes"
  hl_sha256d :: "bytes \<Rightarrow> bytes"
  hl_elm_des :: "bytes \<Rightarrow> ElmBlockHeader option"
  hl_elm_hash :: "ElmBlockHeader \<Rightarrow> bytes"
  hl_script_hex :: "string \<Rightarrow> bytes"  \<comment> \<open>the script of a literal\<close>
  hl_instructions :: "bytes \<Rightarrow> (unit + Instruction) list"  \<comment> \<open>with minimal pushes\<close>
  hl_push_num :: "int \<Rightarrow> int option"  \<comment> \<open>the number that an operation pushes\<close>
  hl_pubkey :: "bytes \<Rightarrow> bytes option"
  hl_signature :: "bytes \<Rightarrow> bytes option"
  hl_verify :: "bytes \<Rightarrow> bytes \<Rightarrow> bytes \<Rightarrow> bool"  \<comment> \<open>message, signature, public key\<close>
  hl_txids_ser :: "BETxid list \<Rightarrow> bytes"
  hl_txids_des :: "bytes \<Rightarrow> BETxid list option"

record GetMerkleRes =
  gm_pos :: nat
  gm_merkle :: "bytes list"

text \<open>The answers of a connected server.\<close>

record Electrum =
  el_get_merkle :: "bytes \<Rightarrow> int \<Rightarrow> GdkError + GetMerkleRes"
  el_block_headers :: "int \<Rightarrow> nat \<Rightarrow> GdkError + BlockHeader list"
  el_block_header :: "int \<Rightarrow> GdkError + BlockHeader"
  el_block_header_raw :: "int \<Rightarrow> GdkError + bytes"
  el_headers_subscribe :: "GdkError + int \<times> BlockHeader"
  el_headers_subscribe_raw :: "GdkError + int \<times> bytes"
  el_batch_block_header_raw :: "int list \<Rightarrow> GdkError + bytes list"
  el_batch_history :: "bytes list \<Rightarrow> GdkError + (bytes \<times> int) list list"
  el_batch_transactions :: "bytes list \<Rightarrow> GdkError + bytes list"
  el_script_status :: "bytes \<Rightarrow> GdkError + bytes option"
  el_broadcast :: "bytes \<Rightarrow> GdkError + bytes"
  el_relay_fee :: "GdkError + f64"
  el_estimate_fee :: "nat list \<Rightarrow> GdkError + f64 list"

section \<open>The chain of Bitcoin headers\<close>

definition DIFFCHANGE_INTERVAL :: int where "DIFFCHANGE_INTERVAL = 2016"

definition DIFFCHANGE_TIMESPAN :: int where "DIFFCHANGE_TIMESPAN = 14 * 24 * 3600"

definition wrap_u256 :: "int \<Rightarrow> int" where "wrap_u256 x = x mod 2 ^ 256"

definition calc_difficulty_retarget :: "hdr_lib \<Rightarrow> BlockHeader \<Rightarrow> BlockHeader \<Rightarrow> int" where
  "calc_difficulty_retarget H period_first period_last =
     (let timespan = wrap_u32 (bh_time period_last - bh_time period_first);
          timespan = min timespan (DIFFCHANGE_TIMESPAN * 4);
          timespan = max timespan (DIFFCHANGE_TIMESPAN div 4);
          new_target = wrap_u256 (hl_target H (bh_bits period_last) * timespan) div DIFFCHANGE_TIMESPAN
      in min new_target (hl_max_target H))"

record HeadersChain =
  hc_path :: "string \<times> string"
  hc_height :: int
  hc_last :: BlockHeader
  hc_checkpoints :: "(int, bytes) hmap"

definition get_checkpoints :: "hdr_lib \<Rightarrow> BitcoinNetwork \<Rightarrow> (int, bytes) hmap" where
  "get_checkpoints H network = map (\<lambda>(n, s). (n, hl_hash_hex H s))
     (case network of
        Mainnet \<Rightarrow>
          [(100000, ''000000000003ba27aa200b1cecaad478d2b00432346c3f1f3986da1afd33e506''),
           (200000, ''000000000000034a7dedef4a161fa058a2d67a173a90155f3a2fe6fc132e0ebf''),
           (300000, ''000000000000000082ccf8f1557c5d40b21edabb18d2d691cfbf87118bac7254''),
           (400000, ''000000000000000004ec466ce4732fe6f1ed1cddc2ed4b328fff5224276e3f6f''),
           (500000, ''00000000000000000024fb37364cbf81fd49cc2d51c09c75c35433c3a1945d04''),
           (600000, ''00000000000000000007316856900e76b4f7a9139cfbfba89842c8d196cd5f91''),
           (630000, ''000000000000000000024bead8df69990852c202db0e0097c1a12ea637d7e96d'')]
      | Testnet \<Rightarrow>
          [(1000000, ''0000000000478e259a3eda2fafbeeb0106626f946347955e99278fe6cc848414''),
           (1700000, ''000000000000fdd6e3e379abdfda6e82b47b51eb154f193ce3f066877f37b0af'')]
      | Regtest \<Rightarrow> []
      | Signet \<Rightarrow> [])"

text \<open>\<^verbatim>\<open>seek\<close> and \<^verbatim>\<open>read_exact\<close> of 80 bytes; a file that is too short gives an error.\<close>

definition read_header :: "hdr_lib \<Rightarrow> int \<Rightarrow> bytes \<Rightarrow> GdkError + BlockHeader" where
  "read_header H offset content =
     (if int (length content) < offset + 80 then Inl G_StdIOError
      else case hl_des H (take 80 (drop (nat offset) content)) of
        None \<Rightarrow> Inl G_Serialization
      | Some h \<Rightarrow> Inr h)"

definition new_headers_chain :: "hdr_lib \<Rightarrow> string \<times> string \<Rightarrow> BitcoinNetwork \<Rightarrow> disk \<Rightarrow> (GdkError + HeadersChain) \<times> disk" where
  "new_headers_chain H path network d =
     (let checkpoints = get_checkpoints H network in
      case d path of
        None \<Rightarrow>
          let genesis = hl_genesis H network
          in (Inr \<lparr>hc_path = path, hc_height = 0, hc_last = genesis, hc_checkpoints = checkpoints\<rparr>,
              d(path \<mapsto> hl_ser H genesis))
      | Some content \<Rightarrow>
          let file_size = int (length content) in
          if file_size < 80 then (Inl G_StdIOError, d)  \<comment> \<open>the offset wraps and cannot be sought\<close>
          else case read_header H (file_size - 80) content of
            Inl e \<Rightarrow> (Inl e, d)
          | Inr tip \<Rightarrow>
              (Inr \<lparr>hc_path = path, hc_height = wrap_u32 (wrap_u32 file_size div 80 - 1), hc_last = tip,
                hc_checkpoints = checkpoints\<rparr>, d))"

definition chain_get :: "hdr_lib \<Rightarrow> HeadersChain \<Rightarrow> int \<Rightarrow> disk \<Rightarrow> GdkError + BlockHeader" where
  "chain_get H chain height d =
     (case d (hc_path chain) of None \<Rightarrow> Inl G_StdIOError | Some content \<Rightarrow> read_header H (height * 80) content)"

definition chain_remove :: "hdr_lib \<Rightarrow> int \<Rightarrow> HeadersChain \<Rightarrow> disk \<Rightarrow> (GdkError + unit) \<times> HeadersChain \<times> disk" where
  "chain_remove H headers_to_remove chain d =
     (let headers_to_remove = min headers_to_remove (hc_height chain);
          new_height = hc_height chain - headers_to_remove;
          new_size = wrap_u32 (new_height + 1) * 80
      in case chain_get H chain new_height d of
           Inl e \<Rightarrow> (Inl e, chain, d)
         | Inr tip \<Rightarrow>
             (Inr (), chain\<lparr>hc_last := tip, hc_height := new_height\<rparr>,
              d(hc_path chain := map_option (take (nat new_size)) (d (hc_path chain)))))"

text \<open>Appends the pending bytes to the file, and the pending bytes after that.\<close>

definition flush_headers :: "HeadersChain \<Rightarrow> bytes \<Rightarrow> disk \<Rightarrow> (GdkError + bytes) \<times> disk" where
  "flush_headers chain serialized d =
     (if serialized = [] then (Inr [], d)
      else case d (hc_path chain) of
        None \<Rightarrow> (Inl G_StdIOError, d)
      | Some content \<Rightarrow> (Inr [], d(hc_path chain \<mapsto> content @ serialized)))"

text \<open>
  One round of the loop of \<^verbatim>\<open>push\<close>: the checks of a header, before it becomes the last one.
  On a retarget the pending headers are written first, since the first header of the period is
  read from the file.
\<close>

definition check_header ::
  "hdr_lib \<Rightarrow> BlockHeader \<Rightarrow> HeadersChain \<Rightarrow> int \<Rightarrow> bytes \<Rightarrow> disk \<Rightarrow> (GdkError + int \<times> bytes) \<times> disk" where
  "check_header H new_header chain curr_bits serialized d =
     (let new_height = wrap_u32 (hc_height chain + 1);
          checkpoint_ok = (case hm_get (hc_checkpoints chain) new_height of
            None \<Rightarrow> True | Some hash \<Rightarrow> hash = hl_block_hash H new_header)
      in if hl_block_hash H (hc_last chain) \<noteq> bh_prev_blockhash new_header
            \<or> \<not> hl_pow_ok H new_header (hl_target H (bh_bits new_header))
         then (Inl G_InvalidHeaders, d)
         else if new_height mod DIFFCHANGE_INTERVAL = 0 then
           (case flush_headers chain serialized d of
              (Inl e, d) \<Rightarrow> (Inl e, d)
            | (Inr serialized, d) \<Rightarrow>
                (case chain_get H chain (wrap_u32 (new_height - DIFFCHANGE_INTERVAL)) d of
                   Inl e \<Rightarrow> (Inl e, d)
                 | Inr first \<Rightarrow>
                     if bh_bits new_header \<noteq> hl_compact H (calc_difficulty_retarget H first (hc_last chain))
                        \<or> \<not> checkpoint_ok
                     then (Inl G_InvalidHeaders, d) else (Inr (bh_bits new_header, serialized), d)))
         else if bh_bits new_header \<noteq> curr_bits \<or> \<not> checkpoint_ok then (Inl G_InvalidHeaders, d)
         else (Inr (curr_bits, serialized), d))"

fun push_headers ::
  "hdr_lib \<Rightarrow> BlockHeader list \<Rightarrow> HeadersChain \<Rightarrow> int \<Rightarrow> bytes \<Rightarrow> disk \<Rightarrow> (GdkError + bytes) \<times> HeadersChain \<times> disk" where
  "push_headers H [] chain curr_bits serialized d = (Inr serialized, chain, d)"
| "push_headers H (new_header # new_headers) chain curr_bits serialized d =
     (case check_header H new_header chain curr_bits serialized d of
        (Inl e, d) \<Rightarrow> (Inl e, chain, d)
      | (Inr (curr_bits, serialized), d) \<Rightarrow>
          push_headers H new_headers (chain\<lparr>hc_last := new_header, hc_height := wrap_u32 (hc_height chain + 1)\<rparr>)
            curr_bits (serialized @ hl_ser H new_header) d)"

definition push :: "hdr_lib \<Rightarrow> BlockHeader list \<Rightarrow> HeadersChain \<Rightarrow> disk \<Rightarrow> (GdkError + unit) \<times> HeadersChain \<times> disk" where
  "push H new_headers chain d =
     (case push_headers H new_headers chain (bh_bits (hc_last chain)) [] d of
        (Inl e, chain, d) \<Rightarrow> (Inl e, chain, d)
      | (Inr serialized, chain, d) \<Rightarrow>
          (case flush_headers chain serialized d of
             (Inl e, d) \<Rightarrow> (Inl e, chain, d)
           | (Inr _, d) \<Rightarrow> (Inr (), chain, d)))"

text \<open>The root of a merkle tree from a leaf and the hashes beside its path, in Electrum's byte order.\<close>

fun merkle_path :: "hdr_lib \<Rightarrow> nat \<Rightarrow> bytes \<Rightarrow> bytes list \<Rightarrow> bytes" where
  "merkle_path H pos current [] = current"
| "merkle_path H pos current (hash # hashes) =
     merkle_path H (pos div 2)
       (hl_sha256d H (if pos mod 2 = 0 then current @ rev hash else rev hash @ current)) hashes"

definition compute_merkle_root :: "hdr_lib \<Rightarrow> bytes \<Rightarrow> GetMerkleRes \<Rightarrow> bytes" where
  "compute_merkle_root H txid merkle = merkle_path H (gm_pos merkle) txid (gm_merkle merkle)"

definition chain_verify_tx_proof ::
  "hdr_lib \<Rightarrow> HeadersChain \<Rightarrow> bytes \<Rightarrow> int \<Rightarrow> GetMerkleRes \<Rightarrow> disk \<Rightarrow> GdkError + unit" where
  "chain_verify_tx_proof H chain txid height merkle d =
     (case chain_get H chain height d of
        Inl e \<Rightarrow> Inl e
      | Inr header \<Rightarrow>
          if bh_merkle_root header = compute_merkle_root H txid merkle then Inr () else Inl G_InvalidHeaders)"

section \<open>The verifier of Liquid headers\<close>

record Verifier =
  vf_challenge :: bytes
  vf_genesis :: bytes
  vf_is_regtest :: bool

definition CHALLENGE :: string where
  "CHALLENGE = ''5b21026a2a106ec32c8a1e8052e5d02a7b0a150423dbd9b116fc48d46630ff6e6a05b9'' @
     ''2102791646a8b49c2740352b4495c118d876347bf47d0551c01c4332fdc2df526f1a'' @
     ''2102888bda53a424466b0451627df22090143bbf7c060e9eacb1e38426f6b07f2ae1'' @
     ''2102aee8967150dee220f613de3b239320355a498808084a93eaf39a34dcd6202485'' @
     ''2102d46e9259d0a0bb2bcbc461a3e68f34adca27b8d08fbe985853992b4b104e2741'' @
     ''2102e9944e35e5750ab621e098145b8e6cf373c273b7c04747d1aa020be0af40ccd6'' @
     ''2102f9a9d4b10a6d6c56d8c955c547330c589bb45e774551d46d415e51cd9ad51163'' @
     ''21033b421566c124dfde4db9defe4084b7aa4e7f36744758d92806b8f72c2e943309'' @
     ''210353dcc6b4cf6ad28aceb7f7b2db92a4bf07ac42d357adf756f3eca790664314b6'' @
     ''21037f55980af0455e4fb55aad9b85a55068bb6dc4740ea87276dc693f4598db45fa'' @
     ''210384001daa88dabd23db878dbb1ce5b4c2a5fa72c3113e3514bf602325d0c37b8e'' @
     ''21039056d089f2fe72dbc0a14780b4635b0dc8a1b40b7a59106325dd1bc45cc70493'' @
     ''210397ab8ea7b0bf85bc7fc56bb27bf85e75502e94e76a6781c409f3f2ec3d112219'' @
     ''2103b00e3b5b77884bf3cae204c4b4eac003601da75f96982ffcb3dcb29c5ee419b9'' @
     ''2103c1f3c0874cfe34b8131af34699589aacec4093399739ae352e8a46f80a6f68375fae''"

definition LIQUID_GENESIS_HASH :: string where
  "LIQUID_GENESIS_HASH = ''1466275836220db2944ca059a3a10ef6fd2ea684b0688d2c379296888a206003''"

definition ELEMENTS_REGTEST_GENESIS_HASH :: string where
  "ELEMENTS_REGTEST_GENESIS_HASH = ''209577bda6bf4b5804bd46f8621580dd6d4e8bfa2d190e1c50e932492baca07d''"

definition new_verifier :: "hdr_lib \<Rightarrow> ElementsNetwork \<Rightarrow> Verifier" where
  "new_verifier H network =
     (let (is_regtest, genesis_hash) = (case network of
        Liquid \<Rightarrow> (False, LIQUID_GENESIS_HASH) | ElementsRegtest \<Rightarrow> (True, ELEMENTS_REGTEST_GENESIS_HASH))
      in \<lparr>vf_challenge = hl_script_hex H CHALLENGE, vf_genesis = hl_hash_hex H genesis_hash, vf_is_regtest = is_regtest\<rparr>)"

text \<open>
  The stack is a list whose last element is on top.  \<^verbatim>\<open>stack.pop().ok_or(..)?[0]\<close> panics on
  an empty element.
\<close>

definition pop_count :: "bytes list \<Rightarrow> (nat \<times> bytes list) gres" where
  "pop_count stack =
     (if stack = [] then Some (Inl G_InvalidHeaders)
      else case last stack of
        [] \<Rightarrow> None
      | c # _ \<Rightarrow> Some (Inr (of_char c, butlast stack)))"

text \<open>The last elements of the stack, parsed.\<close>

definition pop_parsed :: "(bytes \<Rightarrow> bytes option) \<Rightarrow> nat \<Rightarrow> bytes list \<Rightarrow> (bytes list \<times> bytes list) gres" where
  "pop_parsed parse n stack =
     (if length stack < n then Some (Inl G_InvalidHeaders)
      else case those (map parse (drop (length stack - n) stack)) of
        None \<Rightarrow> Some (Inl G_InvalidHeaders)
      | Some xs \<Rightarrow> Some (Inr (xs, take (length stack - n) stack)))"

text \<open>
  Each signature is tried with the keys after the key of the signature before it; the number of
  signatures that a key verifies.
\<close>

fun count_verified :: "(bytes \<Rightarrow> bytes \<Rightarrow> bool) \<Rightarrow> bytes list \<Rightarrow> bytes list \<Rightarrow> nat" where
  "count_verified ok [] pubkeys = 0"
| "count_verified ok (signature # signatures) pubkeys =
     (case dropWhile (\<lambda>pubkey. \<not> ok signature pubkey) pubkeys of
        [] \<Rightarrow> count_verified ok signatures []
      | _ # rest \<Rightarrow> Suc (count_verified ok signatures rest))"

definition OP_CHECKMULTISIG :: int where "OP_CHECKMULTISIG = 0xae"

definition process_op :: "hdr_lib \<Rightarrow> int \<Rightarrow> bytes \<Rightarrow> bytes list \<Rightarrow> bytes list gres" where
  "process_op H op hash stack =
     (case hl_push_num H op of
        Some val \<Rightarrow> Some (Inr (stack @ [[char_of (nat (val mod 256))]]))
      | None \<Rightarrow>
          if op = OP_CHECKMULTISIG then
            gtry (pop_count stack) (\<lambda>(total_pubkeys, stack).
            gtry (pop_parsed (hl_pubkey H) total_pubkeys stack) (\<lambda>(pubkeys, stack).
            gtry (pop_count stack) (\<lambda>(required_sig, stack).
            gtry (pop_parsed (hl_signature H) required_sig stack) (\<lambda>(signatures, stack).
              if count_verified (hl_verify H hash) signatures pubkeys = required_sig \<and> stack \<noteq> []
              then Some (Inr (butlast stack)) else Some (Inl G_InvalidHeaders)))))
          else Some (Inl G_InvalidHeaders))"

definition process_instr :: "hdr_lib \<Rightarrow> bytes \<Rightarrow> unit + Instruction \<Rightarrow> bytes list \<Rightarrow> bytes list gres" where
  "process_instr H hash instr stack =
     (case instr of
        Inr (PushBytes data) \<Rightarrow> Some (Inr (stack @ [data]))
      | Inr (Op op) \<Rightarrow> process_op H op hash stack
      | Inl _ \<Rightarrow> Some (Inl G_InvalidHeaders))"

definition verify_header :: "hdr_lib \<Rightarrow> Verifier \<Rightarrow> ElmBlockHeader \<Rightarrow> unit gres" where
  "verify_header H v header =
     (let hash = hl_elm_hash H header in
      if hash = vf_genesis v \<or> vf_is_regtest v then Some (Inr ())
      else case eh_ext header of
        Ext_Proof challenge solution \<Rightarrow>
          if challenge \<noteq> vf_challenge v then Some (Inl G_InvalidHeaders)
          else gtry (gfold (process_instr H hash) (hl_instructions H solution @ hl_instructions H challenge) [])
            (\<lambda>stack. gensure (stack = []) G_InvalidHeaders)
      | Ext_Dynafed _ \<Rightarrow> Some (Inl G_InvalidHeaders))"

definition verifier_verify_tx_proof ::
  "hdr_lib \<Rightarrow> Verifier \<Rightarrow> bytes \<Rightarrow> GetMerkleRes \<Rightarrow> ElmBlockHeader \<Rightarrow> unit gres" where
  "verifier_verify_tx_proof H v txid merkle header =
     gtry (verify_header H v header) (\<lambda>_.
       gensure (eh_merkle_root header = compute_merkle_root H txid merkle) G_InvalidHeaders)"

section \<open>Transactions whose proof was checked\<close>

record VerifiedCache =
  vc_set :: "BETxid list"
  vc_filepath :: "string \<times> string"
  vc_cipher :: bytes

text \<open>The derived \<^verbatim>\<open>Debug\<close> text of a network, and the \<^verbatim>\<open>Display\<close> text of a Bitcoin network.\<close>

fun debug_network :: "NetworkId \<Rightarrow> string" where
  "debug_network (Net_Elements Liquid) = ''Elements(Liquid)''"
| "debug_network (Net_Elements ElementsRegtest) = ''Elements(ElementsRegtest)''"
| "debug_network (Net_Bitcoin Mainnet) = ''Bitcoin(Bitcoin)''"
| "debug_network (Net_Bitcoin Testnet) = ''Bitcoin(Testnet)''"
| "debug_network (Net_Bitcoin Regtest) = ''Bitcoin(Regtest)''"
| "debug_network (Net_Bitcoin Signet) = ''Bitcoin(Signet)''"

fun display_bitcoin_network :: "BitcoinNetwork \<Rightarrow> string" where
  "display_bitcoin_network Mainnet = ''bitcoin''"
| "display_bitcoin_network Testnet = ''testnet''"
| "display_bitcoin_network Regtest = ''regtest''"
| "display_bitcoin_network Signet = ''signet''"

definition read_and_decrypt :: "hdr_lib \<Rightarrow> store_lib \<Rightarrow> string \<times> string \<Rightarrow> bytes \<Rightarrow> disk \<Rightarrow> GdkError + BETxid list" where
  "read_and_decrypt H S filepath cipher d =
     (case d filepath of
        None \<Rightarrow> Inl G_StdIOError
      | Some content \<Rightarrow>
          if length content < 12 then Inl G_StdIOError
          else case sl_decrypt S cipher (take 12 content) (drop 12 content) of
            None \<Rightarrow> Inl G_Encryption
          | Some plaintext \<Rightarrow> (case hl_txids_des H plaintext of None \<Rightarrow> Inl G_Serialization | Some txids \<Rightarrow> Inr txids))"

definition verified_cache_path :: "gdk_lib \<Rightarrow> hdr_lib \<Rightarrow> string \<Rightarrow> NetworkId \<Rightarrow> string \<Rightarrow> string \<times> string" where
  "verified_cache_path L H path network key =
     (path, ''verified_cache_'' @ gl_hex_encode L (hl_sha256 H (debug_network network @ key)))"

definition new_verified_cache ::
  "gdk_lib \<Rightarrow> hdr_lib \<Rightarrow> store_lib \<Rightarrow> string \<Rightarrow> NetworkId \<Rightarrow> string \<Rightarrow> disk \<Rightarrow> VerifiedCache" where
  "new_verified_cache L H S path network key d =
     (let filepath = verified_cache_path L H path network key;
          cipher = hl_sha256 H key
      in \<lparr>vc_set = (case read_and_decrypt H S filepath cipher d of Inr txids \<Rightarrow> txids | Inl _ \<Rightarrow> []),
          vc_filepath = filepath, vc_cipher = cipher\<rparr>)"

text \<open>Two calls of \<^verbatim>\<open>write\<close> whose results are not looked at, as in the store.\<close>

definition flush_verified :: "hdr_lib \<Rightarrow> store_lib \<Rightarrow> VerifiedCache \<Rightarrow> disk \<Rightarrow> disk" where
  "flush_verified H S cache d =
     flush_serializable S (fst (vc_filepath cache)) (vc_cipher cache) (snd (vc_filepath cache))
       (hl_txids_ser H (vc_set cache)) d"

definition cache_write :: "hdr_lib \<Rightarrow> store_lib \<Rightarrow> BETxid \<Rightarrow> VerifiedCache \<Rightarrow> disk \<Rightarrow> disk" where
  "cache_write H S txid cache d = flush_verified H S (cache\<lparr>vc_set := List.insert txid (vc_set cache)\<rparr>) d"

definition cache_clear :: "hdr_lib \<Rightarrow> store_lib \<Rightarrow> VerifiedCache \<Rightarrow> disk \<Rightarrow> disk" where
  "cache_clear H S cache d = flush_verified H S (cache\<lparr>vc_set := []\<rparr>) d"

section \<open>The check of one transaction\<close>

definition determine_electrum_url :: "string option \<Rightarrow> bool option \<Rightarrow> bool option \<Rightarrow> GdkError + ElectrumUrl" where
  "determine_electrum_url url tls validate_domain =
     (case url of
        None \<Rightarrow> Inl (G_Generic ''network url is missing'')
      | Some url \<Rightarrow>
          if url = [] then Inl (G_Generic ''network url is empty'')
          else if tls = Some True then Inr (Url_Tls url (validate_domain = Some True))
          else Inr (Url_Plaintext url))"

definition determine_electrum_url_from_net :: "Network \<Rightarrow> GdkError + ElectrumUrl" where
  "determine_electrum_url_from_net network =
     determine_electrum_url (net_electrum_url network) (net_electrum_tls network) (net_validate_domain network)"

record SPVVerifyTx =
  sv_txid :: string
  sv_height :: int
  sv_path :: string
  sv_network :: Network
  sv_tor_proxy :: "string option"
  sv_headers_to_download :: "nat option"
  sv_encryption_key :: string

definition headers_chain_path :: "string \<Rightarrow> BitcoinNetwork \<Rightarrow> string \<times> string" where
  "headers_chain_path data_root network = (data_root, ''headers_chain_'' @ display_bitcoin_network network)"

definition spv_verify_bitcoin ::
  "hdr_lib \<Rightarrow> store_lib \<Rightarrow> Electrum \<Rightarrow> SPVVerifyTx \<Rightarrow> BitcoinNetwork \<Rightarrow> BETxid \<Rightarrow> VerifiedCache \<Rightarrow> disk \<Rightarrow>
   SPVVerifyResult gres \<times> disk" where
  "spv_verify_bitcoin H S client input network txid cache d =
     (case new_headers_chain H (headers_chain_path (sv_path input) network) network d of
        (Inl e, d) \<Rightarrow> (Some (Inl e), d)
      | (Inr chain, d) \<Rightarrow>
          if sv_height input \<le> hc_height chain then
            (case el_get_merkle client (txid_into_bitcoin txid) (sv_height input) of
               Inl _ \<Rightarrow> (Some (Inr Spv_NotVerified), d)
             | Inr proof \<Rightarrow>
                 (case chain_verify_tx_proof H chain (txid_into_bitcoin txid) (sv_height input) proof d of
                    Inr _ \<Rightarrow> (Some (Inr Spv_Verified), cache_write H S txid cache d)
                  | Inl _ \<Rightarrow> (Some (Inr Spv_NotVerified), d)))
          else
            let headers_to_download = min (case sv_headers_to_download input of None \<Rightarrow> 2016 | Some n \<Rightarrow> n) 2016 in
            (case el_block_headers client (hc_height chain + 1) headers_to_download of
               Inl e \<Rightarrow> (Some (Inl e), d)
             | Inr headers \<Rightarrow>
                 (case push H headers chain d of
                    (Inl G_InvalidHeaders, chain, d) \<Rightarrow>
                      (case chain_remove H 144 chain d of
                         (Inl e, chain, d) \<Rightarrow> (Some (Inl e), d)
                       | (Inr _, chain, d) \<Rightarrow> (Some (Inr Spv_InProgress), cache_clear H S cache d))
                  | (_, chain, d) \<Rightarrow> (Some (Inr Spv_InProgress), d))))"

definition spv_verify_elements ::
  "hdr_lib \<Rightarrow> store_lib \<Rightarrow> Electrum \<Rightarrow> SPVVerifyTx \<Rightarrow> ElementsNetwork \<Rightarrow> BETxid \<Rightarrow> VerifiedCache \<Rightarrow> disk \<Rightarrow>
   SPVVerifyResult gres \<times> disk" where
  "spv_verify_elements H S client input network txid cache d =
     (case el_get_merkle client (txid_into_bitcoin txid) (sv_height input) of
        Inl _ \<Rightarrow> (Some (Inr Spv_NotVerified), d)
      | Inr proof \<Rightarrow>
          (case el_block_header_raw client (sv_height input) of
             Inl e \<Rightarrow> (Some (Inl e), d)
           | Inr header_bytes \<Rightarrow>
               (case hl_elm_des H header_bytes of
                  None \<Rightarrow> (Some (Inl G_Serialization), d)
                | Some header \<Rightarrow>
                    (case verifier_verify_tx_proof H (new_verifier H network) (txid_into_bitcoin txid) proof header of
                       None \<Rightarrow> (None, d)
                     | Some (Inr _) \<Rightarrow> (Some (Inr Spv_Verified), cache_write H S txid cache d)
                     | Some (Inl _) \<Rightarrow> (Some (Inr Spv_NotVerified), d)))))"

definition txid_from_hex :: "gdk_lib \<Rightarrow> string \<Rightarrow> NetworkId \<Rightarrow> CommonError + BETxid" where
  "txid_from_hex L hex net =
     (case gl_txid_parse L hex of None \<Rightarrow> Inl (C_Generic ''invalid txid'') | Some t \<Rightarrow> Inr (txid_into_net t net))"

definition spv_verify_tx ::
  "gdk_lib \<Rightarrow> hdr_lib \<Rightarrow> store_lib \<Rightarrow> (ElectrumUrl \<Rightarrow> string option \<Rightarrow> GdkError + Electrum) \<Rightarrow> SPVVerifyTx \<Rightarrow> disk \<Rightarrow>
   SPVVerifyResult gres \<times> disk" where
  "spv_verify_tx L H S build_client input d =
     (case network_id (sv_network input) of
        None \<Rightarrow> (None, d)
      | Some net \<Rightarrow>
          (case txid_from_hex L (sv_txid input) net of
             Inl e \<Rightarrow> (Some (Inl (G_Common e)), d)
           | Inr txid \<Rightarrow>
               let cache = new_verified_cache L H S (sv_path input) net (sv_encryption_key input) d in
               if txid \<in> set (vc_set cache) then (Some (Inr Spv_Verified), d)
               else (case determine_electrum_url_from_net (sv_network input) of
                  Inl e \<Rightarrow> (Some (Inl e), d)
                | Inr url \<Rightarrow>
                    (case build_client url (sv_tor_proxy input) of
                       Inl e \<Rightarrow> (Some (Inl e), d)
                     | Inr client \<Rightarrow>
                         (case net of
                            Net_Bitcoin network \<Rightarrow> spv_verify_bitcoin H S client input network txid cache d
                          | Net_Elements network \<Rightarrow> spv_verify_elements H S client input network txid cache d)))))"

end
