(* ===== verification/Gdk_Spv.thy ===== *)
theory Gdk_Spv
  imports Gdk_Headers
begin

text \<open>
  The cross validation of the chain of Bitcoin headers against other Electrum servers
  (\<^verbatim>\<open>gdk_electrum/src/spv.rs\<close>), and the text form of a server's address (\<^verbatim>\<open>ElectrumUrl\<close> of
  \<^verbatim>\<open>interface.rs\<close>).  The order in which servers are drawn and the connection to a server are
  parameters.  A result \<^term>\<open>None\<close> is a panic, or for \<open>fork_chunks\<close> a loop that does not end.
\<close>

section \<open>Addresses of servers\<close>

fun split_on :: "char \<Rightarrow> string \<Rightarrow> string list" where
  "split_on c [] = [[]]"
| "split_on c (x # xs) =
     (if x = c then [] # split_on c xs else (x # hd (split_on c xs)) # tl (split_on c xs))"

definition digit_val :: "char \<Rightarrow> int option" where
  "digit_val c = (if 48 \<le> (of_char c :: int) \<and> (of_char c :: int) \<le> 57 then Some (of_char c - 48) else None)"

definition parse_digits :: "string \<Rightarrow> int option" where
  "parse_digits s = foldM (\<lambda>c n. map_option (\<lambda>v. 10 * n + v) (digit_val c)) s 0"

text \<open>\<^verbatim>\<open>str::parse::<u16>\<close>: an optional plus sign, digits and no overflow.\<close>

definition parse_u16 :: "string \<Rightarrow> int option" where
  "parse_u16 s =
     (let digits = (case s of [] \<Rightarrow> [] | c # cs \<Rightarrow> if c = CHR ''+'' \<and> cs \<noteq> [] then cs else s)
      in if digits = [] then None
         else Option.bind (parse_digits digits) (\<lambda>v. if v < 2 ^ 16 then Some v else None))"

function show_decimal :: "nat \<Rightarrow> string" where
  "show_decimal n =
     (if n < 10 then [char_of (48 + n)] else show_decimal (n div 10) @ [char_of (48 + n mod 10)])"
  by auto
termination by (relation "measure id") auto

declare show_decimal.simps [simp del]

definition url_of_str :: "string \<Rightarrow> GdkError + ElectrumUrl" where
  "url_of_str s =
     (let err = Inl (G_InvalidElectrumUrl s); parts = split_on (CHR '':'') s in
      if length parts < 2 then err
      else case parse_u16 (parts ! 1) of
        None \<Rightarrow> err
      | Some port \<Rightarrow>
          let proto = (if 2 < length parts then parts ! 2 else ''t'');
              validate_tls = \<not> (3 < length parts \<and> parts ! 3 = ''noverify'');
              url = parts ! 0 @ '':'' @ show_decimal (nat port)
          in if proto = ''s'' then Inr (Url_Tls url validate_tls)
             else if proto = ''t'' then Inr (Url_Plaintext url)
             else err)"

fun url_text :: "ElectrumUrl \<Rightarrow> string" where
  "url_text (Url_Tls url _) = url"
| "url_text (Url_Plaintext url) = url"

text \<open>\<^verbatim>\<open>str::lines\<close>: the line after the last newline is dropped when it is empty.\<close>

definition str_lines :: "string \<Rightarrow> string list" where
  "str_lines s =
     (let parts = split_on (CHR 0x0A) s;
          parts = (if last parts = [] then butlast parts else parts)
      in map (\<lambda>l. if l \<noteq> [] \<and> last l = CHR 0x0D then butlast l else l) parts)"

definition parse_server_file :: "string \<Rightarrow> ElectrumUrl list option" where
  "parse_server_file sl =
     those (map (\<lambda>l. case url_of_str l of Inl _ \<Rightarrow> None | Inr u \<Rightarrow> Some u) (str_lines sl))"

text \<open>The servers of a network; the two lists that are compiled in are parameters.\<close>

definition get_cross_servers :: "string \<Rightarrow> string \<Rightarrow> Network \<Rightarrow> ElectrumUrl list gres" where
  "get_cross_servers servers_mainnet servers_testnet network = do {
     id \<leftarrow> network_id network;
     net \<leftarrow> get_bitcoin_network id;
     gtry (case net_spv_servers network of
         Some (s # ss) \<Rightarrow> gfold (\<lambda>s us. gtry (Some (url_of_str s)) (\<lambda>u. Some (Inr (us @ [u])))) (s # ss) []
       | _ \<Rightarrow> (case net of
           Mainnet \<Rightarrow> map_option Inr (parse_server_file servers_mainnet)
         | Testnet \<Rightarrow> map_option Inr (parse_server_file servers_testnet)
         | _ \<Rightarrow> Some (Inr []))) (\<lambda>servers.
     gtry (Some (determine_electrum_url_from_net network)) (\<lambda>primary_server.
       Some (Inr (filter (\<lambda>s. url_text s \<noteq> url_text primary_server) servers)))) }"

section \<open>The branch of another server\<close>

definition INIT_CHUNK_SIZE :: int where "INIT_CHUNK_SIZE = 5"
definition MAX_CHUNK_SIZE :: int where "MAX_CHUNK_SIZE = 200"
definition MAX_FORK_DEPTH :: int where "MAX_FORK_DEPTH = DIFFCHANGE_INTERVAL * 3"
definition SERVERS_PER_ROUND :: nat where "SERVERS_PER_ROUND = 3"

datatype CrossValidationError =
    X_IncompleteHeaders | X_InvalidHashChain | X_InvalidDifficulty | X_InvalidPow | X_InvalidRetarget
  | X_UnsensibleTarget | X_ForkDepthExceeded | X_KnownAncestorMismatch | X_GdkError GdkError | X_ElectrumError GdkError

record ForkBranch =
  fb_tip_height :: int
  fb_common_ancestor :: int
  fb_total_fork_work :: int

text \<open>
  What the loops of \<^verbatim>\<open>get_fork_branch\<close> keep: the height, the work, the retarget that is still
  to be checked with the last header of its period, and the header that was looked at before.
\<close>

record ForkState =
  fk_curr_height :: int
  fk_total_work :: int
  fk_retarget :: "(int \<times> BlockHeader \<times> BlockHeader option) option"
  fk_last_header :: "BlockHeader option"

definition verify_retarget ::
  "hdr_lib \<Rightarrow> BlockHeader \<Rightarrow> BlockHeader \<Rightarrow> BlockHeader \<Rightarrow> (CrossValidationError + unit) option" where
  "verify_retarget H retarget_block period_first period_last =
     gensure (bh_bits retarget_block = hl_compact H (calc_difficulty_retarget H period_first period_last)) X_InvalidRetarget"

text \<open>The part of the loop that keeps track of retargets.\<close>

definition fork_retarget ::
  "hdr_lib \<Rightarrow> int \<Rightarrow> BlockHeader \<Rightarrow> (int \<times> BlockHeader \<times> BlockHeader option) option \<Rightarrow>
   (CrossValidationError + (int \<times> BlockHeader \<times> BlockHeader option) option) option" where
  "fork_retarget H height header retarget =
     (if height mod DIFFCHANGE_INTERVAL = 0 then Some (Inr (Some (height, header, None)))
      else case retarget of
        None \<Rightarrow> Some (Inr None)
      | Some (h, block, period_last) \<Rightarrow>
          if height mod DIFFCHANGE_INTERVAL = DIFFCHANGE_INTERVAL - 1 then Some (Inr (Some (h, block, Some header)))
          else if height mod DIFFCHANGE_INTERVAL = 1 then
            (case period_last of
               None \<Rightarrow> None
             | Some period_last \<Rightarrow> gtry (verify_retarget H block header period_last) (\<lambda>_. Some (Inr None)))
          else Some (Inr retarget))"

text \<open>One header of a chunk; the flag says that it is the common ancestor.\<close>

definition fork_header ::
  "hdr_lib \<Rightarrow> HeadersChain \<Rightarrow> disk \<Rightarrow> int \<Rightarrow> int \<Rightarrow> int \<Rightarrow> BlockHeader \<Rightarrow> ForkState \<Rightarrow>
   (CrossValidationError + bool \<times> ForkState) option" where
  "fork_header H chain d remote_tip_height height_limit threshold header st =
     (let blockhash = hl_block_hash H header;
          height = wrap_u32 (fk_curr_height st - 1);
          st = st\<lparr>fk_curr_height := height\<rparr>;
          is_period_last = (height mod DIFFCHANGE_INTERVAL = DIFFCHANGE_INTERVAL - 1);
          target = hl_target H (bh_bits header)
      in gtry (case fk_last_header st of
             None \<Rightarrow> Some (Inr ())
           | Some child \<Rightarrow>
               gtry (gensure (bh_prev_blockhash child = blockhash) X_InvalidHashChain) (\<lambda>_.
               gensure (is_period_last \<or> bh_bits child = bh_bits header) X_InvalidDifficulty)) (\<lambda>_.
         gtry (if height \<le> hc_height chain
           then gtry (gmap_err X_GdkError (Some (chain_get H chain height d))) (\<lambda>h. Some (Inr (hl_block_hash H h = blockhash)))
           else Some (Inr False)) (\<lambda>reached.
         if reached then Some (Inr (True, st))
         else
           gtry (gensure (wrap_u32 (remote_tip_height - height) < MAX_FORK_DEPTH) X_ForkDepthExceeded) (\<lambda>_.
           gtry (gensure (height_limit < height) X_KnownAncestorMismatch) (\<lambda>_.
           gtry (gensure (hl_pow_ok H header target) X_InvalidPow) (\<lambda>_.
           gtry (gensure (target < threshold) X_UnsensibleTarget) (\<lambda>_.
           gtry (fork_retarget H height header (fk_retarget st)) (\<lambda>retarget.
             Some (Inr (False, st\<lparr>fk_retarget := retarget,
               fk_total_work := wrap_u256 (fk_total_work st + hl_work H header), fk_last_header := Some header\<rparr>))))))))))"

fun fork_headers ::
  "(BlockHeader \<Rightarrow> ForkState \<Rightarrow> (CrossValidationError + bool \<times> ForkState) option) \<Rightarrow> BlockHeader list \<Rightarrow> ForkState \<Rightarrow>
   (CrossValidationError + bool \<times> ForkState) option" where
  "fork_headers f [] st = Some (Inr (False, st))"
| "fork_headers f (header # headers) st =
     gtry (f header st) (\<lambda>(reached, st). if reached then Some (Inr (True, st)) else fork_headers f headers st)"

text \<open>The headers of a chunk, from a height up; the client may answer with fewer.\<close>

definition fetch_chunk :: "Electrum \<Rightarrow> int \<Rightarrow> int \<Rightarrow> CrossValidationError + BlockHeader list" where
  "fetch_chunk client c_start c_size =
     (case el_block_headers client c_start (nat c_size) of
        Inl e \<Rightarrow> Inl (X_ElectrumError e)
      | Inr chunk \<Rightarrow> if length chunk = nat c_size then Inr chunk else Inl X_IncompleteHeaders)"

text \<open>The loop over the chunks.\<close>

partial_function (option) fork_chunks ::
  "Electrum \<Rightarrow> (BlockHeader \<Rightarrow> ForkState \<Rightarrow> (CrossValidationError + bool \<times> ForkState) option) \<Rightarrow> int \<Rightarrow> int \<Rightarrow> ForkState \<Rightarrow>
   (CrossValidationError + ForkState) option" where
  "fork_chunks client f height_limit chunk_size st =
     (let c_start = max (max 0 (fk_curr_height st - chunk_size)) height_limit;
          c_size = wrap_u32 (fk_curr_height st - c_start)
      in case fetch_chunk client c_start c_size of
           Inl e \<Rightarrow> Some (Inl e)
         | Inr chunk \<Rightarrow>
             Option.bind (fork_headers f (rev chunk) st) (\<lambda>r.
               case r of
                 Inl e \<Rightarrow> Some (Inl e)
               | Inr (reached, st) \<Rightarrow>
                   if reached then Some (Inr st)
                   else fork_chunks client f height_limit (min (chunk_size div 2 * 3) MAX_CHUNK_SIZE) st))"

definition get_fork_branch ::
  "hdr_lib \<Rightarrow> HeadersChain \<Rightarrow> disk \<Rightarrow> Electrum \<Rightarrow> int \<Rightarrow> int option \<Rightarrow> (CrossValidationError + ForkBranch) option" where
  "get_fork_branch H chain d client remote_tip_height known_ancestor =
     (let threshold = wrap_u256 (hl_target H (bh_bits (hc_last chain)) * 4);
          height_limit = (case known_ancestor of None \<Rightarrow> 0 | Some a \<Rightarrow> a)
      in gtry (fork_chunks client (fork_header H chain d remote_tip_height height_limit threshold) height_limit INIT_CHUNK_SIZE
           \<lparr>fk_curr_height = wrap_u32 (remote_tip_height + 1), fk_total_work = 0, fk_retarget = None, fk_last_header = None\<rparr>)
         (\<lambda>st. let common_ancestor = fk_curr_height st in
           gtry (gensure (case known_ancestor of None \<Rightarrow> True | Some expected \<Rightarrow> expected = common_ancestor)
             X_KnownAncestorMismatch) (\<lambda>_.
           gtry (case fk_retarget st of
               None \<Rightarrow> Some (Inr ())
             | Some (retarget_height, retarget_block, period_last) \<Rightarrow>
                 gtry (gmap_err X_GdkError (Some (chain_get H chain (wrap_u32 (retarget_height - DIFFCHANGE_INTERVAL)) d)))
                   (\<lambda>period_first.
                 gtry (case period_last of
                     Some h \<Rightarrow> Some (Inr h)
                   | None \<Rightarrow> gmap_err X_GdkError (Some (chain_get H chain (wrap_u32 (retarget_height - 1)) d)))
                   (\<lambda>period_last. verify_retarget H retarget_block period_first period_last))) (\<lambda>_.
           Some (Inr \<lparr>fb_tip_height = remote_tip_height, fb_common_ancestor = common_ancestor,
             fb_total_fork_work = fk_total_work st\<rparr>)))))"

section \<open>Results\<close>

text \<open>The work of the headers of the own chain between two heights; a header that cannot be read panics.\<close>

definition chain_work :: "hdr_lib \<Rightarrow> HeadersChain \<Rightarrow> disk \<Rightarrow> int \<Rightarrow> int \<Rightarrow> int option" where
  "chain_work H chain d from_height to_height =
     foldM (\<lambda>height total. case chain_get H chain height d of
         Inl _ \<Rightarrow> None
       | Inr h \<Rightarrow> Some (wrap_u256 (total + hl_work H h))) [from_height..to_height] 0"

definition is_resolved :: "hdr_lib \<Rightarrow> CrossValidationInvalid \<Rightarrow> HeadersChain \<Rightarrow> disk \<Rightarrow> bool option" where
  "is_resolved H i chain d =
     map_option (\<lambda>local_work_since. cv_work_diff i \<le> local_work_since)
       (chain_work H chain d (wrap_u32 (cv_our_height i + 1)) (hc_height chain))"

fun merge_results :: "CrossValidationResult \<Rightarrow> CrossValidationResult \<Rightarrow> CrossValidationResult" where
  "merge_results Cross_Valid (Cross_Invalid b) = Cross_Invalid b"
| "merge_results (Cross_Invalid a) (Cross_Invalid b) =
     (if cv_work_diff b < cv_work_diff a then Cross_Invalid b else Cross_Invalid a)"
| "merge_results current Cross_Valid = current"

fun result_is_valid :: "CrossValidationResult \<Rightarrow> bool" where
  "result_is_valid Cross_Valid = True"
| "result_is_valid (Cross_Invalid _) = False"

definition spv_cross_validate ::
  "hdr_lib \<Rightarrow> (ElectrumUrl \<Rightarrow> GdkError + Electrum) \<Rightarrow> HeadersChain \<Rightarrow> disk \<Rightarrow> bytes \<Rightarrow> ElectrumUrl \<Rightarrow>
   (CrossValidationError + CrossValidationResult) option" where
  "spv_cross_validate H build_client chain d local_tip_hash server_url =
     gtry (gmap_err X_GdkError (Some (build_client server_url))) (\<lambda>client.
     gtry (gmap_err X_ElectrumError (Some (el_headers_subscribe client))) (\<lambda>(remote_height, remote_header).
     let remote_tip_hash = hl_block_hash H remote_header;
         remote_tip_height = wrap_u32 remote_height;
         invalid = (\<lambda>fork work_diff. Cross_Invalid
           \<lparr>cv_our_height = hc_height chain, cv_common_ancestor = fb_common_ancestor fork,
            cv_longest_height = fb_tip_height fork, cv_longest_work = fb_total_fork_work fork,
            cv_work_diff = work_diff, cv_origin_server = server_url\<rparr>)
     in if remote_tip_height = hc_height chain \<and> remote_tip_hash = local_tip_hash then Some (Inr Cross_Valid)
        else
          gtry (if remote_tip_height < hc_height chain
            then gtry (gmap_err X_GdkError (Some (chain_get H chain remote_tip_height d)))
              (\<lambda>local_header. Some (Inr (hl_block_hash H local_header = remote_tip_hash)))
            else Some (Inr False)) (\<lambda>remote_behind.
          if remote_behind then Some (Inr Cross_Valid)
          else
            gtry (if hc_height chain < remote_tip_height
              then gtry (gmap_err X_ElectrumError (Some (el_block_header client (hc_height chain))))
                (\<lambda>h. Some (Inr (hl_block_hash H h = local_tip_hash)))
              else Some (Inr False)) (\<lambda>local_behind.
            if local_behind then
              gtry (get_fork_branch H chain d client remote_tip_height (Some (hc_height chain))) (\<lambda>fork.
                Some (Inr (invalid fork (fb_total_fork_work fork))))
            else
              gtry (get_fork_branch H chain d client remote_tip_height None) (\<lambda>fork.
              Option.bind (chain_work H chain d (wrap_u32 (fb_common_ancestor fork + 1)) (hc_height chain)) (\<lambda>our_work.
                if fb_total_fork_work fork \<le> our_work then Some (Inr Cross_Valid)
                else Some (Inr (invalid fork (wrap_u256 (fb_total_fork_work fork - our_work))))))))))"

section \<open>Rounds of validation\<close>

record SpvCrossValidator =
  xv_servers :: "ElectrumUrl list"
  xv_last_result :: CrossValidationResult

definition random_servers :: "(ElectrumUrl list \<Rightarrow> ElectrumUrl list) \<Rightarrow> SpvCrossValidator \<Rightarrow> nat \<Rightarrow> ElectrumUrl list" where
  "random_servers shuffle v num = take num (shuffle (xv_servers v))"

definition grace :: "CrossValidationResult \<Rightarrow> CrossValidationResult" where
  "grace r = (case r of
     Cross_Valid \<Rightarrow> Cross_Valid
   | Cross_Invalid i \<Rightarrow>
       if cv_common_ancestor i = cv_our_height i \<and> cv_our_height i = wrap_u32 (cv_longest_height i - 1) then Cross_Valid else r)"

definition validate ::
  "hdr_lib \<Rightarrow> (ElectrumUrl \<Rightarrow> GdkError + Electrum) \<Rightarrow> (ElectrumUrl list \<Rightarrow> ElectrumUrl list) \<Rightarrow> HeadersChain \<Rightarrow> disk \<Rightarrow>
   SpvCrossValidator \<Rightarrow> (CrossValidationResult \<times> SpvCrossValidator) option" where
  "validate H build_client shuffle chain d v = do {
     let drawn = random_servers shuffle v SERVERS_PER_ROUND;
     (round_servers, last_result) \<leftarrow> (case xv_last_result v of
         Cross_Valid \<Rightarrow> Some (drawn, Cross_Valid)
       | Cross_Invalid i \<Rightarrow> map_option (\<lambda>resolved. (cv_origin_server i # drawn,
           if resolved then Cross_Valid else Cross_Invalid i)) (is_resolved H i chain d));
     curr_result \<leftarrow> foldM (\<lambda>server_url current.
         case spv_cross_validate H build_client chain d (hl_block_hash H (hc_last chain)) server_url of
           None \<Rightarrow> None
         | Some (Inl _) \<Rightarrow> Some current
         | Some (Inr r) \<Rightarrow> Some (merge_results current r)) round_servers last_result;
     let curr_result = grace curr_result;
     Some (curr_result, v\<lparr>xv_last_result := curr_result\<rparr>) }"

definition cross_validator_from_network :: "string \<Rightarrow> string \<Rightarrow> Network \<Rightarrow> SpvCrossValidator option gres" where
  "cross_validator_from_network servers_mainnet servers_testnet network =
     (if \<not> net_liquid network \<and> net_spv_multi network = Some True then
        gtry (get_cross_servers servers_mainnet servers_testnet network) (\<lambda>servers.
          Some (Inr (Some \<lparr>xv_servers = servers, xv_last_result = Cross_Valid\<rparr>)))
      else Some (Inr None))"

end
