(* ===== verification/Gdk_Sync.thy ===== *)
theory Gdk_Sync
  imports Gdk_Sign Gdk_Spv
begin

text \<open>
  The threads of a session (\<^verbatim>\<open>gdk_electrum/src/lib.rs\<close>): \<^verbatim>\<open>Syncer\<close> downloads the
  transactions of the accounts, \<^verbatim>\<open>Tipper\<close> follows the height of the chain and
  \<^verbatim>\<open>Headers\<close> checks that transactions are in blocks.  They share the store, which is passed
  to each operation and returned, with the disk, also when the operation fails.  What hash sets
  and maps iterate over, the order of the two address chains and the unblinding functions of
  \<^verbatim>\<open>libwally\<close> are parameters, the fields of \<open>sync_lib\<close>.
\<close>

record sync_lib =
  yl_order_txids :: "BETxid list \<Rightarrow> BETxid list"
  yl_order_heights :: "int list \<Rightarrow> int list"
  yl_chains :: "int list"  \<comment> \<open>0 and 1 in the order drawn\<close>
  yl_nonce_ser :: "ConfNonce \<Rightarrow> bytes"
  yl_value_ser :: "ConfValue \<Rightarrow> bytes"
  yl_asset_ser :: "ConfAsset \<Rightarrow> bytes"
  yl_public_key :: "bytes \<Rightarrow> bytes option"
  yl_asset_unblind :: "bytes \<Rightarrow> bytes \<Rightarrow> bytes \<Rightarrow> bytes \<Rightarrow> bytes \<Rightarrow> bytes \<Rightarrow> CommonError + bytes \<times> bytes \<times> bytes \<times> int"
    \<comment> \<open>sender key, blinding key, range proof, value commitment, script, asset commitment\<close>

section \<open>Unblinding\<close>

record Syncer =
  syn_master_blinding :: "bytes option"
  syn_network :: Network

definition try_unblind :: "gdk_keys \<Rightarrow> sync_lib \<Rightarrow> Syncer \<Rightarrow> ElmTxOut \<Rightarrow> GdkUnblinded gres" where
  "try_unblind K Y syncer output =
     (case (eout_asset output, eout_value output, eout_nonce output) of
        (Asset_Confidential _ _, Value_Confidential _ _, Nonce_Confidential _ _) \<Rightarrow> do {
          master_blinding \<leftarrow> syn_master_blinding syncer;
          let script = eout_script_pubkey output;
          let blinding_key = gk_blinding_priv K master_blinding script;
          sender_pk \<leftarrow> yl_public_key Y (yl_nonce_ser Y (eout_nonce output));
          gtry (gmap_err G_Common (Some (yl_asset_unblind Y sender_pk blinding_key (eout_rangeproof output)
              (yl_value_ser Y (eout_value output)) script (yl_asset_ser Y (eout_asset output)))))
            (\<lambda>(asset, abf, vbf, value).
              Some (Inr \<lparr>ub_asset = asset, ub_abf = abf, ub_vbf = vbf, ub_value = value\<rparr>)) }
      | (Asset_Explicit asset_id, Value_Explicit satoshi, _) \<Rightarrow>
          Some (Inr \<lparr>ub_asset = asset_id, ub_abf = zero_bytes 32, ub_vbf = zero_bytes 32, ub_value = satoshi\<rparr>)
      | _ \<Rightarrow> Some (Inl (G_Generic ''Unexpected asset/value/nonce'')))"

section \<open>Downloads\<close>

record DownloadTxResult =
  dr_txs :: "(BETxid \<times> BETransaction) list"
  dr_unblinds :: "(OutPoint \<times> GdkUnblinded) list"

definition default_download :: DownloadTxResult where
  "default_download = \<lparr>dr_txs = [], dr_unblinds = []\<rparr>"

text \<open>The own outputs of a Liquid transaction; an output that cannot be unblinded is left out.\<close>

definition unblind_outputs ::
  "gdk_lib \<Rightarrow> gdk_keys \<Rightarrow> sync_lib \<Rightarrow> Syncer \<Rightarrow> RawAccountCache \<Rightarrow> (BEScript, GdkPath) hmap \<Rightarrow> ElmTx \<Rightarrow>
   (OutPoint \<times> GdkUnblinded) list \<Rightarrow> (OutPoint \<times> GdkUnblinded) list option" where
  "unblind_outputs L K Y syncer acc scripts tx unblinds =
     foldM (\<lambda>(i, output) unblinds.
       let be_script = Script_Elements (eout_script_pubkey output) in
       if hm_contains (ac_paths acc) be_script \<or> hm_contains scripts be_script then
         (case try_unblind K Y syncer output of
            None \<Rightarrow> None
          | Some (Inr unblinded) \<Rightarrow> Some (unblinds @ [((gl_elm_txid L tx, int i), unblinded)])
          | Some (Inl _) \<Rightarrow> Some unblinds)
       else Some unblinds) (enumerate 0 (etx_output tx)) unblinds"

definition deserialize_txs :: "gdk_lib \<Rightarrow> NetworkId \<Rightarrow> bytes list \<Rightarrow> BETransaction list gres" where
  "deserialize_txs L net bs =
     gfold (\<lambda>b txs. gtry (gmap_err G_Common (Some (tx_deserialize L b net))) (\<lambda>tx. Some (Inr (txs @ [tx])))) bs []"

text \<open>The previous transactions of Bitcoin transactions, without their witnesses.\<close>

definition download_previous ::
  "gdk_lib \<Rightarrow> NetworkId \<Rightarrow> Electrum \<Rightarrow> BETxid list \<Rightarrow> (BETxid \<times> BETransaction) list gres" where
  "download_previous L net client txids =
     (if txids = [] then Some (Inr [])
      else gtry (Some (el_batch_transactions client (map txid_into_bitcoin txids))) (\<lambda>bs.
        gfold (\<lambda>b txs. gtry (gmap_err G_Common (Some (tx_deserialize L b net))) (\<lambda>tx. do {
          tx \<leftarrow> strip_witness L tx;
          Some (Inr (txs @ [(tx_id L tx, tx)])) })) bs []))"

definition download_txs ::
  "gdk_lib \<Rightarrow> gdk_keys \<Rightarrow> sync_lib \<Rightarrow> Syncer \<Rightarrow> Electrum \<Rightarrow> RawAccountCache \<Rightarrow> BETxid list \<Rightarrow>
   (BEScript, GdkPath) hmap \<Rightarrow> DownloadTxResult gres" where
  "download_txs L K Y syncer client acc history_txs_id scripts = do {
     net \<leftarrow> network_id (syn_network syncer);
     let in_db = map fst (ac_all_txs acc);
     let txs_to_download = yl_order_txids Y (filter (\<lambda>t. t \<notin> set in_db) history_txs_id);
     if txs_to_download = [] then Some (Inr default_download)
     else gtry (Some (el_batch_transactions client (map txid_into_bitcoin txs_to_download))) (\<lambda>bs.
       gtry (deserialize_txs L net bs) (\<lambda>txs_downloaded. do {
         let in_db = map (tx_id L) txs_downloaded @ in_db;
         unblinds \<leftarrow> foldM (\<lambda>tx unblinds. case tx of
             Tx_Elements tx \<Rightarrow> unblind_outputs L K Y syncer acc scripts tx unblinds
           | Tx_Bitcoin _ \<Rightarrow> Some unblinds) txs_downloaded [];
         let previous = remdups (concat (map (\<lambda>tx. case tx of
             Tx_Bitcoin _ \<Rightarrow> previous_output_txids tx | Tx_Elements _ \<Rightarrow> []) txs_downloaded));
         gtry (download_previous L net client (yl_order_txids Y (filter (\<lambda>t. t \<notin> set in_db) previous))) (\<lambda>previous_txs.
           Some (Inr \<lparr>dr_txs = map (\<lambda>tx. (tx_id L tx, tx)) txs_downloaded @ previous_txs, dr_unblinds = unblinds\<rparr>)) })) }"

fun header_deserialize :: "hdr_lib \<Rightarrow> bytes \<Rightarrow> NetworkId \<Rightarrow> CommonError + BEBlockHeader" where
  "header_deserialize H b (Net_Bitcoin n) =
     (case hl_des H b of None \<Rightarrow> Inl (C_Generic ''deserialize'') | Some h \<Rightarrow> Inr (Header_Bitcoin h))"
| "header_deserialize H b (Net_Elements n) =
     (case hl_elm_des H b of None \<Rightarrow> Inl (C_Generic ''deserialize'') | Some h \<Rightarrow> Inr (Header_Elements h))"

fun header_block_hash :: "hdr_lib \<Rightarrow> BEBlockHeader \<Rightarrow> BEBlockHash" where
  "header_block_hash H (Header_Bitcoin h) = Hash_Bitcoin (hl_block_hash H h)"
| "header_block_hash H (Header_Elements h) = Hash_Elements (hl_elm_hash H h)"

definition download_headers ::
  "hdr_lib \<Rightarrow> sync_lib \<Rightarrow> Syncer \<Rightarrow> Electrum \<Rightarrow> RawAccountCache \<Rightarrow> int list \<Rightarrow> (int \<times> BEBlockHeader) list gres" where
  "download_headers H Y syncer client acc heights_set = do {
     net \<leftarrow> network_id (syn_network syncer);
     let heights_in_db = 0 # List.map_filter snd (ac_heights acc);
     let heights_to_download = yl_order_heights Y (filter (\<lambda>h. h \<notin> set heights_in_db) heights_set);
     if heights_to_download = [] then Some (Inr [])
     else gtry (Some (el_batch_block_header_raw client heights_to_download)) (\<lambda>bs.
       gtry (gfold (\<lambda>b hs. gtry (gmap_err G_Common (Some (header_deserialize H b net))) (\<lambda>h. Some (Inr (hs @ [h])))) bs [])
         (\<lambda>headers. Some (Inr (zip heights_to_download headers)))) }"

section \<open>Histories of scripts\<close>

record SyncState =
  sy_history :: "BETxid list"
  sy_heights :: "int list"
  sy_txid_height :: "(BETxid, int option) hmap"
  sy_scripts :: "(BEScript, GdkPath) hmap"
  sy_last_used :: Indexes

definition initial_sync :: SyncState where
  "initial_sync = \<lparr>sy_history = [], sy_heights = [], sy_txid_height = [], sy_scripts = [],
     sy_last_used = \<lparr>ix_external = 0, ix_internal = 0\<rparr>\<rparr>"

text \<open>One transaction of a history; the height is negative or zero when it is not in a block.\<close>

definition sync_entry :: "NetworkId \<Rightarrow> bytes \<times> int \<Rightarrow> SyncState \<Rightarrow> SyncState" where
  "sync_entry net el st = (case el of (tx_hash, el_height) \<Rightarrow>
     (let height = max el_height 0; txid = txid_into_net tx_hash net in
      st\<lparr>sy_heights := List.insert (wrap_u32 height) (sy_heights st),
         sy_txid_height := hm_insert txid (if height = 0 then None else Some (wrap_u32 height)) (sy_txid_height st),
         sy_history := List.insert txid (sy_history st)\<rparr>))"

definition last_nonempty :: "'a list list \<Rightarrow> nat option" where
  "last_nonempty result =
     (case filter (\<lambda>(_, v). v \<noteq> []) (enumerate 0 result) of [] \<Rightarrow> None | us \<Rightarrow> Some (fst (last us)))"

definition sync_batch ::
  "gdk_keys \<Rightarrow> NetworkId \<Rightarrow> Electrum \<Rightarrow> Account \<Rightarrow> StoreMeta \<Rightarrow> int \<Rightarrow> int \<Rightarrow> SyncState \<Rightarrow> (bool \<times> SyncState) gres" where
  "sync_batch K net client account store i batch_count st =
     gtry (get_script_batch K account (i = 1) batch_count store) (\<lambda>batch.
     gtry (Some (el_batch_history client (map (script_into_bitcoin \<circ> fst) (sb_value batch)))) (\<lambda>result.
     let st = (if sb_cached batch then st else st\<lparr>sy_scripts := hm_extend (sb_value batch) (sy_scripts st)\<rparr>);
         st = (case last_nonempty result of
             None \<Rightarrow> st
           | Some m \<Rightarrow>
               let index = wrap_u32 (wrap_u32 (int m) + wrap_u32 (batch_count * BATCH_SIZE)) in
               st\<lparr>sy_last_used := (if i = 0 then (sy_last_used st)\<lparr>ix_external := index\<rparr>
                 else (sy_last_used st)\<lparr>ix_internal := index\<rparr>)\<rparr>);
         flattened = concat result
     in Some (Inr (flattened \<noteq> [], fold (sync_entry net) flattened st))))"

text \<open>The loop over the batches of a chain, which goes on while histories are not empty.\<close>

partial_function (option) sync_chain ::
  "gdk_keys \<Rightarrow> NetworkId \<Rightarrow> Electrum \<Rightarrow> Account \<Rightarrow> StoreMeta \<Rightarrow> int \<Rightarrow> int \<Rightarrow> SyncState \<Rightarrow> SyncState gres" where
  "sync_chain K net client account store i batch_count st =
     Option.bind (sync_batch K net client account store i batch_count st) (\<lambda>r.
       case r of
         Inl e \<Rightarrow> Some (Inl e)
       | Inr (again, st) \<Rightarrow>
           if again then sync_chain K net client account store i (wrap_u32 (batch_count + 1)) st
           else Some (Inr st))"

section \<open>Synchronization\<close>

text \<open>What is new about an account.\<close>

definition heights_changed :: "(BETxid, int option) hmap \<Rightarrow> RawAccountCache \<Rightarrow> bool" where
  "heights_changed txid_height acc \<longleftrightarrow>
     list_ex (\<lambda>(txid, height). hm_get (ac_heights acc) txid \<noteq> Some height) txid_height \<or>
     list_ex (\<lambda>txid. hm_get txid_height txid = None) (map fst (ac_heights acc))"

definition entries_of_txs :: "gdk_lib \<Rightarrow> (BETxid \<times> BETransaction) list \<Rightarrow> (BETxid \<times> BETransactionEntry) list option" where
  "entries_of_txs L txs = those (map (\<lambda>(txid, tx). map_option (Pair txid) (entry_of_tx L tx)) txs)"

text \<open>The changes to the account; the heights are replaced, everything else is added to.\<close>

definition apply_sync ::
  "gdk_lib \<Rightarrow> SyncState \<Rightarrow> DownloadTxResult \<Rightarrow> RawAccountCache \<Rightarrow> RawAccountCache option" where
  "apply_sync L st new_txs acc = do {
     entries \<leftarrow> entries_of_txs L (dr_txs new_txs);
     Some (acc\<lparr>ac_indexes := sy_last_used st,
       ac_all_txs := hm_extend entries (ac_all_txs acc),
       ac_unblinded := hm_extend (dr_unblinds new_txs) (ac_unblinded acc),
       ac_heights := hm_extend (sy_txid_height st) [],
       ac_scripts := hm_extend (map (\<lambda>(a, b). (b, a)) (sy_scripts st)) (ac_scripts acc),
       ac_paths := hm_extend (sy_scripts st) (ac_paths acc)\<rparr>) }"

text \<open>The part of the loop that reads from the server: what the account's histories and downloads are.\<close>

definition fetch_account ::
  "gdk_lib \<Rightarrow> gdk_keys \<Rightarrow> hdr_lib \<Rightarrow> sync_lib \<Rightarrow> Syncer \<Rightarrow> Electrum \<Rightarrow> Account \<Rightarrow> StoreMeta \<Rightarrow>
   (SyncState \<times> DownloadTxResult \<times> (int \<times> BEBlockHeader) list \<times> RawAccountCache) gres" where
  "fetch_account L K H Y syncer client account store = do {
     net \<leftarrow> network_id (syn_network syncer);
     gtry (gfold (\<lambda>i st. sync_chain K net client account store i 0 st) (yl_chains Y) initial_sync) (\<lambda>st.
     gtry (Some (account_cache store (acc_account_num account))) (\<lambda>acc.
     gtry (download_txs L K Y syncer client acc (sy_history st) (sy_scripts st)) (\<lambda>new_txs.
     gtry (download_headers H Y syncer client acc (sy_heights st)) (\<lambda>headers.
       Some (Inr (st, new_txs, headers, acc)))))) }"

definition sync_account ::
  "gdk_lib \<Rightarrow> gdk_keys \<Rightarrow> hdr_lib \<Rightarrow> store_lib \<Rightarrow> sync_lib \<Rightarrow> Syncer \<Rightarrow> Electrum \<Rightarrow> Account \<Rightarrow> StoreMeta \<times> disk \<Rightarrow>
   ((GdkError + bool) \<times> StoreMeta \<times> disk) option" where
  "sync_account L K H S Y syncer client account sd = (case sd of (store, d) \<Rightarrow>
     (case fetch_account L K H Y syncer client account store of
        None \<Rightarrow> None
      | Some (Inl e) \<Rightarrow> Some (Inl e, store, d)
      | Some (Inr (st, new_txs, headers, acc)) \<Rightarrow>
          if dr_txs new_txs \<noteq> [] \<or> headers \<noteq> [] \<or> ac_indexes acc \<noteq> sy_last_used st \<or> sy_scripts st \<noteq> []
             \<or> heights_changed (sy_txid_height st) acc
          then do {
            acc \<leftarrow> apply_sync L st new_txs acc;
            let store = store\<lparr>sm_cache := (sm_cache store)\<lparr>rc_headers := hm_extend headers (rc_headers (sm_cache store))\<rparr>\<rparr>;
            let store = set_account_cache (acc_account_num account) acc store;
            let d = flush_meta S store d;
            (r, store, d) \<leftarrow> verify_own_txs L K S account (dr_txs new_txs) store d;
            Some ((case r of Inl e \<Rightarrow> Inl e | Inr _ \<Rightarrow> Inr True), store, d) }
          else Some (Inr False, store, d)))"

text \<open>\<^verbatim>\<open>Syncer::sync\<close>: the numbers of the accounts that changed.\<close>

fun sync ::
  "gdk_lib \<Rightarrow> gdk_keys \<Rightarrow> hdr_lib \<Rightarrow> store_lib \<Rightarrow> sync_lib \<Rightarrow> Syncer \<Rightarrow> Electrum \<Rightarrow> Account list \<Rightarrow> StoreMeta \<times> disk \<Rightarrow>
   ((GdkError + int list) \<times> StoreMeta \<times> disk) option" where
  "sync L K H S Y syncer client [] sd = Some (Inr [], sd)"
| "sync L K H S Y syncer client (account # accounts) sd = do {
     (r, sd) \<leftarrow> sync_account L K H S Y syncer client account sd;
     case r of
       Inl e \<Rightarrow> Some (Inl e, sd)
     | Inr changed \<Rightarrow> do {
         (r, sd) \<leftarrow> sync L K H S Y syncer client accounts sd;
         Some (map_sum id (\<lambda>ns. if changed then acc_account_num account # ns else ns) r, sd) } }"

section \<open>The height of the chain\<close>

definition tip :: "hdr_lib \<Rightarrow> Network \<Rightarrow> Electrum \<Rightarrow> StoreMeta \<Rightarrow> (int \<times> StoreMeta) gres" where
  "tip H network client store =
     gtry (Some (el_headers_subscribe_raw client)) (\<lambda>(header_height, header).
     let height = wrap_u32 header_height in
     if height \<noteq> fst (rc_tip (sm_cache store)) then do {
       net \<leftarrow> network_id network;
       gtry (gmap_err G_Common (Some (header_deserialize H header net))) (\<lambda>h.
         Some (Inr (height, store\<lparr>sm_cache := (sm_cache store)\<lparr>rc_tip := (height, header_block_hash H h)\<rparr>\<rparr>))) }
     else Some (Inr (height, store)))"

section \<open>Proofs of inclusion\<close>

datatype ChainOrVerifier = Check_Chain HeadersChain | Check_Verifier Verifier

record Headers =
  hd_checker :: ChainOrVerifier
  hd_cross_validator :: "SpvCrossValidator option"

definition headers_ask :: "hdr_lib \<Rightarrow> nat \<Rightarrow> Electrum \<Rightarrow> Headers \<Rightarrow> disk \<Rightarrow> (GdkError + nat) \<times> Headers \<times> disk" where
  "headers_ask H chunk_size client headers d =
     (case hd_checker headers of
        Check_Verifier _ \<Rightarrow> (Inr 0, headers, d)
      | Check_Chain chain \<Rightarrow>
          (case el_block_headers client (hc_height chain + 1) chunk_size of
             Inl e \<Rightarrow> (Inl e, headers, d)
           | Inr hs \<Rightarrow>
               (case push H hs chain d of
                  (r, chain, d) \<Rightarrow> (map_sum id (\<lambda>_. length hs) r, headers\<lparr>hd_checker := Check_Chain chain\<rparr>, d))))"

definition headers_remove :: "hdr_lib \<Rightarrow> int \<Rightarrow> Headers \<Rightarrow> disk \<Rightarrow> (GdkError + unit) \<times> Headers \<times> disk" where
  "headers_remove H n headers d =
     (case hd_checker headers of
        Check_Verifier _ \<Rightarrow> (Inr (), headers, d)
      | Check_Chain chain \<Rightarrow>
          (case chain_remove H n chain d of
             (r, chain, d) \<Rightarrow> (r, headers\<lparr>hd_checker := Check_Chain chain\<rparr>, d)))"

text \<open>The check of one transaction.  The transaction is of the chain of the checker, or it panics.\<close>

definition proof_verified ::
  "hdr_lib \<Rightarrow> Electrum \<Rightarrow> ChainOrVerifier \<Rightarrow> (int, BEBlockHeader) hmap \<Rightarrow> disk \<Rightarrow> BETxid \<Rightarrow> int \<Rightarrow> bool option" where
  "proof_verified H client checker headers d txid height =
     (case el_get_merkle client (txid_into_bitcoin txid) height of
        Inl _ \<Rightarrow> Some False
      | Inr merkle \<Rightarrow>
          (case checker of
             Check_Chain chain \<Rightarrow>
               (case txid of
                  Txid_Bitcoin t \<Rightarrow> Some (is_ok (chain_verify_tx_proof H chain t height merkle d))
                | Txid_Elements _ \<Rightarrow> None)
           | Check_Verifier verifier \<Rightarrow>
               (case hm_get headers height of
                  Some (Header_Elements header) \<Rightarrow>
                    (case txid of
                       Txid_Elements t \<Rightarrow> map_option is_ok (verifier_verify_tx_proof H verifier t merkle header)
                     | Txid_Bitcoin _ \<Rightarrow> None)
                | _ \<Rightarrow> Some False)))"

text \<open>The proofs of one account: how many, and the results with those of unconfirmed transactions removed.\<close>

definition account_proofs ::
  "hdr_lib \<Rightarrow> Electrum \<Rightarrow> ChainOrVerifier \<Rightarrow> disk \<Rightarrow> RawAccountCache \<Rightarrow> RawCache \<Rightarrow> (nat \<times> RawCache) option" where
  "account_proofs H client checker d acc cache = do {
     let remove_proof = map fst (filter (\<lambda>(t, h). h = None \<and> hm_get (rc_txs_verif cache) t \<noteq> None) (ac_heights acc));
     let needs_proof = List.map_filter (\<lambda>(t, h). map_option (Pair t) h)
       (filter (\<lambda>(t, _). hm_get (rc_txs_verif cache) t = None) (ac_heights acc));
     txs_verified \<leftarrow> foldM (\<lambda>(txid, height) verified. map_option
         (\<lambda>b. hm_insert txid (if b then Spv_Verified else Spv_NotVerified) verified)
         (proof_verified H client checker (rc_headers cache) d txid height)) needs_proof [];
     Some (length txs_verified,
       cache\<lparr>rc_txs_verif := fold hm_remove remove_proof (hm_extend txs_verified (rc_txs_verif cache))\<rparr>) }"

definition get_proofs :: "hdr_lib \<Rightarrow> Electrum \<Rightarrow> Headers \<Rightarrow> disk \<Rightarrow> StoreMeta \<Rightarrow> (nat \<times> StoreMeta) gres" where
  "get_proofs H client headers d store =
     gfold (\<lambda>account_num (proofs_done, store).
       gtry (Some (account_cache store account_num)) (\<lambda>acc. do {
         (n, cache) \<leftarrow> account_proofs H client (hd_checker headers) d acc (sm_cache store);
         Some (Inr (proofs_done + n, store\<lparr>sm_cache := cache\<rparr>)) })) (account_nums store) (0, store)"

text \<open>Whether the validity has changed.\<close>

definition cross_validate ::
  "hdr_lib \<Rightarrow> (ElectrumUrl \<Rightarrow> GdkError + Electrum) \<Rightarrow> (ElectrumUrl list \<Rightarrow> ElectrumUrl list) \<Rightarrow> disk \<Rightarrow> Headers \<Rightarrow> StoreMeta \<Rightarrow>
   (bool \<times> Headers \<times> StoreMeta) option" where
  "cross_validate H build_client shuffle d headers store =
     (case (hd_cross_validator headers, hd_checker headers) of
        (Some v, Check_Chain chain) \<Rightarrow> do {
          let was_valid = map_option result_is_valid (rc_cross_validation_result (sm_cache store));
          (result, v) \<leftarrow> validate H build_client shuffle chain d v;
          Some (was_valid \<noteq> Some (result_is_valid result), headers\<lparr>hd_cross_validator := Some v\<rparr>,
            store\<lparr>sm_cache := (sm_cache store)\<lparr>rc_cross_validation_result := Some result\<rparr>\<rparr>) }
      | _ \<Rightarrow> Some (False, headers, store))"

section \<open>The thread of the headers\<close>

text \<open>
  The inner loop asks for chunks until one is not full.  Headers that are not valid clear the
  results and remove the last 144 headers; if that fails the loop is left, and after any other
  error it is tried again.  The server may answer each time differently: the answers are a list
  of clients, and the loop is as long as the list at most.
\<close>

fun ask_loop :: "hdr_lib \<Rightarrow> nat \<Rightarrow> Electrum list \<Rightarrow> Headers \<Rightarrow> disk \<Rightarrow> StoreMeta \<Rightarrow> Headers \<times> disk \<times> StoreMeta" where
  "ask_loop H chunk_size [] headers d store = (headers, d, store)"
| "ask_loop H chunk_size (client # clients) headers d store =
     (case headers_ask H chunk_size client headers d of
        (Inr headers_found, headers, d) \<Rightarrow>
          if headers_found < chunk_size then (headers, d, store) else ask_loop H chunk_size clients headers d store
      | (Inl G_InvalidHeaders, headers, d) \<Rightarrow>
          let store = store\<lparr>sm_cache := (sm_cache store)\<lparr>rc_txs_verif := []\<rparr>\<rparr> in
          (case headers_remove H 144 headers d of
             (Inl _, headers, d) \<Rightarrow> (headers, d, store)
           | (Inr _, headers, d) \<Rightarrow> ask_loop H chunk_size clients headers d store)
      | (Inl _, headers, d) \<Rightarrow> ask_loop H chunk_size clients headers d store)"

definition CROSS_VALIDATION_RATE :: int where "CROSS_VALIDATION_RATE = 4"

text \<open>One round of the thread; the flag says whether a change of the transactions is notified.\<close>

definition headers_round ::
  "hdr_lib \<Rightarrow> (ElectrumUrl \<Rightarrow> GdkError + Electrum) \<Rightarrow> (ElectrumUrl list \<Rightarrow> ElectrumUrl list) \<Rightarrow> Electrum list \<Rightarrow> Electrum \<Rightarrow>
   int \<Rightarrow> Headers \<Rightarrow> disk \<Rightarrow> StoreMeta \<Rightarrow> (bool \<times> int \<times> Headers \<times> disk \<times> StoreMeta) option" where
  "headers_round H build_client shuffle clients client rnd headers d store =
     (case ask_loop H (nat DIFFCHANGE_INTERVAL) clients headers d store of
        (headers, d, store) \<Rightarrow> do {
          store \<leftarrow> (case get_proofs H client headers d store of
              None \<Rightarrow> None | Some (Inl _) \<Rightarrow> Some store | Some (Inr (_, store)) \<Rightarrow> Some store);
          (changed, headers, store) \<leftarrow> (if rnd mod CROSS_VALIDATION_RATE = 0
            then cross_validate H build_client shuffle d headers store else Some (False, headers, store));
          Some (changed, wrap_u8 (rnd + 1), headers, d, store) })"

end
