(* ===== verification/Gdk_Wallet.thy ===== *)
theory Gdk_Wallet
  imports Gdk_Sync
begin

text \<open>
  The wallet of a session (\<^verbatim>\<open>WalletCtx\<close> of \<^verbatim>\<open>gdk_electrum/src/interface.rs\<close>) and the
  discovery of accounts (\<^verbatim>\<open>discover_accounts\<close> of \<^verbatim>\<open>account.rs\<close>).  The store is passed to
  the operations and returned by those that change it.
\<close>

section \<open>Discovery\<close>

text \<open>Whether the server knows one of the first scripts of an account.\<close>

fun any_script_used ::
  "gdk_keys \<Rightarrow> Electrum \<Rightarrow> bytes \<Rightarrow> ScriptType \<Rightarrow> NetworkId \<Rightarrow> bytes option \<Rightarrow> int list \<Rightarrow> bool gres" where
  "any_script_used K client recv_xpub script_type net master_blinding [] = Some (Inr False)"
| "any_script_used K client recv_xpub script_type net master_blinding (child_code # child_codes) =
     (case derive_address_at K recv_xpub child_code script_type net master_blinding of
        Some (Inr a) \<Rightarrow>
          gtry (Some (el_script_status client (script_into_bitcoin (ga_script_pubkey a)))) (\<lambda>status.
            if status \<noteq> None then Some (Inr True)
            else any_script_used K client recv_xpub script_type net master_blinding child_codes)
      | _ \<Rightarrow> None)"

definition account_used ::
  "gdk_keys \<Rightarrow> Electrum \<Rightarrow> bytes \<Rightarrow> NetworkId \<Rightarrow> bytes option \<Rightarrow> ScriptType \<Rightarrow> int \<Rightarrow> bool gres" where
  "account_used K client master_xprv net master_blinding script_type account_num = do {
     (_, path) \<leftarrow> expect_ok (get_account_derivation account_num net);
     gtry (gok_or (gk_derive_priv K master_xprv (path @ [Normal 0])) G_BitcoinBIP32Error) (\<lambda>recv_xprv.
       any_script_used K client (gk_xpub_of_priv K recv_xprv) script_type net master_blinding [0..BATCH_SIZE - 1]) }"

text \<open>The accounts of a script type from a number on, while they are used.\<close>

partial_function (option) discover_type ::
  "gdk_keys \<Rightarrow> Electrum \<Rightarrow> bytes \<Rightarrow> NetworkId \<Rightarrow> bytes option \<Rightarrow> ScriptType \<Rightarrow> int \<Rightarrow> int list \<Rightarrow> int list gres" where
  "discover_type K client master_xprv net master_blinding script_type account_num found =
     Option.bind (account_used K client master_xprv net master_blinding script_type account_num) (\<lambda>r.
       case r of
         Inl e \<Rightarrow> Some (Inl e)
       | Inr used \<Rightarrow>
           if used then discover_type K client master_xprv net master_blinding script_type
             (wrap_u32 (account_num + NUM_RESERVED_ACCOUNT_TYPES)) (found @ [account_num])
           else Some (Inr found))"

definition discover_accounts ::
  "gdk_keys \<Rightarrow> (ElectrumUrl \<Rightarrow> string option \<Rightarrow> GdkError + Electrum) \<Rightarrow> bytes \<Rightarrow> NetworkId \<Rightarrow> ElectrumUrl \<Rightarrow> string option \<Rightarrow>
   bytes option \<Rightarrow> int list gres" where
  "discover_accounts K build_client master_xprv net electrum_url proxy master_blinding =
     gtry (Some (build_client electrum_url proxy)) (\<lambda>client.
       gfold (\<lambda>script_type found.
         discover_type K client master_xprv net master_blinding script_type (first_account_num script_type) found)
         script_types [])"

section \<open>The wallet\<close>

record WalletCtx =
  wc_network :: Network
  wc_mnemonic :: string
  wc_master_xprv :: bytes
  wc_master_xpub :: bytes
  wc_master_blinding :: "bytes option"
  wc_accounts :: "(int, Account) hmap"

definition ensure_account :: "gdk_keys \<Rightarrow> int \<Rightarrow> WalletCtx \<Rightarrow> StoreMeta \<Rightarrow> (Account \<times> WalletCtx \<times> StoreMeta) gres" where
  "ensure_account K account_num w store =
     (case hm_get (wc_accounts w) account_num of
        Some account \<Rightarrow> Some (Inr (account, w, store))
      | None \<Rightarrow>
          gtry (new_account K (wc_network w) (wc_master_xprv w) (wc_master_blinding w) account_num store)
            (\<lambda>(account, store).
              Some (Inr (account, w\<lparr>wc_accounts := hm_insert account_num account (wc_accounts w)\<rparr>, store))))"

definition ensure_accounts :: "gdk_keys \<Rightarrow> int list \<Rightarrow> WalletCtx \<times> StoreMeta \<Rightarrow> (WalletCtx \<times> StoreMeta) gres" where
  "ensure_accounts K nums ws =
     gfold (\<lambda>n (w, store). gtry (ensure_account K n w store) (\<lambda>(_, w, store). Some (Inr (w, store)))) nums ws"

definition new_wallet ::
  "gdk_keys \<Rightarrow> string \<Rightarrow> Network \<Rightarrow> bytes \<Rightarrow> bytes \<Rightarrow> bytes option \<Rightarrow> StoreMeta \<Rightarrow> (WalletCtx \<times> StoreMeta) gres" where
  "new_wallet K mnemonic network master_xprv master_xpub master_blinding store =
     ensure_accounts K (account_nums store @ [0])
       (\<lparr>wc_network = network, wc_mnemonic = mnemonic, wc_master_xprv = master_xprv, wc_master_xpub = master_xpub,
         wc_master_blinding = master_blinding, wc_accounts = []\<rparr>, store)"

definition get_account :: "WalletCtx \<Rightarrow> int \<Rightarrow> GdkError + Account" where
  "get_account w account_num =
     (case hm_get (wc_accounts w) account_num of
        None \<Rightarrow> Inl (G_InvalidSubaccount account_num) | Some account \<Rightarrow> Inr account)"

definition iter_accounts_sorted :: "WalletCtx \<Rightarrow> Account list" where
  "iter_accounts_sorted w = map snd (sort_key fst (wc_accounts w))"

definition get_next_subaccount :: "WalletCtx \<Rightarrow> ScriptType \<Rightarrow> int" where
  "get_next_subaccount w script_type = snd (get_last_next_account_nums (map fst (wc_accounts w)) script_type)"

record CreateAccountOpt =
  cao_subaccount :: int
  cao_name :: string

definition create_account ::
  "gdk_keys \<Rightarrow> CreateAccountOpt \<Rightarrow> WalletCtx \<Rightarrow> StoreMeta \<Rightarrow> (Account \<times> WalletCtx \<times> StoreMeta) gres" where
  "create_account K opt w store =
     gtry (Some (get_account_script_purpose (cao_subaccount opt))) (\<lambda>(script_type, _).
     let (last_account, next_account) = get_last_next_account_nums (map fst (wc_accounts w)) script_type in
     gtry (gensure (cao_subaccount opt = next_account) (G_InvalidSubaccount (cao_subaccount opt))) (\<lambda>_.
     gtry (case last_account of
         None \<Rightarrow> Some (Inr ())
       | Some last_account \<Rightarrow> do {
           account \<leftarrow> hm_get (wc_accounts w) last_account;
           used \<leftarrow> has_transactions account store;
           gensure used G_AccountGapsDisallowed }) (\<lambda>_.
     gtry (ensure_account K (cao_subaccount opt) w store) (\<lambda>(account, w, store). do {
       store \<leftarrow> set_name account (cao_name opt) store;
       Some (Inr (account, w, store)) }))))"

definition update_account :: "UpdateAccountOpt \<Rightarrow> WalletCtx \<Rightarrow> StoreMeta \<Rightarrow> StoreMeta gres" where
  "update_account opt w store =
     gtry (Some (get_account w (uao_subaccount opt))) (\<lambda>account. map_option Inr (set_settings account opt store))"

text \<open>An error leaves the accounts that were added before it.\<close>

definition recover_accounts ::
  "gdk_keys \<Rightarrow> (ElectrumUrl \<Rightarrow> string option \<Rightarrow> GdkError + Electrum) \<Rightarrow> ElectrumUrl \<Rightarrow> string option \<Rightarrow> WalletCtx \<Rightarrow> StoreMeta \<Rightarrow>
   ((GdkError + unit) \<times> WalletCtx \<times> StoreMeta) option" where
  "recover_accounts K build_client electrum_url proxy w store = do {
     net \<leftarrow> network_id (wc_network w);
     r \<leftarrow> discover_accounts K build_client (wc_master_xprv w) net electrum_url proxy (wc_master_blinding w);
     case r of
       Inl e \<Rightarrow> Some (Inl e, w, store)
     | Inr nums \<Rightarrow>
         foldM (\<lambda>n (r, w, store). case r of
             Inl e \<Rightarrow> Some (Inl e, w, store)
           | Inr _ \<Rightarrow> (case ensure_account K n w store of
               None \<Rightarrow> None
             | Some (Inl e) \<Rightarrow> Some (Inl e, w, store)
             | Some (Inr (_, w, store)) \<Rightarrow> Some (Inr (), w, store))) nums (Inr (), w, store) }"

section \<open>Operations on an account\<close>

definition wallet_settings :: "StoreMeta \<Rightarrow> GdkSettings" where
  "wallet_settings store = (case get_settings store of None \<Rightarrow> default_gdk_settings | Some s \<Rightarrow> s)"

definition wallet_list_tx ::
  "gdk_lib \<Rightarrow> int \<Rightarrow> int \<Rightarrow> nat \<Rightarrow> nat \<Rightarrow> int option \<Rightarrow> WalletCtx \<Rightarrow> StoreMeta \<Rightarrow> GdkTransactionMeta list gres" where
  "wallet_list_tx L now subaccount first_tx n num_confs w store =
     gtry (Some (get_account w subaccount)) (\<lambda>account. list_tx L now account first_tx n num_confs store)"

definition wallet_utxos :: "gdk_lib \<Rightarrow> int \<Rightarrow> int option \<Rightarrow> bool option \<Rightarrow> WalletCtx \<Rightarrow> StoreMeta \<Rightarrow> GdkUtxos gres" where
  "wallet_utxos L subaccount num_confs confidential w store =
     gtry (Some (get_account w subaccount)) (\<lambda>account.
       utxos L account (case num_confs of None \<Rightarrow> 0 | Some n \<Rightarrow> n) (confidential = Some True) store)"

definition wallet_balance :: "gdk_lib \<Rightarrow> int \<Rightarrow> int \<Rightarrow> bool option \<Rightarrow> WalletCtx \<Rightarrow> StoreMeta \<Rightarrow> Balances gres" where
  "wallet_balance L subaccount num_confs confidential w store =
     gtry (Some (get_account w subaccount)) (\<lambda>account. balance L account num_confs (confidential = Some True) store)"

definition wallet_create_tx ::
  "gdk_lib \<Rightarrow> gdk_keys \<Rightarrow> int \<Rightarrow> GdkCreateTransaction \<Rightarrow> WalletCtx \<Rightarrow> StoreMeta \<Rightarrow> (BETransaction \<times> GdkTransactionMeta) gres" where
  "wallet_create_tx L K now request w store =
     gtry (Some (get_account w (ct_subaccount request))) (\<lambda>account. gdk_create_tx L K now account request store)"

definition wallet_sign ::
  "gdk_lib \<Rightarrow> gdk_keys \<Rightarrow> gdk_blind \<Rightarrow> store_lib \<Rightarrow> int \<Rightarrow> GdkTransactionMeta \<Rightarrow> WalletCtx \<Rightarrow> StoreMeta \<Rightarrow> disk \<Rightarrow>
   (GdkTransactionMeta \<times> StoreMeta \<times> disk) gres" where
  "wallet_sign L K B S now request w store d =
     gtry (gok_or (tm_create_transaction request) (G_Generic ''Cannot sign without tx data'')) (\<lambda>ct.
     gtry (Some (get_account w (ct_subaccount ct))) (\<lambda>account. sign L K B S now account request store d))"

definition wallet_next_address :: "gdk_keys \<Rightarrow> int \<Rightarrow> WalletCtx \<Rightarrow> StoreMeta \<Rightarrow> (string \<times> int) gres \<times> StoreMeta" where
  "wallet_next_address K account_num w store =
     (case get_account w account_num of
        Inl e \<Rightarrow> (Some (Inl e), store) | Inr account \<Rightarrow> account_next_address K account store)"

end
