(* ===== verification/Gdk_Pin.thy ===== *)
theory Gdk_Pin
  imports Gdk_Types
begin

text \<open>
  The protocol with the PIN server (\<^verbatim>\<open>gdk_electrum/src/pin/mod.rs\<close>) and the functions of
  \<^verbatim>\<open>lib.rs\<close> that protect the mnemonic with a PIN.  Each call makes a key exchange with the
  server, whose key is signed, sends the hash of the PIN encrypted and authenticated, and
  decrypts the answer, which is the key under which the mnemonic is stored.  The cryptography,
  the random numbers and the server are parameters.
\<close>

record pin_lib =
  pl_sha256 :: "bytes \<Rightarrow> bytes"
  pl_hmac :: "bytes \<Rightarrow> bytes \<Rightarrow> bytes"  \<comment> \<open>key, message\<close>
  pl_ecdh :: "bytes \<Rightarrow> bytes \<Rightarrow> bytes"  \<comment> \<open>public key, private key\<close>
  pl_public :: "bytes \<Rightarrow> bytes"
  pl_parse_public :: "bytes \<Rightarrow> bytes option"
  pl_parse_signature :: "bytes \<Rightarrow> bytes option"
  pl_parse_secret :: "bytes \<Rightarrow> bytes option"
  pl_verify :: "bytes \<Rightarrow> bytes \<Rightarrow> bytes \<Rightarrow> bool"  \<comment> \<open>message, signature, public key\<close>
  pl_sign_recoverable :: "bytes \<Rightarrow> bytes \<Rightarrow> int \<times> bytes"
  pl_encrypt :: "bytes \<Rightarrow> bytes \<Rightarrow> bytes \<Rightarrow> bytes"  \<comment> \<open>key, iv, plaintext; CBC with padding\<close>
  pl_decrypt :: "bytes \<Rightarrow> bytes \<Rightarrow> bytes \<Rightarrow> bytes option"
  pl_pinserver_pubkey :: bytes
  pl_is_utf8 :: "bytes \<Rightarrow> bool"

record Handshake =
  hs_sig :: string
  hs_ske :: string

record RequestData =
  rq_cke :: string
  rq_ske :: string
  rq_encrypted_data :: string
  rq_hmac_encrypted_data :: string

record ResponseData =
  rp_encrypted_key :: string
  rp_hmac :: string

datatype PinOp = Pin_Set | Pin_Get

text \<open>The answers of the server: to the handshake, and to a call in a session with a key.\<close>

record pin_server =
  ps_handshake :: "Handshake option"
  ps_call :: "PinOp \<Rightarrow> RequestData \<Rightarrow> ResponseData option"

text \<open>The random numbers of a call.\<close>

record pin_rand =
  pr_secret_key :: bytes
  pr_entropy :: bytes
  pr_iv :: bytes

record PinManager =
  pm_ske :: bytes
  pm_cke :: bytes
  pm_request_encryption_key :: bytes
  pm_request_hmac_key :: bytes
  pm_response_encryption_key :: bytes
  pm_response_hmac_key :: bytes

definition pin_derive :: "pin_lib \<Rightarrow> nat \<Rightarrow> bytes \<Rightarrow> bytes" where
  "pin_derive P value key = pl_hmac P key [char_of value]"

definition with_handshake :: "gdk_lib \<Rightarrow> pin_lib \<Rightarrow> pin_rand \<Rightarrow> Handshake \<Rightarrow> PinManager gres" where
  "with_handshake L P R data =
     gtry (gok_or (gl_hex_decode L (hs_sig data)) G_Hex) (\<lambda>sig_bytes.
     gtry (gok_or (pl_parse_signature P sig_bytes) G_Secp256k1) (\<lambda>sig.
     gtry (gok_or (gl_hex_decode L (hs_ske data)) G_Hex) (\<lambda>ske_bytes.
     gtry (gok_or (pl_parse_public P ske_bytes) G_Secp256k1) (\<lambda>ske.
     gtry (gensure (pl_verify P (pl_sha256 P ske_bytes) sig (pl_pinserver_pubkey P)) G_Secp256k1) (\<lambda>_.
     let shared_secret = pl_ecdh P ske (pr_secret_key R) in
     Some (Inr \<lparr>pm_ske = ske, pm_cke = pl_public P (pr_secret_key R),
       pm_request_encryption_key = pin_derive P 0 shared_secret, pm_request_hmac_key = pin_derive P 1 shared_secret,
       pm_response_encryption_key = pin_derive P 2 shared_secret, pm_response_hmac_key = pin_derive P 3 shared_secret\<rparr>))))))"

definition new_pin_manager :: "gdk_lib \<Rightarrow> pin_lib \<Rightarrow> pin_rand \<Rightarrow> pin_server \<Rightarrow> PinManager gres" where
  "new_pin_manager L P R srv =
     gtry (gok_or (ps_handshake srv) G_PinError) (\<lambda>data. with_handshake L P R data)"

text \<open>The request; it panics if the lengths of its parts are not what they should be.\<close>

definition pin_request :: "gdk_lib \<Rightarrow> pin_lib \<Rightarrow> pin_rand \<Rightarrow> PinManager \<Rightarrow> bytes \<Rightarrow> bytes \<Rightarrow> RequestData option" where
  "pin_request L P R m pin private_key =
     (let pin_secret = pl_sha256 P pin;
          data = pm_cke m @ pin_secret @ pr_entropy R;
          (rec_id, sig) = pl_sign_recoverable P (pl_sha256 P data) private_key;
          payload = pin_secret @ pr_entropy R @ [char_of (nat ((31 + rec_id) mod 256))] @ sig;
          iv_encrypted = pr_iv R @ pl_encrypt P (pm_request_encryption_key m) (pr_iv R) payload;
          hmac = pl_hmac P (pm_request_hmac_key m) (pm_cke m @ iv_encrypted)
      in if length data \<noteq> 97 \<or> length payload \<noteq> 129 then None
         else Some \<lparr>rq_cke = gl_hex_encode L (pm_cke m), rq_ske = gl_hex_encode L (pm_ske m),
           rq_encrypted_data = gl_hex_encode L iv_encrypted, rq_hmac_encrypted_data = gl_hex_encode L hmac\<rparr>)"

definition verify_and_decrypt :: "gdk_lib \<Rightarrow> pin_lib \<Rightarrow> bytes \<Rightarrow> bytes \<Rightarrow> ResponseData \<Rightarrow> bytes gres" where
  "verify_and_decrypt L P hmac_key enc_key r =
     gtry (gok_or (gl_hex_decode L (rp_encrypted_key r)) G_Hex) (\<lambda>encrypted.
     gtry (gok_or (gl_hex_decode L (rp_hmac r)) G_Hex) (\<lambda>hmac.
     gtry (gensure (pl_hmac P hmac_key encrypted = hmac) G_PinError) (\<lambda>_.
     if length (rp_encrypted_key r) < 32 then None
     else
       gtry (gok_or (gl_hex_decode L (take 32 (rp_encrypted_key r))) G_Hex) (\<lambda>iv.
       if length enc_key \<noteq> 32 \<or> length iv \<noteq> 16 then None
       else
         gtry (gok_or (gl_hex_decode L (drop 32 (rp_encrypted_key r))) G_Hex) (\<lambda>data.
         gok_or (pl_decrypt P enc_key iv data) G_Encryption)))))"

text \<open>Every error of a call is the error of the PIN.\<close>

definition server_call ::
  "gdk_lib \<Rightarrow> pin_lib \<Rightarrow> pin_rand \<Rightarrow> pin_server \<Rightarrow> PinManager \<Rightarrow> PinOp \<Rightarrow> bytes \<Rightarrow> bytes \<Rightarrow> bytes gres" where
  "server_call L P R srv m op pin private_key = do {
     req \<leftarrow> pin_request L P R m pin private_key;
     gmap_err (\<lambda>_. G_PinError) (gtry (gok_or (ps_call srv op req) G_PinError) (\<lambda>response.
       verify_and_decrypt L P (pm_response_hmac_key m) (pm_response_encryption_key m) response)) }"

section \<open>The protected mnemonic\<close>

record PinSetDetails =
  pd_pin :: string
  pd_mnemonic :: string

record PinGetDetails =
  pg_salt :: string
  pg_encrypted_data :: string
  pg_pin_identifier :: string

text \<open>
  \<^verbatim>\<open>encrypt_pin\<close> and \<^verbatim>\<open>set_pin\<close> make a client key and an initialization vector at random.
  They differ in what they do with a key of the wrong length, which is an error in the first and
  panics in the second.
\<close>

definition protect_mnemonic ::
  "gdk_lib \<Rightarrow> pin_lib \<Rightarrow> pin_rand \<Rightarrow> pin_server \<Rightarrow> bytes \<Rightarrow> bytes \<Rightarrow> PinGetDetails gres \<Rightarrow> PinSetDetails \<Rightarrow> PinGetDetails gres" where
  "protect_mnemonic L P R srv client_key iv bad_key details =
     gtry (new_pin_manager L P R srv) (\<lambda>m.
     gtry (server_call L P R srv m Pin_Set (pd_pin details) client_key) (\<lambda>server_key.
     if length server_key \<noteq> 32 \<or> length iv \<noteq> 16 then bad_key
     else Some (Inr \<lparr>pg_salt = gl_hex_encode L iv,
       pg_encrypted_data = gl_hex_encode L (pl_encrypt P server_key iv (pd_mnemonic details)),
       pg_pin_identifier = gl_hex_encode L client_key\<rparr>)))"

definition encrypt_pin ::
  "gdk_lib \<Rightarrow> pin_lib \<Rightarrow> pin_rand \<Rightarrow> pin_server \<Rightarrow> bytes \<Rightarrow> bytes \<Rightarrow> PinSetDetails \<Rightarrow> PinGetDetails gres" where
  "encrypt_pin L P R srv client_key iv details =
     protect_mnemonic L P R srv client_key iv (Some (Inl G_Encryption)) details"

definition set_pin ::
  "gdk_lib \<Rightarrow> pin_lib \<Rightarrow> pin_rand \<Rightarrow> pin_server \<Rightarrow> bytes \<Rightarrow> bytes \<Rightarrow> PinSetDetails \<Rightarrow> PinGetDetails gres" where
  "set_pin L P R srv client_key iv details = protect_mnemonic L P R srv client_key iv None details"

text \<open>The key that the server gives for the PIN, and the vector, of the stored details.\<close>

definition stored_key ::
  "gdk_lib \<Rightarrow> pin_lib \<Rightarrow> pin_rand \<Rightarrow> pin_server \<Rightarrow> string \<Rightarrow> PinGetDetails \<Rightarrow> (bytes \<times> bytes) gres" where
  "stored_key L P R srv pin details =
     gtry (new_pin_manager L P R srv) (\<lambda>m.
     gtry (gok_or (gl_hex_decode L (pg_pin_identifier details)) G_Hex) (\<lambda>b.
     gtry (gok_or (pl_parse_secret P b) G_Secp256k1) (\<lambda>client_key.
     gtry (server_call L P R srv m Pin_Get pin client_key) (\<lambda>server_key.
     gtry (gok_or (gl_hex_decode L (pg_salt details)) G_Hex) (\<lambda>iv. Some (Inr (server_key, iv)))))))"

definition decrypt_pin :: "gdk_lib \<Rightarrow> pin_lib \<Rightarrow> pin_rand \<Rightarrow> pin_server \<Rightarrow> string \<Rightarrow> PinGetDetails \<Rightarrow> string gres" where
  "decrypt_pin L P R srv pin details =
     gtry (stored_key L P R srv pin details) (\<lambda>(server_key, iv).
     gtry (gensure (length server_key = 32 \<and> length iv = 16) G_Encryption) (\<lambda>_.
     gtry (gok_or (gl_hex_decode L (pg_encrypted_data details)) G_Hex) (\<lambda>data.
     gtry (gok_or (pl_decrypt P server_key iv data) G_Encryption) (\<lambda>mnemonic.
     gtry (gensure (pl_is_utf8 P mnemonic) (G_Generic ''utf8'')) (\<lambda>_. Some (Inr mnemonic))))))"

text \<open>The mnemonic that \<^verbatim>\<open>login_with_pin\<close> logs in with.\<close>

definition pin_mnemonic :: "gdk_lib \<Rightarrow> pin_lib \<Rightarrow> pin_rand \<Rightarrow> pin_server \<Rightarrow> string \<Rightarrow> PinGetDetails \<Rightarrow> string gres" where
  "pin_mnemonic L P R srv pin details =
     gtry (stored_key L P R srv pin details) (\<lambda>(server_key, iv).
     if length server_key \<noteq> 32 \<or> length iv \<noteq> 16 then None
     else
       gtry (gok_or (gl_hex_decode L (pg_encrypted_data details)) G_Hex) (\<lambda>data.
       gtry (gok_or (pl_decrypt P server_key iv data) G_InvalidPin) (\<lambda>mnemonic.
       if pl_is_utf8 P mnemonic then Some (Inr mnemonic) else None)))"

section \<open>Properties\<close>

text \<open>
  A mnemonic that was protected with a PIN is recovered when the server gives the same key for
  the PIN again.
\<close>

lemma pin_roundtrip:
  assumes ok: "lib_ok L"
    and crypto: "pl_decrypt P k iv (pl_encrypt P k iv (pd_mnemonic details)) = Some (pd_mnemonic details)"
    and utf8: "pl_is_utf8 P (pd_mnemonic details)"
    and set: "set_pin L P R srv client_key iv details = Some (Inr stored)"
    and call: "\<And>m. new_pin_manager L P R srv = Some (Inr m) \<Longrightarrow> server_call L P R srv m Pin_Set (pd_pin details) client_key = Some (Inr k)"
    and get: "stored_key L P R' srv' (pd_pin details) stored = Some (Inr (k, iv))"
  shows "pin_mnemonic L P R' srv' (pd_pin details) stored = Some (Inr (pd_mnemonic details))"
  using set get crypto utf8
  by (auto simp: set_pin_def protect_mnemonic_def pin_mnemonic_def lib_hex[OF ok] call split: if_splits elim!: gtry_InrE)

text \<open>
  With a wrong PIN the server answers with another key.  If the decryption under it happens to
  succeed with bytes that are not a text, the login panics, where the error \<^const>\<open>G_InvalidPin\<close>
  was meant to be returned.
\<close>

lemma wrong_pin_can_panic:
  assumes "stored_key L P R srv pin stored = Some (Inr (k, iv))" "length k = 32" "length iv = 16"
    and "gl_hex_decode L (pg_encrypted_data stored) = Some data" "pl_decrypt P k iv data = Some garbage"
    and "\<not> pl_is_utf8 P garbage"
  shows "pin_mnemonic L P R srv pin stored = None"
    and "decrypt_pin L P R srv pin stored = Some (Inl (G_Generic ''utf8''))"
  using assms by (simp_all add: pin_mnemonic_def decrypt_pin_def)

end
