(* ===== verification/Gdk_Session.thy ===== *)
theory Gdk_Session
  imports Gdk_Wallet Gdk_Pin
begin

text \<open>
  \<^verbatim>\<open>ElectrumSession\<close> of \<^verbatim>\<open>gdk_electrum/src/lib.rs\<close>: login, connection and the calls of the
  session, with the identifier of a wallet (\<^verbatim>\<open>wallet_hash_id\<close>, \<^verbatim>\<open>aqua_unique_id_and_xpub\<close> of
  \<^verbatim>\<open>gdk_common/src/network.rs\<close>).  The threads are the numbers of the senders and handles of the
  closer; what they do is in \<open>Gdk_Sync\<close> and in the last section, a thread being the sequence of
  its rounds.  Notifications are a list.  The arguments of a log
  message are evaluated only when messages of its level are logged, which is the flag
  \<open>se_log_info\<close>.
\<close>

section \<open>Notifications and results\<close>

datatype GdkNotification =
    N_Block int | N_Settings GdkSettings | N_Fees "int list" | N_Updated_Txs int | N_Sync_Complete

record GdkTxListItem =
  ti_block_height :: int
  ti_type :: string
  ti_memo :: string
  ti_txhash :: string
  ti_transaction :: string
  ti_satoshi :: Balances
  ti_rbf_optin :: bool
  ti_can_rbf :: bool
  ti_user_signed :: bool
  ti_spv_verified :: SPVVerifyResult
  ti_fee :: int
  ti_fee_rate :: int
  ti_addressees :: "string list"
  ti_size :: nat
  ti_weight :: nat

definition make_txlist_item :: "GdkTransactionMeta \<Rightarrow> GdkTxListItem option" where
  "make_txlist_item tx = map_option (\<lambda>ct.
     \<lparr>ti_block_height = (case tm_height tx of None \<Rightarrow> 0 | Some h \<Rightarrow> h), ti_type = tm_type tx,
      ti_memo = (case ct_memo ct of None \<Rightarrow> [] | Some m \<Rightarrow> m), ti_txhash = tm_txid tx, ti_transaction = tm_hex tx,
      ti_satoshi = tm_satoshi tx, ti_rbf_optin = tm_rbf_optin tx, ti_can_rbf = (tm_height tx = None \<and> tm_rbf_optin tx),
      ti_user_signed = tm_user_signed tx, ti_spv_verified = tm_spv_verified tx, ti_fee = tm_fee tx,
      ti_fee_rate = f64_as_u64 (f64_mul (f64_div (f64_of_int (tm_fee tx)) (f64_of_int (int (tm_weight tx)))) (f64_lit 4000)),
      ti_addressees = map aa_address (ct_addressees ct), ti_size = tm_size tx, ti_weight = tm_weight tx\<rparr>)
     (tm_create_transaction tx)"

definition try_get_fee_estimates :: "Electrum \<Rightarrow> GdkError + int list" where
  "try_get_fee_estimates client =
     (case el_relay_fee client of
        Inl e \<Rightarrow> Inl e
      | Inr relay \<Rightarrow>
          let relay_fee = f64_as_u64 (f64_mul relay (f64_lit 100000000)) in
          (case el_estimate_fee client [1..<25] of
             Inl e \<Rightarrow> Inl e
           | Inr es \<Rightarrow> Inr (relay_fee # map (\<lambda>e. max relay_fee (f64_as_u64 (f64_mul e (f64_lit 100000000)))) es)))"

definition SOCKS5 :: string where "SOCKS5 = ''socks5://''"

text \<open>\<^verbatim>\<open>trim\<close> removes white space, of which the ASCII characters are modelled.\<close>

definition is_white :: "char \<Rightarrow> bool" where
  "is_white c \<longleftrightarrow> c \<in> {CHR 0x20, CHR 0x09, CHR 0x0A, CHR 0x0B, CHR 0x0C, CHR 0x0D}"

definition trim :: "string \<Rightarrow> string" where
  "trim s = rev (dropWhile is_white (rev (dropWhile is_white s)))"

definition socksify :: "string option \<Rightarrow> string option" where
  "socksify proxy = Option.bind proxy (\<lambda>proxy.
     let trimmed = trim proxy in
     if trimmed = [] then None
     else if take (length SOCKS5) trimmed = SOCKS5 then Some trimmed
     else Some (SOCKS5 @ trimmed))"

section \<open>The session\<close>

datatype SessionState = Disconnected | Connected | Logged

record Closer =
  cl_senders :: "nat list"
  cl_handles :: "nat list"

record ElectrumSession =
  es_data_root :: string
  es_proxy :: "string option"
  es_network :: Network
  es_url :: ElectrumUrl
  es_wallet :: "(WalletCtx \<times> StoreMeta) option"
  es_closer :: Closer
  es_state :: SessionState

text \<open>
  What a session relies on besides the libraries of the parts: seeds and keys of a mnemonic, the
  identifiers of wallets, whether the directory of the data exists, the connections, and the
  lists of servers that are compiled in.
\<close>

record session_lib =
  se_seed :: "string \<Rightarrow> string \<Rightarrow> bytes option"  \<comment> \<open>mnemonic, password\<close>
  se_new_master :: "bool \<Rightarrow> bytes \<Rightarrow> bytes option"  \<comment> \<open>whether of the main network, seed\<close>
  se_blinding_key :: "bytes \<Rightarrow> bytes"
  se_xpub_encode :: "bytes \<Rightarrow> bytes"
  se_xpub_text :: "bytes \<Rightarrow> string"
  se_pbkdf2 :: "bytes \<Rightarrow> bytes \<Rightarrow> int \<Rightarrow> bytes"
  se_aqua_net_text :: "NetworkId \<Rightarrow> string"  \<comment> \<open>\<^verbatim>\<open>Debug\<close> text of the parameters compiled in\<close>
  se_data_root_exists :: bool
  se_build_client :: "ElectrumUrl \<Rightarrow> string option \<Rightarrow> GdkError + Electrum"
  se_servers_mainnet :: string
  se_servers_testnet :: string
  se_log_info :: bool

definition create_session :: "Network \<Rightarrow> string \<Rightarrow> string option \<Rightarrow> ElectrumUrl \<Rightarrow> ElectrumSession" where
  "create_session network db_root proxy url =
     \<lparr>es_data_root = db_root, es_proxy = socksify proxy, es_network = network, es_url = url, es_wallet = None,
      es_closer = \<lparr>cl_senders = [], cl_handles = []\<rparr>, es_state = Disconnected\<rparr>"

definition get_wallet :: "ElectrumSession \<Rightarrow> GdkError + (WalletCtx \<times> StoreMeta)" where
  "get_wallet s = (case es_wallet s of None \<Rightarrow> Inl (G_Generic ''wallet not initialized'') | Some w \<Rightarrow> Inr w)"

text \<open>
  \<^verbatim>\<open>Closer::close\<close>: a message to each thread, then each is joined.  A thread that has ended
  before has panicked: its sender fails and joining it panics.
\<close>

fun close_senders :: "(nat \<Rightarrow> bool) \<Rightarrow> nat list \<Rightarrow> (GdkError + unit) \<times> nat list" where
  "close_senders running [] = (Inr (), [])"
| "close_senders running (t # ts) = (if running t then close_senders running ts else (Inl G_Send, ts))"

definition close :: "(nat \<Rightarrow> bool) \<Rightarrow> Closer \<Rightarrow> ((GdkError + unit) \<times> Closer) option" where
  "close running c =
     (case close_senders running (rev (cl_senders c)) of
        (Inl e, rest) \<Rightarrow> Some (Inl e, c\<lparr>cl_senders := rev rest\<rparr>)
      | (Inr _, _) \<Rightarrow>
          if list_all running (cl_handles c) then Some (Inr (), \<lparr>cl_senders = [], cl_handles = []\<rparr>) else None)"

definition spawn :: "nat \<Rightarrow> ElectrumSession \<Rightarrow> ElectrumSession" where
  "spawn t s = s\<lparr>es_closer := \<lparr>cl_senders = cl_senders (es_closer s) @ [t], cl_handles = cl_handles (es_closer s) @ [t]\<rparr>\<rparr>"

section \<open>Identifiers\<close>

definition wallet_hash_id :: "gdk_lib \<Rightarrow> session_lib \<Rightarrow> Network \<Rightarrow> bytes \<Rightarrow> string" where
  "wallet_hash_id L E network master_xpub =
     gl_hex_encode L (se_pbkdf2 E (se_xpub_encode E master_xpub) (net_name network) 2048)"

fun aqua_coin_type :: "NetworkId \<Rightarrow> int option" where
  "aqua_coin_type (Net_Bitcoin Mainnet) = Some 0"
| "aqua_coin_type (Net_Bitcoin Testnet) = Some 1"
| "aqua_coin_type (Net_Elements Liquid) = Some 1776"
| "aqua_coin_type _ = None"

definition aqua_unique_id_and_xpub ::
  "gdk_keys \<Rightarrow> hdr_lib \<Rightarrow> session_lib \<Rightarrow> bytes \<Rightarrow> NetworkId \<Rightarrow> (CommonError + bytes \<times> bytes) option" where
  "aqua_unique_id_and_xpub K H E seed net =
     gtry (gok_or (se_new_master E False seed) (C_Generic ''bip32'')) (\<lambda>master_xprv.
     gtry (gok_or (aqua_coin_type net) (C_Generic ''network was not supported'')) (\<lambda>coin_type. do {
       xprv \<leftarrow> gk_derive_priv K master_xprv [Hardened 49, Hardened coin_type, Hardened 0];
       let xpub = gk_xpub_of_priv K xprv;
       Some (Inr (hl_sha256 H (se_xpub_text E xpub @ se_aqua_net_text E net), xpub)) }))"

section \<open>Status\<close>

definition block_status :: "ElectrumSession \<Rightarrow> GdkError + (int \<times> BEBlockHash)" where
  "block_status s = (case get_wallet s of Inl e \<Rightarrow> Inl e | Inr (_, store) \<Rightarrow> Inr (rc_tip (sm_cache store)))"

text \<open>The transaction ids that are hashed for the status.\<close>

definition tx_status_ids :: "gdk_lib \<Rightarrow> int \<Rightarrow> ElectrumSession \<Rightarrow> string list gres" where
  "tx_status_ids L now s =
     gtry (Some (get_wallet s)) (\<lambda>(w, store).
       gfold (\<lambda>account ids. gtry (list_tx L now account 0 100 None store) (\<lambda>txs. Some (Inr (ids @ map tm_txid txs))))
         (iter_accounts_sorted w) [])"

text \<open>The message that login and disconnect log.\<close>

definition log_status :: "gdk_lib \<Rightarrow> session_lib \<Rightarrow> int \<Rightarrow> ElectrumSession \<Rightarrow> unit gres" where
  "log_status L E now s =
     (if se_log_info E then
        gtry (Some (block_status s)) (\<lambda>_. gtry (tx_status_ids L now s) (\<lambda>_. Some (Inr ())))
      else Some (Inr ()))"

section \<open>Login\<close>

text \<open>The keys of a login.\<close>

definition login_keys ::
  "gdk_keys \<Rightarrow> session_lib \<Rightarrow> Network \<Rightarrow> string \<Rightarrow> string option \<Rightarrow> (bytes \<times> bytes \<times> bytes \<times> bytes option) gres" where
  "login_keys K E network mnemonic password =
     gtry (gok_or (se_seed E mnemonic (case password of None \<Rightarrow> [] | Some p \<Rightarrow> p)) G_InvalidMnemonic) (\<lambda>seed.
     gtry (gok_or (se_new_master E (net_mainnet network) seed) G_BitcoinBIP32Error) (\<lambda>master_xprv.
       Some (Inr (seed, master_xprv, gk_xpub_of_priv K master_xprv,
         if net_liquid network then Some (se_blinding_key E seed) else None))))"

text \<open>The store of a login: the one of the wallet, or the one on the disk.\<close>

definition login_store ::
  "gdk_lib \<Rightarrow> gdk_keys \<Rightarrow> hdr_lib \<Rightarrow> store_lib \<Rightarrow> session_lib \<Rightarrow> ElectrumSession \<Rightarrow> bytes \<Rightarrow> bytes \<Rightarrow> disk \<Rightarrow> StoreMeta option" where
  "login_store L K H S E s seed master_xpub d = do {
     net \<leftarrow> network_id (es_network s);
     aqua \<leftarrow> aqua_unique_id_and_xpub K H E seed net;
     let aqua = (case aqua of Inl _ \<Rightarrow> None | Inr a \<Rightarrow> Some a);
     let fallback_path = (if se_data_root_exists E
       then map_option (\<lambda>(id, _). es_data_root s @ ''/'' @ gl_hex_encode L id) aqua else None);
     let path = es_data_root s @ ''/'' @ wallet_hash_id L E (es_network s) master_xpub;
     Some (case es_wallet s of
         Some (_, store) \<Rightarrow> store
       | None \<Rightarrow> new_store_meta S path master_xpub fallback_path (map_option snd aqua) net d) }"

text \<open>The checker of the headers thread, when proofs are enabled.\<close>

definition login_headers :: "hdr_lib \<Rightarrow> session_lib \<Rightarrow> ElectrumSession \<Rightarrow> disk \<Rightarrow> (Headers option) gres \<times> disk" where
  "login_headers H E s d =
     (if net_spv_enabled (es_network s) \<noteq> Some True then (Some (Inr None), d)
      else case network_id (es_network s) of
        None \<Rightarrow> (None, d)
      | Some net \<Rightarrow>
          (case (case net of
               Net_Bitcoin network \<Rightarrow>
                 (case new_headers_chain H (headers_chain_path (es_data_root s) network) network d of
                    (r, d) \<Rightarrow> (map_sum id Check_Chain r, d))
             | Net_Elements network \<Rightarrow> (Inr (Check_Verifier (new_verifier H network)), d)) of
             (r, d) \<Rightarrow>
               (gtry (Some r) (\<lambda>checker.
                gtry (cross_validator_from_network (se_servers_mainnet E) (se_servers_testnet E) (es_network s)) (\<lambda>v.
                  Some (Inr (Some \<lparr>hd_checker = checker, hd_cross_validator = v\<rparr>)))), d)))"

text \<open>The first login recovers the accounts; its errors are ignored.\<close>

definition login_recover ::
  "gdk_keys \<Rightarrow> session_lib \<Rightarrow> ElectrumSession \<Rightarrow> WalletCtx \<times> StoreMeta \<Rightarrow> (WalletCtx \<times> StoreMeta) option" where
  "login_recover K E s ws = (case ws of (w, store) \<Rightarrow>
     if rc_accounts_recovered (sm_cache store) then Some (w, store)
     else map_option (\<lambda>(_, w, store). (w, store\<lparr>sm_cache := (sm_cache store)\<lparr>rc_accounts_recovered := True\<rparr>\<rparr>))
       (recover_accounts K (se_build_client E) (es_url s) (es_proxy s) w store))"

text \<open>
  \<^verbatim>\<open>login\<close>.  The threads are numbered: 0 for the headers, 1 for the tip and 2 for the
  synchronization.  An error after a thread was started leaves it running and in the closer.  The
  thread that updates the fees once, \<open>fee_update\<close>, is not in the closer.
\<close>

definition login ::
  "gdk_lib \<Rightarrow> gdk_keys \<Rightarrow> hdr_lib \<Rightarrow> store_lib \<Rightarrow> session_lib \<Rightarrow> int \<Rightarrow> string \<Rightarrow> string option \<Rightarrow> ElectrumSession \<Rightarrow> disk \<Rightarrow>
   ((GdkError + string) \<times> ElectrumSession \<times> GdkNotification list \<times> disk) option" where
  "login L K H S E now mnemonic password s d =
     (if es_state s = Logged then
        Some ((case get_wallet s of
            Inl e \<Rightarrow> Inl e
          | Inr (w, _) \<Rightarrow> Inr (wallet_hash_id L E (es_network s) (wc_master_xpub w))), s, [], d)
      else case login_keys K E (es_network s) mnemonic password of
        None \<Rightarrow> None
      | Some (Inl e) \<Rightarrow> Some (Inl e, s, [], d)
      | Some (Inr (seed, master_xprv, master_xpub, master_blinding)) \<Rightarrow> do {
          store \<leftarrow> login_store L K H S E s seed master_xpub d;
          let notes = [N_Fees (fee_estimates store), N_Block (fst (rc_tip (sm_cache store)))];
          let (checker, d) = login_headers H E s d;
          checker \<leftarrow> checker;
          case checker of
            Inl e \<Rightarrow> Some (Inl e, s, notes, d)
          | Inr headers \<Rightarrow> do {
              let s = (if headers \<noteq> None then spawn 0 s else s);
              ws \<leftarrow> (case es_wallet s of
                  Some w \<Rightarrow> Some (Inr w)
                | None \<Rightarrow> new_wallet K mnemonic (es_network s) master_xprv master_xpub master_blinding store);
              case ws of
                Inl e \<Rightarrow> Some (Inl e, s, notes, d)
              | Inr ws \<Rightarrow> do {
                  ws \<leftarrow> login_recover K E s ws;
                  let s = s\<lparr>es_wallet := Some ws\<rparr>;
                  logged \<leftarrow> log_status L E now s;
                  case logged of
                    Inl e \<Rightarrow> Some (Inl e, s, notes, d)
                  | Inr _ \<Rightarrow>
                      Some (Inr (wallet_hash_id L E (es_network s) master_xpub),
                        (spawn 2 (spawn 1 s))\<lparr>es_state := Logged\<rparr>, notes @ [N_Settings (wallet_settings (snd ws))], d) } } })"

section \<open>Connection\<close>

definition connect_session ::
  "gdk_lib \<Rightarrow> gdk_keys \<Rightarrow> hdr_lib \<Rightarrow> store_lib \<Rightarrow> session_lib \<Rightarrow> int \<Rightarrow> ElectrumSession \<Rightarrow> disk \<Rightarrow>
   ((GdkError + unit) \<times> ElectrumSession \<times> GdkNotification list \<times> disk) option" where
  "connect_session L K H S E now s d =
     (if es_state s = Disconnected then
        (case get_wallet s of
           Inr (w, _) \<Rightarrow> map_option (\<lambda>(r, s, ns, d). (map_sum id (\<lambda>_. ()) r, s, ns, d))
             (login L K H S E now (wc_mnemonic w) None s d)
         | Inl _ \<Rightarrow> Some (Inr (), s\<lparr>es_state := Connected\<rparr>, [], d))
      else Some (Inr (), s, [], d))"

definition disconnect_session ::
  "gdk_lib \<Rightarrow> session_lib \<Rightarrow> int \<Rightarrow> (nat \<Rightarrow> bool) \<Rightarrow> ElectrumSession \<Rightarrow> ((GdkError + unit) \<times> ElectrumSession) option" where
  "disconnect_session L E now running s = do {
     logged \<leftarrow> log_status L E now s;
     case logged of
       Inl e \<Rightarrow> Some (Inl e, s)
     | Inr _ \<Rightarrow>
         if es_state s \<noteq> Disconnected then do {
           (r, c) \<leftarrow> close running (es_closer s);
           Some (case r of
             Inl e \<Rightarrow> (Inl e, s\<lparr>es_closer := c\<rparr>)
           | Inr _ \<Rightarrow> (Inr (), s\<lparr>es_closer := c, es_state := Disconnected\<rparr>)) }
         else Some (Inr (), s) }"

definition destroy_session :: "ElectrumSession \<Rightarrow> ElectrumSession" where
  "destroy_session s = s\<lparr>es_wallet := None\<rparr>"

text \<open>Requests over HTTP go through the proxy of the session.\<close>

text \<open>The JSON values of the registry: what is not an object or null is opaque.\<close>

datatype Json = J_Null | J_Text string | J_Object "(string \<times> Json) list" | J_Other string

text \<open>The answer to a request: the \<^verbatim>\<open>Last-Modified\<close> header and the body, if it is JSON.\<close>

record http_lib =
  ht_get :: "string \<Rightarrow> string \<Rightarrow> string option \<times> Json option"  \<comment> \<open>address, \<^verbatim>\<open>If-Modified-Since\<close>\<close>
  ht_agent_ok :: "string option \<Rightarrow> bool"  \<comment> \<open>whether the proxy is accepted\<close>
  ht_json_ser :: "Json \<Rightarrow> bytes"
  ht_json_des :: "bytes \<Rightarrow> Json option"

definition build_request_agent :: "http_lib \<Rightarrow> ElectrumSession \<Rightarrow> GdkError + unit" where
  "build_request_agent W s =
     (if es_proxy s \<noteq> None \<and> \<not> ht_agent_ok W (es_proxy s) then Inl (G_Generic ''proxy'') else Inr ())"

definition login_with_pin ::
  "gdk_lib \<Rightarrow> gdk_keys \<Rightarrow> hdr_lib \<Rightarrow> store_lib \<Rightarrow> session_lib \<Rightarrow> http_lib \<Rightarrow> pin_lib \<Rightarrow> pin_rand \<Rightarrow> pin_server \<Rightarrow> int \<Rightarrow> string \<Rightarrow>
   PinGetDetails \<Rightarrow> ElectrumSession \<Rightarrow> disk \<Rightarrow> ((GdkError + string) \<times> ElectrumSession \<times> GdkNotification list \<times> disk) option" where
  "login_with_pin L K H S E W P R srv now pin details s d = do {
     mnemonic \<leftarrow> gtry (Some (build_request_agent W s)) (\<lambda>_. pin_mnemonic L P R srv pin details);
     case mnemonic of
       Inl e \<Rightarrow> Some (Inl e, s, [], d)
     | Inr mnemonic \<Rightarrow> login L K H S E now mnemonic None s d }"

definition session_set_pin ::
  "gdk_lib \<Rightarrow> http_lib \<Rightarrow> pin_lib \<Rightarrow> pin_rand \<Rightarrow> pin_server \<Rightarrow> bytes \<Rightarrow> bytes \<Rightarrow> PinSetDetails \<Rightarrow> ElectrumSession \<Rightarrow> PinGetDetails gres" where
  "session_set_pin L W P R srv client_key iv details s =
     gtry (Some (build_request_agent W s)) (\<lambda>_. set_pin L P R srv client_key iv details)"

section \<open>Calls\<close>

text \<open>An operation on the wallet of the session that returns the store.\<close>

definition with_store :: "StoreMeta \<Rightarrow> ElectrumSession \<Rightarrow> ElectrumSession" where
  "with_store store s = s\<lparr>es_wallet := map_option (\<lambda>(w, _). (w, store)) (es_wallet s)\<rparr>"

definition session_receive_address :: "gdk_keys \<Rightarrow> int \<Rightarrow> ElectrumSession \<Rightarrow> (string \<times> int) gres \<times> ElectrumSession" where
  "session_receive_address K subaccount s =
     (case get_wallet s of
        Inl e \<Rightarrow> (Some (Inl e), s)
      | Inr (w, store) \<Rightarrow> (case wallet_next_address K subaccount w store of (r, store) \<Rightarrow> (r, with_store store s)))"

definition get_subaccounts :: "gdk_lib \<Rightarrow> ElectrumSession \<Rightarrow> AccountInfo list gres" where
  "get_subaccounts L s =
     gtry (Some (get_wallet s)) (\<lambda>(w, store).
       gfold (\<lambda>a infos. gtry (account_info L a 0 store) (\<lambda>i. Some (Inr (infos @ [i])))) (iter_accounts_sorted w) [])"

definition get_subaccount :: "gdk_lib \<Rightarrow> int \<Rightarrow> int \<Rightarrow> ElectrumSession \<Rightarrow> AccountInfo gres" where
  "get_subaccount L account_num num_confs s =
     gtry (Some (get_wallet s)) (\<lambda>(w, store).
     gtry (Some (get_account w account_num)) (\<lambda>a. account_info L a num_confs store))"

definition create_subaccount :: "gdk_lib \<Rightarrow> gdk_keys \<Rightarrow> CreateAccountOpt \<Rightarrow> ElectrumSession \<Rightarrow> (AccountInfo \<times> ElectrumSession) gres" where
  "create_subaccount L K opt s =
     gtry (Some (get_wallet s)) (\<lambda>(w, store).
     gtry (create_account K opt w store) (\<lambda>(account, w, store).
     gtry (account_info L account 0 store) (\<lambda>i. Some (Inr (i, s\<lparr>es_wallet := Some (w, store)\<rparr>)))))"

definition update_subaccount :: "UpdateAccountOpt \<Rightarrow> ElectrumSession \<Rightarrow> ElectrumSession gres" where
  "update_subaccount opt s =
     gtry (Some (get_wallet s)) (\<lambda>(w, store).
     gtry (update_account opt w store) (\<lambda>store. Some (Inr (with_store store s))))"

definition rename_subaccount :: "int \<Rightarrow> string \<Rightarrow> ElectrumSession \<Rightarrow> ElectrumSession gres" where
  "rename_subaccount subaccount new_name s =
     update_subaccount \<lparr>uao_subaccount = subaccount, uao_name = Some new_name, uao_hidden = None\<rparr> s"

definition set_subaccount_hidden :: "int \<Rightarrow> bool \<Rightarrow> ElectrumSession \<Rightarrow> ElectrumSession gres" where
  "set_subaccount_hidden subaccount hidden s =
     update_subaccount \<lparr>uao_subaccount = subaccount, uao_name = None, uao_hidden = Some hidden\<rparr> s"

definition get_transactions ::
  "gdk_lib \<Rightarrow> int \<Rightarrow> int \<Rightarrow> nat \<Rightarrow> nat \<Rightarrow> int option \<Rightarrow> ElectrumSession \<Rightarrow> GdkTxListItem list gres" where
  "get_transactions L now subaccount first_tx n num_confs s =
     gtry (Some (get_wallet s)) (\<lambda>(w, store).
     gtry (wallet_list_tx L now subaccount first_tx n num_confs w store) (\<lambda>txs.
       map_option Inr (those (map make_txlist_item txs))))"

definition set_transaction_memo :: "gdk_lib \<Rightarrow> store_lib \<Rightarrow> string \<Rightarrow> string \<Rightarrow> ElectrumSession \<Rightarrow> disk \<Rightarrow> (ElectrumSession \<times> disk) gres" where
  "set_transaction_memo L S txid memo s d = do {
     net \<leftarrow> network_id (es_network s);
     gtry (gmap_err G_Common (Some (txid_from_hex L txid net))) (\<lambda>txid.
     gtry (gensure (length memo \<le> 1024) (G_Generic ''Too long memo (max 1024)'')) (\<lambda>_.
     gtry (Some (get_wallet s)) (\<lambda>(w, store).
       case insert_memo S txid memo store d of (store, d) \<Rightarrow> Some (Inr (with_store store s, d))))) }"

definition send_transaction :: "gdk_lib \<Rightarrow> session_lib \<Rightarrow> GdkTransactionMeta \<Rightarrow> ElectrumSession \<Rightarrow> GdkTransactionMeta gres" where
  "send_transaction L E tx s =
     gtry (Some (se_build_client E (es_url s) (es_proxy s))) (\<lambda>client.
     gtry (gok_or (gl_hex_decode L (tm_hex tx)) G_Hex) (\<lambda>tx_bytes.
     gtry (Some (el_broadcast client tx_bytes)) (\<lambda>_. Some (Inr tx))))"

definition broadcast_transaction :: "gdk_lib \<Rightarrow> session_lib \<Rightarrow> string \<Rightarrow> ElectrumSession \<Rightarrow> string gres" where
  "broadcast_transaction L E tx_hex s = do {
     net \<leftarrow> network_id (es_network s);
     gtry (gmap_err G_Common (Some (tx_from_hex L tx_hex net))) (\<lambda>_.
     gtry (Some (se_build_client E (es_url s) (es_proxy s))) (\<lambda>client.
     gtry (gok_or (gl_hex_decode L tx_hex) G_Hex) (\<lambda>tx_bytes.
     gtry (Some (el_broadcast client tx_bytes)) (\<lambda>txid. Some (Inr (gl_txid_hex L txid)))))) }"

definition get_fee_estimates :: "session_lib \<Rightarrow> ElectrumSession \<Rightarrow> (int list \<times> ElectrumSession) gres" where
  "get_fee_estimates E s = do {
     net \<leftarrow> network_id (es_network s);
     let min_fee = (case net of Net_Bitcoin _ \<Rightarrow> 1000 | Net_Elements _ \<Rightarrow> 100);
     gtry (Some (se_build_client E (es_url s) (es_proxy s))) (\<lambda>client.
     let estimates = (case try_get_fee_estimates client of Inr es \<Rightarrow> es | Inl _ \<Rightarrow> replicate 25 min_fee) in
     gtry (Some (get_wallet s)) (\<lambda>(w, store).
       Some (Inr (estimates,
         with_store (store\<lparr>sm_cache := (sm_cache store)\<lparr>rc_fee_estimates := estimates\<rparr>\<rparr>) s)))) }"

definition change_settings ::
  "store_lib \<Rightarrow> GdkSettings \<Rightarrow> ElectrumSession \<Rightarrow> disk \<Rightarrow> (ElectrumSession \<times> GdkNotification list \<times> disk) gres" where
  "change_settings S settings s d =
     gtry (Some (get_wallet s)) (\<lambda>(w, store).
       case insert_settings S (Some settings) store d of
         (store, d) \<Rightarrow> Some (Inr (with_store store s, [N_Settings settings], d)))"

section \<open>The asset registry\<close>

definition store_read :: "http_lib \<Rightarrow> StoreMeta \<Rightarrow> string \<Rightarrow> disk \<Rightarrow> GdkError + Json option" where
  "store_read W m name d =
     (case d (sm_path m, name) of
        None \<Rightarrow> Inr None
      | Some b \<Rightarrow> (case ht_json_des W b of None \<Rightarrow> Inl G_Json | Some v \<Rightarrow> Inr (Some v)))"

definition store_write :: "http_lib \<Rightarrow> store_lib \<Rightarrow> StoreMeta \<Rightarrow> string \<Rightarrow> Json \<Rightarrow> disk \<Rightarrow> disk" where
  "store_write W S m name v d =
     (let vec = ht_json_ser W v in d((sm_path m, name) \<mapsto> take (sl_written S vec) vec))"

definition read_asset_icons :: "http_lib \<Rightarrow> StoreMeta \<Rightarrow> disk \<Rightarrow> GdkError + Json option" where
  "read_asset_icons W m d = store_read W m ''asset_icons'' d"

definition read_asset_registry :: "http_lib \<Rightarrow> StoreMeta \<Rightarrow> disk \<Rightarrow> GdkError + Json option" where
  "read_asset_registry W m d = store_read W m ''asset_registry'' d"

definition call_icons :: "http_lib \<Rightarrow> string \<Rightarrow> string \<Rightarrow> (Json \<times> string) option" where
  "call_icons W base_url last_modified =
     (case ht_get W (base_url @ ''/icons.json'') last_modified of
        (header, body) \<Rightarrow> map_option (\<lambda>v. (v, case header of None \<Rightarrow> [] | Some h \<Rightarrow> h)) body)"

text \<open>
  The registry with the policy asset added.  Adding to a value that is neither an object nor
  null panics in the thread of the request, which the caller sees as no answer.
\<close>

definition call_assets :: "http_lib \<Rightarrow> string \<Rightarrow> string \<Rightarrow> string \<Rightarrow> (Json \<times> string) option" where
  "call_assets W base_url registry_policy last_modified =
     (case ht_get W (base_url @ ''/index.json'') last_modified of
        (header, body) \<Rightarrow> do {
          v \<leftarrow> body;
          let policy = J_Object [(''asset_id'', J_Text registry_policy), (''name'', J_Text ''Liquid Bitcoin''), (''ticker'', J_Text ''L-BTC'')];
          assets \<leftarrow> (case v of
              J_Object m \<Rightarrow> Some (J_Object (hm_insert registry_policy policy m))
            | J_Null \<Rightarrow> Some (J_Object [(registry_policy, policy)])
            | _ \<Rightarrow> None);
          Some (assets, case header of None \<Rightarrow> [] | Some h \<Rightarrow> h) })"

record RefreshAssets =
  ra_icons :: bool
  ra_assets :: bool
  ra_refresh :: bool

definition registry_base_url :: "Network \<Rightarrow> GdkError + string" where
  "registry_base_url n =
     (case net_asset_registry_url n of
        None \<Rightarrow> Inl (G_Common (C_Generic ''asset regitry url not available'')) | Some u \<Rightarrow> Inr u)"

text \<open>What was received; a part that was not asked for or did not arrive is null.\<close>

definition fetch_registry :: "http_lib \<Rightarrow> RefreshAssets \<Rightarrow> ElectrumSession \<Rightarrow> ((Json \<times> string) \<times> (Json \<times> string)) gres" where
  "fetch_registry W details s =
     gtry (if \<not> ra_assets details then Some (Inr (J_Null, []))
       else gtry (gok_or (net_policy_asset (es_network s)) (G_Generic ''policy assets not available'')) (\<lambda>policy.
         gtry (Some (get_wallet s)) (\<lambda>(w, store).
         gtry (Some (registry_base_url (es_network s))) (\<lambda>base_url.
         gtry (Some (build_request_agent W s)) (\<lambda>_.
           Some (Inr (case call_assets W base_url policy (rc_assets_last_modified (sm_cache store)) of
             None \<Rightarrow> (J_Null, []) | Some r \<Rightarrow> r))))))) (\<lambda>assets.
     gtry (if \<not> ra_icons details then Some (Inr (J_Null, []))
       else gtry (Some (get_wallet s)) (\<lambda>(w, store).
         gtry (Some (registry_base_url (es_network s))) (\<lambda>base_url.
         gtry (Some (build_request_agent W s)) (\<lambda>_.
           Some (Inr (case call_icons W base_url (rc_icons_last_modified (sm_cache store)) of
             None \<Rightarrow> (J_Null, []) | Some r \<Rightarrow> r)))))) (\<lambda>icons.
     Some (Inr (assets, icons))))"

fun is_object :: "Json \<Rightarrow> bool" where
  "is_object (J_Object _) = True"
| "is_object _ = False"

definition save_registry ::
  "http_lib \<Rightarrow> store_lib \<Rightarrow> (Json \<times> string) \<times> (Json \<times> string) \<Rightarrow> StoreMeta \<Rightarrow> disk \<Rightarrow> StoreMeta \<times> disk" where
  "save_registry W S fetched m d = (case fetched of ((assets, assets_modified), (icons, icons_modified)) \<Rightarrow>
     (let (m, d) = (if is_object icons
        then (m\<lparr>sm_cache := (sm_cache m)\<lparr>rc_icons_last_modified := icons_modified\<rparr>\<rparr>, store_write W S m ''asset_icons'' icons d)
        else (m, d))
      in if is_object assets
         then (m\<lparr>sm_cache := (sm_cache m)\<lparr>rc_assets_last_modified := assets_modified\<rparr>\<rparr>, store_write W S m ''asset_registry'' assets d)
         else (m, d)))"

text \<open>A part of the result: what was received, or else what is stored.\<close>

definition registry_part :: "bool \<Rightarrow> string \<Rightarrow> Json \<Rightarrow> GdkError + Json option \<Rightarrow> string \<Rightarrow> (string \<times> Json) list gres" where
  "registry_part wanted key received stored missing =
     (if \<not> wanted then Some (Inr [])
      else if is_object received then Some (Inr [(key, received)])
      else gtry (Some stored) (\<lambda>v. gtry (gok_or v (G_Generic missing)) (\<lambda>v. Some (Inr [(key, v)]))))"

definition refresh_assets ::
  "http_lib \<Rightarrow> store_lib \<Rightarrow> RefreshAssets \<Rightarrow> ElectrumSession \<Rightarrow> disk \<Rightarrow> (Json gres \<times> ElectrumSession \<times> disk)" where
  "refresh_assets W S details s d =
     (if \<not> (ra_icons details \<or> ra_assets details)
      then (Some (Inl (G_Generic ''cannot call refresh assets with both icons and assets false'')), s, d)
      else case (if ra_refresh details then fetch_registry W details s else Some (Inr ((J_Null, []), (J_Null, [])))) of
        None \<Rightarrow> (None, s, d)
      | Some (Inl e) \<Rightarrow> (Some (Inl e), s, d)
      | Some (Inr fetched) \<Rightarrow>
          (case get_wallet s of
             Inl e \<Rightarrow> (Some (Inl e), s, d)
           | Inr (w, store) \<Rightarrow>
               let (store, d) = (if ra_refresh details then save_registry W S fetched store d else (store, d)) in
               (gtry (registry_part (ra_assets details) ''assets'' (fst (fst fetched)) (read_asset_registry W store d)
                  ''assets registry not available'') (\<lambda>assets.
                gtry (registry_part (ra_icons details) ''icons'' (fst (snd fetched)) (read_asset_icons W store d)
                  ''icon registry not available'') (\<lambda>icons.
                Some (Inr (J_Object (assets @ icons))))), with_store store s, d)))"

section \<open>The threads of a session\<close>

text \<open>The thread that asks for the fees at login; a failure leaves them as they are.\<close>

definition fee_update :: "session_lib \<Rightarrow> ElectrumSession \<Rightarrow> StoreMeta \<Rightarrow> StoreMeta" where
  "fee_update E s store =
     (case se_build_client E (es_url s) (es_proxy s) of
        Inl _ \<Rightarrow> store
      | Inr client \<Rightarrow>
          (case try_get_fee_estimates client of
             Inl _ \<Rightarrow> store
           | Inr estimates \<Rightarrow> store\<lparr>sm_cache := (sm_cache store)\<lparr>rc_fee_estimates := estimates\<rparr>\<rparr>))"

text \<open>
  One round of the thread that follows the tip: \<open>tip_height\<close> is the height it has last seen. A
  failed connection or a failed answer leaves everything as it is until the next round.
\<close>

definition tipper_round ::
  "hdr_lib \<Rightarrow> (ElectrumUrl \<Rightarrow> GdkError + Electrum) \<Rightarrow> Network \<Rightarrow> ElectrumUrl \<Rightarrow> int \<Rightarrow> StoreMeta \<Rightarrow>
   (GdkNotification list \<times> int \<times> StoreMeta) option" where
  "tipper_round H build_client network url tip_height store =
     (case build_client url of
        Inl _ \<Rightarrow> Some ([], tip_height, store)
      | Inr client \<Rightarrow>
          (case tip H network client store of
             None \<Rightarrow> None
           | Some (Inl _) \<Rightarrow> Some ([], tip_height, store)
           | Some (Inr (current_tip, store)) \<Rightarrow>
               Some (if tip_height \<noteq> current_tip then [N_Block current_tip] else [], current_tip, store)))"

text \<open>
  One round of the thread that synchronises the accounts. Its end is notified whether or not it
  has succeeded. The accounts that have changed are notified in the order of \<open>sync\<close>; in the code
  they are a hash set, whose order is not specified.
\<close>

definition syncer_round ::
  "gdk_lib \<Rightarrow> gdk_keys \<Rightarrow> hdr_lib \<Rightarrow> store_lib \<Rightarrow> sync_lib \<Rightarrow> (ElectrumUrl \<Rightarrow> GdkError + Electrum) \<Rightarrow> Syncer \<Rightarrow> ElectrumUrl \<Rightarrow>
   Account list \<Rightarrow> StoreMeta \<times> disk \<Rightarrow> (GdkNotification list \<times> StoreMeta \<times> disk) option" where
  "syncer_round L K H S Y build_client syncer url accounts sd =
     (case build_client url of
        Inl _ \<Rightarrow> Some ([N_Sync_Complete], sd)
      | Inr client \<Rightarrow> do {
          (r, sd) \<leftarrow> sync L K H S Y syncer client accounts sd;
          Some ((case r of Inl _ \<Rightarrow> [] | Inr updated_accounts \<Rightarrow> map N_Updated_Txs updated_accounts) @ [N_Sync_Complete], sd) })"

lemma tip_height_stored:
  assumes "tip H network client store = Some (Inr (h, store'))"
  shows "fst (rc_tip (sm_cache store')) = h"
  using assms by (auto simp: tip_def gtry_def gmap_err_def Let_def split: option.splits sum.splits if_splits bind_splits)

text \<open>
  A thread that starts with the stored height, as \<open>login\<close> starts it, keeps to the stored height:
  the user is told of a block exactly when the stored height changes, and of the stored height.
\<close>

theorem tipper_follows_store:
  assumes "tipper_round H build_client network url (fst (rc_tip (sm_cache store))) store = Some (ns, h, store')"
  shows "h = fst (rc_tip (sm_cache store')) \<and>
    ns = (if fst (rc_tip (sm_cache store)) = fst (rc_tip (sm_cache store')) then []
          else [N_Block (fst (rc_tip (sm_cache store')))])"
  using assms tip_height_stored [of H network _ store]
  by (auto simp: tipper_round_def split: sum.splits option.splits if_splits prod.splits)

text \<open>Every round of the synchronisation that does not panic ends with its notification.\<close>

theorem syncer_round_completes:
  assumes "syncer_round L K H S Y build_client syncer url accounts sd = Some (ns, sd')"
  shows "ns \<noteq> [] \<and> last ns = N_Sync_Complete"
  using assms by (auto simp: syncer_round_def split: sum.splits bind_splits)

end
