(* ===== verification/Gdk_Create_Props.thy ===== *)
theory Gdk_Create_Props
  imports Gdk_Sign
begin

text \<open>
  What a payment that \<^verbatim>\<open>create_tx\<close> returns is: it conserves every asset, pays the estimated
  fee or at most the dust limit more, spends unspent outputs of the account once each, and has
  the requested outputs.  The amounts of the code are maps from assets to 64-bit sums; here they
  are the sums \<open>elm_in\<close> and \<open>elm_out\<close> of the transaction's own inputs and outputs, which the
  maps agree with modulo \<open>2 ^ 64\<close>.
\<close>

section \<open>Amounts\<close>

definition prev_value :: "gdk_lib \<Rightarrow> BETransactions \<Rightarrow> Unblindeds \<Rightarrow> BEOutPoint \<Rightarrow> int" where
  "prev_value L txs ub x = (case get_previous_output_value L txs x ub of Some (Some v) \<Rightarrow> v | _ \<Rightarrow> 0)"

definition prev_asset :: "gdk_lib \<Rightarrow> BETransactions \<Rightarrow> Unblindeds \<Rightarrow> OutPoint \<Rightarrow> string" where
  "prev_asset L txs ub x = (case get_previous_output_asset_hex L txs x ub of Some (Some a) \<Rightarrow> a | _ \<Rightarrow> [])"

definition out_amount :: "ElmTxOut \<Rightarrow> int" where
  "out_amount x = (case eout_value x of Value_Explicit v \<Rightarrow> v | _ \<Rightarrow> 0)"

definition out_asset :: "gdk_lib \<Rightarrow> ElmTxOut \<Rightarrow> string" where
  "out_asset L x = (case eout_asset x of Asset_Explicit a \<Rightarrow> asset_to_hex L a | _ \<Rightarrow> [])"

text \<open>The part of a list of amounts that belongs to an asset.\<close>

definition asset_sum :: "string \<Rightarrow> (string \<times> int) list \<Rightarrow> int" where
  "asset_sum a kvs = (\<Sum>(k, v)\<leftarrow>kvs. if k = a then v else 0)"

definition ins_of :: "gdk_lib \<Rightarrow> BETransactions \<Rightarrow> Unblindeds \<Rightarrow> ElmTx \<Rightarrow> (string \<times> int) list" where
  "ins_of L txs ub tx =
     map (\<lambda>i. (prev_asset L txs ub (ein_previous_output i), prev_value L txs ub (Out_Elements (ein_previous_output i))))
       (etx_input tx)"

definition outs_of :: "gdk_lib \<Rightarrow> ElmTx \<Rightarrow> (string \<times> int) list" where
  "outs_of L tx = map (\<lambda>x. (out_asset L x, out_amount x)) (etx_output tx)"

abbreviation elm_in :: "gdk_lib \<Rightarrow> BETransactions \<Rightarrow> Unblindeds \<Rightarrow> ElmTx \<Rightarrow> string \<Rightarrow> int" where
  "elm_in L txs ub tx a \<equiv> asset_sum a (ins_of L txs ub tx)"

abbreviation elm_out :: "gdk_lib \<Rightarrow> ElmTx \<Rightarrow> string \<Rightarrow> int" where
  "elm_out L tx a \<equiv> asset_sum a (outs_of L tx)"

lemma asset_sum_simps [simp]:
  "asset_sum a [] = 0"
  "asset_sum a (kv # kvs) = (if fst kv = a then snd kv else 0) + asset_sum a kvs"
  "asset_sum a (xs @ ys) = asset_sum a xs + asset_sum a ys"
  by (auto simp: asset_sum_def split: prod.splits)

lemma asset_sum_notin: "a \<notin> fst ` set kvs \<Longrightarrow> asset_sum a kvs = 0"
  by (induction kvs) auto

lemma asset_sum_mset: "mset xs = mset ys \<Longrightarrow> asset_sum a xs = asset_sum a ys"
  unfolding asset_sum_def sum_mset_sum_list[symmetric] mset_map by simp

lemma asset_sum_distinct:
  "distinct (map fst kvs) \<Longrightarrow> asset_sum a kvs = (case map_of kvs a of None \<Rightarrow> 0 | Some v \<Rightarrow> v)"
proof (induction kvs)
  case (Cons kv kvs)
  have "map_of kvs a = None" if "a = fst kv" using Cons.prems that by (simp add: map_of_eq_None_iff)
  with Cons show ?case by (cases kv) (auto simp: asset_sum_notin)
qed simp

text \<open>The sum of all amounts is the sum over the assets.\<close>

lemma sum_asset_sum:
  assumes "finite A" and "fst ` set kvs \<subseteq> A"
  shows "(\<Sum>a\<in>A. asset_sum a kvs) = (\<Sum>(k, v)\<leftarrow>kvs. v)"
  using assms(2)
proof (induction kvs)
  case (Cons kv kvs)
  have "(\<Sum>a\<in>A. (if fst kv = a then snd kv else 0)) = snd kv"
    using Cons.prems assms(1) by (simp add: sum.delta)
  with Cons show ?case by (simp add: sum.distrib case_prod_beta)
qed simp

section \<open>Congruence modulo the width\<close>

definition cong64 :: "int \<Rightarrow> int \<Rightarrow> bool" where
  "cong64 x y \<longleftrightarrow> wrap_u64 x = wrap_u64 y"

lemma cong64_refl [simp]: "cong64 x x"
  and cong64_sym: "cong64 x y \<Longrightarrow> cong64 y x"
  and cong64_trans [trans]: "cong64 x y \<Longrightarrow> cong64 y z \<Longrightarrow> cong64 x z"
  by (simp_all add: cong64_def)

lemma cong64_wrap [simp]: "cong64 (wrap_u64 x) y \<longleftrightarrow> cong64 x y" "cong64 x (wrap_u64 y) \<longleftrightarrow> cong64 x y"
  by (simp_all add: cong64_def wrap_u64_def)

lemma cong64_add: "cong64 x y \<Longrightarrow> cong64 x' y' \<Longrightarrow> cong64 (x + x') (y + y')"
  unfolding cong64_def wrap_u64_def by (rule mod_add_cong)

lemma cong64_diff: "cong64 x y \<Longrightarrow> cong64 x' y' \<Longrightarrow> cong64 (x - x') (y - y')"
  unfolding cong64_def wrap_u64_def by (rule mod_diff_cong)

lemma cong64_sum: "(\<And>a. a \<in> A \<Longrightarrow> cong64 (f a) (g a)) \<Longrightarrow> cong64 (sum f A) (sum g A)"
  by (induction A rule: infinite_finite_induct) (auto intro: cong64_add)

lemma cong64_eq: "cong64 x y \<Longrightarrow> in_u64 x \<Longrightarrow> in_u64 y \<Longrightarrow> x = y"
  by (simp add: cong64_def i64_simps)

lemma wrap_u64_diff [simp]: "wrap_u64 (wrap_u64 x - y) = wrap_u64 (x - y)" "wrap_u64 (x - wrap_u64 y) = wrap_u64 (x - y)"
  by (simp_all only: wrap_u64_def mod_diff_left_eq mod_diff_right_eq)

lemma cong64_wrap_diff: "cong64 (y + wrap_u64 (x - y)) x"
  unfolding cong64_def wrap_u64_def by (simp add: mod_add_right_eq)

lemma cong64_cancel: "cong64 x y \<Longrightarrow> cong64 ((a + x) - (b + y)) (a - b)"
  using cong64_add[of "x - y" 0 "a - b" "a - b"] cong64_diff[of x y y y] by (simp add: algebra_simps)

lemma cong64_rest:
  assumes "cong64 d (a - b)" shows "cong64 a (b + wrap_u64 d)"
proof -
  have "cong64 (b + wrap_u64 d) (b + (a - b))" by (rule cong64_add) (use assms in simp_all)
  then show ?thesis by (simp add: cong64_sym)
qed

section \<open>The amounts of the code\<close>

lemma those_Some: "those xs = Some ys \<longleftrightarrow> xs = map Some ys"
proof (induction xs arbitrary: ys)
  case (Cons x xs)
  then show ?case by (cases x; cases ys) auto
qed (cases ys; auto)

lemma those_map_Some: "those (map f xs) = Some ys \<Longrightarrow> ys = map (\<lambda>x. the (f x)) xs \<and> (\<forall>x \<in> set xs. f x \<noteq> None)"
  unfolding those_Some by (induction xs arbitrary: ys) auto

text \<open>A loop that adds amounts to a map.\<close>

lemma foldM_add_amounts:
  assumes "foldM (\<lambda>x m. case f x of None \<Rightarrow> None | Some kv \<Rightarrow> Some (hm_add_u64 (fst kv) (snd kv) m)) xs m = Some m'"
    and "hm_wf m" and "\<forall>a. in_u64 (hm_amount m a)"
  shows "hm_wf m' \<and> (\<forall>x \<in> set xs. f x \<noteq> None) \<and>
    fst ` set m' = fst ` set m \<union> (\<lambda>x. fst (the (f x))) ` set xs \<and>
    (\<forall>a. hm_amount m' a = wrap_u64 (hm_amount m a + asset_sum a (map (\<lambda>x. the (f x)) xs)))"
  using assms
proof (induction xs arbitrary: m)
  case Nil
  then show ?case by (simp add: i64_simps)
next
  case (Cons x xs)
  from Cons.prems(1) obtain k v where kv: "f x = Some (k, v)"
    and rest: "foldM (\<lambda>x m. case f x of None \<Rightarrow> None | Some kv \<Rightarrow> Some (hm_add_u64 (fst kv) (snd kv) m)) xs
      (hm_add_u64 k v m) = Some m'"
    by (auto split: option.splits)
  have keys: "fst ` set (hm_add_u64 k v m) = insert k (fst ` set m)"
    by (simp add: hm_add_u64_def hm_insert_def dom_update)
  have "\<forall>a. in_u64 (hm_amount (hm_add_u64 k v m) a)"
    using Cons.prems(3) by (simp add: wrap_u64_range)
  from Cons.IH[OF rest _ this] Cons.prems(2) show ?case
    by (auto simp: kv keys add.assoc)
qed

lemma input_amounts_spec:
  assumes "input_amounts L tx txs ub = Some m"
  shows "hm_wf m" and "fst ` set m = fst ` set (ins_of L txs ub tx)"
    and "hm_amount m a = wrap_u64 (elm_in L txs ub tx a)"
    and "\<forall>i \<in> set (etx_input tx).
      (\<exists>x. get_previous_output_asset_hex L txs (ein_previous_output i) ub = Some (Some x)) \<and>
      (\<exists>v. get_previous_output_value L txs (Out_Elements (ein_previous_output i)) ub = Some (Some v))"
proof -
  let ?f = "\<lambda>i. do {
       a \<leftarrow> Option.bind (get_previous_output_asset_hex L txs (ein_previous_output i) ub) id;
       v \<leftarrow> Option.bind (get_previous_output_value L txs (Out_Elements (ein_previous_output i)) ub) id;
       Some (a, v) }"
  have "foldM (\<lambda>x m. case ?f x of None \<Rightarrow> None | Some kv \<Rightarrow> Some (hm_add_u64 (fst kv) (snd kv) m)) (etx_input tx) [] = Some m"
    using assms unfolding input_amounts_def
    by (rule back_subst[of "\<lambda>g. foldM g (etx_input tx) [] = Some m"])
      (auto simp: fun_eq_iff bind_eq_None_conv bind_eq_Some_conv split: option.splits)
  from foldM_add_amounts[OF this] have spec: "hm_wf m" "\<forall>x \<in> set (etx_input tx). ?f x \<noteq> None"
    "fst ` set m = (\<lambda>x. fst (the (?f x))) ` set (etx_input tx)"
    "\<forall>a. hm_amount m a = wrap_u64 (asset_sum a (map (\<lambda>x. the (?f x)) (etx_input tx)))"
    by (simp_all add: in_u64_def)
  show known: "\<forall>i \<in> set (etx_input tx).
      (\<exists>x. get_previous_output_asset_hex L txs (ein_previous_output i) ub = Some (Some x)) \<and>
      (\<exists>v. get_previous_output_value L txs (Out_Elements (ein_previous_output i)) ub = Some (Some v))"
    using spec(2) by (auto simp: bind_eq_None_conv)
  have eq: "map (\<lambda>x. the (?f x)) (etx_input tx) = ins_of L txs ub tx"
    unfolding ins_of_def
    by (rule map_cong[OF refl]) (use known in \<open>auto simp: prev_asset_def prev_value_def\<close>)
  show "hm_wf m" "fst ` set m = fst ` set (ins_of L txs ub tx)" "hm_amount m a = wrap_u64 (elm_in L txs ub tx a)"
    using spec(1) spec(3) spec(4)[rule_format, of a] unfolding eq[symmetric] by (simp_all add: image_image)
qed

definition explicit_out :: "ElmTxOut \<Rightarrow> bool" where
  "explicit_out x \<longleftrightarrow> (\<exists>a. eout_asset x = Asset_Explicit a) \<and> (\<exists>v. eout_value x = Value_Explicit v)"

lemma output_amounts_spec:
  assumes "output_amounts L tx = Some m"
  shows "hm_wf m" and "fst ` set m = fst ` set (outs_of L tx)"
    and "hm_amount m a = wrap_u64 (elm_out L tx a)" and "\<forall>x \<in> set (etx_output tx). explicit_out x"
proof -
  let ?f = "\<lambda>x. case (eout_asset x, eout_value x) of
      (Asset_Explicit a, Value_Explicit v) \<Rightarrow> Some (asset_to_hex L a, v) | _ \<Rightarrow> None"
  have "foldM (\<lambda>x m. case ?f x of None \<Rightarrow> None | Some kv \<Rightarrow> Some (hm_add_u64 (fst kv) (snd kv) m)) (etx_output tx) [] = Some m"
    using assms unfolding output_amounts_def
    by (rule back_subst[of "\<lambda>g. foldM g (etx_output tx) [] = Some m"])
      (auto simp: fun_eq_iff split: option.splits ConfAsset.splits ConfValue.splits)
  from foldM_add_amounts[OF this] have spec: "hm_wf m" "\<forall>x \<in> set (etx_output tx). ?f x \<noteq> None"
    "fst ` set m = (\<lambda>x. fst (the (?f x))) ` set (etx_output tx)"
    "\<forall>a. hm_amount m a = wrap_u64 (asset_sum a (map (\<lambda>x. the (?f x)) (etx_output tx)))"
    by (simp_all add: in_u64_def)
  show expl: "\<forall>x \<in> set (etx_output tx). explicit_out x"
    using spec(2) by (fastforce simp: explicit_out_def split: ConfAsset.splits ConfValue.splits)
  have eq: "map (\<lambda>x. the (?f x)) (etx_output tx) = outs_of L tx"
    unfolding outs_of_def
    by (rule map_cong[OF refl]) (use expl in \<open>auto simp: explicit_out_def out_asset_def out_amount_def\<close>)
  show "hm_wf m" "fst ` set m = fst ` set (outs_of L tx)" "hm_amount m a = wrap_u64 (elm_out L tx a)"
    using spec(1) spec(3) spec(4)[rule_format, of a] unfolding eq[symmetric] by (simp_all add: image_image)
qed

section \<open>Changes\<close>

text \<open>The change of an input asset: what the loop of \<^verbatim>\<open>changes\<close> adds for it.\<close>

definition change_value :: "string \<Rightarrow> int \<Rightarrow> (string, int) hmap \<Rightarrow> string \<times> int \<Rightarrow> int" where
  "change_value policy fee outputs av =
     (let surplus = wrap_u64 (snd av - hm_amount outputs (fst av)) in
      if fst av = policy
      then let surplus = wrap_u64 (surplus - fee) in if DUST_VALUE < surplus then surplus else 0
      else surplus)"

definition change_of :: "string \<Rightarrow> int \<Rightarrow> (string, int) hmap \<Rightarrow> string \<times> int \<Rightarrow> AssetValue list" where
  "change_of policy fee outputs av =
     (if 0 < change_value policy fee outputs av
      then [\<lparr>av_asset = fst av, av_satoshi = change_value policy fee outputs av\<rparr>] else [])"

lemma change_step_eq:
  "change_step (Some policy) fee av (outputs, result) =
     Some (hm_remove (fst av) outputs, result @ change_of policy fee outputs av)"
  by (cases av) (auto simp: change_step_def change_of_def change_value_def DUST_VALUE_def Let_def)

lemma change_loop:
  assumes "distinct (map fst kvs)"
  shows "foldM (change_step (Some policy) fee) kvs (outputs, result) =
    Some (fold hm_remove (map fst kvs) outputs, result @ concat (map (change_of policy fee outputs) kvs))"
  using assms
proof (induction kvs arbitrary: outputs result)
  case (Cons av kvs)
  have "change_of policy fee (hm_remove (fst av) outputs) e = change_of policy fee outputs e" if "e \<in> set kvs" for e
  proof -
    have "fst e \<noteq> fst av" using Cons.prems that by (force simp: image_iff)
    then have "hm_amount (hm_remove (fst av) outputs) (fst e) = hm_amount outputs (fst e)"
      by (simp add: hm_amount_def)
    then show ?thesis by (simp add: change_of_def change_value_def)
  qed
  then have eq: "map (change_of policy fee (hm_remove (fst av) outputs)) kvs = map (change_of policy fee outputs) kvs"
    by simp
  show ?case using Cons by (simp add: change_step_eq eq)
qed simp

definition av_pair :: "AssetValue \<Rightarrow> string \<times> int" where
  "av_pair c = (av_asset c, av_satoshi c)"

lemma asset_sum_changes:
  assumes "distinct (map fst kvs)"
  shows "asset_sum a (map av_pair (concat (map (change_of policy fee outputs) kvs))) =
    (case map_of kvs a of None \<Rightarrow> 0 | Some v \<Rightarrow> change_value policy fee outputs (a, v))"
  using assms
proof (induction kvs)
  case (Cons av kvs)
  have nn: "0 \<le> change_value policy fee outputs av"
    using wrap_u64_range by (auto simp: change_value_def Let_def in_u64_def DUST_VALUE_def)
  have "map_of kvs a = None" if "a = fst av" using Cons.prems that by (simp add: map_of_eq_None_iff)
  with Cons nn show ?case
    by (cases av) (auto simp: change_of_def av_pair_def)
qed simp

text \<open>
  Every asset but the policy asset is conserved by the change, no output has an asset that no
  input has, and each change is of an asset of the inputs.
\<close>

lemma changes_elements:
  assumes ok: "lib_ok L" and ch: "changes L (Tx_Elements tx) fee (Some p) txs ub = Some cs"
  shows "fst ` set (outs_of L tx) \<subseteq> fst ` set (ins_of L txs ub tx)"
    and "\<forall>c \<in> set cs. av_asset c \<in> fst ` set (ins_of L txs ub tx) \<and> 0 < av_satoshi c"
    and "a \<noteq> p \<Longrightarrow> cong64 (elm_in L txs ub tx a) (elm_out L tx a + asset_sum a (map av_pair cs))"
    and "a \<notin> fst ` set (ins_of L txs ub tx) \<Longrightarrow> asset_sum a (map av_pair cs) = 0"
    and "p \<in> fst ` set (ins_of L txs ub tx) \<Longrightarrow>
      asset_sum p (map av_pair cs) =
        (let s = wrap_u64 (elm_in L txs ub tx p - elm_out L tx p - fee) in if DUST_VALUE < s then s else 0)"
    and "input_amounts L tx txs ub \<noteq> None" and "output_amounts L tx \<noteq> None"
proof -
  from ch obtain outs ins outs' where outs: "output_amounts L tx = Some outs"
    and ins: "input_amounts L tx txs ub = Some ins"
    and loop: "foldM (change_step (Some p) fee) (gl_iter L ins) (outs, []) = Some (outs', cs)"
    and empty: "outs' = []"
    by (auto elim!: bind_SomeE split: prod.splits)
  note ispec = input_amounts_spec[OF ins] and ospec = output_amounts_spec[OF outs]
  let ?kvs = "gl_iter L ins"
  have m: "mset ?kvs = mset ins" using ok by (rule lib_iter)
  then have s: "set ?kvs = set ins" by (metis set_mset_mset)
  have d: "distinct (map fst ?kvs)"
    using ispec(1) m by (metis hm_wf_def mset_eq_imp_distinct_iff mset_map)
  have cs: "cs = concat (map (change_of p fee outs) ?kvs)" and rm: "fold hm_remove (map fst ?kvs) outs = []"
    using loop empty by (simp_all add: change_loop[OF d])
  have keys: "fst ` set ?kvs = fst ` set (ins_of L txs ub tx)" using s ispec(2) by simp
  show "fst ` set (outs_of L tx) \<subseteq> fst ` set (ins_of L txs ub tx)"
  proof
    fix x assume "x \<in> fst ` set (outs_of L tx)"
    then have "hm_get outs x \<noteq> None" using ospec(2) by (simp add: hm_get_None)
    moreover have "hm_get (fold hm_remove (map fst ?kvs) outs) x = None" using rm by simp
    ultimately show "x \<in> fst ` set (ins_of L txs ub tx)"
      unfolding hmm.get_fold_remove keys[symmetric] by (auto split: if_splits)
  qed
  show "\<forall>c \<in> set cs. av_asset c \<in> fst ` set (ins_of L txs ub tx) \<and> 0 < av_satoshi c"
    unfolding keys[symmetric] by (force simp: cs change_of_def split: if_splits)
  have sums: "asset_sum x (map av_pair cs) =
      (case map_of ?kvs x of None \<Rightarrow> 0 | Some v \<Rightarrow> change_value p fee outs (x, v))" for x
    unfolding cs by (rule asset_sum_changes[OF d])
  have amount: "map_of ?kvs x = Some v \<Longrightarrow> v = wrap_u64 (elm_in L txs ub tx x)" for x v
    using ispec(3)[of x] m d ispec(1) by (metis hm_amount_def hm_get_def hm_wf_def map_of_inject_set option.simps(5) s)
  have none: "asset_sum x (map av_pair cs) = 0" if "x \<notin> fst ` set (ins_of L txs ub tx)" for x
    unfolding sums using that keys by (metis map_of_eq_None_iff option.simps(4))
  then show "a \<notin> fst ` set (ins_of L txs ub tx) \<Longrightarrow> asset_sum a (map av_pair cs) = 0" .
  have some: "\<exists>v. map_of ?kvs x = Some v" if "x \<in> fst ` set (ins_of L txs ub tx)" for x
    using that keys by (metis map_of_eq_None_iff not_Some_eq)
  show "cong64 (elm_in L txs ub tx a) (elm_out L tx a + asset_sum a (map av_pair cs))" if "a \<noteq> p"
  proof (cases "a \<in> fst ` set (ins_of L txs ub tx)")
    case True
    then obtain v where v: "map_of ?kvs a = Some v" using some by blast
    have "asset_sum a (map av_pair cs) = wrap_u64 (wrap_u64 (elm_in L txs ub tx a) - wrap_u64 (elm_out L tx a))"
      using that amount[OF v] ospec(3)[of a] by (simp add: sums v change_value_def)
    also have "\<dots> = wrap_u64 (elm_in L txs ub tx a - elm_out L tx a)"
      by simp
    finally show ?thesis using cong64_wrap_diff cong64_sym by metis
  next
    case False
    then have "a \<notin> fst ` set (outs_of L tx)"
      using \<open>fst ` set (outs_of L tx) \<subseteq> fst ` set (ins_of L txs ub tx)\<close> by blast
    with False show ?thesis by (simp add: asset_sum_notin none)
  qed
  show "asset_sum p (map av_pair cs) =
      (let s = wrap_u64 (elm_in L txs ub tx p - elm_out L tx p - fee) in if DUST_VALUE < s then s else 0)"
    if pin: "p \<in> fst ` set (ins_of L txs ub tx)"
  proof -
    obtain v where v: "map_of ?kvs p = Some v" using some[OF pin] by auto
    have "wrap_u64 (wrap_u64 (v - hm_amount outs p) - fee) = wrap_u64 (elm_in L txs ub tx p - elm_out L tx p - fee)"
      by (simp add: amount[OF v] ospec(3))
    then show ?thesis by (simp add: sums v change_value_def Let_def)
  qed
  show "input_amounts L tx txs ub \<noteq> None" "output_amounts L tx \<noteq> None" using ins outs by simp_all
qed

section \<open>Outputs\<close>

text \<open>An output of a value in an asset to an address, before it is blinded.\<close>

definition pays :: "gdk_lib \<Rightarrow> string \<Rightarrow> int \<Rightarrow> ElmTxOut \<Rightarrow> bool" where
  "pays L asset value x \<longleftrightarrow>
     (\<exists>b. asset_to_bin L asset = Inr b \<and> eout_asset x = Asset_Explicit b) \<and> eout_value x = Value_Explicit value \<and>
     (\<exists>n0 n1. eout_nonce x = Nonce_Confidential n0 n1) \<and> eout_script_pubkey x \<noteq> []"

lemma add_output_elements:
  assumes "lib_ok L" and "add_output L address value asset (Tx_Elements tx) = Some (Inr t)"
  shows "\<exists>x h. asset = Some h \<and> pays L h value x \<and> t = Tx_Elements (tx\<lparr>etx_output := etx_output tx @ [x]\<rparr>)"
proof -
  from assms(2) obtain a n h b where a: "gl_elm_address L address = Some a" "ea_blinding_pubkey a = Some n"
      "asset = Some h" "asset_to_bin L h = Inr b"
    and t: "t = Tx_Elements (tx\<lparr>etx_output := etx_output tx @ [\<lparr>eout_asset = Asset_Explicit b, eout_value = Value_Explicit value,
      eout_nonce = Nonce_Confidential (fst n) (snd n), eout_script_pubkey = ea_script_pubkey a,
      eout_surjection_proof = [], eout_rangeproof = []\<rparr>]\<rparr>)"
    by (auto simp: Let_def elim!: gtry_InrE bind_SomeE)
  have "pays L h value \<lparr>eout_asset = Asset_Explicit b, eout_value = Value_Explicit value,
      eout_nonce = Nonce_Confidential (fst n) (snd n), eout_script_pubkey = ea_script_pubkey a,
      eout_surjection_proof = [], eout_rangeproof = []\<rparr>"
    using a assms(1) by (simp add: pays_def lib_address)
  with t a(3) show ?thesis by blast
qed

lemma add_output_bitcoin:
  assumes "add_output L address value asset (Tx_Bitcoin tx) = Some (Inr t)"
  shows "\<exists>x. bout_value x = value \<and> t = Tx_Bitcoin (tx\<lparr>btx_output := btx_output tx @ [x]\<rparr>)"
proof -
  from assms obtain a where "gl_btc_address L address = Inr a" by (auto split: sum.splits)
  with assms have
    "t = Tx_Bitcoin (tx\<lparr>btx_output := btx_output tx @ [\<lparr>bout_value = value, bout_script_pubkey = ba_script_pubkey a\<rparr>]\<rparr>)"
    by (simp add: Let_def)
  then show ?thesis by (intro exI conjI) simp_all
qed

text \<open>A loop each pass of which appends an output.\<close>

lemma gfold_appends:
  assumes "gfold f xs s = Some (Inr t)" and "P os s"
    and "\<And>x s s' os. P os s \<Longrightarrow> f x s = Some (Inr s') \<Longrightarrow> \<exists>y. R x y \<and> P (os @ [y]) s'"
  shows "\<exists>ys. list_all2 R xs ys \<and> P (os @ ys) t"
  using assms(1,2)
proof (induction xs arbitrary: s os)
  case Nil
  then show ?case by simp
next
  case (Cons x xs)
  from Cons.prems obtain s' where s': "f x s = Some (Inr s')" and rest: "gfold f xs s' = Some (Inr t)"
    by (auto elim!: gtry_InrE)
  from assms(3)[OF Cons.prems(2) s'] obtain y where y: "R x y" "P (os @ [y]) s'" by blast
  from Cons.IH[OF rest y(2)] obtain ys where "list_all2 R xs ys" "P ((os @ [y]) @ ys) t" by blast
  with y(1) show ?case by (intro exI[of _ "y # ys"]) simp
qed

lemma list_all2_enumerate: "list_all2 (\<lambda>ic y. R (snd ic) y) (enumerate n cs) ys \<longleftrightarrow> list_all2 R cs ys"
  by (auto simp: list_all2_conv_all_nth nth_enumerate_eq)

lemma add_change_obs:
  assumes "add_change L K account acc ic s = Some (Inr s')"
  shows "\<exists>address. add_output L address (av_satoshi (snd ic)) (Some (av_asset (snd ic))) (fst s) = Some (Inr (fst s'))"
  using assms by (cases ic; cases s) (auto simp: add_change_def elim!: gtry_InrE)

definition with_elm_outs :: "ElmTx \<Rightarrow> ElmTxOut list \<Rightarrow> BETransaction" where
  "with_elm_outs tx outs = Tx_Elements (tx\<lparr>etx_output := etx_output tx @ outs\<rparr>)"

definition with_btc_outs :: "BtcTx \<Rightarrow> BtcTxOut list \<Rightarrow> BETransaction" where
  "with_btc_outs tx outs = Tx_Bitcoin (tx\<lparr>btx_output := btx_output tx @ outs\<rparr>)"

lemma with_outs_Nil [simp]: "with_elm_outs tx [] = Tx_Elements tx" "with_btc_outs bt [] = Tx_Bitcoin bt"
  by (simp_all add: with_elm_outs_def with_btc_outs_def)

lemma add_output_with:
  "lib_ok L \<Longrightarrow> add_output L address value asset (with_elm_outs tx outs) = Some (Inr t) \<Longrightarrow>
    \<exists>x h. asset = Some h \<and> pays L h value x \<and> t = with_elm_outs tx (outs @ [x])"
  "add_output L address value asset (with_btc_outs bt bouts) = Some (Inr t) \<Longrightarrow>
    \<exists>x. bout_value x = value \<and> t = with_btc_outs bt (bouts @ [x])"
  unfolding with_elm_outs_def with_btc_outs_def
  by (drule (1) add_output_elements, simp) (drule add_output_bitcoin, simp)

lemma add_changes_elements:
  assumes ok: "lib_ok L" and ch: "add_changes L K account acc cs ca (Tx_Elements tx) = Some (Inr t)"
  shows "\<exists>outs. t = with_elm_outs tx outs \<and> list_all2 (\<lambda>c x. pays L (av_asset c) (av_satoshi c) x) cs outs"
proof -
  from ch obtain ca' where
    g: "gfold (add_change L K account acc) (enumerate 0 cs) (Tx_Elements tx, ca) = Some (Inr (t, ca'))"
    by (auto simp: add_changes_def elim!: gtry_InrE)
  have "\<exists>ys. list_all2 (\<lambda>ic x. pays L (av_asset (snd ic)) (av_satoshi (snd ic)) x) (enumerate 0 cs) ys \<and>
      fst (t, ca') = with_elm_outs tx ([] @ ys)"
  proof (rule gfold_appends[OF g, where P = "\<lambda>outs s. fst s = with_elm_outs tx outs"])
    fix ic s s' outs
    assume s: "fst s = with_elm_outs tx outs" and c: "add_change L K account acc ic s = Some (Inr s')"
    from add_change_obs[OF c] s obtain address where
      "add_output L address (av_satoshi (snd ic)) (Some (av_asset (snd ic))) (with_elm_outs tx outs) = Some (Inr (fst s'))" by auto
    from add_output_with(1)[OF ok this] show "\<exists>y. pays L (av_asset (snd ic)) (av_satoshi (snd ic)) y \<and> fst s' = with_elm_outs tx (outs @ [y])"
      by auto
  qed simp
  then show ?thesis
    using list_all2_enumerate[where R = "\<lambda>c x. pays L (av_asset c) (av_satoshi c) x"] by auto
qed

lemma add_changes_bitcoin:
  assumes ch: "add_changes L K account acc cs ca (Tx_Bitcoin tx) = Some (Inr t)"
  shows "\<exists>outs. t = with_btc_outs tx outs \<and> list_all2 (\<lambda>c x. bout_value x = av_satoshi c) cs outs"
proof -
  from ch obtain ca' where
    g: "gfold (add_change L K account acc) (enumerate 0 cs) (Tx_Bitcoin tx, ca) = Some (Inr (t, ca'))"
    by (auto simp: add_changes_def elim!: gtry_InrE)
  have "\<exists>ys. list_all2 (\<lambda>ic x. bout_value x = av_satoshi (snd ic)) (enumerate 0 cs) ys \<and>
      fst (t, ca') = with_btc_outs tx ([] @ ys)"
  proof (rule gfold_appends[OF g, where P = "\<lambda>outs s. fst s = with_btc_outs tx outs"])
    fix ic s s' outs
    assume s: "fst s = with_btc_outs tx outs" and c: "add_change L K account acc ic s = Some (Inr s')"
    from add_change_obs[OF c] s obtain address where
      "add_output L address (av_satoshi (snd ic)) (Some (av_asset (snd ic))) (with_btc_outs tx outs) = Some (Inr (fst s'))" by auto
    from add_output_with(2)[OF this] show "\<exists>y. bout_value y = av_satoshi (snd ic) \<and> fst s' = with_btc_outs tx (outs @ [y])"
      by auto
  qed simp
  then show ?thesis
    using list_all2_enumerate[where R = "\<lambda>c x. bout_value x = av_satoshi c"] by auto
qed

text \<open>The requested outputs.\<close>

definition asked :: "gdk_lib \<Rightarrow> AddressAmount \<Rightarrow> ElmTxOut \<Rightarrow> bool" where
  "asked L a x \<longleftrightarrow> (\<exists>h. aa_asset_id a = Some h \<and> pays L h (aa_satoshi a) x)"

lemma requested_outputs_elements:
  assumes ok: "lib_ok L" and r: "requested_outputs L (Net_Elements n) as = Some (Inr t)"
  shows "\<exists>tx. t = Tx_Elements tx \<and> etx_input tx = [] \<and> list_all2 (asked L) as (etx_output tx)"
proof -
  let ?tx = "\<lparr>etx_version = 2, etx_lock_time = 0, etx_input = [], etx_output = []\<rparr>"
  have "\<exists>ys. list_all2 (asked L) as ys \<and> t = with_elm_outs ?tx ([] @ ys)"
    using r unfolding requested_outputs_def
    by (rule gfold_appends[where P = "\<lambda>outs s. s = with_elm_outs ?tx outs"])
      (auto simp: asked_def dest!: add_output_with(1)[OF ok])
  then show ?thesis by (auto simp: with_elm_outs_def)
qed

lemma requested_outputs_bitcoin:
  assumes r: "requested_outputs L (Net_Bitcoin n) as = Some (Inr t)"
  shows "\<exists>tx. t = Tx_Bitcoin tx \<and> btx_input tx = [] \<and> list_all2 (\<lambda>a x. bout_value x = aa_satoshi a) as (btx_output tx)"
proof -
  let ?tx = "\<lparr>btx_version = 2, btx_lock_time = 0, btx_input = [], btx_output = []\<rparr>"
  have "\<exists>ys. list_all2 (\<lambda>a x. bout_value x = aa_satoshi a) as ys \<and> t = with_btc_outs ?tx ([] @ ys)"
    using r unfolding requested_outputs_def
    by (rule gfold_appends[where P = "\<lambda>outs s. s = with_btc_outs ?tx outs"])
      (auto dest!: add_output_with(2))
  then show ?thesis by (auto simp: with_btc_outs_def)
qed

section \<open>Selected inputs\<close>

text \<open>The outputs of a transaction, kept apart by chain.\<close>

fun same_outputs :: "BETransaction \<Rightarrow> BETransaction \<Rightarrow> bool" where
  "same_outputs (Tx_Bitcoin a) (Tx_Bitcoin b) = (btx_output a = btx_output b)"
| "same_outputs (Tx_Elements a) (Tx_Elements b) = (etx_output a = etx_output b)"
| "same_outputs _ _ = False"

lemma same_outputs_refl [simp]: "same_outputs t t"
  by (cases t) simp_all

lemma same_outputs_trans: "same_outputs a b \<Longrightarrow> same_outputs b c \<Longrightarrow> same_outputs a c"
  by (cases a; cases b; cases c) simp_all

lemma add_input_obs:
  assumes "add_input x tx = Some t"
  shows "previous_outputs t = previous_outputs tx @ [x]" and "same_outputs tx t"
  using assms by (cases x; cases tx; auto)+

lemma add_inputs_obs:
  assumes "foldM (\<lambda>u tx. add_input (fst u) tx) sel tx = Some t"
  shows "previous_outputs t = previous_outputs tx @ map fst sel \<and> same_outputs tx t"
  using assms
proof (induction sel arbitrary: tx)
  case (Cons u sel)
  then obtain t' where "add_input (fst u) tx = Some t'" "foldM (\<lambda>u tx. add_input (fst u) tx) sel t' = Some t"
    by (auto split: option.splits)
  with Cons.IH add_input_obs same_outputs_trans show ?case by fastforce
qed simp

text \<open>On Bitcoin the outputs that share a script are used together.\<close>

definition used_closed :: "NetworkId \<Rightarrow> GdkUtxos \<Rightarrow> BEOutPoint list \<Rightarrow> bool" where
  "used_closed net coins used \<longleftrightarrow>
     (case net of
        Net_Bitcoin _ \<Rightarrow> \<forall>u \<in> set coins. \<forall>v \<in> set coins. ui_script (snd u) = ui_script (snd v) \<longrightarrow>
          fst u \<in> set used \<longrightarrow> fst v \<in> set used
      | Net_Elements _ \<Rightarrow> True)"

lemma taken_utxos_sub: "u \<in> set coins \<Longrightarrow> set (taken_utxos net coins u) \<subseteq> set coins"
  by (auto simp: taken_utxos_def split: NetworkId.splits)

lemma taken_distinct: "distinct (map fst coins) \<Longrightarrow> distinct (map fst (taken_utxos net coins u))"
  by (auto simp: taken_utxos_def distinct_map_filter split: NetworkId.splits)

lemma taken_fresh:
  assumes "used_closed net coins used" and "u \<in> set coins" and "fst u \<notin> set used"
  shows "fst ` set (taken_utxos net coins u) \<inter> set used = {}"
  using assms by (auto simp: taken_utxos_def used_closed_def split: NetworkId.splits)

lemma taken_closed:
  assumes d: "distinct (map fst coins)" and c: "used_closed net coins used"
  shows "used_closed net coins (map fst (taken_utxos net coins u) @ used)"
proof (cases net)
  case (Net_Bitcoin n)
  show ?thesis unfolding used_closed_def Net_Bitcoin NetworkId.case
  proof (intro ballI impI)
    fix a b assume ab: "a \<in> set coins" "b \<in> set coins" "ui_script (snd a) = ui_script (snd b)"
      and "fst a \<in> set (map fst (taken_utxos (Net_Bitcoin n) coins u) @ used)"
    then consider x where "x \<in> set coins" "ui_script (snd x) = ui_script (snd u)" "fst x = fst a" | "fst a \<in> set used"
      by (auto simp: taken_utxos_def)
    then show "fst b \<in> set (map fst (taken_utxos (Net_Bitcoin n) coins u) @ used)"
    proof cases
      case 1
      then have "x = a" using d ab(1) by (metis distinct_map inj_onD)
      with 1 ab show ?thesis by (auto simp: taken_utxos_def)
    next
      case 2
      have "\<forall>u \<in> set coins. \<forall>v \<in> set coins. ui_script (snd u) = ui_script (snd v) \<longrightarrow>
          fst u \<in> set used \<longrightarrow> fst v \<in> set used"
        using c unfolding used_closed_def Net_Bitcoin NetworkId.case .
      with ab 2 have "fst b \<in> set used" by blast
      then show ?thesis by simp
    qed
  qed
qed (simp add: used_closed_def)

lemma select_inputs_spec:
  assumes "select_inputs L net r send_all policy acc st coins used tx = Some (Inr t)"
  shows "needs L t r send_all policy (ac_all_txs acc) (ac_unblinded acc) st = Some [] \<and> same_outputs tx t \<and>
    (\<exists>sel. previous_outputs t = previous_outputs tx @ map fst sel \<and> set sel \<subseteq> set coins \<and>
      (distinct (map fst coins) \<longrightarrow> used_closed net coins used \<longrightarrow>
        distinct (map fst sel) \<and> fst ` set sel \<inter> set used = {}))"
  using assms
proof (induction L net r send_all policy acc st coins used tx rule: select_inputs.induct)
  case (1 L net r send_all policy acc st coins used tx)
  from "1.prems" obtain ns where ns: "needs L tx r send_all policy (ac_all_txs acc) (ac_unblinded acc) st = Some ns"
    by (subst (asm) select_inputs.simps) (auto split: option.splits)
  show ?case
  proof (cases "ns = []")
    case True
    with "1.prems" ns have "t = tx" by (subst (asm) select_inputs.simps) simp
    with ns True show ?thesis by (intro conjI exI[of _ "[]"]) simp_all
  next
    case False
    define us where "us = asset_utxos (av_asset (last ns)) used coins"
    have ne: "us \<noteq> []" using "1.prems" ns False by (subst (asm) select_inputs.simps) (auto simp: us_def Let_def)
    define taken where "taken = taken_utxos net coins (last us)"
    from "1.prems" ns False ne obtain tx' where
      tx': "foldM (\<lambda>u tx. add_input (fst u) tx) taken tx = Some tx'"
      and rest: "select_inputs L net r send_all policy acc st coins (map fst taken @ used) tx' = Some (Inr t)"
      by (subst (asm) select_inputs.simps) (auto simp: us_def taken_def Let_def split: option.splits)
    have l: "last us \<in> set coins" "fst (last us) \<notin> set used"
      using asset_utxos_in last_in_set[OF ne] unfolding us_def by metis+
    from "1.IH"[OF ns False us_def ne taken_def tx' rest] obtain sel where
      IH: "needs L t r send_all policy (ac_all_txs acc) (ac_unblinded acc) st = Some []" "same_outputs tx' t"
        "previous_outputs t = previous_outputs tx' @ map fst sel" "set sel \<subseteq> set coins"
        "distinct (map fst coins) \<longrightarrow> used_closed net coins (map fst taken @ used) \<longrightarrow>
          distinct (map fst sel) \<and> fst ` set sel \<inter> set (map fst taken @ used) = {}" by blast
    note obs = add_inputs_obs[OF tx']
    have "distinct (map fst (taken @ sel)) \<and> fst ` set (taken @ sel) \<inter> set used = {}"
      if "distinct (map fst coins)" "used_closed net coins used"
      using IH(5) that taken_closed[OF that] taken_distinct[OF that(1)] taken_fresh[OF that(2) l]
      unfolding taken_def by auto
    moreover have "set (taken @ sel) \<subseteq> set coins" using IH(4) taken_utxos_sub[OF l(1)] unfolding taken_def by auto
    moreover have "previous_outputs t = previous_outputs tx @ map fst (taken @ sel)" using obs IH(3) by simp
    ultimately show ?thesis using IH(1,2) obs same_outputs_trans by blast
  qed
qed

section \<open>A funded Liquid transaction\<close>

lemma prev_asset_hex:
  "get_previous_output_asset_hex L txs x ub = Some (Some a) \<Longrightarrow> \<exists>b. a = asset_to_hex L b"
proof -
  assume *: "get_previous_output_asset_hex L txs x ub = Some (Some a)"
  then obtain txe where "hm_get txs (Txid_Elements (fst x)) = Some txe"
    by (auto simp: get_previous_output_asset_hex_def split: option.splits)
  with * show ?thesis
    by (cases "ent_tx txe") (auto simp: get_previous_output_asset_hex_def ub_asset_hex_def elim!: bind_SomeE)
qed

lemma pays_obs:
  assumes "pays L h v x"
  shows "explicit_out x" and "out_amount x = v" and "eout_script_pubkey x \<noteq> []"
    and "lib_ok L \<Longrightarrow> h = asset_to_hex L b \<Longrightarrow> out_asset L x = h"
proof -
  show "explicit_out x" "out_amount x = v" "eout_script_pubkey x \<noteq> []"
    using assms by (auto simp: pays_def explicit_out_def out_amount_def)
  assume ok: "lib_ok L" and h: "h = asset_to_hex L b"
  from assms obtain c where c: "asset_to_bin L h = Inr c" "eout_asset x = Asset_Explicit c" by (auto simp: pays_def)
  have "c = b"
    using c(1) ok by (auto simp: h asset_to_bin_def asset_to_hex_def lib_hex split: if_splits)
  with c(2) h show "out_asset L x = h" by (simp add: out_asset_def)
qed

lemma outs_of_changes:
  assumes "lib_ok L" and "list_all2 (\<lambda>c x. pays L (av_asset c) (av_satoshi c) x) cs outs"
    and "\<forall>c \<in> set cs. \<exists>b. av_asset c = asset_to_hex L b"
  shows "map (\<lambda>x. (out_asset L x, out_amount x)) outs = map av_pair cs"
  using assms(2,3)
proof (induction rule: list_all2_induct)
  case (Cons c cs x outs)
  then obtain b where "av_asset c = asset_to_hex L b" by auto
  with Cons pays_obs(2)[OF Cons(1)] pays_obs(4)[OF Cons(1) assms(1)] show ?case by (simp add: av_pair_def)
qed simp

lemma change_outs:
  assumes ok: "lib_ok L" and cs: "changes L (Tx_Elements tx) fee (Some p) txs ub = Some cs"
    and pays: "list_all2 (\<lambda>c x. pays L (av_asset c) (av_satoshi c) x) cs outs"
  shows "map (\<lambda>x. (out_asset L x, out_amount x)) outs = map av_pair cs"
proof (rule outs_of_changes[OF ok pays], rule ballI)
  note ch = changes_elements[OF ok cs]
  obtain im where im: "input_amounts L tx txs ub = Some im" using ch(6) by auto
  fix c assume "c \<in> set cs"
  with ch(2) obtain i where i: "i \<in> set (etx_input tx)" "av_asset c = prev_asset L txs ub (ein_previous_output i)"
    by (auto simp: ins_of_def)
  from i(1) input_amounts_spec(4)[OF im] obtain x where
    "get_previous_output_asset_hex L txs (ein_previous_output i) ub = Some (Some x)" by blast
  with i(2) prev_asset_hex show "\<exists>b. av_asset c = asset_to_hex L b" by (simp add: prev_asset_def)
qed

text \<open>The steps of \<open>fund_tx\<close>, and what they give on Liquid.\<close>

lemma fund_tx_steps:
  assumes "fund_tx L K net account rate send_all acc coins ca tx0 = Some (Inr (t, fee, n))"
  obtains t1 chg cs t2 where
    "select_inputs L net rate send_all (net_policy_asset (acc_network account)) acc (acc_script_type account) coins [] tx0 =
       Some (Inr t1)"
    "estimated_changes L t1 send_all (ac_all_txs acc) (ac_unblinded acc) = Some chg"
    "changes L t1 (estimated_fee L t1 rate chg (acc_script_type account)) (net_policy_asset (acc_network account))
       (ac_all_txs acc) (ac_unblinded acc) = Some cs"
    "add_changes L K account acc cs ca t1 = Some (Inr t2)"
    "tx_fee L (scramble L t2) (ac_all_txs acc) (ac_unblinded acc) (res_ok (network_policy_asset L (acc_network account))) =
       Some (Inr fee)"
    "add_fee_if_elements fee (res_ok (network_policy_asset L (acc_network account))) (scramble L t2) = Some (Inr t)"
    "n = length cs"
  using assms unfolding fund_tx_def Let_def by (fastforce elim!: gtry_InrE bind_SomeE)

lemma fund_elements:
  assumes ok: "lib_ok L" and f: "fund_tx L K net account rate send_all acc coins ca (Tx_Elements tx0) = Some (Inr (t, fee, n))"
  obtains tx1 more cs outs tx3 pa where
    "select_inputs L net rate send_all (net_policy_asset (acc_network account)) acc (acc_script_type account) coins []
       (Tx_Elements tx0) = Some (Inr (Tx_Elements tx1))"
    "estimated_changes L (Tx_Elements tx1) send_all (ac_all_txs acc) (ac_unblinded acc) = Some more"
    "changes L (Tx_Elements tx1) (estimated_fee L (Tx_Elements tx1) rate more (acc_script_type account))
       (net_policy_asset (acc_network account)) (ac_all_txs acc) (ac_unblinded acc) = Some cs"
    "n = length cs" "list_all2 (\<lambda>c x. pays L (av_asset c) (av_satoshi c) x) cs outs"
    "mset (etx_input tx3) = mset (etx_input tx1)" "mset (etx_output tx3) = mset (etx_output tx1 @ outs)"
    "network_policy_asset L (acc_network account) = Inr pa"
    "tx_fee L (Tx_Elements tx3) (ac_all_txs acc) (ac_unblinded acc) (Some pa) = Some (Inr fee)"
    "t = Tx_Elements (tx3\<lparr>etx_output := etx_output tx3 @
       [default_elm_txout\<lparr>eout_asset := pa, eout_value := Value_Explicit fee\<rparr>]\<rparr>)"
    "etx_output tx1 = etx_output tx0"
proof -
  let ?policy = "net_policy_asset (acc_network account)"
  let ?pa = "res_ok (network_policy_asset L (acc_network account))"
  from f obtain t1 more cs t2 where
    sel: "select_inputs L net rate send_all ?policy acc (acc_script_type account) coins [] (Tx_Elements tx0) = Some (Inr t1)"
    and more: "estimated_changes L t1 send_all (ac_all_txs acc) (ac_unblinded acc) = Some more"
    and cs: "changes L t1 (estimated_fee L t1 rate more (acc_script_type account)) ?policy (ac_all_txs acc) (ac_unblinded acc) = Some cs"
    and t2: "add_changes L K account acc cs ca t1 = Some (Inr t2)"
    and fee: "tx_fee L (scramble L t2) (ac_all_txs acc) (ac_unblinded acc) ?pa = Some (Inr fee)"
    and t4: "add_fee_if_elements fee ?pa (scramble L t2) = Some (Inr t)" and n: "n = length cs"
    by (rule fund_tx_steps)
  from select_inputs_spec[OF sel] obtain tx1 where t1: "t1 = Tx_Elements tx1" and out1: "etx_output tx1 = etx_output tx0"
    by (cases t1) auto
  from add_changes_elements[OF ok t2[unfolded t1]] obtain outs where t2': "t2 = with_elm_outs tx1 outs"
    and pays: "list_all2 (\<lambda>c x. pays L (av_asset c) (av_satoshi c) x) cs outs" by blast
  define tx3 where "tx3 = tx1\<lparr>etx_input := permute (gl_shuffle_inputs L (length (etx_input tx1))) (etx_input tx1),
      etx_output := permute (gl_shuffle_outputs L (length (etx_output tx1 @ outs))) (etx_output tx1 @ outs)\<rparr>"
  have scr: "scramble L t2 = Tx_Elements tx3" by (simp add: t2' with_elm_outs_def tx3_def)
  from t4 obtain pa where pa: "network_policy_asset L (acc_network account) = Inr pa"
    by (cases "network_policy_asset L (acc_network account)") (auto simp: scr)
  have t: "t = Tx_Elements (tx3\<lparr>etx_output := etx_output tx3 @
       [default_elm_txout\<lparr>eout_asset := pa, eout_value := Value_Explicit fee\<rparr>]\<rparr>)"
    using t4 by (simp add: scr pa Let_def)
  have "mset (etx_input tx3) = mset (etx_input tx1)" "mset (etx_output tx3) = mset (etx_output tx1 @ outs)"
    using mset_permute[OF lib_shuffle(1)[OF ok], of "etx_input tx1"]
      mset_permute[OF lib_shuffle(2)[OF ok], of "etx_output tx1 @ outs"] by (simp_all add: tx3_def)
  then show ?thesis
    by (rule that[OF sel[unfolded t1] more[unfolded t1] cs[unfolded t1] n pays _ _ pa _ t out1]) (use fee in \<open>simp add: scr pa\<close>)
qed

lemma map_filter_id_Some [simp]: "List.map_filter id (map Some xs) = xs"
  by (induction xs) (simp_all add: List.map_filter_def)

lemma known_values:
  assumes "\<forall>i \<in> set is. \<exists>v. f i = Some (Some v)" and "those (map f is) = Some vs"
  shows "List.map_filter id vs = map (\<lambda>i. case f i of Some (Some v) \<Rightarrow> v | _ \<Rightarrow> 0) is"
proof -
  have "vs = map Some (map (\<lambda>i. case f i of Some (Some v) \<Rightarrow> v | _ \<Rightarrow> 0) is)"
    using those_map_Some[OF assms(2)] assms(1) by (auto split: option.splits)
  then show ?thesis by (simp only: map_filter_id_Some)
qed

text \<open>The fee of a transaction that has no fee output yet.\<close>

lemma fee_without_output:
  assumes ok: "lib_ok L" and expl: "\<forall>x \<in> set (etx_output tx). explicit_out x \<and> eout_script_pubkey x \<noteq> []"
    and known: "\<forall>i \<in> set (etx_input tx). \<exists>v. get_previous_output_value L txs (Out_Elements (ein_previous_output i)) ub = Some (Some v)"
    and fee: "tx_fee L (Tx_Elements tx) txs ub pa = Some (Inr fee)"
  shows "fee = wrap_u64 ((\<Sum>(k, v)\<leftarrow>ins_of L txs ub tx. v) - (\<Sum>(k, v)\<leftarrow>outs_of L tx. v))"
proof -
  have nofee: "\<not> list_ex (gl_is_fee L) (etx_output tx)"
    using expl by (auto simp: list_ex_iff lib_is_fee[OF ok])
  have mins: "map (gl_minimum_value L) (etx_output tx) = map out_amount (etx_output tx)"
    using expl by (auto simp: explicit_out_def out_amount_def lib_minimum_value[OF ok])
  have outs: "u64_sum (map (gl_minimum_value L) (etx_output tx)) = wrap_u64 (\<Sum>(k, v)\<leftarrow>outs_of L tx. v)"
    unfolding mins by (simp add: u64_sum_eq outs_of_def comp_def)
  from fee nofee obtain vs where
    vs: "those (map (\<lambda>i. get_previous_output_value L txs (Out_Elements (ein_previous_output i)) ub) (etx_input tx)) = Some vs"
    and fee': "fee = wrap_u64 (u64_sum (List.map_filter id vs) - u64_sum (map (gl_minimum_value L) (etx_output tx)))"
    by (auto elim!: bind_SomeE)
  have "u64_sum (List.map_filter id vs) = wrap_u64 (\<Sum>(k, v)\<leftarrow>ins_of L txs ub tx. v)"
    unfolding known_values[OF known vs] by (simp add: u64_sum_eq ins_of_def prev_value_def comp_def)
  then show ?thesis unfolding fee' outs by simp
qed

lemma sum_list_mset: "mset xs = mset ys \<Longrightarrow> (\<Sum>x\<leftarrow>xs. f x) = (\<Sum>y\<leftarrow>ys. f y :: int)"
  by (metis mset_map sum_mset_sum_list)

text \<open>
  Conservation modulo the width of the amounts: for every asset the inputs of the funded
  transaction are its outputs, the fee among them.
\<close>

lemma fund_elements_balances:
  assumes ok: "lib_ok L" and p: "net_policy_asset (acc_network account) = Some (asset_to_hex L pb)" "length pb = 32"
    and f: "fund_tx L K net account rate send_all acc coins ca (Tx_Elements tx0) = Some (Inr (t, fee, n))"
    and scripts: "\<forall>x \<in> set (etx_output tx0). eout_script_pubkey x \<noteq> []"
  shows "\<exists>tx. t = Tx_Elements tx \<and>
    (\<forall>a. cong64 (elm_in L (ac_all_txs acc) (ac_unblinded acc) tx a) (elm_out L tx a))"
proof -
  let ?p = "asset_to_hex L pb" and ?txs = "ac_all_txs acc" and ?ub = "ac_unblinded acc"
  from f obtain tx1 more cs outs tx3 pa where
    cs: "changes L (Tx_Elements tx1) (estimated_fee L (Tx_Elements tx1) rate more (acc_script_type account)) (Some ?p) ?txs ?ub = Some cs"
    and pays: "list_all2 (\<lambda>c x. pays L (av_asset c) (av_satoshi c) x) cs outs"
    and ins3: "mset (etx_input tx3) = mset (etx_input tx1)" and outs3: "mset (etx_output tx3) = mset (etx_output tx1 @ outs)"
    and pa: "network_policy_asset L (acc_network account) = Inr pa"
    and fee: "tx_fee L (Tx_Elements tx3) ?txs ?ub (Some pa) = Some (Inr fee)"
    and t: "t = Tx_Elements (tx3\<lparr>etx_output := etx_output tx3 @
       [default_elm_txout\<lparr>eout_asset := pa, eout_value := Value_Explicit fee\<rparr>]\<rparr>)"
    and out1: "etx_output tx1 = etx_output tx0"
    by (rule fund_elements[OF ok]) (simp only: p)
  note ch = changes_elements[OF ok cs]
  obtain im om where im: "input_amounts L tx1 ?txs ?ub = Some im" and om: "output_amounts L tx1 = Some om"
    using ch(6,7) by auto
  note ispec = input_amounts_spec[OF im] and ospec = output_amounts_spec[OF om]
  have ps: "map (\<lambda>x. (out_asset L x, out_amount x)) outs = map av_pair cs" by (rule change_outs[OF ok cs pays])
  have mi: "mset (ins_of L ?txs ?ub tx3) = mset (ins_of L ?txs ?ub tx1)"
    unfolding ins_of_def mset_map by (simp only: ins3)
  have mo: "mset (outs_of L tx3) = mset (outs_of L tx1 @ map av_pair cs)"
    unfolding outs_of_def ps[symmetric] map_append[symmetric] mset_map by (simp only: outs3)
  have so: "asset_sum a (outs_of L tx3) = elm_out L tx1 a + asset_sum a (map av_pair cs)" for a
    using asset_sum_mset[OF mo, of a] by simp
  have si: "elm_in L ?txs ?ub tx3 a = elm_in L ?txs ?ub tx1 a" for a by (rule asset_sum_mset[OF mi])
  have set3: "set (etx_input tx3) = set (etx_input tx1)" "set (etx_output tx3) = set (etx_output tx1) \<union> set outs"
    using ins3 outs3 by (metis set_mset_mset, metis set_append set_mset_mset)
  have outs_ok: "\<forall>x \<in> set outs. explicit_out x \<and> eout_script_pubkey x \<noteq> []"
    using pays pays_obs(1,3) by (induction rule: list_all2_induct) auto
  have fee3: "fee = wrap_u64 ((\<Sum>(k, v)\<leftarrow>ins_of L ?txs ?ub tx3. v) - (\<Sum>(k, v)\<leftarrow>outs_of L tx3. v))"
    by (rule fee_without_output[OF ok _ _ fee])
      (use outs_ok ospec(4) ispec(4) scripts out1 set3 in auto)
  define A where "A = insert ?p (fst ` set (ins_of L ?txs ?ub tx3))"
  have fin: "finite A" by (simp add: A_def)
  have keys: "fst ` set (ins_of L ?txs ?ub tx3) = fst ` set (ins_of L ?txs ?ub tx1)"
    using mi by (metis set_mset_mset)
  have "set (outs_of L tx3) = set (outs_of L tx1) \<union> av_pair ` set cs"
    using mo by (metis list.set_map set_append set_mset_mset)
  then have sub: "fst ` set (outs_of L tx3) \<subseteq> A"
    using ch(1,2) keys unfolding A_def by (auto simp: av_pair_def)
  have other: "cong64 (elm_in L ?txs ?ub tx3 a) (asset_sum a (outs_of L tx3))" if "a \<noteq> ?p" for a
    unfolding si so by (rule ch(3)[OF that])
  have ti: "(\<Sum>(k, v)\<leftarrow>ins_of L ?txs ?ub tx3. v) = elm_in L ?txs ?ub tx3 ?p + (\<Sum>a\<in>A - {?p}. elm_in L ?txs ?ub tx3 a)"
    using sum_asset_sum[OF fin, of "ins_of L ?txs ?ub tx3"] fin
    by (simp add: A_def subset_insertI sum.insert_remove)
  have to: "(\<Sum>(k, v)\<leftarrow>outs_of L tx3. v) = asset_sum ?p (outs_of L tx3) + (\<Sum>a\<in>A - {?p}. asset_sum a (outs_of L tx3))"
    using sum_asset_sum[OF fin sub] fin by (simp add: A_def sum.insert_remove)
  have "cong64 (\<Sum>a\<in>A - {?p}. elm_in L ?txs ?ub tx3 a) (\<Sum>a\<in>A - {?p}. asset_sum a (outs_of L tx3))"
    by (rule cong64_sum) (use other in blast)
  then have "cong64 ((\<Sum>(k, v)\<leftarrow>ins_of L ?txs ?ub tx3. v) - (\<Sum>(k, v)\<leftarrow>outs_of L tx3. v))
      (elm_in L ?txs ?ub tx3 ?p - asset_sum ?p (outs_of L tx3))"
    unfolding ti to by (rule cong64_cancel)
  then have "cong64 (elm_in L ?txs ?ub tx3 ?p) (asset_sum ?p (outs_of L tx3) + fee)"
    unfolding fee3 by (rule cong64_rest)
  moreover have "pa = Asset_Explicit pb"
    using pa p by (simp add: network_policy_asset_def network_policy_asset_id_def asset_to_bin_hex[OF ok])
  ultimately show ?thesis
    using t other by (auto simp: outs_of_def ins_of_def out_asset_def out_amount_def)
qed

section \<open>A funded Bitcoin transaction\<close>

definition btc_in :: "gdk_lib \<Rightarrow> BETransactions \<Rightarrow> BtcTx \<Rightarrow> int" where
  "btc_in L txs tx = (\<Sum>i\<leftarrow>btx_input tx. prev_value L txs [] (Out_Bitcoin (bin_previous_output i)))"

definition btc_out :: "BtcTx \<Rightarrow> int" where
  "btc_out tx = (\<Sum>x\<leftarrow>btx_output tx. bout_value x)"

lemma map_filter_values:
  "those (map f is) = Some vs \<Longrightarrow>
    sum_list (List.map_filter id vs) = (\<Sum>i\<leftarrow>is. case f i of Some (Some v) \<Rightarrow> v | _ \<Rightarrow> 0)"
  for f :: "'a \<Rightarrow> int option option"
proof (induction "is" arbitrary: vs)
  case (Cons i "is")
  then show ?case by (auto simp: List.map_filter_def split: option.splits)
qed simp

lemma sum_inputs_spec: "sum_inputs L tx txs = Some s \<Longrightarrow> s = wrap_u64 (btc_in L txs tx)"
  unfolding sum_inputs_def btc_in_def prev_value_def
  by (elim bind_SomeE) (simp only: option.inject u64_sum_eq map_filter_values)

lemma fund_bitcoin:
  assumes ok: "lib_ok L" and f: "fund_tx L K net account rate send_all acc coins ca (Tx_Bitcoin tx0) = Some (Inr (t, fee, n))"
  obtains tx1 more cs outs tx3 where
    "select_inputs L net rate send_all (net_policy_asset (acc_network account)) acc (acc_script_type account) coins []
       (Tx_Bitcoin tx0) = Some (Inr (Tx_Bitcoin tx1))"
    "estimated_changes L (Tx_Bitcoin tx1) send_all (ac_all_txs acc) (ac_unblinded acc) = Some more"
    "changes L (Tx_Bitcoin tx1) (estimated_fee L (Tx_Bitcoin tx1) rate more (acc_script_type account))
       (net_policy_asset (acc_network account)) (ac_all_txs acc) (ac_unblinded acc) = Some cs"
    "n = length cs" "list_all2 (\<lambda>c x. bout_value x = av_satoshi c) cs outs"
    "mset (btx_input tx3) = mset (btx_input tx1)" "mset (btx_output tx3) = mset (btx_output tx1 @ outs)"
    "t = Tx_Bitcoin tx3" "btx_output tx1 = btx_output tx0"
    "fee = wrap_u64 (btc_in L (ac_all_txs acc) tx3 - btc_out tx3)"
proof -
  let ?policy = "net_policy_asset (acc_network account)"
  let ?pa = "res_ok (network_policy_asset L (acc_network account))"
  from f obtain t1 more cs t2 where
    sel: "select_inputs L net rate send_all ?policy acc (acc_script_type account) coins [] (Tx_Bitcoin tx0) = Some (Inr t1)"
    and more: "estimated_changes L t1 send_all (ac_all_txs acc) (ac_unblinded acc) = Some more"
    and cs: "changes L t1 (estimated_fee L t1 rate more (acc_script_type account)) ?policy (ac_all_txs acc) (ac_unblinded acc) = Some cs"
    and t2: "add_changes L K account acc cs ca t1 = Some (Inr t2)"
    and fee: "tx_fee L (scramble L t2) (ac_all_txs acc) (ac_unblinded acc) ?pa = Some (Inr fee)"
    and t4: "add_fee_if_elements fee ?pa (scramble L t2) = Some (Inr t)" and n: "n = length cs"
    by (rule fund_tx_steps)
  from select_inputs_spec[OF sel] obtain tx1 where t1: "t1 = Tx_Bitcoin tx1" and out1: "btx_output tx1 = btx_output tx0"
    by (cases t1) auto
  from add_changes_bitcoin[OF t2[unfolded t1]] obtain outs where t2': "t2 = with_btc_outs tx1 outs"
    and pays: "list_all2 (\<lambda>c x. bout_value x = av_satoshi c) cs outs" by blast
  define tx3 where "tx3 = tx1\<lparr>btx_input := permute (gl_shuffle_inputs L (length (btx_input tx1))) (btx_input tx1),
      btx_output := permute (gl_shuffle_outputs L (length (btx_output tx1 @ outs))) (btx_output tx1 @ outs)\<rparr>"
  have scr: "scramble L t2 = Tx_Bitcoin tx3" by (simp add: t2' with_btc_outs_def tx3_def)
  have t: "t = Tx_Bitcoin tx3" using t4 by (simp add: scr)
  have "fee = wrap_u64 (btc_in L (ac_all_txs acc) tx3 - btc_out tx3)"
    using fee by (auto simp: scr u64_sum_eq btc_out_def elim!: bind_SomeE dest!: sum_inputs_spec)
  moreover have "mset (btx_input tx3) = mset (btx_input tx1)" "mset (btx_output tx3) = mset (btx_output tx1 @ outs)"
    using mset_permute[OF lib_shuffle(1)[OF ok], of "btx_input tx1"]
      mset_permute[OF lib_shuffle(2)[OF ok], of "btx_output tx1 @ outs"] by (simp_all add: tx3_def)
  ultimately show ?thesis
    by (intro that[OF sel[unfolded t1] more[unfolded t1] cs[unfolded t1] n pays _ _ t out1])
qed

section \<open>\<^verbatim>\<open>create_tx\<close>\<close>

lemma create_tx_obs:
  assumes "gdk_create_tx L K now account request store = Some (Inr (tx, meta))"
  obtains net req template ca coins req' tx0 acc n where
    "network_id (acc_network account) = Some net"
    "prepare_request L net account (request\<lparr>ct_fee_rate := Some (fee_rate_of net request)\<rparr>) store =
       Some (Inr (req, template, ca))"
    "(case ct_utxos req of
         None \<Rightarrow> utxos L account (ct_num_confs req) (ct_confidential_utxos_only req) store
       | Some us \<Rightarrow> gmap_err G_Common (utxos_of_unspents L us)) = Some (Inr coins)"
    "(if ct_send_all request then send_all_amount L net account
        (f64_div (f64_of_int (fee_rate_of net request)) (f64_lit 1000)) req coins else Some (Inr req)) = Some (Inr req')"
    "(case template of Some tx \<Rightarrow> Some (Inr tx) | None \<Rightarrow> requested_outputs L net (ct_addressees req')) = Some (Inr tx0)"
    "account_cache store (acc_account_num account) = Inr acc"
    "fund_tx L K net account (f64_div (f64_of_int (fee_rate_of net request)) (f64_lit 1000)) (ct_send_all request) acc
       coins ca tx0 = Some (Inr (tx, tm_fee meta, n))"
    "tm_create_transaction meta = Some req'" "tm_hex meta = gl_hex_encode L (tx_serialize L tx)"
    "ct_subaccount request = acc_account_num account"
proof -
  from assms have sub: "ct_subaccount request = acc_account_num account"
    and c: "create_tx_at L K now account request store = Some (Inr (tx, meta))"
    by (auto simp: gdk_create_tx_def split: if_splits)
  from c show ?thesis
    unfolding create_tx_at_def Let_def
    apply (elim bind_SomeE gtry_InrE)
    apply (clarsimp split: prod.splits)
    apply (elim bind_SomeE gtry_InrE)
    apply (clarsimp split: prod.splits)
    apply (elim bind_SomeE gtry_InrE)
    apply clarsimp
    apply (rule that)
    apply (assumption | (rule sub) | simp add: new_meta_def meta_of_tx_def)+
    done
qed

lemma prepare_request_cases:
  assumes "prepare_request L net account request store = Some (Inr (req, template, ca))"
    and "network_id (acc_network account) = Some net"
  obtains (new) "template = None" "ca = []" "req = request" "ct_previous_transaction request = None"
      "check_new_request net (acc_network account) request = Inr ()"
    | (replace) tx n where "template = Some (Tx_Bitcoin tx)" "net = Net_Bitcoin n" "\<not> ct_send_all request"
      "ct_previous_transaction request \<noteq> None" "ct_utxos req = ct_utxos request"
      "ct_addressees req = replaced_addressees L n tx"
  using assms
  by (cases net)
    (auto simp: prepare_request_def Let_def elim!: gtry_InrE bind_SomeE
      split: option.splits if_splits prod.splits BETransaction.splits)

text \<open>A transaction and an outpoint of the chain of a network.\<close>

fun tx_on :: "NetworkId \<Rightarrow> BETransaction \<Rightarrow> bool" where
  "tx_on (Net_Bitcoin _) (Tx_Bitcoin _) = True"
| "tx_on (Net_Elements _) (Tx_Elements _) = True"
| "tx_on _ _ = False"

lemma template_on:
  assumes ok: "lib_ok L"
    and "prepare_request L net account request store = Some (Inr (req, template, ca))"
    and "network_id (acc_network account) = Some net"
    and "(case template of Some tx \<Rightarrow> Some (Inr tx) | None \<Rightarrow> requested_outputs L net as) = Some (Inr tx0)"
  shows "tx_on net tx0"
  using assms(2,3)
proof (cases rule: prepare_request_cases)
  case new
  with assms(4) show ?thesis
    using requested_outputs_elements[OF ok] requested_outputs_bitcoin by (cases net) fastforce+
next
  case (replace tx n)
  with assms(4) show ?thesis by (cases tx0) simp_all
qed

lemma fund_on:
  assumes "lib_ok L" and "fund_tx L K net account rate send_all acc coins ca tx0 = Some (Inr (t, fee, n))"
  shows "tx_on m tx0 = tx_on m t"
proof (cases tx0)
  case (Tx_Bitcoin b)
  show ?thesis by (rule fund_bitcoin[OF assms(1) assms(2)[unfolded Tx_Bitcoin]]) (cases m; simp add: Tx_Bitcoin)
next
  case (Tx_Elements e)
  show ?thesis by (rule fund_elements[OF assms(1) assms(2)[unfolded Tx_Elements]]) (cases m; simp add: Tx_Elements)
qed

lemma created_on:
  assumes "lib_ok L" and "gdk_create_tx L K now account request store = Some (Inr (tx, meta))"
    and "network_id (acc_network account) = Some net"
  shows "tx_on net tx"
  using assms(2)
  by (rule create_tx_obs) (use assms template_on fund_on in \<open>metis option.inject\<close>)

lemma created_elements_balances:
  assumes ok: "lib_ok L" and c: "gdk_create_tx L K now account request store = Some (Inr (Tx_Elements tx, meta))"
    and acc: "account_cache store (acc_account_num account) = Inr acc"
    and p: "net_policy_asset (acc_network account) = Some (asset_to_hex L pb)" "length pb = 32"
  shows "cong64 (elm_in L (ac_all_txs acc) (ac_unblinded acc) tx a) (elm_out L tx a)"
  using c
proof (rule create_tx_obs)
  fix net req template ca coins req' tx0 acc' n
  assume net: "network_id (acc_network account) = Some net"
    and prep: "prepare_request L net account (request\<lparr>ct_fee_rate := Some (fee_rate_of net request)\<rparr>) store = Some (Inr (req, template, ca))"
    and tx0: "(case template of Some tx \<Rightarrow> Some (Inr tx) | None \<Rightarrow> requested_outputs L net (ct_addressees req')) = Some (Inr tx0)"
    and acc': "account_cache store (acc_account_num account) = Inr acc'"
    and fund: "fund_tx L K net account (f64_div (f64_of_int (fee_rate_of net request)) (f64_lit 1000)) (ct_send_all request) acc'
       coins ca tx0 = Some (Inr (Tx_Elements tx, tm_fee meta, n))"
  have "tx_on net tx0" by (rule template_on[OF ok prep net tx0])
  moreover have "tx_on net (Tx_Elements tx)" using created_on[OF ok c net] .
  ultimately obtain e tx00 where e: "net = Net_Elements e" "tx0 = Tx_Elements tx00"
    by (cases net; cases tx0) auto
  have "template = None" using prep net by (cases rule: prepare_request_cases) (use e in auto)
  with tx0 e have "requested_outputs L (Net_Elements e) (ct_addressees req') = Some (Inr (Tx_Elements tx00))" by simp
  from requested_outputs_elements[OF ok this] have "list_all2 (asked L) (ct_addressees req') (etx_output tx00)" by auto
  then have "\<forall>x \<in> set (etx_output tx00). eout_script_pubkey x \<noteq> []"
    by (induction rule: list_all2_induct) (auto simp: asked_def pays_obs(3))
  from fund_elements_balances[OF ok p fund[unfolded e] this] acc acc' show ?thesis by auto
qed

lemma created_bitcoin_balances:
  assumes ok: "lib_ok L" and c: "gdk_create_tx L K now account request store = Some (Inr (Tx_Bitcoin tx, meta))"
    and acc: "account_cache store (acc_account_num account) = Inr acc"
  shows "cong64 (btc_in L (ac_all_txs acc) tx) (btc_out tx + tm_fee meta)"
  using c
proof (rule create_tx_obs)
  fix net req template ca coins req' tx0 acc' n
  assume net: "network_id (acc_network account) = Some net" and acc': "account_cache store (acc_account_num account) = Inr acc'"
    and prep: "prepare_request L net account (request\<lparr>ct_fee_rate := Some (fee_rate_of net request)\<rparr>) store = Some (Inr (req, template, ca))"
    and tx0: "(case template of Some tx \<Rightarrow> Some (Inr tx) | None \<Rightarrow> requested_outputs L net (ct_addressees req')) = Some (Inr tx0)"
    and fund: "fund_tx L K net account (f64_div (f64_of_int (fee_rate_of net request)) (f64_lit 1000)) (ct_send_all request) acc'
       coins ca tx0 = Some (Inr (Tx_Bitcoin tx, tm_fee meta, n))"
  have "tx_on net tx0" by (rule template_on[OF ok prep net tx0])
  moreover have "tx_on net (Tx_Bitcoin tx)" using created_on[OF ok c net] .
  ultimately obtain b where tx0: "tx0 = Tx_Bitcoin b" by (cases net; cases tx0) auto
  from fund[unfolded tx0] have "tm_fee meta = wrap_u64 (btc_in L (ac_all_txs acc') tx - btc_out tx)"
    by (rule fund_bitcoin[OF ok]) simp
  with acc acc' show ?thesis by (simp add: cong64_rest)
qed

section \<open>The fee\<close>

definition lack_of :: "(string, int) hmap \<Rightarrow> string \<times> int \<Rightarrow> AssetValue list" where
  "lack_of inputs av =
     (if hm_amount inputs (fst av) < snd av
      then [\<lparr>av_asset = fst av, av_satoshi = snd av - hm_amount inputs (fst av)\<rparr>] else [])"

lemma need_step_eq: "need_step av (inputs, result) = (hm_remove (fst av) inputs, result @ lack_of inputs av)"
  by (cases av) (auto simp: need_step_def lack_of_def u64_checked_sub_def Let_def)

lemma need_loop:
  assumes "distinct (map fst kvs)"
  shows "snd (fold need_step kvs (inputs, result)) = result @ concat (map (lack_of inputs) kvs)"
  using assms
proof (induction kvs arbitrary: inputs result)
  case (Cons av kvs)
  have "lack_of (hm_remove (fst av) inputs) e = lack_of inputs e" if "e \<in> set kvs" for e
  proof -
    have "fst e \<noteq> fst av" using Cons.prems that by (force simp: image_iff)
    then have "hm_amount (hm_remove (fst av) inputs) (fst e) = hm_amount inputs (fst e)"
      by (simp add: hm_amount_def)
    then show ?thesis by (simp add: lack_of_def)
  qed
  then have eq: "map (lack_of (hm_remove (fst av) inputs)) kvs = map (lack_of inputs) kvs" by simp
  show ?case using Cons by (simp add: need_step_eq eq)
qed simp

lemma uncovered_eq: "distinct (map fst kvs) \<Longrightarrow> uncovered kvs inputs = concat (map (lack_of inputs) kvs)"
  by (simp add: uncovered_def need_loop)

lemma policy_last_Nil: "policy_last p xs = [] \<longleftrightarrow> xs = []"
  by (auto simp: policy_last_def vec_swap_def Let_def split: option.splits if_splits)

text \<open>A Liquid transaction that needs nothing covers its outputs and the estimated fee.\<close>

lemma estimated_fee_range: "in_u64 (estimated_fee L tx r n st)"
  by (simp add: estimated_fee_def Let_def f64_as_u64_range)

lemma fee_range: "tx_fee L t txs ub pa = Some (Inr fee) \<Longrightarrow> in_u64 fee"
  by (cases t) (auto simp: u64_sum_eq wrap_u64_range split: if_splits elim!: bind_SomeE gtry_InrE)

lemma needs_none:
  assumes ok: "lib_ok L" and nd: "needs L (Tx_Elements tx) r send_all (Some p) txs ub st = Some []"
    and chg: "estimated_changes L (Tx_Elements tx) send_all txs ub = Some chg"
  shows "wrap_u64 (elm_out L tx p + estimated_fee L (Tx_Elements tx) r chg st) \<le> wrap_u64 (elm_in L txs ub tx p)"
proof -
  let ?fee = "estimated_fee L (Tx_Elements tx) r chg st"
  from nd chg obtain outs ins where outs: "output_amounts L tx = Some outs" and ins: "input_amounts L tx txs ub = Some ins"
    and none: "uncovered (gl_iter L (hm_add_u64 p ?fee outs)) ins = []"
    by (auto simp: policy_last_Nil elim!: bind_SomeE)
  let ?kvs = "gl_iter L (hm_add_u64 p ?fee outs)"
  have wf: "hm_wf (hm_add_u64 p ?fee outs)" using output_amounts_spec(1)[OF outs] by simp
  have m: "mset ?kvs = mset (hm_add_u64 p ?fee outs)" using ok by (rule lib_iter)
  have d: "distinct (map fst ?kvs)" using wf m by (metis hm_wf_def mset_eq_imp_distinct_iff mset_map)
  have "hm_get (hm_add_u64 p ?fee outs) p = Some (wrap_u64 (hm_amount outs p + ?fee))"
    by (simp add: hm_add_u64_def)
  from hm_get_in_set[OF this] have mem: "(p, wrap_u64 (hm_amount outs p + ?fee)) \<in> set ?kvs"
    using m by (metis set_mset_mset)
  have "\<forall>e \<in> set ?kvs. lack_of ins e = []" using none by (simp add: uncovered_eq[OF d])
  from this[THEN bspec, OF mem] have "\<not> hm_amount ins p < wrap_u64 (hm_amount outs p + ?fee)"
    by (simp add: lack_of_def split: if_splits)
  then show ?thesis by (simp add: input_amounts_spec(3)[OF ins] output_amounts_spec(3)[OF outs])
qed

text \<open>
  The fee is what was estimated for the transaction before its change, or at most the dust
  limit more, when a change too small to be worth an output is left to the fee.
\<close>

lemma fund_elements_fee:
  assumes ok: "lib_ok L" and p: "net_policy_asset (acc_network account) = Some (asset_to_hex L pb)" "length pb = 32"
    and f: "fund_tx L K net account rate send_all acc coins ca (Tx_Elements tx0) = Some (Inr (Tx_Elements tx, fee, n))"
    and scripts: "\<forall>x \<in> set (etx_output tx0). eout_script_pubkey x \<noteq> []"
  shows "\<exists>tx1 chg. mset (etx_input tx) = mset (etx_input tx1) \<and> etx_output tx1 = etx_output tx0 \<and>
    estimated_changes L (Tx_Elements tx1) send_all (ac_all_txs acc) (ac_unblinded acc) = Some chg \<and>
    (let est = estimated_fee L (Tx_Elements tx1) rate chg (acc_script_type account) in
     in_u64 (elm_in L (ac_all_txs acc) (ac_unblinded acc) tx (asset_to_hex L pb)) \<longrightarrow>
     0 \<le> elm_out L tx1 (asset_to_hex L pb) \<longrightarrow> elm_out L tx1 (asset_to_hex L pb) + est < 2 ^ 64 \<longrightarrow> est \<le> fee \<and> fee \<le> est + DUST_VALUE)"
proof -
  let ?p = "asset_to_hex L pb" and ?txs = "ac_all_txs acc" and ?ub = "ac_unblinded acc"
  from f obtain tx1 chg cs outs tx3 pa where
    sel: "select_inputs L net rate send_all (Some ?p) acc (acc_script_type account) coins [] (Tx_Elements tx0) = Some (Inr (Tx_Elements tx1))"
    and chg: "estimated_changes L (Tx_Elements tx1) send_all ?txs ?ub = Some chg"
    and cs: "changes L (Tx_Elements tx1) (estimated_fee L (Tx_Elements tx1) rate chg (acc_script_type account)) (Some ?p) ?txs ?ub = Some cs"
    and pays: "list_all2 (\<lambda>c x. pays L (av_asset c) (av_satoshi c) x) cs outs"
    and ins3: "mset (etx_input tx3) = mset (etx_input tx1)" and outs3: "mset (etx_output tx3) = mset (etx_output tx1 @ outs)"
    and pa: "network_policy_asset L (acc_network account) = Inr pa"
    and t: "tx = tx3\<lparr>etx_output := etx_output tx3 @
       [default_elm_txout\<lparr>eout_asset := pa, eout_value := Value_Explicit fee\<rparr>]\<rparr>"
    and out1: "etx_output tx1 = etx_output tx0"
    and fee3: "tx_fee L (Tx_Elements tx3) ?txs ?ub (Some pa) = Some (Inr fee)"
    by (rule fund_elements[OF ok]) (simp only: p BETransaction.inject)
  define est where "est = estimated_fee L (Tx_Elements tx1) rate chg (acc_script_type account)"
  note ch = changes_elements[OF ok cs]
  from fund_elements_balances[OF ok p f scripts]
  have bal: "cong64 (elm_in L ?txs ?ub tx ?p) (elm_out L tx ?p)" by auto
  have ps: "map (\<lambda>x. (out_asset L x, out_amount x)) outs = map av_pair cs" by (rule change_outs[OF ok cs pays])
  have "pa = Asset_Explicit pb"
    using pa p by (simp add: network_policy_asset_def network_policy_asset_id_def asset_to_bin_hex[OF ok])
  then have "mset (outs_of L tx) = mset (outs_of L tx1 @ map av_pair cs @ [(?p, fee)])"
    unfolding outs_of_def ps[symmetric] by (simp add: t outs3 out_asset_def out_amount_def)
  from asset_sum_mset[OF this, of ?p]
  have so: "elm_out L tx ?p = elm_out L tx1 ?p + asset_sum ?p (map av_pair cs) + fee" by simp
  have "mset (ins_of L ?txs ?ub tx) = mset (ins_of L ?txs ?ub tx1)" by (simp add: ins_of_def t ins3)
  from asset_sum_mset[OF this] have si: "elm_in L ?txs ?ub tx ?p = elm_in L ?txs ?ub tx1 ?p" .
  have fr: "in_u64 fee" using fee_range[OF fee3] .
  have er: "in_u64 est" unfolding est_def by (rule estimated_fee_range)
  have nd: "needs L (Tx_Elements tx1) rate send_all (Some ?p) ?txs ?ub (acc_script_type account) = Some []"
    using select_inputs_spec[OF sel] by blast
  have "est \<le> fee \<and> fee \<le> est + DUST_VALUE"
    if i: "in_u64 (elm_in L ?txs ?ub tx ?p)" and o0: "0 \<le> elm_out L tx1 ?p" and o1: "elm_out L tx1 ?p + est < 2 ^ 64"
  proof -
    let ?i = "elm_in L ?txs ?ub tx1 ?p" and ?o = "elm_out L tx1 ?p" and ?c = "asset_sum ?p (map av_pair cs)"
    have est0: "0 \<le> est" using er by (simp add: in_u64_def)
    have i': "in_u64 ?i" using i si by simp
    have o: "in_u64 (?o + est)" using o0 o1 est0 by (simp add: in_u64_def)
    have le: "?o + est \<le> ?i"
      using needs_none[OF ok nd chg] unfolding est_def[symmetric] by (simp add: wrap_u64_id[OF i'] wrap_u64_id[OF o])
    have cg: "cong64 ?i (?o + ?c + fee)" using bal by (simp add: so si)
    have c: "?c = (if DUST_VALUE < ?i - ?o - est then ?i - ?o - est else 0)"
    proof (cases "?p \<in> fst ` set (ins_of L ?txs ?ub tx1)")
      case True
      have "in_u64 (?i - ?o - est)" using le i' o0 est0 by (simp add: in_u64_def)
      from wrap_u64_id[OF this] ch(5)[OF True, folded est_def] show ?thesis by (simp only: Let_def)
    next
      case False
      then have "?i = 0" by (rule asset_sum_notin)
      with ch(4)[OF False] le o0 est0 show ?thesis by (simp add: DUST_VALUE_def)
    qed
    have "cong64 fee (?i - ?o - ?c)"
      using cong64_diff[OF cong64_sym[OF cg] cong64_refl[of "?o + ?c"]] by (simp add: algebra_simps)
    moreover have "in_u64 (?i - ?o - ?c)" using c le i' o0 er by (simp add: in_u64_def DUST_VALUE_def)
    ultimately have "fee = ?i - ?o - ?c" using fr by (intro cong64_eq)
    then show ?thesis using c le by (simp add: DUST_VALUE_def split: if_splits)
  qed
  then show ?thesis
    using ins3 out1 chg unfolding est_def by (intro exI[of _ tx1] exI[of _ chg]) (simp add: t Let_def)
qed

section \<open>The outputs that an account owns\<close>

text \<open>
  The store of an account is well formed: each transaction is kept under its own id, and no
  transaction is listed twice.
\<close>

definition acc_wf :: "gdk_lib \<Rightarrow> RawAccountCache \<Rightarrow> bool" where
  "acc_wf L acc \<longleftrightarrow> hm_wf (ac_heights acc) \<and> (\<forall>(txid, txe) \<in> set (ac_all_txs acc). tx_id L (ent_tx txe) = txid)"

lemma map_filter_Cons: "List.map_filter f (x # xs) = (case f x of None \<Rightarrow> List.map_filter f xs | Some y \<Rightarrow> y # List.map_filter f xs)"
  by (simp add: List.map_filter_def split: option.splits)

lemma own_outputs_fst:
  "map fst (own_outputs paths spents script outs) =
     map fst (filter (\<lambda>(x, y). x \<notin> set spents \<and> hm_get paths (script y) \<noteq> None) outs)"
proof (induction outs)
  case (Cons e outs)
  then show ?case
    by (cases e) (simp add: own_outputs_def map_filter_Cons split: option.splits)
qed (simp add: own_outputs_def List.map_filter_def)

lemma own_outputs_in:
  "(x, y, path) \<in> set (own_outputs paths spents script outs) \<longleftrightarrow>
     (x, y) \<in> set outs \<and> hm_get paths (script y) = Some path \<and> x \<notin> set spents"
proof (induction outs)
  case (Cons e outs)
  then show ?case
    by (cases e) (auto simp: own_outputs_def map_filter_Cons split: option.splits)
qed (simp add: own_outputs_def List.map_filter_def)

lemma map_filter_fst:
  assumes "\<And>e e'. f e = Some e' \<Longrightarrow> fst e' = fst e"
  shows "map fst (List.map_filter f es) = map fst (filter (\<lambda>e. f e \<noteq> None) es)"
  using assms by (induction es) (auto simp: map_filter_Cons split: option.splits)

text \<open>The coins of one transaction: what they are, and that they are different.\<close>

definition coin_of :: "gdk_lib \<Rightarrow> RawAccountCache \<Rightarrow> BEOutPoint list \<Rightarrow> BETransaction \<Rightarrow> BEOutPoint \<times> UTXOInfo \<Rightarrow> bool" where
  "coin_of L acc spents tx u \<longleftrightarrow>
     outpoint_txid (fst u) = tx_id L tx \<and> fst u \<notin> set spents \<and>
     output_script tx (outpoint_vout (fst u)) = Some (ui_script (snd u)) \<and>
     hm_get (ac_paths acc) (ui_script (snd u)) = Some (ui_path (snd u))"

lemma enumerate_in: "(n, x) \<in> set (enumerate 0 xs) \<longleftrightarrow> n < length xs \<and> x = xs ! n"
  by (auto simp: in_set_enumerate_eq)

lemma vec_at_nth: "n < length xs \<Longrightarrow> vec_at xs (int n) = Some (xs ! n)"
  by (simp add: vec_at_def)

lemma btc_utxos_spec:
  "\<forall>u \<in> set (btc_utxos L acc spents height tx). coin_of L acc spents (Tx_Bitcoin tx) u"
  "distinct (map fst (btc_utxos L acc spents height tx))"
proof -
  let ?outs = "map (\<lambda>(vout, output). (Out_Bitcoin (gl_btc_txid L tx, int vout), output))
         (filter (\<lambda>(_, output). DUST_VALUE < bout_value output) (enumerate 0 (btx_output tx)))"
  show "\<forall>u \<in> set (btc_utxos L acc spents height tx). coin_of L acc spents (Tx_Bitcoin tx) u"
    by (auto simp: btc_utxos_def coin_of_def own_outputs_in enumerate_in vec_at_nth)
  have "map fst ?outs = map (\<lambda>v. Out_Bitcoin (gl_btc_txid L tx, int v))
      (map fst (filter (\<lambda>(_, output). DUST_VALUE < bout_value output) (enumerate 0 (btx_output tx))))"
    by (simp add: comp_def case_prod_beta)
  moreover have "distinct (map fst (filter (\<lambda>(_, output). DUST_VALUE < bout_value output) (enumerate 0 (btx_output tx))))"
    by (rule distinct_map_filter) simp
  ultimately have "distinct (map fst ?outs)" by (simp add: distinct_map inj_on_def)
  moreover have "map fst (btc_utxos L acc spents height tx) =
      map fst (own_outputs (ac_paths acc) spents (\<lambda>x. Script_Bitcoin (bout_script_pubkey x)) ?outs)"
    by (simp add: btc_utxos_def comp_def case_prod_beta)
  ultimately show "distinct (map fst (btc_utxos L acc spents height tx))"
    by (simp only: own_outputs_fst distinct_map_filter)
qed

lemma elm_utxo_obs:
  assumes "elm_utxo L acc pa conf height (x, y, path) = Some u"
  shows "fst u = x" and "ui_script (snd u) = Script_Elements (eout_script_pubkey y)" and "ui_path (snd u) = path"
  using assms by (auto simp: elm_utxo_def split: BEOutPoint.splits option.splits if_splits)

lemma elm_utxos_spec:
  "\<forall>u \<in> set (elm_utxos L acc spents pa conf height tx). coin_of L acc spents (Tx_Elements tx) u"
  "distinct (map fst (elm_utxos L acc spents pa conf height tx))"
proof -
  let ?outs = "map (\<lambda>(vout, output). (Out_Elements (gl_elm_txid L tx, int vout), output)) (enumerate 0 (etx_output tx))"
  let ?own = "own_outputs (ac_paths acc) spents (\<lambda>x. Script_Elements (eout_script_pubkey x)) ?outs"
  show "\<forall>u \<in> set (elm_utxos L acc spents pa conf height tx). coin_of L acc spents (Tx_Elements tx) u"
  proof
    fix u assume "u \<in> set (elm_utxos L acc spents pa conf height tx)"
    then obtain x y path where o: "(x, y, path) \<in> set ?own" and u: "elm_utxo L acc pa conf height (x, y, path) = Some u"
      by (auto simp: elm_utxos_def List.map_filter_def)
    from o obtain n where "n < length (etx_output tx)" "y = etx_output tx ! n" "x = Out_Elements (gl_elm_txid L tx, int n)"
      "hm_get (ac_paths acc) (Script_Elements (eout_script_pubkey y)) = Some path" "x \<notin> set spents"
      by (auto simp: own_outputs_in enumerate_in)
    then show "coin_of L acc spents (Tx_Elements tx) u"
      by (simp add: coin_of_def elm_utxo_obs[OF u] vec_at_nth)
  qed
  have "map fst ?outs = map (\<lambda>v. Out_Elements (gl_elm_txid L tx, int v)) (map fst (enumerate 0 (etx_output tx)))"
    by (simp add: comp_def case_prod_beta del: map_fst_enumerate)
  then have "distinct (map fst ?outs)" by (simp add: distinct_map inj_on_def)
  then have "distinct (map fst ?own)" by (simp only: own_outputs_fst distinct_map_filter)
  moreover have "map fst (elm_utxos L acc spents pa conf height tx) =
      map fst (filter (\<lambda>e. elm_utxo L acc pa conf height e \<noteq> None) ?own)"
    unfolding elm_utxos_def by (rule map_filter_fst) (metis elm_utxo_obs(1) fst_conv prod.collapse)
  ultimately show "distinct (map fst (elm_utxos L acc spents pa conf height tx))"
    by (simp only: distinct_map_filter)
qed

text \<open>
  \<^verbatim>\<open>utxos\<close>: every coin is an output of a transaction of the account, to a script of the account,
  that no transaction of the account spends, and no coin is listed twice.
\<close>

definition coin_ok :: "gdk_lib \<Rightarrow> RawAccountCache \<Rightarrow> BEOutPoint \<times> UTXOInfo \<Rightarrow> bool" where
  "coin_ok L acc u \<longleftrightarrow> (\<exists>txe. hm_get (ac_all_txs acc) (outpoint_txid (fst u)) = Some txe \<and>
     coin_of L acc (spent acc) (ent_tx txe) u)"

lemma tx_utxos_spec:
  assumes "tx_utxos L network acc spents conf height tx = Inr us"
  shows "\<forall>u \<in> set us. coin_of L acc spents tx u" and "distinct (map fst us)"
  using assms btc_utxos_spec elm_utxos_spec
  by (auto simp: tx_utxos_def split: BETransaction.splits sum.splits)

lemma utxos_loop:
  assumes g: "gfold (\<lambda>(txid, height) us.
         if confirmations tip height < nc then Some (Inr us)
         else gtry (gok_or (hm_get (ac_all_txs acc) txid) (G_Generic ''utxos no tx'')) (\<lambda>txe.
           gtry (Some (tx_utxos L network acc (spent acc) conf height (ent_tx txe)))
             (\<lambda>vs. Some (Inr (us @ vs))))) hs us0 = Some (Inr us)"
    and wf: "acc_wf L acc" and d: "distinct (map fst hs)"
    and us0: "\<forall>u \<in> set us0. coin_ok L acc u \<and> outpoint_txid (fst u) \<notin> fst ` set hs" "distinct (map fst us0)"
  shows "(\<forall>u \<in> set us. coin_ok L acc u) \<and> distinct (map fst us)"
  using g d us0
proof (induction hs arbitrary: us0)
  case Nil
  then show ?case by auto
next
  case (Cons e hs)
  obtain txid height where e: "e = (txid, height)" by (cases e)
  show ?case
  proof (cases "confirmations tip height < nc")
    case True
    with Cons.prems e show ?thesis by (intro Cons.IH[of us0]) auto
  next
    case False
    with Cons.prems(1) e obtain txe vs where txe: "hm_get (ac_all_txs acc) txid = Some txe"
      and vs: "tx_utxos L network acc (spent acc) conf height (ent_tx txe) = Inr vs"
      and rest: "gfold (\<lambda>(txid, height) us.
         if confirmations tip height < nc then Some (Inr us)
         else gtry (gok_or (hm_get (ac_all_txs acc) txid) (G_Generic ''utxos no tx'')) (\<lambda>txe.
           gtry (Some (tx_utxos L network acc (spent acc) conf height (ent_tx txe)))
             (\<lambda>vs. Some (Inr (us @ vs))))) hs (us0 @ vs) = Some (Inr us)"
      by (auto elim!: gtry_InrE)
    note spec = tx_utxos_spec[OF vs]
    have tid: "tx_id L (ent_tx txe) = txid" using wf hm_get_in_set[OF txe] by (auto simp: acc_wf_def)
    have vs_ok: "coin_ok L acc u \<and> outpoint_txid (fst u) = txid" if "u \<in> set vs" for u
      using spec(1) that tid txe by (auto simp: coin_ok_def coin_of_def)
    have "fst ` set us0 \<inter> fst ` set vs = {}"
      using Cons.prems(3) vs_ok e by force
    then have "distinct (map fst (us0 @ vs))" using Cons.prems(4) spec(2) by simp
    moreover have "\<forall>u \<in> set (us0 @ vs). coin_ok L acc u \<and> outpoint_txid (fst u) \<notin> fst ` set hs"
      using Cons.prems(2,3) vs_ok e by auto
    ultimately show ?thesis using Cons.prems(2) by (intro Cons.IH[OF rest]) simp_all
  qed
qed

lemma utxos_spec:
  assumes u: "utxos L account nc conf store = Some (Inr us)" and acc: "account_cache store (acc_account_num account) = Inr acc"
    and wf: "acc_wf L acc"
  shows "\<forall>u \<in> set us. coin_ok L acc u" and "distinct (map fst us)"
proof -
  from u acc obtain vs where vs: "gfold (\<lambda>(txid, height) us.
         if confirmations (fst (rc_tip (sm_cache store))) height < nc then Some (Inr us)
         else gtry (gok_or (hm_get (ac_all_txs acc) txid) (G_Generic ''utxos no tx'')) (\<lambda>txe.
           gtry (Some (tx_utxos L (acc_network account) acc (spent acc) conf height (ent_tx txe)))
             (\<lambda>vs. Some (Inr (us @ vs))))) (ac_heights acc) [] = Some (Inr vs)"
    and us: "us = sort_key (\<lambda>u. - ui_value (snd u)) vs"
    by (auto simp: utxos_def Let_def elim!: gtry_InrE)
  have "(\<forall>u \<in> set vs. coin_ok L acc u) \<and> distinct (map fst vs)"
    by (rule utxos_loop[OF vs wf]) (use wf in \<open>simp_all add: acc_wf_def hm_wf_def\<close>)
  then show "\<forall>u \<in> set us. coin_ok L acc u" "distinct (map fst us)"
    unfolding us by (simp, metis mset_eq_imp_distinct_iff mset_map mset_sort)
qed

section \<open>What is spent and what is paid\<close>

lemma selected_coins:
  assumes "select_inputs L net rate send_all policy acc st coins [] tx = Some (Inr t)" and d: "distinct (map fst coins)"
  shows "\<exists>sel. previous_outputs t = previous_outputs tx @ map fst sel \<and> set sel \<subseteq> set coins \<and> distinct (map fst sel)"
proof -
  have "used_closed net coins []" by (simp add: used_closed_def split: NetworkId.split)
  with select_inputs_spec[OF assms(1)] d show ?thesis by blast
qed

lemma fund_inputs:
  assumes ok: "lib_ok L" and f: "fund_tx L K net account rate send_all acc coins ca tx0 = Some (Inr (t, fee, n))"
    and d: "distinct (map fst coins)"
  shows "\<exists>sel. mset (previous_outputs t) = mset (previous_outputs tx0 @ map fst sel) \<and> set sel \<subseteq> set coins \<and> distinct (map fst sel)"
proof -
  have *: ?thesis if sel: "select_inputs L net rate send_all policy acc st coins [] tx0 = Some (Inr t1)"
    and m: "mset (previous_outputs t) = mset (previous_outputs t1)" for policy st t1
    using selected_coins[OF sel d] m by metis
  show ?thesis
  proof (cases tx0)
    case (Tx_Bitcoin b)
    show ?thesis
    proof (rule fund_bitcoin[OF ok f[unfolded Tx_Bitcoin]])
      fix tx1 tx3
      assume sel: "select_inputs L net rate send_all (net_policy_asset (acc_network account)) acc (acc_script_type account) coins []
          (Tx_Bitcoin b) = Some (Inr (Tx_Bitcoin tx1))"
        and m: "mset (btx_input tx3) = mset (btx_input tx1)" and t: "t = Tx_Bitcoin tx3"
      show ?thesis by (rule *[OF sel[folded Tx_Bitcoin]]) (simp add: t m)
    qed
  next
    case (Tx_Elements e)
    show ?thesis
    proof (rule fund_elements[OF ok f[unfolded Tx_Elements]])
      fix tx1 tx3 pa
      assume sel: "select_inputs L net rate send_all (net_policy_asset (acc_network account)) acc (acc_script_type account) coins []
          (Tx_Elements e) = Some (Inr (Tx_Elements tx1))"
        and m: "mset (etx_input tx3) = mset (etx_input tx1)"
        and t: "t = Tx_Elements (tx3\<lparr>etx_output := etx_output tx3 @
          [default_elm_txout\<lparr>eout_asset := pa, eout_value := Value_Explicit fee\<rparr>]\<rparr>)"
      show ?thesis by (rule *[OF sel[folded Tx_Elements]]) (simp add: t m)
    qed
  qed
qed

lemma requested_no_inputs: "lib_ok L \<Longrightarrow> requested_outputs L net as = Some (Inr t) \<Longrightarrow> previous_outputs t = []"
  using requested_outputs_elements requested_outputs_bitcoin by (cases net) fastforce+

lemma send_all_utxos:
  assumes "(if b then send_all_amount L net account rate req coins else Some (Inr req)) = Some (Inr req')"
  shows "ct_utxos req' = ct_utxos req"
  using assms
  by (auto simp: send_all_amount_def Let_def split: if_splits list.splits elim!: gtry_InrE bind_SomeE)

lemma created_inputs:
  assumes ok: "lib_ok L" and c: "gdk_create_tx L K now account request store = Some (Inr (tx, meta))"
    and acc: "account_cache store (acc_account_num account) = Inr acc" and wf: "acc_wf L acc"
    and own: "ct_utxos request = None" and new: "ct_previous_transaction request = None"
  shows "distinct (previous_outputs tx) \<and> (\<forall>x \<in> set (previous_outputs tx). \<exists>i. coin_ok L acc (x, i))"
  using c
proof (rule create_tx_obs)
  fix net req template ca coins req' tx0 acc' n
  assume net: "network_id (acc_network account) = Some net"
    and prep: "prepare_request L net account (request\<lparr>ct_fee_rate := Some (fee_rate_of net request)\<rparr>) store = Some (Inr (req, template, ca))"
    and coins: "(case ct_utxos req of
         None \<Rightarrow> utxos L account (ct_num_confs req) (ct_confidential_utxos_only req) store
       | Some us \<Rightarrow> gmap_err G_Common (utxos_of_unspents L us)) = Some (Inr coins)"
    and tx0: "(case template of Some tx \<Rightarrow> Some (Inr tx) | None \<Rightarrow> requested_outputs L net (ct_addressees req')) = Some (Inr tx0)"
    and fund: "fund_tx L K net account (f64_div (f64_of_int (fee_rate_of net request)) (f64_lit 1000)) (ct_send_all request) acc'
       coins ca tx0 = Some (Inr (tx, tm_fee meta, n))"
  from prep net have req: "template = None" "req = request\<lparr>ct_fee_rate := Some (fee_rate_of net request)\<rparr>"
    by (cases rule: prepare_request_cases; use new in auto)+
  with coins own have "utxos L account (ct_num_confs req) (ct_confidential_utxos_only req) store = Some (Inr coins)" by simp
  from utxos_spec[OF this acc wf] have coins_ok: "\<forall>u \<in> set coins. coin_ok L acc u" "distinct (map fst coins)" .
  from tx0 req have "previous_outputs tx0 = []" using requested_no_inputs[OF ok] by simp
  with fund_inputs[OF ok fund coins_ok(2)] obtain sel where
    sel: "mset (previous_outputs tx) = mset (map fst sel)" "set sel \<subseteq> set coins" "distinct (map fst sel)" by auto
  have "distinct (previous_outputs tx)" using sel(1,3) by (metis mset_eq_imp_distinct_iff)
  moreover have "\<exists>i. coin_ok L acc (x, i)" if "x \<in> set (previous_outputs tx)" for x
  proof -
    from that sel(1) have "x \<in> set (map fst sel)" by (metis set_mset_mset)
    then obtain i where "(x, i) \<in> set coins" using sel(2) by auto
    with coins_ok(1) show ?thesis by blast
  qed
  ultimately show ?thesis by blast
qed

text \<open>The outputs of a Liquid payment: what was asked for, changes and the fee.\<close>

lemma created_outputs:
  assumes ok: "lib_ok L" and c: "gdk_create_tx L K now account request store = Some (Inr (Tx_Elements tx, meta))"
  shows "\<exists>req paid change pa. tm_create_transaction meta = Some req \<and> list_all2 (asked L) (ct_addressees req) paid \<and>
    network_policy_asset L (acc_network account) = Inr pa \<and>
    mset (etx_output tx) = mset (paid @ change @ [default_elm_txout\<lparr>eout_asset := pa, eout_value := Value_Explicit (tm_fee meta)\<rparr>])"
  using c
proof (rule create_tx_obs)
  fix net req template ca coins req' tx0 acc' n
  assume net: "network_id (acc_network account) = Some net"
    and prep: "prepare_request L net account (request\<lparr>ct_fee_rate := Some (fee_rate_of net request)\<rparr>) store = Some (Inr (req, template, ca))"
    and tx0: "(case template of Some tx \<Rightarrow> Some (Inr tx) | None \<Rightarrow> requested_outputs L net (ct_addressees req')) = Some (Inr tx0)"
    and fund: "fund_tx L K net account (f64_div (f64_of_int (fee_rate_of net request)) (f64_lit 1000)) (ct_send_all request) acc'
       coins ca tx0 = Some (Inr (Tx_Elements tx, tm_fee meta, n))"
    and meta: "tm_create_transaction meta = Some req'"
  have "tx_on net tx0" by (rule template_on[OF ok prep net tx0])
  moreover have "tx_on net (Tx_Elements tx)" using created_on[OF ok c net] .
  ultimately obtain e tx00 where e: "net = Net_Elements e" "tx0 = Tx_Elements tx00"
    by (cases net; cases tx0) auto
  have "template = None" using prep net by (cases rule: prepare_request_cases) (use e in auto)
  with tx0 e have "requested_outputs L (Net_Elements e) (ct_addressees req') = Some (Inr (Tx_Elements tx00))" by simp
  from requested_outputs_elements[OF ok this] have paid: "list_all2 (asked L) (ct_addressees req') (etx_output tx00)" by auto
  show ?thesis
    by (rule fund_elements[OF ok fund[unfolded e]])
      (rule exI[of _ req'], rule exI[of _ "etx_output tx00"], use paid meta in auto)
qed

end
