(* ===== verification/Gdk_Demo.thy ===== *)
theory Gdk_Demo
  imports Gdk_Create_Props
begin

text \<open>
  A small wallet for the witnesses: a library in which the hexadecimal text of bytes is the bytes
  and nothing is shuffled, and an account of Liquid that has received 6000 and 9000 satoshi of the
  policy asset and 500 units of another one.
\<close>

definition pay_txout :: "bytes \<Rightarrow> int \<Rightarrow> bytes \<Rightarrow> ElmTxOut" where
  "pay_txout asset value script =
     default_elm_txout\<lparr>eout_asset := Asset_Explicit asset, eout_value := Value_Explicit value, eout_script_pubkey := script\<rparr>"

definition pay_is_fee :: "ElmTxOut \<Rightarrow> bool" where
  "pay_is_fee x \<longleftrightarrow> eout_script_pubkey x = [] \<and>
     (case eout_asset x of Asset_Explicit _ \<Rightarrow> True | _ \<Rightarrow> False) \<and> (case eout_value x of Value_Explicit _ \<Rightarrow> True | _ \<Rightarrow> False)"

definition pay_lib :: gdk_lib where
  "pay_lib =
     \<lparr>gl_hex_encode = id, gl_hex_decode = Some, gl_txid_hex = id, gl_txid_parse = Some, gl_txid_le = (\<lambda>a b. length a \<le> length b),
      gl_btc_txid = (\<lambda>tx. if btx_version tx = 1 then ''old'' else ''new''),
      gl_elm_txid = (\<lambda>tx. if etx_version tx = 1 then ''old'' else ''new''),
      gl_btc_weight = (\<lambda>tx. 400), gl_elm_weight = (\<lambda>tx. 4000), gl_btc_ser = (\<lambda>tx. []), gl_elm_ser = (\<lambda>tx. []),
      gl_btc_des = (\<lambda>b. Inl []), gl_elm_des = (\<lambda>b. Inl []), gl_btc_address = (\<lambda>s. Inl []),
      gl_elm_address = (\<lambda>s. if s = [] then None
        else Some \<lparr>ea_network = Liquid, ea_blinding_pubkey = Some (CHR 0x02, zero_bytes 32), ea_script_pubkey = s\<rparr>),
      gl_btc_from_script = (\<lambda>s n. None), gl_elm_from_script = (\<lambda>s n. None), gl_is_fee = pay_is_fee,
      gl_minimum_value = out_amount, gl_new_fee = (\<lambda>v a. pay_txout a v []), gl_surjectionproof_size = (\<lambda>n. 0),
      gl_shuffle_inputs = (\<lambda>n. [0..<n]), gl_shuffle_outputs = (\<lambda>n. [0..<n]), gl_iter = id\<rparr>"

lemma pay_lib_ok: "lib_ok pay_lib"
  by (auto simp: lib_ok_def pay_lib_def pay_is_fee_def out_amount_def split: ConfAsset.splits ConfValue.splits if_splits)

definition pay_keys :: gdk_keys where
  "pay_keys =
     \<lparr>gk_derive_priv = (\<lambda>k p. Some k), gk_xpub_of_priv = id, gk_ckd_pub = (\<lambda>k i. Some (k @ [char_of i])), gk_derive_pub = (\<lambda>k p. Some k),
      gk_public_key = id, gk_btc_address = (\<lambda>t k n. (k, k)), gk_elm_script = (\<lambda>t k. CHR ''s'' # k), gk_elm_address = (\<lambda>s n b. s),
      gk_blinding_priv = (\<lambda>m s. s), gk_ec_public_key = id, gk_p2pkh_script = id, gk_hash160 = id, gk_push_slice = id,
      gk_push_zero = [], gk_first_push = Some, gk_btc_sighash_segwit = (\<lambda>t i s v. []), gk_btc_sighash_legacy = (\<lambda>t i s. []),
      gk_elm_sighash_segwit = (\<lambda>t i s v. []), gk_elm_sighash_legacy = (\<lambda>t i s. []), gk_sign_der = (\<lambda>m k. k),
      gk_is_der = (\<lambda>s. True), gk_verify_der = (\<lambda>m s p. s = p)\<rparr>"

definition pay_policy :: bytes where "pay_policy = replicate 32 CHR ''L''"

definition pay_asset :: bytes where "pay_asset = replicate 32 CHR ''A''"

definition pay_network :: Network where
  "pay_network =
     \<lparr>net_name = ''liquid'', net_development = False, net_liquid = True, net_mainnet = True, net_policy_asset = Some pay_policy,
      net_ct_bits = Some 52, net_ct_exponent = Some 0, net_spv_enabled = Some True, net_spv_multi = None, net_spv_servers = None,
      net_electrum_url = None, net_electrum_tls = None, net_validate_domain = None, net_sync_interval = None,
      net_asset_registry_url = None\<rparr>"

definition pay_account :: Account where
  "pay_account =
     \<lparr>acc_account_num = 0, acc_script_type = P2shP2wpkh, acc_xprv = ''k'', acc_xpub = ''k'', acc_chains = (''e'', ''i''),
      acc_network = pay_network, acc_master_blinding = Some ''m''\<rparr>"

definition pay_received :: ElmTx where
  "pay_received =
     \<lparr>etx_version = 1, etx_lock_time = 0, etx_input = [],
      etx_output = [pay_txout pay_policy 6000 ''s1'', pay_txout pay_policy 9000 ''s1'', pay_txout pay_asset 500 ''s2'', pay_txout pay_policy 7 []]\<rparr>"

definition pay_unblinded :: "bytes \<Rightarrow> int \<Rightarrow> GdkUnblinded" where
  "pay_unblinded asset value = \<lparr>ub_asset = asset, ub_abf = zero_bytes 32, ub_vbf = zero_bytes 32, ub_value = value\<rparr>"

definition pay_cache :: RawAccountCache where
  "pay_cache =
     \<lparr>ac_all_txs = [(Txid_Elements ''old'', \<lparr>ent_tx = Tx_Elements pay_received, ent_size = 1000, ent_weight = 4000\<rparr>)],
      ac_paths = [(Script_Elements ''s1'', [Normal 0, Normal 1]), (Script_Elements ''s2'', [Normal 0, Normal 2])],
      ac_scripts = [([Normal 0, Normal 1], Script_Elements ''s1''), ([Normal 0, Normal 2], Script_Elements ''s2'')],
      ac_heights = [(Txid_Elements ''old'', Some 100)],
      ac_unblinded = [((''old'', 0), pay_unblinded pay_policy 6000), ((''old'', 1), pay_unblinded pay_policy 9000),
        ((''old'', 2), pay_unblinded pay_asset 500)],
      ac_indexes = \<lparr>ix_external = 2, ix_internal = 0\<rparr>\<rparr>"

definition pay_store :: StoreMeta where
  "pay_store =
     \<lparr>sm_cache = default_cache\<lparr>rc_accounts := [(0, pay_cache)], rc_tip := (120, Hash_Elements (zero_bytes 32))\<rparr>,
      sm_store = default_store, sm_id = Net_Elements Liquid, sm_path = [], sm_cipher = []\<rparr>"

text \<open>200 units of the other asset and 9500 satoshi are to be paid.\<close>

definition pay_request :: GdkCreateTransaction where
  "pay_request =
     \<lparr>ct_addressees = [\<lparr>aa_address = ''x1'', aa_satoshi = 200, aa_asset_id = Some pay_asset\<rparr>,
        \<lparr>aa_address = ''x2'', aa_satoshi = 9500, aa_asset_id = Some pay_policy\<rparr>],
      ct_fee_rate = None, ct_subaccount = 0, ct_send_all = False, ct_previous_transaction = None, ct_memo = None, ct_utxos = None,
      ct_num_confs = 0, ct_confidential_utxos_only = False\<rparr>"

text \<open>The payment: all coins are spent, 300 units and 5396 satoshi come back, 104 satoshi are the fee.\<close>

definition pay_input :: "int \<Rightarrow> ElmTxIn" where
  "pay_input vout =
     \<lparr>ein_previous_output = (''old'', vout), ein_is_pegin = False, ein_has_issuance = False, ein_script_sig = [],
      ein_sequence = 4294967294, ein_script_witness = []\<rparr>"

definition pay_output :: "bytes \<Rightarrow> int \<Rightarrow> bytes \<Rightarrow> ElmTxOut" where
  "pay_output asset value script = (pay_txout asset value script)\<lparr>eout_nonce := Nonce_Confidential CHR 0x02 (zero_bytes 32)\<rparr>"

definition pay_tx :: ElmTx where
  "pay_tx =
     \<lparr>etx_version = 2, etx_lock_time = 0, etx_input = [pay_input 1, pay_input 0, pay_input 2],
      etx_output = [pay_output pay_asset 200 ''x1'', pay_output pay_policy 9500 ''x2'', pay_output pay_policy 5396 [CHR ''s'', CHR ''i'', CHR 0x01],
        pay_output pay_asset 300 [CHR ''s'', CHR ''i'', CHR 0x02], pay_txout pay_policy 104 []]\<rparr>"

text \<open>
  The steps at this wallet, evaluated one after the other.  The library gives every transaction
  the same weight, so that the mock transaction of the estimate need not be built.
\<close>

abbreviation pay_rate :: f64 where "pay_rate \<equiv> f64_div (f64_of_int 100) (f64_lit 1000)"

lemma pay_f64_fee: "f64_as_u64 (f64_mul (f64_mul (f64_div (f64_of_int 4000) (f64_lit 4)) pay_rate) (f64_lit (104 / 100))) = 104"
  by code_simp

lemma pay_fee: "estimated_fee pay_lib (Tx_Elements tx) pay_rate n st = 104"
  using pay_f64_fee by (simp add: estimated_fee_def fee_factor_def pay_lib_def Let_def)

definition pay_needs :: "ElmTx \<Rightarrow> AssetValue list option" where
  "pay_needs tx = needs pay_lib (Tx_Elements tx) pay_rate False (Some pay_policy) (ac_all_txs pay_cache) (ac_unblinded pay_cache) P2shP2wpkh"

lemma pay_needs_code [code]:
  "pay_needs tx = do {
     outputs \<leftarrow> output_amounts pay_lib tx;
     inputs \<leftarrow> input_amounts pay_lib tx (ac_all_txs pay_cache) (ac_unblinded pay_cache);
     more_changes \<leftarrow> estimated_changes pay_lib (Tx_Elements tx) False (ac_all_txs pay_cache) (ac_unblinded pay_cache);
     Some (policy_last pay_policy (uncovered (hm_add_u64 pay_policy 104 outputs) inputs)) }"
  by (simp add: pay_needs_def pay_fee Let_def) (simp add: pay_lib_def)

definition pay_select :: "GdkUtxos \<Rightarrow> BEOutPoint list \<Rightarrow> BETransaction \<Rightarrow> BETransaction gres" where
  "pay_select coins used tx =
     select_inputs pay_lib (Net_Elements Liquid) pay_rate False (Some pay_policy) pay_cache P2shP2wpkh coins used tx"

lemma pay_select_code [code]:
  "pay_select coins used tx = (case tx of
     Tx_Bitcoin _ \<Rightarrow> pay_select coins used tx
   | Tx_Elements etx \<Rightarrow>
       (case pay_needs etx of
          None \<Rightarrow> None
        | Some ns \<Rightarrow>
            if ns = [] then Some (Inr tx)
            else let us = asset_utxos (av_asset (last ns)) used coins in
              if us = [] then Some (Inl G_InsufficientFunds)
              else let taken = taken_utxos (Net_Elements Liquid) coins (last us) in
                (case foldM (\<lambda>u tx. add_input (fst u) tx) taken tx of
                   None \<Rightarrow> None
                 | Some tx' \<Rightarrow> pay_select coins (map fst taken @ used) tx')))"
proof (cases tx)
  case (Tx_Elements etx)
  then show ?thesis unfolding pay_select_def by (subst select_inputs.simps) (simp add: pay_needs_def)
qed simp

definition pay_coins :: GdkUtxos where
  "pay_coins = (case utxos pay_lib pay_account 0 False pay_store of Some (Inr us) \<Rightarrow> us | _ \<Rightarrow> [])"

definition pay_tx0 :: ElmTx where
  "pay_tx0 =
     \<lparr>etx_version = 2, etx_lock_time = 0, etx_input = [],
      etx_output = [pay_output pay_asset 200 ''x1'', pay_output pay_policy 9500 ''x2'']\<rparr>"

definition pay_tx1 :: ElmTx where
  "pay_tx1 = pay_tx0\<lparr>etx_input := [pay_input 1, pay_input 0, pay_input 2]\<rparr>"

lemma pay_selected: "pay_select pay_coins [] (Tx_Elements pay_tx0) = Some (Inr (Tx_Elements pay_tx1))"
  by code_simp

definition pay_changes :: "AssetValue list" where
  "pay_changes = [\<lparr>av_asset = pay_policy, av_satoshi = 5396\<rparr>, \<lparr>av_asset = pay_asset, av_satoshi = 300\<rparr>]"

definition pay_tx2 :: ElmTx where
  "pay_tx2 = pay_tx1\<lparr>etx_output := etx_output pay_tx0 @
     [pay_output pay_policy 5396 [CHR ''s'', CHR ''i'', CHR 0x01], pay_output pay_asset 300 [CHR ''s'', CHR ''i'', CHR 0x02]]\<rparr>"

lemma pay_funding:
  "estimated_changes pay_lib (Tx_Elements pay_tx1) False (ac_all_txs pay_cache) (ac_unblinded pay_cache) = Some 2"
  "changes pay_lib (Tx_Elements pay_tx1) 104 (Some pay_policy) (ac_all_txs pay_cache) (ac_unblinded pay_cache) = Some pay_changes"
  "add_changes pay_lib pay_keys pay_account pay_cache pay_changes [] (Tx_Elements pay_tx1) = Some (Inr (Tx_Elements pay_tx2))"
  "scramble pay_lib (Tx_Elements pay_tx2) = Tx_Elements pay_tx2"
  "tx_fee pay_lib (Tx_Elements pay_tx2) (ac_all_txs pay_cache) (ac_unblinded pay_cache) (Some (Asset_Explicit pay_policy)) = Some (Inr 104)"
  "add_fee_if_elements 104 (Some (Asset_Explicit pay_policy)) (Tx_Elements pay_tx2) = Some (Inr (Tx_Elements pay_tx))"
  "network_policy_asset pay_lib pay_network = Inr (Asset_Explicit pay_policy)"
  by code_simp+

lemma pay_funded:
  "fund_tx pay_lib pay_keys (Net_Elements Liquid) pay_account pay_rate False pay_cache pay_coins [] (Tx_Elements pay_tx0) =
     Some (Inr (Tx_Elements pay_tx, 104, 2))"
proof -
  have a: "acc_network pay_account = pay_network" "acc_script_type pay_account = P2shP2wpkh" "net_policy_asset pay_network = Some pay_policy"
    "length pay_changes = 2"
    by (simp_all add: pay_account_def pay_network_def pay_changes_def)
  show ?thesis
    unfolding fund_tx_def a Let_def
    by (simp add: pay_selected[unfolded pay_select_def] pay_fee pay_funding a gmap_err_def
        del: estimated_changes.simps changes.simps scramble.simps tx_fee.simps add_fee_if_elements.simps)
qed

lemma pay_steps:
  "network_id pay_network = Some (Net_Elements Liquid)"
  "check_addresses pay_lib (Net_Elements Liquid) (ct_addressees pay_request) = Some (Inr ())"
  "prepare_request pay_lib (Net_Elements Liquid) pay_account (pay_request\<lparr>ct_fee_rate := Some 100\<rparr>) pay_store =
     Some (Inr (pay_request\<lparr>ct_fee_rate := Some 100\<rparr>, None, []))"
  "requested_outputs pay_lib (Net_Elements Liquid) (ct_addressees pay_request) = Some (Inr (Tx_Elements pay_tx0))"
  "account_cache pay_store 0 = Inr pay_cache"
  "my_balance_changes pay_lib (Tx_Elements pay_tx) (ac_all_txs pay_cache) (ac_paths pay_cache) (ac_unblinded pay_cache) =
     Some [(pay_policy, -15000), (pay_asset, -500)]"
  by code_simp+

lemma pay_coins_utxos: "utxos pay_lib pay_account 0 False pay_store = Some (Inr pay_coins)"
  by code_simp

lemma pay_created:
  "\<exists>meta. gdk_create_tx pay_lib pay_keys 0 pay_account pay_request pay_store = Some (Inr (Tx_Elements pay_tx, meta)) \<and> tm_fee meta = 104"
proof -
  have a: "acc_network pay_account = pay_network" "acc_account_num pay_account = 0"
    by (simp_all add: pay_account_def)
  have r: "ct_subaccount pay_request = 0" "ct_send_all pay_request = False" "ct_utxos pay_request = None"
    "ct_num_confs pay_request = 0" "ct_confidential_utxos_only pay_request = False" "fee_rate_of (Net_Elements Liquid) pay_request = 100"
    "\<not> list_ex (\<lambda>a. aa_satoshi a = 0) (ct_addressees pay_request)"
    by (simp_all add: pay_request_def fee_rate_of_def)
  show ?thesis
    unfolding gdk_create_tx_def create_tx_at_def a r Let_def
    by (simp add: pay_steps pay_coins_utxos pay_funded r a new_meta_def gmap_err_def gensure_def)
qed

end
