(* ===== verification/Gdk_Sync_Props.thy ===== *)
theory Gdk_Sync_Props
  imports Gdk_Wallet Gdk_Create_Props
begin

text \<open>
  What the threads of a session keep: after a synchronization, whatever the server has answered,
  every transaction that an account knows is stored under its own identifier and no transaction
  has two heights (\<open>acc_wf\<close>, on which the theorems on payments rest); and what a store that is
  written to the disk is when it is read again.
\<close>

section \<open>Maps\<close>

lemma set_update_subset: "set (AList.update k v m) \<subseteq> insert (k, v) (set m)"
  by (induction m) auto

lemma set_hm_insert: "set (hm_insert k v m) \<subseteq> insert (k, v) (set m)"
  by (simp add: hm_insert_def set_update_subset)

lemma set_hm_extend: "set (hm_extend xs m) \<subseteq> set xs \<union> set m"
proof (induction xs arbitrary: m)
  case (Cons x xs)
  have "hm_extend (x # xs) m = hm_extend xs (hm_insert (fst x) (snd x) m)" by (cases x) (simp add: hm_extend_def)
  then show ?case using Cons.IH[of "hm_insert (fst x) (snd x) m"] set_hm_insert[of "fst x" "snd x" m] by auto
qed (simp add: hm_extend_def)

lemma set_hm_remove: "set (hm_remove k m) \<subseteq> set m"
  by (auto simp: hm_remove_def AList.delete_eq)

section \<open>Accounts\<close>

definition store_wf :: "gdk_lib \<Rightarrow> StoreMeta \<Rightarrow> bool" where
  "store_wf L store \<longleftrightarrow> (\<forall>n acc. account_cache store n = Inr acc \<longrightarrow> acc_wf L acc)"

text \<open>Transactions with their identifiers.\<close>

definition txs_wf :: "gdk_lib \<Rightarrow> (BETxid \<times> BETransaction) list \<Rightarrow> bool" where
  "txs_wf L txs \<longleftrightarrow> (\<forall>(txid, tx) \<in> set txs. tx_id L tx = txid)"

lemma account_cache_set [simp]:
  "account_cache (set_account_cache n acc store) n' = (if n' = n then Inr acc else account_cache store n')"
  by (simp add: account_cache_def set_account_cache_def)

lemma store_wf_set: "store_wf L store \<Longrightarrow> acc_wf L acc \<Longrightarrow> store_wf L (set_account_cache n acc store)"
  by (simp add: store_wf_def)

lemma store_wf_accounts:
  "rc_accounts (sm_cache store') = rc_accounts (sm_cache store) \<Longrightarrow> store_wf L store' \<longleftrightarrow> store_wf L store"
  by (simp add: store_wf_def account_cache_def)

lemma acc_wf_default [simp]: "acc_wf L default_account_cache"
  by (simp add: acc_wf_def default_account_cache_def)

lemma download_previous_wf:
  assumes "download_previous L net client txids = Some (Inr txs)"
  shows "txs_wf L txs"
proof (cases "txids = []")
  case False
  with assms obtain bs where g: "gfold (\<lambda>b txs. gtry (gmap_err G_Common (Some (tx_deserialize L b net))) (\<lambda>tx. do {
          tx \<leftarrow> strip_witness L tx;
          Some (Inr (txs @ [(tx_id L tx, tx)])) })) bs [] = Some (Inr txs)"
    by (auto simp: download_previous_def elim!: gtry_InrE)
  show ?thesis
    by (rule gfold_invariant[OF g]) (auto simp: txs_wf_def elim!: gtry_InrE bind_SomeE)
qed (use assms in \<open>simp add: download_previous_def txs_wf_def\<close>)

lemma download_txs_wf:
  assumes "download_txs L K Y syncer client acc history scripts = Some (Inr r)"
  shows "txs_wf L (dr_txs r)"
proof -
  from assms have "dr_txs r = [] \<or> (\<exists>net txids txs previous. dr_txs r = map (\<lambda>tx. (tx_id L tx, tx)) txs @ previous \<and>
      download_previous L net client txids = Some (Inr previous))"
    by (auto simp: download_txs_def default_download_def Let_def split: if_splits elim!: gtry_InrE bind_SomeE)
  then show ?thesis using download_previous_wf by (fastforce simp: txs_wf_def)
qed

lemma entries_wf:
  assumes "entries_of_txs L txs = Some entries" and "txs_wf L txs"
  shows "\<forall>(txid, e) \<in> set entries. tx_id L (ent_tx e) = txid"
  using assms
proof (induction txs arbitrary: entries)
  case (Cons x txs)
  obtain txid tx where x: "x = (txid, tx)" by (cases x)
  from Cons.prems x obtain e es where e: "entry_of_tx L tx = Some e" "entries_of_txs L txs = Some es" "entries = (txid, e) # es"
    by (auto simp: entries_of_txs_def split: option.splits)
  moreover have "tx_id L (ent_tx e) = tx_id L tx"
    using e(1) by (auto simp: entry_of_tx_def strip_witness_def Let_def split: if_splits)
  ultimately show ?case using Cons.IH[of es] Cons.prems(2) x by (auto simp: txs_wf_def)
qed (simp add: entries_of_txs_def)

lemma apply_sync_wf:
  assumes "apply_sync L st new_txs acc = Some acc'" and "acc_wf L acc" and "txs_wf L (dr_txs new_txs)"
  shows "acc_wf L acc'"
proof -
  from assms(1) obtain entries where e: "entries_of_txs L (dr_txs new_txs) = Some entries"
    and acc': "ac_all_txs acc' = hm_extend entries (ac_all_txs acc)" "ac_heights acc' = hm_extend (sy_txid_height st) []"
    by (auto simp: apply_sync_def elim!: bind_SomeE)
  from entries_wf[OF e assms(3)] assms(2) set_hm_extend[of entries "ac_all_txs acc"] show ?thesis
    unfolding acc_wf_def acc' by auto
qed

lemma verify_own_loop_wf:
  "verify_own_loop L K account txs acc v = Some (r, acc') \<Longrightarrow> acc_wf L acc \<Longrightarrow> acc_wf L acc'"
proof (induction L K account txs acc v arbitrary: r acc' rule: verify_own_loop.induct)
  case (2 L K account txid tx txs acc v)
  have "acc_wf L (acc\<lparr>ac_all_txs := hm_remove txid (ac_all_txs acc), ac_heights := hm_remove txid (ac_heights acc)\<rparr>)"
    using "2.prems"(2) set_hm_remove[of txid "ac_all_txs acc"] by (auto simp: acc_wf_def)
  then show ?case using "2.IH" "2.prems" by (auto split: if_splits option.splits sum.splits)
qed simp

lemma verify_own_txs_wf:
  assumes "verify_own_txs L K S account txs store d = Some (r, store', d')" and "store_wf L store"
  shows "store_wf L store'"
proof -
  from assms(1) obtain acc acc' r' where "account_cache store (acc_account_num account) = Inr acc"
    and v: "verify_own_loop L K account txs acc True = Some (r', acc')" and s: "store' = set_account_cache (acc_account_num account) acc' store"
    by (auto simp: verify_own_txs_def Let_def split: sum.splits elim!: bind_SomeE)
  then have "acc_wf L acc" using assms(2) by (simp add: store_wf_def)
  from verify_own_loop_wf[OF v this] show ?thesis unfolding s by (rule store_wf_set[OF assms(2)])
qed

lemma sync_account_wf:
  assumes "sync_account L K H S Y syncer client account (store, d) = Some (r, store', d')" and wf: "store_wf L store"
  shows "store_wf L store'"
proof (cases "fetch_account L K H Y syncer client account store")
  case None
  with assms(1) show ?thesis by (simp add: sync_account_def)
next
  case (Some f)
  show ?thesis
  proof (cases f)
    case (Inl e)
    with Some assms show ?thesis by (simp add: sync_account_def)
  next
    case (Inr q)
    obtain st new_txs headers acc where q: "q = (st, new_txs, headers, acc)" by (cases q)
    from Some Inr q have acc: "account_cache store (acc_account_num account) = Inr acc"
      and new: "\<exists>h s. download_txs L K Y syncer client acc h s = Some (Inr new_txs)"
      by (auto simp: fetch_account_def elim!: gtry_InrE bind_SomeE)
    have "acc_wf L acc" using wf acc by (simp add: store_wf_def)
    show ?thesis
    proof (cases "dr_txs new_txs \<noteq> [] \<or> headers \<noteq> [] \<or> ac_indexes acc \<noteq> sy_last_used st \<or> sy_scripts st \<noteq> []
             \<or> heights_changed (sy_txid_height st) acc")
      case False
      with assms Some Inr q show ?thesis by (simp add: sync_account_def)
    next
      case True
      define store1 where "store1 = store\<lparr>sm_cache := (sm_cache store)\<lparr>rc_headers := hm_extend headers (rc_headers (sm_cache store))\<rparr>\<rparr>"
      have s1: "rc_accounts (sm_cache store1) = rc_accounts (sm_cache store)" by (simp add: store1_def)
      from assms(1) Some Inr q True obtain acc' r1 where a: "apply_sync L st new_txs acc = Some acc'"
        and v: "verify_own_txs L K S account (dr_txs new_txs) (set_account_cache (acc_account_num account) acc' store1)
          (flush_meta S (set_account_cache (acc_account_num account) acc' store1) d) = Some (r1, store', d')"
        by (auto simp: sync_account_def Let_def store1_def elim!: bind_SomeE)
      from new download_txs_wf have "txs_wf L (dr_txs new_txs)" by blast
      from apply_sync_wf[OF a \<open>acc_wf L acc\<close> this] have "acc_wf L acc'" .
      moreover have "store_wf L store1" using wf store_wf_accounts[OF s1] by simp
      ultimately show ?thesis by (intro verify_own_txs_wf[OF v] store_wf_set)
    qed
  qed
qed

theorem sync_wf:
  "sync L K H S Y syncer client accounts (store, d) = Some (r, store', d') \<Longrightarrow> store_wf L store \<Longrightarrow> store_wf L store'"
proof (induction accounts arbitrary: store d r)
  case (Cons account accounts)
  from Cons.prems(1) obtain r1 store1 d1 where s: "sync_account L K H S Y syncer client account (store, d) = Some (r1, store1, d1)"
    by (auto elim!: bind_SomeE)
  from sync_account_wf[OF this Cons.prems(2)] have wf: "store_wf L store1" .
  show ?case
  proof (cases r1)
    case (Inl e)
    with s Cons.prems wf show ?thesis by simp
  next
    case (Inr changed)
    with s Cons.prems(1) obtain r2 where "sync L K H S Y syncer client accounts (store1, d1) = Some (r2, store', d')"
      by (auto elim!: bind_SomeE)
    from Cons.IH[OF this wf] show ?thesis .
  qed
qed simp

section \<open>The store on the disk\<close>

text \<open>
  What the files rely on: what was encrypted decrypts under the same key and nonce, a nonce has
  twelve bytes and a write takes all bytes; and for the store that a serialized value deserializes.
\<close>

definition cipher_ok :: "store_lib \<Rightarrow> bool" where
  "cipher_ok S \<longleftrightarrow>
     (\<forall>key nonce text. sl_decrypt S key nonce (sl_encrypt S key nonce text) = Some text) \<and>
     length (sl_nonce S) = 12 \<and> (\<forall>bs. length bs \<le> sl_written S bs)"

definition store_lib_ok :: "store_lib \<Rightarrow> bool" where
  "store_lib_ok S \<longleftrightarrow> cipher_ok S \<and>
     (\<forall>r c. sl_cache_des S r (sl_cache_ser S r c) = Some c) \<and>
     (\<forall>s. sl_store_des S (sl_store_ser S s) = Some s)"

lemma load_flushed:
  assumes "cipher_ok S"
  shows "load_decrypt S name path cipher (flush_serializable S path cipher name text d) = Inr text"
    and "name' \<noteq> name \<Longrightarrow> load_decrypt S name' path cipher (flush_serializable S path cipher' name text d) =
      load_decrypt S name' path cipher d"
  using assms by (simp_all add: load_decrypt_def flush_serializable_def Let_def cipher_ok_def)

text \<open>
  A session that opens the directory in which another one has flushed its store, with the same
  extended public key, has the same store, wherever its fallback points.
\<close>

lemma store_roundtrip:
  assumes ok: "store_lib_ok S" and cipher: "sm_cipher m = sl_cipher S xpub"
    and main: "hm_contains (rc_accounts (sm_cache m)) 0" and settings: "rs_accounts_settings (sm_store m) \<noteq> None"
  shows "new_store_meta S (sm_path m) xpub fallback_path fallback_xpub (sm_id m) (flush_meta S m d) = m"
proof -
  have "try_new_cache S (sm_path m) (sm_cipher m) (flush_meta S m d) = Inr (sm_cache m)"
    using ok by (simp add: try_new_cache_def flush_meta_def flush_cache_def load_flushed store_lib_ok_def)
  moreover have "try_new_store S (sm_path m) (sm_cipher m) (flush_meta S m d) = Inr (sm_store m)"
    using ok by (simp add: try_new_store_def flush_meta_def flush_cache_def flush_store_def load_flushed store_lib_ok_def)
  ultimately show ?thesis
    using main settings cipher by (auto simp: new_store_meta_def new_or_fallback_def Let_def)
qed

text \<open>A store that was opened can be written back: it has an account 0 and settings of accounts.\<close>

lemma new_store_complete:
  "hm_contains (rc_accounts (sm_cache (new_store_meta S path xpub fp fx net d))) 0"
  "rs_accounts_settings (sm_store (new_store_meta S path xpub fp fx net d)) \<noteq> None"
  by (auto simp: new_store_meta_def Let_def hm_contains_def split: option.splits)

section \<open>Outputs that cannot be unblinded\<close>

text \<open>
  An output whose nonce is not a point of the curve stops the thread that synchronizes, although
  the loop around means to skip the outputs that it cannot unblind.
\<close>

lemma invalid_nonce_panics:
  assumes "eout_asset out = Asset_Confidential a a'" and "eout_value out = Value_Confidential v v'"
    and "eout_nonce out = Nonce_Confidential n n'" and "yl_public_key Y (yl_nonce_ser Y (eout_nonce out)) = None"
  shows "try_unblind K Y syncer out = None"
  using assms by (cases "syn_master_blinding syncer") (simp_all add: try_unblind_def)

end
