(* ===== verification/Gdk_Headers_Props.thy ===== *)
theory Gdk_Headers_Props
  imports Gdk_Headers
begin

text \<open>
  What the checks of headers establish: the file of the headers is a chain in which each header
  follows from the one before, whatever the server sends; a transaction is reported as verified
  only if the root of its proof is the root of a header of that chain, or of a Liquid header that
  enough of the block signers have signed.
\<close>

section \<open>Chains of headers\<close>

text \<open>
  The values of the type of headers: four 32 bit numbers (the version is signed) and two hashes.
  A header is written in 80 bytes, from which it can be read.
\<close>

definition hdr_wf :: "BlockHeader \<Rightarrow> bool" where
  "hdr_wf h \<longleftrightarrow> - (2 ^ 31) \<le> bh_version h \<and> bh_version h < 2 ^ 31 \<and> 0 \<le> bh_time h \<and> bh_time h < 2 ^ 32 \<and>
     0 \<le> bh_bits h \<and> bh_bits h < 2 ^ 32 \<and> 0 \<le> bh_nonce h \<and> bh_nonce h < 2 ^ 32 \<and>
     length (bh_prev_blockhash h) = 32 \<and> length (bh_merkle_root h) = 32"

definition hdr_ok :: "hdr_lib \<Rightarrow> bool" where
  "hdr_ok H \<longleftrightarrow> (\<forall>h. hdr_wf h \<longrightarrow> hl_des H (hl_ser H h) = Some h \<and> length (hl_ser H h) = 80) \<and>
     (\<forall>net. hdr_wf (hl_genesis H net))"

abbreviation headers_wf :: "BlockHeader list \<Rightarrow> bool" where
  "headers_wf hs \<equiv> list_all hdr_wf hs"

definition file_of :: "hdr_lib \<Rightarrow> BlockHeader list \<Rightarrow> bytes" where
  "file_of H hs = concat (map (hl_ser H) hs)"

text \<open>The header at a height follows from those before it.\<close>

definition checkpoint_ok :: "(int, bytes) hmap \<Rightarrow> int \<Rightarrow> bytes \<Rightarrow> bool" where
  "checkpoint_ok cps n hash \<longleftrightarrow> hm_get cps n = None \<or> hm_get cps n = Some hash"

lemma checkpoint_case:
  "(case hm_get cps n of None \<Rightarrow> True | Some c \<Rightarrow> c = hash) \<longleftrightarrow> checkpoint_ok cps n hash"
  by (simp add: checkpoint_ok_def split: option.split)

definition link_ok :: "hdr_lib \<Rightarrow> (int, bytes) hmap \<Rightarrow> BlockHeader list \<Rightarrow> nat \<Rightarrow> bool" where
  "link_ok H cps hs n \<longleftrightarrow>
     bh_prev_blockhash (hs ! n) = hl_block_hash H (hs ! (n - 1)) \<and>
     hl_pow_ok H (hs ! n) (hl_target H (bh_bits (hs ! n))) \<and>
     bh_bits (hs ! n) = (if n mod 2016 = 0 then hl_compact H (calc_difficulty_retarget H (hs ! (n - 2016)) (hs ! (n - 1)))
       else bh_bits (hs ! (n - 1))) \<and>
     checkpoint_ok cps (int n) (hl_block_hash H (hs ! n))"

definition valid_chain :: "hdr_lib \<Rightarrow> (int, bytes) hmap \<Rightarrow> BlockHeader \<Rightarrow> BlockHeader list \<Rightarrow> bool" where
  "valid_chain H cps genesis hs \<longleftrightarrow> hs \<noteq> [] \<and> headers_wf hs \<and> hs ! 0 = genesis \<and> (\<forall>n. 0 < n \<and> n < length hs \<longrightarrow> link_ok H cps hs n)"

lemma length_file_of: "hdr_ok H \<Longrightarrow> headers_wf hs \<Longrightarrow> length (file_of H hs) = 80 * length hs"
  by (induction hs) (simp_all add: file_of_def hdr_ok_def)

lemma file_of_append [simp]: "file_of H (xs @ ys) = file_of H xs @ file_of H ys"
  and file_of_Nil [simp]: "file_of H [] = []"
  and file_of_single [simp]: "file_of H [h] = hl_ser H h"
  by (simp_all add: file_of_def)

lemma file_of_empty: "hdr_ok H \<Longrightarrow> headers_wf hs \<Longrightarrow> file_of H hs = [] \<longleftrightarrow> hs = []"
  using length_file_of[of H hs] by auto

lemma headers_wf_take: "headers_wf hs \<Longrightarrow> headers_wf (take n hs)"
  by (metis append_take_drop_id list_all_append)

lemma take_file_of:
  assumes ok: "hdr_ok H" and wf: "headers_wf hs"
  shows "take (80 * n) (file_of H hs) = file_of H (take n hs)"
proof (cases "n \<le> length hs")
  case True
  have "file_of H hs = file_of H (take n hs) @ file_of H (drop n hs)" by (metis append_take_drop_id file_of_append)
  moreover have "length (file_of H (take n hs)) = 80 * n"
    using True length_file_of[OF ok headers_wf_take[OF wf], of n] by simp
  ultimately show ?thesis by simp
qed (simp add: length_file_of ok wf)

lemma read_header_file:
  assumes ok: "hdr_ok H" and wf: "headers_wf hs" and i: "0 \<le> i"
  shows "read_header H (i * 80) (file_of H hs) = (if nat i < length hs then Inr (hs ! nat i) else Inl G_StdIOError)"
proof (cases "nat i < length hs")
  case True
  have nat80: "nat (i * 80) = 80 * nat i" using i by simp
  have split: "hs = take (nat i) hs @ hs ! nat i # drop (Suc (nat i)) hs" by (rule id_take_nth_drop[OF True])
  have "file_of H hs = file_of H (take (nat i) hs) @ hl_ser H (hs ! nat i) @ file_of H (drop (Suc (nat i)) hs)"
    by (subst (1) split) (simp add: file_of_def)
  moreover have "length (file_of H (take (nat i) hs)) = 80 * nat i"
    using True length_file_of[OF ok headers_wf_take[OF wf], of "nat i"] by simp
  moreover have h: "hl_des H (hl_ser H (hs ! nat i)) = Some (hs ! nat i)" "length (hl_ser H (hs ! nat i)) = 80"
    using ok wf True by (simp_all add: hdr_ok_def list_all_length)
  ultimately have "take 80 (drop (nat (i * 80)) (file_of H hs)) = hl_ser H (hs ! nat i)"
    by (simp add: nat80)
  moreover have "i * 80 + 80 \<le> int (length (file_of H hs))" using True i by (simp add: length_file_of[OF ok wf])
  ultimately show ?thesis using h True by (simp add: read_header_def)
next
  case False
  then have "int (length hs) \<le> i" using i by linarith
  then have "80 * int (length hs) < i * 80 + 80" by simp
  then show ?thesis using False by (simp add: read_header_def length_file_of[OF ok wf])
qed

lemma read_header_nat:
  "hdr_ok H \<Longrightarrow> headers_wf hs \<Longrightarrow> read_header H (int n * 80) (file_of H hs) = (if n < length hs then Inr (hs ! n) else Inl G_StdIOError)"
  using read_header_file[of H hs "int n"] by simp

lemma chain_get_file:
  assumes "hdr_ok H" and "d (hc_path chain) = Some (file_of H hs)" and "headers_wf hs"
  shows "chain_get H chain (int n) d = (if n < length hs then Inr (hs ! n) else Inl G_StdIOError)"
  using read_header_nat[OF assms(1,3)] assms(2) by (simp add: chain_get_def)

lemma link_ok_prefix:
  assumes "n < length hs"
  shows "link_ok H cps (hs @ ys) n \<longleftrightarrow> link_ok H cps hs n"
  using assms by (simp add: link_ok_def nth_append less_imp_diff_less)

lemma link_ok_snoc:
  assumes "xs \<noteq> []"
  shows "link_ok H cps (xs @ [h]) (length xs) \<longleftrightarrow>
     bh_prev_blockhash h = hl_block_hash H (last xs) \<and> hl_pow_ok H h (hl_target H (bh_bits h)) \<and>
     bh_bits h = (if length xs mod 2016 = 0 then hl_compact H (calc_difficulty_retarget H (xs ! (length xs - 2016)) (last xs))
       else bh_bits (last xs)) \<and>
     checkpoint_ok cps (int (length xs)) (hl_block_hash H h)"
  using assms by (simp add: link_ok_def nth_append last_conv_nth)

lemma valid_chain_snoc:
  "valid_chain H cps g (hs @ [h]) \<longleftrightarrow>
     (if hs = [] then h = g \<and> hdr_wf h else valid_chain H cps g hs \<and> hdr_wf h \<and> link_ok H cps (hs @ [h]) (length hs))"
proof (cases "hs = []")
  case False
  have "(\<forall>n. 0 < n \<and> n < length (hs @ [h]) \<longrightarrow> link_ok H cps (hs @ [h]) n) \<longleftrightarrow>
      (\<forall>n. 0 < n \<and> n < length hs \<longrightarrow> link_ok H cps (hs @ [h]) n) \<and> link_ok H cps (hs @ [h]) (length hs)"
    using False by (auto simp: less_Suc_eq)
  also have "(\<forall>n. 0 < n \<and> n < length hs \<longrightarrow> link_ok H cps (hs @ [h]) n) \<longleftrightarrow> (\<forall>n. 0 < n \<and> n < length hs \<longrightarrow> link_ok H cps hs n)"
    using link_ok_prefix by blast
  finally show ?thesis using False by (auto simp: valid_chain_def nth_append)
qed (auto simp: valid_chain_def)

lemma valid_chain_prefix: "valid_chain H cps g (hs @ ys) \<Longrightarrow> hs \<noteq> [] \<Longrightarrow> valid_chain H cps g hs"
proof (induction ys rule: rev_induct)
  case (snoc y ys)
  then show ?case by (metis append_assoc append_is_Nil_conv valid_chain_snoc)
qed simp

lemma valid_chain_take: "valid_chain H cps g hs \<Longrightarrow> 0 < n \<Longrightarrow> valid_chain H cps g (take n hs)"
  by (metis append_take_drop_id gr_implies_not0 length_greater_0_conv take_eq_Nil valid_chain_def valid_chain_prefix)

section \<open>Adding headers\<close>

text \<open>
  A chain in memory that is ahead of its file by some pending headers: the headers in the file and
  the pending ones are valid together.
\<close>

lemma valid_chain_wf: "valid_chain H cps g hs \<Longrightarrow> headers_wf hs"
  by (simp add: valid_chain_def)

definition ahead :: "hdr_lib \<Rightarrow> BlockHeader \<Rightarrow> HeadersChain \<Rightarrow> disk \<Rightarrow> BlockHeader list \<Rightarrow> BlockHeader list \<Rightarrow> bool" where
  "ahead H g chain d hs ps \<longleftrightarrow>
     d (hc_path chain) = Some (file_of H hs) \<and> hs \<noteq> [] \<and> valid_chain H (hc_checkpoints chain) g (hs @ ps) \<and>
     hc_height chain = int (length (hs @ ps)) - 1 \<and> hc_last chain = last (hs @ ps)"

lemma interval_mod: "int n mod DIFFCHANGE_INTERVAL = int (n mod 2016)"
  by (simp add: DIFFCHANGE_INTERVAL_def of_nat_mod)

lemma check_header_spec:
  assumes ok: "hdr_ok H" and c: "check_header H h chain (bh_bits (hc_last chain)) (file_of H ps) d = (r, d')"
    and a: "ahead H g chain d hs ps" and small: "length (hs @ ps) < 2 ^ 32" and wf: "hdr_wf h"
  obtains hs' ps' where "hs' @ ps' = hs @ ps" "ahead H g chain d' hs' ps'"
    "\<forall>p. p \<noteq> hc_path chain \<longrightarrow> d' p = d p"
    "\<And>b s. r = Inr (b, s) \<Longrightarrow> b = bh_bits h \<and> s = file_of H ps' \<and> valid_chain H (hc_checkpoints chain) g (hs @ ps @ [h])"
proof -
  let ?n = "length (hs @ ps)"
  have n: "wrap_u32 (hc_height chain + 1) = int ?n" "0 < ?n" using a small by (auto simp: ahead_def wrap_u32_def)
  have ne: "hs @ ps \<noteq> []" and last: "hc_last chain = last (hs @ ps)" using a by (simp_all add: ahead_def)
  have new: "valid_chain H (hc_checkpoints chain) g (hs @ ps @ [h])"
    if "link_ok H (hc_checkpoints chain) ((hs @ ps) @ [h]) ?n"
    using that a wf valid_chain_snoc[of H "hc_checkpoints chain" g "hs @ ps" h] by (simp add: ahead_def)
  have wfs: "headers_wf (hs @ ps)" using a unfolding ahead_def by (blast dest: valid_chain_wf)
  show thesis
  proof (cases "?n mod 2016 = 0")
    case False
    then have "int ?n mod DIFFCHANGE_INTERVAL \<noteq> 0" unfolding interval_mod by simp
    with c n have d: "d' = d" and r: "r = (if hl_block_hash H (hc_last chain) \<noteq> bh_prev_blockhash h
          \<or> \<not> hl_pow_ok H h (hl_target H (bh_bits h)) \<or> bh_bits h \<noteq> bh_bits (hc_last chain)
          \<or> \<not> checkpoint_ok (hc_checkpoints chain) (int ?n) (hl_block_hash H h)
        then Inl G_InvalidHeaders else Inr (bh_bits (hc_last chain), file_of H ps))"
      by (auto simp: check_header_def checkpoint_case Let_def split: if_splits)
    show thesis
    proof (rule that[of hs ps])
      fix b s assume "r = Inr (b, s)"
      with r have *: "hl_block_hash H (hc_last chain) = bh_prev_blockhash h" "hl_pow_ok H h (hl_target H (bh_bits h))"
        "bh_bits h = bh_bits (hc_last chain)" "b = bh_bits (hc_last chain)" "s = file_of H ps"
        "checkpoint_ok (hc_checkpoints chain) (int ?n) (hl_block_hash H h)"
        by (auto split: if_splits)
      have "link_ok H (hc_checkpoints chain) ((hs @ ps) @ [h]) ?n"
        unfolding link_ok_snoc[OF ne] last[symmetric] using * False by simp
      from new[OF this] * show "b = bh_bits h \<and> s = file_of H ps \<and> valid_chain H (hc_checkpoints chain) g (hs @ ps @ [h])" by simp
    qed (use a d in simp_all)
  next
    case True
    then have m: "int ?n mod DIFFCHANGE_INTERVAL = 0" unfolding interval_mod by simp
    have big: "2016 \<le> ?n" using dvd_imp_le[OF _ n(2)] True by (simp only: mod_eq_0_iff_dvd)
    have fl: "flush_headers chain (file_of H ps) d = (Inr [], d(hc_path chain \<mapsto> file_of H (hs @ ps)))"
      using a ok wfs by (auto simp: flush_headers_def ahead_def file_of_empty)
    have get: "chain_get H chain (wrap_u32 (int ?n - DIFFCHANGE_INTERVAL)) (d(hc_path chain \<mapsto> file_of H (hs @ ps))) =
        Inr ((hs @ ps) ! (?n - 2016))"
    proof -
      have "wrap_u32 (int ?n - DIFFCHANGE_INTERVAL) = int (?n - 2016)"
        using big small by (simp add: wrap_u32_def DIFFCHANGE_INTERVAL_def of_nat_diff)
      moreover have "chain_get H chain (int (?n - 2016)) (d(hc_path chain \<mapsto> file_of H (hs @ ps))) = Inr ((hs @ ps) ! (?n - 2016))"
        by (subst chain_get_file[OF ok, of _ _ "hs @ ps"]) (use big n(2) wfs in auto)
      ultimately show ?thesis by simp
    qed
    have a': "ahead H g chain (d(hc_path chain \<mapsto> file_of H (hs @ ps))) (hs @ ps) []" using a by (simp add: ahead_def)
    let ?t = "hl_compact H (calc_difficulty_retarget H ((hs @ ps) ! (?n - 2016)) (hc_last chain))"
    from c n m fl get have d: "d' = d \<or> d' = d(hc_path chain \<mapsto> file_of H (hs @ ps))"
      and r: "\<And>b s. r = Inr (b, s) \<Longrightarrow> hl_block_hash H (hc_last chain) = bh_prev_blockhash h \<and>
          hl_pow_ok H h (hl_target H (bh_bits h)) \<and> bh_bits h = ?t \<and> b = bh_bits h \<and> s = [] \<and>
          d' = d(hc_path chain \<mapsto> file_of H (hs @ ps)) \<and>
          checkpoint_ok (hc_checkpoints chain) (int ?n) (hl_block_hash H h)"
      by (auto simp: check_header_def checkpoint_case Let_def split: if_splits)
    have link: "link_ok H (hc_checkpoints chain) ((hs @ ps) @ [h]) ?n" if "r = Inr (b, s)" for b s
      unfolding link_ok_snoc[OF ne] last[symmetric] using r[OF that] True by auto
    show thesis
    proof (cases "d' = d(hc_path chain \<mapsto> file_of H (hs @ ps))")
      case True
      show thesis
        by (rule that[of "hs @ ps" "[]"]) (use a' True r new[OF link] in auto)
    next
      case False
      then have "d' = d" using d by blast
      show thesis
        by (rule that[of hs ps]) (use \<open>d' = d\<close> a False r in auto)
    qed
  qed
qed

text \<open>Headers are accepted one after the other; an error leaves those before it accepted.\<close>

lemma push_headers_spec:
  assumes ok: "hdr_ok H"
  shows "push_headers H new chain (bh_bits (hc_last chain)) (file_of H ps) d = (r, chain', d') \<Longrightarrow> ahead H g chain d hs ps \<Longrightarrow>
    length (hs @ ps @ new) \<le> 2 ^ 32 \<Longrightarrow> headers_wf new \<Longrightarrow>
    \<exists>hs' ps' k. hs' @ ps' = hs @ ps @ take k new \<and> ahead H g chain' d' hs' ps' \<and> hc_path chain' = hc_path chain \<and>
      hc_checkpoints chain' = hc_checkpoints chain \<and> (\<forall>p. p \<noteq> hc_path chain \<longrightarrow> d' p = d p) \<and>
      (\<forall>s. r = Inr s \<longrightarrow> k = length new \<and> s = file_of H ps')"
proof (induction new arbitrary: chain ps d hs)
  case Nil
  then show ?case by (intro exI[of _ hs] exI[of _ ps] exI[of _ 0]) auto
next
  case (Cons h new)
  obtain r1 d1 where c: "check_header H h chain (bh_bits (hc_last chain)) (file_of H ps) d = (r1, d1)" by fastforce
  have small: "length (hs @ ps) < 2 ^ 32" using Cons.prems(3) by simp
  have wf: "hdr_wf h" "headers_wf new" using Cons.prems(4) by simp_all
  from check_header_spec[OF ok c Cons.prems(2) small wf(1)] obtain hs1 ps1 where
    eq: "hs1 @ ps1 = hs @ ps" and a1: "ahead H g chain d1 hs1 ps1" and fr: "\<forall>p. p \<noteq> hc_path chain \<longrightarrow> d1 p = d p"
    and ok1: "\<And>b s. r1 = Inr (b, s) \<Longrightarrow> b = bh_bits h \<and> s = file_of H ps1 \<and> valid_chain H (hc_checkpoints chain) g (hs @ ps @ [h])"
    by blast
  show ?case
  proof (cases r1)
    case (Inl e)
    then have "r = Inl e" "chain' = chain" "d' = d1" using Cons.prems(1) c by auto
    then show ?thesis using eq a1 fr by (intro exI[of _ hs1] exI[of _ ps1] exI[of _ 0]) auto
  next
    case (Inr bs)
    then obtain b s where bs: "r1 = Inr (b, s)" by (cases bs) auto
    let ?chain = "chain\<lparr>hc_last := h, hc_height := wrap_u32 (hc_height chain + 1)\<rparr>"
    have p: "push_headers H new ?chain (bh_bits (hc_last ?chain)) (file_of H (ps1 @ [h])) d1 = (r, chain', d')"
      using Cons.prems(1) c bs ok1[OF bs] by simp
    have a: "ahead H g ?chain d1 hs1 (ps1 @ [h])"
    proof -
      have "hc_height chain + 1 = int (length (hs @ ps))" using Cons.prems(2) by (simp add: ahead_def)
      then have "wrap_u32 (hc_height chain + 1) = int (length (hs1 @ ps1))" using small by (simp add: eq wrap_u32_def)
      moreover have "valid_chain H (hc_checkpoints chain) g (hs1 @ ps1 @ [h])" using ok1[OF bs] eq by (metis append.assoc)
      ultimately show ?thesis using a1 by (simp add: ahead_def)
    qed
    have eq2: "hs1 @ ps1 @ xs = hs @ ps @ xs" for xs using eq by (metis append.assoc)
    have "length (hs1 @ (ps1 @ [h]) @ new) \<le> 2 ^ 32"
      using Cons.prems(3) arg_cong[OF eq2[of "h # new"], of length] by simp
    from Cons.IH[OF p a this wf(2)] obtain hs' ps' k where
      "hs' @ ps' = hs1 @ (ps1 @ [h]) @ take k new" "ahead H g chain' d' hs' ps'" "hc_path chain' = hc_path chain"
      "hc_checkpoints chain' = hc_checkpoints chain" "\<forall>p. p \<noteq> hc_path chain \<longrightarrow> d' p = d1 p"
      "\<forall>s. r = Inr s \<longrightarrow> k = length new \<and> s = file_of H ps'" by auto
    then show ?thesis using fr eq2[of "h # take k new"]
      by (intro exI[of _ hs'] exI[of _ ps'] exI[of _ "Suc k"]) auto
  qed
qed

theorem push_spec:
  assumes ok: "hdr_ok H" and p: "push H new chain d = (r, chain', d')" and a: "ahead H g chain d hs []"
    and small: "length hs + length new \<le> 2 ^ 32" and wf: "headers_wf new"
  shows "\<exists>hs' ps' k. hs' @ ps' = hs @ take k new \<and> ahead H g chain' d' hs' ps' \<and> hc_path chain' = hc_path chain \<and>
      hc_checkpoints chain' = hc_checkpoints chain \<and> (\<forall>p. p \<noteq> hc_path chain \<longrightarrow> d' p = d p) \<and>
      (r = Inr () \<longrightarrow> k = length new \<and> ps' = [])"
proof -
  obtain r1 chain1 d1 where p1: "push_headers H new chain (bh_bits (hc_last chain)) [] d = (r1, chain1, d1)"
    by (cases "push_headers H new chain (bh_bits (hc_last chain)) [] d") auto
  from push_headers_spec[OF ok p1[folded file_of_Nil[of H]] a _ wf] small obtain hs' ps' k where
    s: "hs' @ ps' = hs @ take k new" "ahead H g chain1 d1 hs' ps'" "hc_path chain1 = hc_path chain"
      "hc_checkpoints chain1 = hc_checkpoints chain" "\<forall>p. p \<noteq> hc_path chain \<longrightarrow> d1 p = d p"
      "\<forall>s. r1 = Inr s \<longrightarrow> k = length new \<and> s = file_of H ps'" by auto
  show ?thesis
  proof (cases r1)
    case (Inl e)
    then have "r = Inl e" "chain' = chain1" "d' = d1" using p p1 by (auto simp: push_def)
    then show ?thesis using s by blast
  next
    case (Inr x)
    then have x: "x = file_of H ps'" "k = length new" using s(6) by auto
    have f: "flush_headers chain1 (file_of H ps') d1 = (Inr [], d1(hc_path chain1 \<mapsto> file_of H (hs' @ ps')))"
      using s(2) ok valid_chain_wf[of H "hc_checkpoints chain1" g "hs' @ ps'"]
      by (auto simp: flush_headers_def ahead_def file_of_empty)
    have "r = Inr ()" "chain' = chain1" "d' = d1(hc_path chain1 \<mapsto> file_of H (hs' @ ps'))"
      using p p1 Inr x f by (auto simp: push_def)
    moreover have "ahead H g chain1 (d1(hc_path chain1 \<mapsto> file_of H (hs' @ ps'))) (hs' @ ps') []"
      using s(2) by (simp add: ahead_def)
    ultimately show ?thesis using s x by (intro exI[of _ "hs' @ ps'"] exI[of _ "[]"] exI[of _ k]) auto
  qed
qed

section \<open>Opening the chain and removing headers\<close>

text \<open>The file of a network is absent or a chain from the genesis block.\<close>

definition headers_file_ok :: "hdr_lib \<Rightarrow> BitcoinNetwork \<Rightarrow> string \<Rightarrow> disk \<Rightarrow> bool" where
  "headers_file_ok H net data_root d \<longleftrightarrow>
     d (headers_chain_path data_root net) = None \<or>
     (\<exists>hs. d (headers_chain_path data_root net) = Some (file_of H hs) \<and> valid_chain H (get_checkpoints H net) (hl_genesis H net) hs)"

lemma ahead_file_ok:
  assumes "ahead H (hl_genesis H net) chain d hs ps" and "hc_path chain = headers_chain_path data_root net"
    and "hc_checkpoints chain = get_checkpoints H net"
  shows "headers_file_ok H net data_root d"
  using assms valid_chain_prefix[of H "hc_checkpoints chain" "hl_genesis H net" hs ps]
  by (auto simp: headers_file_ok_def ahead_def)

lemma new_headers_chain_spec:
  assumes ok: "hdr_ok H" and n: "new_headers_chain H (headers_chain_path data_root net) net d = (r, d')"
    and f: "headers_file_ok H net data_root d"
    and small: "\<forall>content. d (headers_chain_path data_root net) = Some content \<longrightarrow> length content < 2 ^ 32"
  obtains chain hs where "r = Inr chain" "ahead H (hl_genesis H net) chain d' hs []"
    "hc_path chain = headers_chain_path data_root net" "hc_checkpoints chain = get_checkpoints H net"
    "\<forall>p. p \<noteq> headers_chain_path data_root net \<longrightarrow> d' p = d p" "80 * length hs < 2 ^ 32"
    "d (headers_chain_path data_root net) = None \<and> hs = [hl_genesis H net] \<or> d' = d \<and> d (headers_chain_path data_root net) = Some (file_of H hs)"
proof (cases "d (headers_chain_path data_root net)")
  case None
  let ?g = "hl_genesis H net" and ?path = "headers_chain_path data_root net"
  have r: "r = Inr \<lparr>hc_path = ?path, hc_height = 0, hc_last = ?g, hc_checkpoints = get_checkpoints H net\<rparr>"
    "d' = d(?path \<mapsto> hl_ser H ?g)" using n None by (auto simp: new_headers_chain_def Let_def)
  show thesis
    by (rule that[OF r(1), of "[?g]"]) (use None r(2) ok in \<open>simp_all add: ahead_def valid_chain_def hdr_ok_def\<close>)
next
  case (Some content)
  let ?path = "headers_chain_path data_root net"
  from f Some obtain hs where c: "content = file_of H hs" and v: "valid_chain H (get_checkpoints H net) (hl_genesis H net) hs"
    by (auto simp: headers_file_ok_def)
  have wf: "headers_wf hs" by (rule valid_chain_wf[OF v])
  have l: "length content = 80 * length hs" "hs \<noteq> []" using v by (auto simp: c length_file_of[OF ok wf] valid_chain_def)
  have b: "80 * length hs < 2 ^ 32" using small Some l by auto
  have "int (80 * length hs) - 80 = int (length hs - 1) * 80" using l(2) by (cases hs) auto
  then have rd: "read_header H (int (length content) - 80) content = Inr (last hs)"
    unfolding l(1) using read_header_nat[OF ok wf, of "length hs - 1"] l(2) by (metis c diff_less last_conv_nth length_greater_0_conv less_one)
  have w: "wrap_u32 (wrap_u32 (int (length content)) div 80 - 1) = int (length hs) - 1"
    using b l(2) by (cases hs) (simp_all add: l(1) wrap_u32_def)
  have r: "r = Inr \<lparr>hc_path = ?path, hc_height = int (length hs) - 1, hc_last = last hs, hc_checkpoints = get_checkpoints H net\<rparr>" "d' = d"
    using n Some rd w l by (auto simp: new_headers_chain_def Let_def split: if_splits)
  show thesis
    by (rule that[OF r(1), of hs]) (use Some r(2) v b l(2) in \<open>simp_all add: ahead_def c\<close>)
qed

lemma chain_remove_spec:
  assumes ok: "hdr_ok H" and rm: "chain_remove H n chain d = (r, chain', d')" and a: "ahead H g chain d hs ps"
    and n: "0 \<le> n" and small: "length (hs @ ps) < 2 ^ 32"
  shows "hc_path chain' = hc_path chain \<and> hc_checkpoints chain' = hc_checkpoints chain \<and>
    (\<forall>p. p \<noteq> hc_path chain \<longrightarrow> d' p = d p) \<and>
    (r = Inr () \<and> (\<exists>k. 0 < k \<and> k \<le> length hs \<and> int k = max 1 (int (length (hs @ ps)) - n) \<and> ahead H g chain' d' (take k hs) []) \<or>
     r = Inl G_StdIOError \<and> int (length (hs @ ps)) - n > int (length hs) \<and> chain' = chain \<and> d' = d)"
proof -
  define k where "k = nat (max 1 (int (length (hs @ ps)) - n))"
  have ne: "hs \<noteq> []" and height: "hc_height chain = int (length (hs @ ps)) - 1" and f: "d (hc_path chain) = Some (file_of H hs)"
    and v: "valid_chain H (hc_checkpoints chain) g hs" using a valid_chain_prefix by (auto simp: ahead_def)
  have wf: "headers_wf hs" by (rule valid_chain_wf[OF v])
  have pos: "1 \<le> length (hs @ ps)" using ne by (cases hs) auto
  then have nh: "hc_height chain - min n (hc_height chain) = int (k - 1)" and k: "0 < k"
    using n unfolding k_def height by auto
  have get: "chain_get H chain (int (k - 1)) d = (if k - 1 < length hs then Inr (hs ! (k - 1)) else Inl G_StdIOError)"
    by (rule chain_get_file[of H d chain hs, OF ok f wf])
  show ?thesis
  proof (cases "k \<le> length hs")
    case True
    have get': "chain_get H chain (int (k - 1)) d = Inr (hs ! (k - 1))" using get k True by auto
    have w: "nat (wrap_u32 (int (k - 1) + 1) * 80) = 80 * k" using k True small by (simp add: wrap_u32_def of_nat_diff)
    have r: "r = Inr ()" "chain' = chain\<lparr>hc_last := hs ! (k - 1), hc_height := int (k - 1)\<rparr>"
      "d' = d(hc_path chain \<mapsto> file_of H (take k hs))"
      using rm get' f unfolding chain_remove_def Let_def nh w by (auto simp: take_file_of[OF ok wf])
    have "length (take k hs) = k" using True by simp
    then have tk: "take k hs \<noteq> []" "length (take k hs) = k" "last (take k hs) = hs ! (k - 1)"
      using k last_conv_nth[of "take k hs"] by fastforce+
    have "ahead H g chain' d' (take k hs) []"
      unfolding ahead_def r using tk valid_chain_take[OF v k] k by (simp add: of_nat_diff)
    moreover have "int k = max 1 (int (length (hs @ ps)) - n)" using k by (simp add: k_def)
    ultimately show ?thesis using r True k by auto
  next
    case False
    then have get': "chain_get H chain (int (k - 1)) d = Inl G_StdIOError" using get by auto
    have "r = Inl G_StdIOError" "chain' = chain" "d' = d"
      using rm get' unfolding chain_remove_def Let_def nh by auto
    moreover have "int (length (hs @ ps)) - n > int (length hs)" using False ne unfolding k_def by (cases hs) auto
    ultimately show ?thesis by simp
  qed
qed

text \<open>
  When more than \<open>n\<close> headers that were accepted are not in the file, which happens when a
  header after them is not valid, removing \<open>n\<close> headers fails and the chain stays ahead of its
  file: the headers that are pushed next are written at the wrong place.
\<close>

lemma failed_push_out_of_sync:
  assumes ok: "hdr_ok H" and a: "ahead H g chain d hs ps" and n: "0 \<le> n" "n < int (length ps)" and small: "length (hs @ ps) < 2 ^ 32"
  shows "chain_remove H n chain d = (Inl G_StdIOError, chain, d)" and "hc_height chain \<noteq> int (length hs) - 1"
proof -
  obtain r chain' d' where rm: "chain_remove H n chain d = (r, chain', d')" by (cases "chain_remove H n chain d") auto
  from chain_remove_spec[OF ok rm a n(1) small] n(2) have "r = Inl G_StdIOError \<and> chain' = chain \<and> d' = d" by auto
  with rm show "chain_remove H n chain d = (Inl G_StdIOError, chain, d)" by simp
  show "hc_height chain \<noteq> int (length hs) - 1" using a n by (auto simp: ahead_def)
qed

section \<open>Verified Bitcoin transactions\<close>

lemma chain_path_not_cache: "headers_chain_path r net \<noteq> verified_cache_path L H r' n key"
  by (simp add: headers_chain_path_def verified_cache_path_def)

lemma flush_serializable_other: "p \<noteq> (path, name) \<Longrightarrow> flush_serializable S path cipher name b d p = d p"
  by (simp add: flush_serializable_def Let_def)

lemma cache_file_other:
  assumes "vc_filepath cache = verified_cache_path L H' r' n key"
  shows "cache_write H S t cache d (headers_chain_path r net) = d (headers_chain_path r net)"
    and "cache_clear H S cache d (headers_chain_path r net) = d (headers_chain_path r net)"
  using assms chain_path_not_cache[of r net L H' r' n key]
  by (auto simp: cache_write_def cache_clear_def flush_verified_def intro!: flush_serializable_other)

text \<open>The header that a proof was checked against is in the chain that the file holds.\<close>

definition included_at :: "hdr_lib \<Rightarrow> BitcoinNetwork \<Rightarrow> string \<Rightarrow> disk \<Rightarrow> bytes \<Rightarrow> int \<Rightarrow> bool" where
  "included_at H net data_root d txid height \<longleftrightarrow>
     (\<exists>hs merkle. d (headers_chain_path data_root net) = Some (file_of H hs) \<and> valid_chain H (get_checkpoints H net) (hl_genesis H net) hs \<and>
        0 \<le> height \<and> nat height < length hs \<and> bh_merkle_root (hs ! nat height) = compute_merkle_root H txid merkle)"

lemma verify_proof_included:
  assumes ok: "hdr_ok H" and p: "chain_verify_tx_proof H chain txid height merkle d = Inr ()"
    and a: "ahead H (hl_genesis H net) chain d hs []" and path: "hc_path chain = headers_chain_path data_root net"
      "hc_checkpoints chain = get_checkpoints H net" and h: "0 \<le> height"
  shows "included_at H net data_root d txid height"
proof -
  have f: "d (hc_path chain) = Some (file_of H hs)" using a by (simp add: ahead_def)
  have wf: "headers_wf hs" using a valid_chain_wf[of H "hc_checkpoints chain" "hl_genesis H net" hs] by (simp add: ahead_def)
  from chain_get_file[of H d chain hs "nat height", OF ok f wf] h p have "nat height < length hs"
    "bh_merkle_root (hs ! nat height) = compute_merkle_root H txid merkle"
    by (auto simp: chain_verify_tx_proof_def split: if_splits)
  then show ?thesis using a h f path unfolding included_at_def ahead_def by auto
qed

text \<open>The headers that a server sends are values of the type, and fewer than memory holds.\<close>

definition answers_ok :: "Electrum \<Rightarrow> bool" where
  "answers_ok client \<longleftrightarrow> (\<forall>s n hs. el_block_headers client s n = Inr hs \<longrightarrow> headers_wf hs \<and> length hs < 2 ^ 31)"

lemma spv_verify_bitcoin_spec:
  assumes ok: "hdr_ok H" and v: "spv_verify_bitcoin H S client input net txid cache d = (r, d')"
    and f: "headers_file_ok H net (sv_path input) d"
    and small: "\<forall>content. d (headers_chain_path (sv_path input) net) = Some content \<longrightarrow> length content < 2 ^ 32"
    and answers: "answers_ok client"
    and cache: "vc_filepath cache = verified_cache_path L H' r' n' key" and h: "0 \<le> sv_height input"
  shows "headers_file_ok H net (sv_path input) d'"
    and "r = Some (Inr Spv_Verified) \<longrightarrow> included_at H net (sv_path input) d' (txid_into_bitcoin txid) (sv_height input)"
proof -
  let ?path = "headers_chain_path (sv_path input) net" and ?g = "hl_genesis H net"
  obtain r0 d0 where n: "new_headers_chain H ?path net d = (r0, d0)" by fastforce
  from new_headers_chain_spec[OF ok n f small] obtain chain hs where
    r0: "r0 = Inr chain" and a: "ahead H ?g chain d0 hs []" and path: "hc_path chain = ?path"
    and cps: "hc_checkpoints chain = get_checkpoints H net" and hs: "80 * length hs < 2 ^ 32" by blast
  note inc = verify_proof_included[OF ok _ a path cps h]
  have f0: "headers_file_ok H net (sv_path input) d0" by (rule ahead_file_ok[OF a path cps])
  have same: "cache_write H S txid cache d0 ?path = d0 ?path" by (rule cache_file_other(1)[OF cache])
  have w: "headers_file_ok H net (sv_path input) (cache_write H S txid cache d0)"
    using f0 same unfolding headers_file_ok_def by simp
  have inc': "chain_verify_tx_proof H chain t (sv_height input) merkle d0 = Inr () \<Longrightarrow>
      included_at H net (sv_path input) (cache_write H S txid cache d0) t (sv_height input)" for t merkle
    using inc unfolding included_at_def same by blast
  note v' = v[unfolded spv_verify_bitcoin_def n r0 prod.case sum.case]
  have "headers_file_ok H net (sv_path input) d' \<and>
    (r = Some (Inr Spv_Verified) \<longrightarrow> included_at H net (sv_path input) d' (txid_into_bitcoin txid) (sv_height input))"
  proof (cases "sv_height input \<le> hc_height chain")
    case True
    show ?thesis
    proof (cases "el_get_merkle client (txid_into_bitcoin txid) (sv_height input)")
      case (Inl e)
      then show ?thesis using v'[unfolded if_P[OF True]] f0 by auto
    next
      case (Inr merkle)
      show ?thesis
      proof (cases "chain_verify_tx_proof H chain (txid_into_bitcoin txid) (sv_height input) merkle d0")
        case (Inl e)
        then show ?thesis using v'[unfolded if_P[OF True] Inr sum.case] f0 by auto
      next
        case ver: (Inr u)
        have "d' = cache_write H S txid cache d0"
          using v'[unfolded if_P[OF True]] Inr ver by (cases u) simp
        then show ?thesis using w inc' ver by simp
      qed
    qed
  next
    case False
    show ?thesis
    proof (cases "el_block_headers client (hc_height chain + 1) (min (case sv_headers_to_download input of None \<Rightarrow> 2016 | Some n \<Rightarrow> n) 2016)")
      case (Inl e)
      then show ?thesis using v'[unfolded if_not_P[OF False] Let_def Inl sum.case] f0 by auto
    next
      case (Inr new)
      obtain r1 chain1 d1 where p: "push H new chain d0 = (r1, chain1, d1)" by (cases "push H new chain d0") auto
      have wf: "headers_wf new" and "length new < 2 ^ 31" using answers Inr by (auto simp: answers_ok_def)
      then have len: "length hs + length new < 2 ^ 32" using hs by simp
      from push_spec[OF ok p a _ wf] len obtain hs1 ps1 k where eq: "hs1 @ ps1 = hs @ take k new" and a1: "ahead H ?g chain1 d1 hs1 ps1"
        and path1: "hc_path chain1 = ?path" "hc_checkpoints chain1 = get_checkpoints H net" using path cps by auto
      have f1: "headers_file_ok H net (sv_path input) d1" by (rule ahead_file_ok[OF a1 path1])
      have small1: "length (hs1 @ ps1) < 2 ^ 32" using len by (simp add: eq)
      obtain r2 chain2 d2 where rm: "chain_remove H 144 chain1 d1 = (r2, chain2, d2)" by (cases "chain_remove H 144 chain1 d1") auto
      from chain_remove_spec[OF ok rm a1 _ small1] have "headers_file_ok H net (sv_path input) d2"
        using f1 path1 ahead_file_ok[of H net chain2 d2 _ "[]" "sv_path input"] by auto
      then have f2: "headers_file_ok H net (sv_path input) d2" "headers_file_ok H net (sv_path input) (cache_clear H S cache d2)"
        using cache_file_other(2)[OF cache, of H S d2 "sv_path input" net] unfolding headers_file_ok_def by simp_all
      show ?thesis
        using v'[unfolded if_not_P[OF False] Let_def Inr sum.case p prod.case rm] f1 f2
        by (cases r1; cases r2) (auto split: GdkError.splits)
    qed
  qed
  then show "headers_file_ok H net (sv_path input) d'"
    and "r = Some (Inr Spv_Verified) \<longrightarrow> included_at H net (sv_path input) d' (txid_into_bitcoin txid) (sv_height input)" by blast+
qed

section \<open>Signed Liquid headers\<close>

text \<open>
  Signatures that are matched with keys in the order of the keys: each signature verifies under
  the key at its place.
\<close>

lemma count_verified_le: "count_verified ok sigs keys \<le> length sigs"
proof (induction sigs arbitrary: keys)
  case (Cons s sigs)
  show ?case
  proof (cases "dropWhile (\<lambda>k. \<not> ok s k) keys")
    case Nil
    show ?thesis unfolding count_verified.simps Nil using Cons.IH[of "[]"] by simp
  next
    case (Cons k rest)
    then show ?thesis using Cons.IH[of rest] by simp
  qed
qed simp

lemma count_verified_all:
  "count_verified ok sigs keys = length sigs \<Longrightarrow>
     \<exists>ns. length ns = length sigs \<and> sorted_wrt (<) ns \<and> (\<forall>i < length sigs. ns ! i < length keys \<and> ok (sigs ! i) (keys ! (ns ! i)))"
proof (induction sigs arbitrary: keys)
  case (Cons s sigs)
  define pre where "pre = takeWhile (\<lambda>k. \<not> ok s k) keys"
  show ?case
  proof (cases "dropWhile (\<lambda>k. \<not> ok s k) keys")
    case Nil
    have "count_verified ok sigs [] = Suc (length sigs)" using Cons.prems[unfolded count_verified.simps Nil] by simp
    then show ?thesis using count_verified_le[of ok sigs "[]"] by simp
  next
    case (Cons k rest)
    have keys: "keys = pre @ k # rest" using Cons unfolding pre_def by (metis takeWhile_dropWhile_id)
    have k: "ok s k" using Cons by (metis dropWhile_eq_Cons_conv)
    have "count_verified ok sigs rest = length sigs" using Cons.prems Cons by simp
    from Cons.IH[OF this] obtain ns where ns: "length ns = length sigs" "sorted_wrt (<) ns"
      "\<forall>i < length sigs. ns ! i < length rest \<and> ok (sigs ! i) (rest ! (ns ! i))" by blast
    let ?f = "\<lambda>n. Suc (length pre + n)"
    have "sorted_wrt (<) (length pre # map ?f ns)" using ns(2) by (simp add: sorted_wrt_map)
    moreover have "\<forall>i < length (s # sigs). (length pre # map ?f ns) ! i < length keys \<and>
        ok ((s # sigs) ! i) (keys ! ((length pre # map ?f ns) ! i))"
      using ns k by (auto simp: keys nth_Cons nth_append split: nat.splits)
    ultimately show ?thesis using ns(1) by (intro exI[of _ "length pre # map ?f ns"]) simp
  qed
qed simp

text \<open>
  The instructions of the challenge: a number of signatures, the keys, their number and the
  check.  This is what the parser of the library gives for the script \<open>CHALLENGE\<close>, which asks
  for 11 signatures of 15 keys.
\<close>

definition multisig_script :: "hdr_lib \<Rightarrow> bytes \<Rightarrow> nat \<Rightarrow> bytes list \<Rightarrow> bool" where
  "multisig_script H script m keys \<longleftrightarrow>
     (\<exists>op_m op_n. hl_instructions H script =
        Inr (Op op_m) # map (\<lambda>k. Inr (PushBytes k)) keys @ [Inr (Op op_n), Inr (Op OP_CHECKMULTISIG)] \<and>
      hl_push_num H op_m = Some (int m) \<and> hl_push_num H op_n = Some (int (length keys)) \<and>
      hl_push_num H OP_CHECKMULTISIG = None \<and> m < 256 \<and> length keys < 256)"

text \<open>The block hash is signed: enough signatures, each under a key of its own.\<close>

definition signed_by_quorum :: "hdr_lib \<Rightarrow> bytes \<Rightarrow> nat \<Rightarrow> bytes list \<Rightarrow> bool" where
  "signed_by_quorum H hash m keys \<longleftrightarrow>
     (\<exists>sigs ns. length sigs = m \<and> length ns = m \<and> sorted_wrt (<) ns \<and>
        (\<forall>i < m. ns ! i < length keys \<and> (\<exists>key. hl_pubkey H (keys ! (ns ! i)) = Some key \<and> hl_verify H hash (sigs ! i) key)))"

lemma gfold_append: "gfold f (xs @ ys) s = gtry (gfold f xs s) (gfold f ys)"
proof (induction xs arbitrary: s)
  case (Cons x xs)
  show ?case
  proof (cases "f x s")
    case (Some r)
    then show ?thesis by (cases r) (simp_all add: Cons.IH)
  qed simp
qed simp

lemma gfold_pushes:
  "gfold (process_instr H hash) (map (\<lambda>k. Inr (PushBytes k)) keys) stack = Some (Inr (stack @ keys))"
  by (induction keys arbitrary: stack) (simp_all add: process_instr_def)

lemma those_map_nth:
  "those (map f xs) = Some ys \<Longrightarrow> length ys = length xs \<and> (\<forall>i < length xs. f (xs ! i) = Some (ys ! i))"
proof (induction xs arbitrary: ys)
  case (Cons x xs)
  then obtain y zs where "f x = Some y" "those (map f xs) = Some zs" "ys = y # zs" by (auto split: option.splits)
  with Cons.IH[of zs] show ?case by (auto simp: nth_Cons split: nat.splits)
qed simp

lemma pop_count_snoc [simp]: "pop_count (xs @ [[c]]) = Some (Inr (of_char c, xs))"
  by (simp add: pop_count_def)

lemma pop_parsed_InrE:
  assumes "pop_parsed parse n stack = Some (Inr (ys, rest))"
  shows "length ys = n \<and> (\<exists>xs. stack = rest @ xs \<and> length xs = n \<and> those (map parse xs) = Some ys)"
proof -
  from assms have n: "\<not> length stack < n" and t: "those (map parse (drop (length stack - n) stack)) = Some ys"
    and r: "rest = take (length stack - n) stack" by (auto simp: pop_parsed_def split: if_splits option.splits)
  from those_map_nth[OF t] n have "length ys = n" by simp
  then show ?thesis using n t r by (intro conjI exI[of _ "drop (length stack - n) stack"]) auto
qed

lemma process_multisig:
  assumes "process_op H OP_CHECKMULTISIG hash (((st @ [[char_of m]]) @ keys) @ [[char_of (length keys)]]) = Some (Inr stack)"
    and num: "hl_push_num H OP_CHECKMULTISIG = None" and small: "m < 256" "length keys < 256"
  obtains pubkeys sigs where "those (map (hl_pubkey H) keys) = Some pubkeys" "length sigs = m"
    "count_verified (hl_verify H hash) sigs pubkeys = m"
proof -
  from assms(1) num small(2) obtain pubkeys rest where
    p: "pop_parsed (hl_pubkey H) (length keys) ((st @ [[char_of m]]) @ keys) = Some (Inr (pubkeys, rest))"
    and c: "gtry (pop_count rest) (\<lambda>(required_sig, stack).
      gtry (pop_parsed (hl_signature H) required_sig stack) (\<lambda>(signatures, stack).
        if count_verified (hl_verify H hash) signatures pubkeys = required_sig \<and> stack \<noteq> []
        then Some (Inr (butlast stack)) else Some (Inl G_InvalidHeaders))) = Some (Inr stack)"
    by (auto simp: process_op_def simp del: append_assoc elim!: gtry_InrE)
  from pop_parsed_InrE[OF p] obtain xs where "(st @ [[char_of m]]) @ keys = rest @ xs" "length xs = length keys"
    "those (map (hl_pubkey H) xs) = Some pubkeys" by blast
  then have rest: "rest = st @ [[char_of m]]" and t: "those (map (hl_pubkey H) keys) = Some pubkeys"
    unfolding append_eq_append_conv2 by (auto simp: append_eq_append_conv append_eq_Cons_conv)
  from c small(1) obtain sigs stack' where s: "pop_parsed (hl_signature H) m st = Some (Inr (sigs, stack'))"
    and "count_verified (hl_verify H hash) sigs pubkeys = m"
    by (auto simp: rest split: if_splits elim!: gtry_InrE)
  with t pop_parsed_InrE[OF s] show thesis by (intro that[of pubkeys sigs]) auto
qed

lemma verify_header_quorum:
  assumes v: "verify_header H v header = Some (Inr ())" and net: "hl_elm_hash H header \<noteq> vf_genesis v" "\<not> vf_is_regtest v"
    and script: "multisig_script H (vf_challenge v) m keys"
  shows "signed_by_quorum H (hl_elm_hash H header) m keys"
proof -
  let ?hash = "hl_elm_hash H header"
  from script obtain op_m op_n where ins: "hl_instructions H (vf_challenge v) =
        Inr (Op op_m) # map (\<lambda>k. Inr (PushBytes k)) keys @ [Inr (Op op_n), Inr (Op OP_CHECKMULTISIG)]"
    and num: "hl_push_num H op_m = Some (int m)" "hl_push_num H op_n = Some (int (length keys))" "hl_push_num H OP_CHECKMULTISIG = None"
    and small: "m < 256" "length keys < 256" by (auto simp: multisig_script_def)
  from v net obtain solution stack where
    "gfold (process_instr H ?hash) (hl_instructions H solution @ hl_instructions H (vf_challenge v)) [] = Some (Inr stack)"
    by (auto simp: verify_header_def Let_def split: BlockExtData.splits if_splits elim!: gtry_InrE)
  then obtain st where "gfold (process_instr H ?hash) (hl_instructions H (vf_challenge v)) st = Some (Inr stack)"
    by (auto simp: gfold_append elim!: gtry_InrE)
  then have "process_op H OP_CHECKMULTISIG ?hash (((st @ [[char_of m]]) @ keys) @ [[char_of (length keys)]]) = Some (Inr stack)"
    using small by (auto simp: ins gfold_append gfold_pushes process_instr_def process_op_def num elim!: gtry_InrE)
  from process_multisig[OF this num(3) small] obtain pubkeys sigs where
    p: "those (map (hl_pubkey H) keys) = Some pubkeys" and n: "length sigs = m"
    and c: "count_verified (hl_verify H ?hash) sigs pubkeys = m" by blast
  note p = those_map_nth[OF p]
  from count_verified_all[of "hl_verify H ?hash" sigs pubkeys] c n obtain ns where
    "length ns = m" "sorted_wrt (<) ns" "\<forall>i < m. ns ! i < length pubkeys \<and> hl_verify H ?hash (sigs ! i) (pubkeys ! (ns ! i))" by auto
  with n p show ?thesis unfolding signed_by_quorum_def by (intro exI[of _ sigs] exI[of _ ns]) auto
qed

end
