(* ===== verification/Gdk_Verified.thy ===== *)
theory Gdk_Verified
  imports Gdk_Sync_Props Gdk_Headers_Props
begin

text \<open>
  The transactions that \<^verbatim>\<open>spv_verify_tx\<close> remembers as verified: as long as a data directory is
  used with one key, each of them is included in a block of the chain of headers that the same
  directory holds.  The file of headers only grows, except when a server sends a header that does
  not follow, and then what was remembered is cleared.
\<close>

section \<open>Files that grow\<close>

definition grows :: "'p \<Rightarrow> ('p \<Rightarrow> 'b list option) \<Rightarrow> ('p \<Rightarrow> 'b list option) \<Rightarrow> bool" where
  "grows p d d' \<longleftrightarrow> (\<forall>c. d p = Some c \<longrightarrow> (\<exists>x. d' p = Some (c @ x)))"

lemma grows_refl [simp]: "grows p d d"
  by (simp add: grows_def)

lemma grows_same: "d' p = d p \<Longrightarrow> grows p d d'"
  by (simp add: grows_def)

lemma grows_trans: "grows p d d' \<Longrightarrow> grows p d' d'' \<Longrightarrow> grows p d d''"
  by (fastforce simp: grows_def)

lemma flush_headers_grows: "flush_headers chain s d = (r, d') \<Longrightarrow> grows (hc_path chain) d d'"
  by (auto simp: flush_headers_def grows_def split: if_splits option.splits)

lemma check_header_grows: "check_header H h chain bits s d = (r, d') \<Longrightarrow> grows (hc_path chain) d d'"
  by (auto simp: check_header_def Let_def flush_headers_grows split: if_splits prod.splits sum.splits)

lemma push_headers_grows:
  "push_headers H new chain bits s d = (r, chain', d') \<Longrightarrow> grows (hc_path chain) d d' \<and> hc_path chain' = hc_path chain"
proof (induction new arbitrary: chain bits s d)
  case (Cons h new)
  obtain r1 d1 where c: "check_header H h chain bits s d = (r1, d1)" by fastforce
  note g = check_header_grows[OF c]
  show ?case
  proof (cases r1)
    case (Inl e)
    with Cons.prems c g show ?thesis by auto
  next
    case (Inr bs)
    with Cons.prems c have "push_headers H new (chain\<lparr>hc_last := h, hc_height := wrap_u32 (hc_height chain + 1)\<rparr>)
        (fst bs) (snd bs @ hl_ser H h) d1 = (r, chain', d')" by (cases bs) simp
    from Cons.IH[OF this] g show ?thesis by (auto intro: grows_trans)
  qed
qed auto

lemma push_grows: "push H new chain d = (r, chain', d') \<Longrightarrow> grows (hc_path chain) d d'"
proof -
  assume p: "push H new chain d = (r, chain', d')"
  obtain r1 chain1 d1 where p1: "push_headers H new chain (bh_bits (hc_last chain)) [] d = (r1, chain1, d1)"
    by (cases "push_headers H new chain (bh_bits (hc_last chain)) [] d") auto
  note g = push_headers_grows[OF p1]
  show ?thesis
  proof (cases r1)
    case (Inl e)
    with p p1 g show ?thesis by (auto simp: push_def)
  next
    case (Inr s)
    obtain r2 d2 where f: "flush_headers chain1 s d1 = (r2, d2)" by fastforce
    have "d' = d2" using p p1 Inr f by (auto simp: push_def split: sum.splits)
    with flush_headers_grows[OF f] g show ?thesis by (auto intro: grows_trans)
  qed
qed

lemma flush_headers_frame: "flush_headers chain s d = (r, d') \<Longrightarrow> p \<noteq> hc_path chain \<Longrightarrow> d' p = d p"
  by (auto simp: flush_headers_def split: if_splits option.splits)

lemma check_header_frame: "check_header H h chain bits s d = (r, d') \<Longrightarrow> p \<noteq> hc_path chain \<Longrightarrow> d' p = d p"
  by (auto simp: check_header_def Let_def flush_headers_frame split: if_splits prod.splits sum.splits)

lemma push_headers_frame:
  "push_headers H new chain bits s d = (r, chain', d') \<Longrightarrow> p \<noteq> hc_path chain \<Longrightarrow> d' p = d p"
proof (induction new arbitrary: chain bits s d)
  case (Cons h new)
  obtain r1 d1 where c: "check_header H h chain bits s d = (r1, d1)" by fastforce
  note f = check_header_frame[OF c Cons.prems(2)]
  show ?case
  proof (cases r1)
    case (Inl e)
    with Cons.prems c f show ?thesis by auto
  next
    case (Inr bs)
    with Cons.prems c have "push_headers H new (chain\<lparr>hc_last := h, hc_height := wrap_u32 (hc_height chain + 1)\<rparr>)
        (fst bs) (snd bs @ hl_ser H h) d1 = (r, chain', d')" by (cases bs) simp
    from Cons.IH[OF this] f Cons.prems(2) show ?thesis by simp
  qed
qed auto

lemma push_frame:
  assumes p: "push H new chain d = (r, chain', d')" and q: "q \<noteq> hc_path chain"
  shows "d' q = d q"
proof -
  obtain r1 chain1 d1 where p1: "push_headers H new chain (bh_bits (hc_last chain)) [] d = (r1, chain1, d1)"
    by (cases "push_headers H new chain (bh_bits (hc_last chain)) [] d") auto
  have f: "d1 q = d q" "hc_path chain1 = hc_path chain" using push_headers_frame[OF p1 q] push_headers_grows[OF p1] by auto
  obtain r2 d2 where fl: "flush_headers chain1 (case r1 of Inr s \<Rightarrow> s | Inl _ \<Rightarrow> []) d1 = (r2, d2)" by fastforce
  have "d2 q = d1 q" using flush_headers_frame[OF fl] f q by simp
  moreover have "d' = d1 \<or> d' = d2" using p p1 fl by (auto simp: push_def split: sum.splits)
  ultimately show ?thesis using f by auto
qed

text \<open>What is included stays included in a chain that has grown.\<close>

lemma included_grows:
  assumes ok: "hdr_ok H" and inc: "included_at H net dir d t h" and g: "grows (headers_chain_path dir net) d d'"
    and f: "headers_file_ok H net dir d'"
  shows "included_at H net dir d' t h"
proof -
  let ?p = "headers_chain_path dir net"
  from inc obtain hs merkle where d: "d ?p = Some (file_of H hs)" and v: "valid_chain H (get_checkpoints H net) (hl_genesis H net) hs"
    and h: "0 \<le> h" "nat h < length hs" and m: "bh_merkle_root (hs ! nat h) = compute_merkle_root H t merkle"
    by (auto simp: included_at_def)
  from g d obtain x where x: "d' ?p = Some (file_of H hs @ x)" by (auto simp: grows_def)
  with f obtain hs' where f': "file_of H hs' = file_of H hs @ x" and v': "valid_chain H (get_checkpoints H net) (hl_genesis H net) hs'"
    by (auto simp: headers_file_ok_def)
  note wf = valid_chain_wf[OF v] and wf' = valid_chain_wf[OF v']
  have "length (file_of H hs) \<le> length (file_of H hs')" using f' by simp
  then have len: "length hs \<le> length hs'" by (simp add: length_file_of ok wf wf')
  have "file_of H (take (length hs) hs') = file_of H hs"
    using take_file_of[OF ok wf', of "length hs"] by (simp add: f' length_file_of[OF ok wf])
  then have "read_header H (h * 80) (file_of H (take (length hs) hs')) = read_header H (h * 80) (file_of H hs)" by simp
  then have "hs' ! nat h = hs ! nat h"
    using read_header_file[OF ok wf h(1)] read_header_file[OF ok headers_wf_take[OF wf'] h(1), of "length hs"] h(2) len by simp
  with x f' v' h m len show ?thesis unfolding included_at_def by (intro exI[of _ hs'] exI[of _ merkle]) simp
qed

section \<open>The remembered transactions\<close>

text \<open>What a new process reads as verified.\<close>

definition remembered :: "gdk_lib \<Rightarrow> hdr_lib \<Rightarrow> store_lib \<Rightarrow> string \<Rightarrow> NetworkId \<Rightarrow> string \<Rightarrow> disk \<Rightarrow> BETxid set" where
  "remembered L H S dir net key d = set (vc_set (new_verified_cache L H S dir net key d))"

definition txids_ok :: "hdr_lib \<Rightarrow> bool" where
  "txids_ok H \<longleftrightarrow> (\<forall>ts. hl_txids_des H (hl_txids_ser H ts) = Some ts)"

lemma remembered_same:
  "d' (verified_cache_path L H dir net key) = d (verified_cache_path L H dir net key) \<Longrightarrow>
     remembered L H S dir net key d' = remembered L H S dir net key d"
  by (simp add: remembered_def new_verified_cache_def read_and_decrypt_def Let_def)

lemma read_flush_verified:
  assumes "cipher_ok S" and "txids_ok H"
  shows "read_and_decrypt H S (vc_filepath c) (vc_cipher c) (flush_verified H S c d) = Inr (vc_set c)"
  using assms by (simp add: read_and_decrypt_def flush_verified_def flush_serializable_def cipher_ok_def txids_ok_def Let_def)

lemma remembered_flush:
  assumes ok: "cipher_ok S" "txids_ok H" and c: "vc_filepath c = verified_cache_path L H dir net key" "vc_cipher c = hl_sha256 H key"
  shows "remembered L H S dir net key (flush_verified H S c d) = set (vc_set c)"
  using read_flush_verified[OF ok, of c d] unfolding c by (simp add: remembered_def new_verified_cache_def Let_def)

lemma remembered_cases:
  assumes ok: "cipher_ok S" "txids_ok H" and c: "c = new_verified_cache L H S dir net key d0"
  shows "remembered L H S dir net key (cache_write H S t c d) = insert t (remembered L H S dir net key d0)"
    and "remembered L H S dir net key (cache_clear H S c d) = {}"
proof -
  have p: "vc_filepath c = verified_cache_path L H dir net key" "vc_cipher c = hl_sha256 H key"
    by (simp_all add: c new_verified_cache_def Let_def)
  show "remembered L H S dir net key (cache_write H S t c d) = insert t (remembered L H S dir net key d0)"
    unfolding cache_write_def by (subst remembered_flush[OF ok]) (simp_all add: p, simp add: c remembered_def)
  show "remembered L H S dir net key (cache_clear H S c d) = {}"
    unfolding cache_clear_def by (subst remembered_flush[OF ok]) (simp_all add: p)
qed

section \<open>The invariant\<close>

definition verified_ok :: "gdk_lib \<Rightarrow> hdr_lib \<Rightarrow> store_lib \<Rightarrow> BitcoinNetwork \<Rightarrow> string \<Rightarrow> string \<Rightarrow> disk \<Rightarrow> bool" where
  "verified_ok L H S net dir key d \<longleftrightarrow> headers_file_ok H net dir d \<and>
     (\<forall>t \<in> remembered L H S dir (Net_Bitcoin net) key d. \<exists>h. included_at H net dir d (txid_into_bitcoin t) h)"

text \<open>What one run does to the two files.\<close>

lemma new_headers_chain_frame:
  "new_headers_chain H path net d = (r, d') \<Longrightarrow> grows path d d' \<and> (\<forall>p. p \<noteq> path \<longrightarrow> d' p = d p)"
  by (auto simp: new_headers_chain_def Let_def grows_def split: option.splits if_splits sum.splits)

lemma chain_remove_frame:
  assumes "chain_remove H n chain d = (r, chain', d')"
  shows "(\<forall>p. p \<noteq> hc_path chain \<longrightarrow> d' p = d p) \<and> (\<forall>e. r = Inl e \<longrightarrow> d' = d)"
  using assms by (auto simp: chain_remove_def Let_def split: sum.splits)

text \<open>
  One run: the files keep what they hold, with more headers and no new transaction; or the
  transaction that was asked for is added, and its proof was checked; or the transactions are
  forgotten.
\<close>

lemma spv_verify_bitcoin_frame:
  assumes v: "spv_verify_bitcoin H S client input net txid cache d = (r, d')"
    and cache: "vc_filepath cache = verified_cache_path L H' r' n' key"
  obtains "r \<noteq> Some (Inr Spv_Verified)" "grows (headers_chain_path (sv_path input) net) d d'"
      "d' (vc_filepath cache) = d (vc_filepath cache)"
  | d0 where "r = Some (Inr Spv_Verified)" "d' = cache_write H S txid cache d0" "grows (headers_chain_path (sv_path input) net) d d'"
      "d0 (vc_filepath cache) = d (vc_filepath cache)"
  | d0 where "r \<noteq> Some (Inr Spv_Verified)" "d' = cache_clear H S cache d0"
proof -
  let ?p = "headers_chain_path (sv_path input) net"
  have neq: "vc_filepath cache \<noteq> ?p" using chain_path_not_cache cache by metis
  obtain r0 d0 where n: "new_headers_chain H ?p net d = (r0, d0)" by fastforce
  have fr: "grows ?p d d0" "d0 (vc_filepath cache) = d (vc_filepath cache)" using new_headers_chain_frame[OF n] neq by blast+
  note v' = v[unfolded spv_verify_bitcoin_def n prod.case]
  show thesis
  proof (cases r0)
    case (Inl e)
    then show thesis using v' fr neq by (intro that(1)) auto
  next
    case (Inr chain)
    have path: "hc_path chain = ?p"
      using n Inr by (auto simp: new_headers_chain_def Let_def split: option.splits if_splits sum.splits)
    note v1 = v'[unfolded Inr sum.case]
    show thesis
    proof (cases "sv_height input \<le> hc_height chain")
      case True
      note v2 = v1[unfolded if_P[OF True]]
      from v2 consider "d' = d0" "r \<noteq> Some (Inr Spv_Verified)" | "r = Some (Inr Spv_Verified)" "d' = cache_write H S txid cache d0"
        by (auto split: sum.splits)
      then show thesis
      proof cases
        case 1
        then show thesis using fr neq by (intro that(1)) auto
      next
        case 2
        have "grows ?p d d'" using fr cache_file_other(1)[OF cache, of H S txid d0 "sv_path input" net] 2 by (auto simp: grows_def)
        with 2 fr show thesis by (intro that(2)[of d0]) auto
      qed
    next
      case False
      note v2 = v1[unfolded if_not_P[OF False] Let_def]
      show thesis
      proof (cases "el_block_headers client (hc_height chain + 1) (min (case sv_headers_to_download input of None \<Rightarrow> 2016 | Some n \<Rightarrow> n) 2016)")
        case (Inl e)
        then show thesis using v2 fr neq by (intro that(1)) auto
      next
        case hs: (Inr new)
        obtain r1 chain1 d1 where p: "push H new chain d0 = (r1, chain1, d1)" by (cases "push H new chain d0") auto
        obtain r2 chain2 d2 where rm: "chain_remove H 144 chain1 d1 = (r2, chain2, d2)" by (cases "chain_remove H 144 chain1 d1") auto
        have g: "grows ?p d d1" using push_grows[OF p] path fr by (auto intro: grows_trans)
        have same: "d1 (vc_filepath cache) = d (vc_filepath cache)" using push_frame[OF p] path fr neq by simp
        note v3 = v2[unfolded hs sum.case p prod.case rm]
        from v3 consider "d' = d1" "r \<noteq> Some (Inr Spv_Verified)" | e where "r2 = Inl e" "d' = d2" "r \<noteq> Some (Inr Spv_Verified)"
          | "d' = cache_clear H S cache d2" "r \<noteq> Some (Inr Spv_Verified)"
          by (auto split: sum.splits GdkError.splits)
        then show thesis
        proof cases
          case 2
          then have "d' = d1" using chain_remove_frame[OF rm] by blast
          then show thesis using 2 g same by (intro that(1)) auto
        qed (use g same that in blast)+
      qed
    qed
  qed
qed

lemma spv_verify_bitcoin_keeps:
  assumes ok: "hdr_ok H" "cipher_ok S" "txids_ok H"
    and v: "spv_verify_bitcoin H S client input net txid cache d = (r, d')"
    and cache: "cache = new_verified_cache L H S (sv_path input) (Net_Bitcoin net) key d"
    and inv: "verified_ok L H S net (sv_path input) key d"
    and small: "\<forall>content. d (headers_chain_path (sv_path input) net) = Some content \<longrightarrow> length content < 2 ^ 32"
    and answers: "answers_ok client" and h: "0 \<le> sv_height input"
  shows "verified_ok L H S net (sv_path input) key d'"
    and "r = Some (Inr Spv_Verified) \<longrightarrow> included_at H net (sv_path input) d' (txid_into_bitcoin txid) (sv_height input)"
proof -
  let ?dir = "sv_path input" and ?p = "headers_chain_path (sv_path input) net"
  let ?rem = "remembered L H S ?dir (Net_Bitcoin net) key"
  have path: "vc_filepath cache = verified_cache_path L H ?dir (Net_Bitcoin net) key" by (simp add: cache new_verified_cache_def Let_def)
  have f: "headers_file_ok H net ?dir d" and inc: "\<forall>t \<in> ?rem d. \<exists>h. included_at H net ?dir d (txid_into_bitcoin t) h"
    using inv by (simp_all add: verified_ok_def)
  note spec = spv_verify_bitcoin_spec[OF ok(1) v f small answers path h]
  show "r = Some (Inr Spv_Verified) \<longrightarrow> included_at H net ?dir d' (txid_into_bitcoin txid) (sv_height input)" by (rule spec(2))
  have keep: "\<forall>t \<in> ?rem d. \<exists>h. included_at H net ?dir d' (txid_into_bitcoin t) h" if "grows ?p d d'"
    using inc included_grows[OF ok(1) _ that spec(1)] by blast
  from v path show "verified_ok L H S net ?dir key d'"
  proof (rule spv_verify_bitcoin_frame)
    assume g: "grows ?p d d'" and "d' (vc_filepath cache) = d (vc_filepath cache)"
    then have "?rem d' = ?rem d" by (intro remembered_same) (simp add: path)
    then show ?thesis using keep[OF g] spec(1) by (simp add: verified_ok_def)
  next
    fix d0 assume r: "r = Some (Inr Spv_Verified)" and d': "d' = cache_write H S txid cache d0" and g: "grows ?p d d'"
    have "?rem d' = insert txid (?rem d)" unfolding d' by (rule remembered_cases(1)[OF ok(2,3) cache])
    then show ?thesis using keep[OF g] spec r by (auto simp: verified_ok_def)
  next
    fix d0 assume d': "d' = cache_clear H S cache d0"
    have "?rem d' = {}" unfolding d' by (rule remembered_cases(2)[OF ok(2,3) cache])
    then show ?thesis using spec(1) by (simp add: verified_ok_def)
  qed
qed

section \<open>Liquid\<close>

text \<open>A transaction in a block that is the genesis block or that enough signers have signed.\<close>

definition signed_in_block :: "hdr_lib \<Rightarrow> nat \<Rightarrow> bytes list \<Rightarrow> bytes \<Rightarrow> bool" where
  "signed_in_block H m keys t \<longleftrightarrow>
     (\<exists>header merkle. eh_merkle_root header = compute_merkle_root H t merkle \<and>
        (hl_elm_hash H header = hl_hash_hex H LIQUID_GENESIS_HASH \<or> signed_by_quorum H (hl_elm_hash H header) m keys))"

lemma verify_tx_proof_signed:
  assumes "verifier_verify_tx_proof H (new_verifier H Liquid) t merkle header = Some (Inr u)"
    and script: "multisig_script H (hl_script_hex H CHALLENGE) m keys"
  shows "signed_in_block H m keys t"
proof -
  let ?v = "new_verifier H Liquid"
  have v: "vf_challenge ?v = hl_script_hex H CHALLENGE" "vf_genesis ?v = hl_hash_hex H LIQUID_GENESIS_HASH" "\<not> vf_is_regtest ?v"
    by (simp_all add: new_verifier_def)
  from assms(1) have h: "verify_header H ?v header = Some (Inr ())" and r: "eh_merkle_root header = compute_merkle_root H t merkle"
    by (auto simp: verifier_verify_tx_proof_def gensure_def split: if_splits elim!: gtry_InrE)
  have "signed_by_quorum H (hl_elm_hash H header) m keys" if "hl_elm_hash H header \<noteq> hl_hash_hex H LIQUID_GENESIS_HASH"
    using verify_header_quorum[OF h _ v(3)] that script v by simp
  with r show ?thesis unfolding signed_in_block_def by blast
qed

lemma spv_verify_elements_signed:
  assumes ok: "cipher_ok S" "txids_ok H" and v: "spv_verify_elements H S client input Liquid txid cache d = (r, d')"
    and cache: "cache = new_verified_cache L H S dir net key d"
    and script: "multisig_script H (hl_script_hex H CHALLENGE) m keys"
  shows "r \<noteq> Some (Inr Spv_Verified) \<and> d' = d \<or>
    signed_in_block H m keys (txid_into_bitcoin txid) \<and>
    remembered L H S dir net key d' = insert txid (remembered L H S dir net key d)"
proof -
  from v consider "r \<noteq> Some (Inr Spv_Verified)" "d' = d"
    | merkle header u where "verifier_verify_tx_proof H (new_verifier H Liquid) (txid_into_bitcoin txid) merkle header = Some (Inr u)"
        "d' = cache_write H S txid cache d"
    by (auto simp: spv_verify_elements_def split: sum.splits option.splits)
  then show ?thesis
    using verify_tx_proof_signed[OF _ script] remembered_cases(1)[OF ok cache] by cases auto
qed

text \<open>The part of \<^verbatim>\<open>spv_verify_tx\<close> that both networks share.\<close>

lemma spv_verify_tx_cases:
  assumes "spv_verify_tx L H S build_client input d = (r, d')" and net: "network_id (sv_network input) = Some net"
  obtains "r \<noteq> Some (Inr Spv_Verified)" "d' = d"
  | txid where "txid_from_hex L (sv_txid input) net = Inr txid" "txid \<in> remembered L H S (sv_path input) net (sv_encryption_key input) d" "d' = d"
  | txid url client where "txid_from_hex L (sv_txid input) net = Inr txid" "build_client url (sv_tor_proxy input) = Inr client"
      "(case net of
          Net_Bitcoin network \<Rightarrow> spv_verify_bitcoin H S client input network txid
            (new_verified_cache L H S (sv_path input) net (sv_encryption_key input) d) d
        | Net_Elements network \<Rightarrow> spv_verify_elements H S client input network txid
            (new_verified_cache L H S (sv_path input) net (sv_encryption_key input) d) d) = (r, d')"
  using assms(1)[unfolded spv_verify_tx_def net option.case Let_def]
  by (auto simp: remembered_def split: sum.splits if_splits)

end
