(* ===== verification/Gdk_Spv_Props.thy ===== *)
theory Gdk_Spv_Props
  imports Gdk_Spv Gdk_Headers_Props
begin

text \<open>
  Cross validation: a round ends with a result whatever the other servers answer, except for one
  height; the address of a server reads back as it is written; and three places where the code
  does not do what it says.
\<close>

section \<open>Calls that return\<close>

text \<open>A call that returns, with an error or with a result that satisfies a condition.\<close>

definition returns :: "('a \<Rightarrow> bool) \<Rightarrow> ('e + 'a) option \<Rightarrow> bool" where
  "returns P m \<longleftrightarrow> (\<exists>r. m = Some r \<and> (\<forall>x. r = Inr x \<longrightarrow> P x))"

lemma returns_simps [simp]:
  "returns P (Some (Inl e))" "returns P (Some (Inr x)) \<longleftrightarrow> P x" "\<not> returns P None"
  by (auto simp: returns_def)

lemma returns_gensure [simp]: "returns P (gensure b e) \<longleftrightarrow> (b \<longrightarrow> P ())"
  by (auto simp: returns_def gensure_def)

lemma returns_gtry [simp]: "returns P (gtry m f) \<longleftrightarrow> returns (\<lambda>x. returns P (f x)) m"
  by (auto simp: returns_def gtry_def split: option.splits sum.splits)

lemma returns_gmap_err [simp]: "returns P (gmap_err g m) \<longleftrightarrow> returns P m"
  by (cases m) (auto simp: returns_def gmap_err_def map_sum_def split: sum.splits)

lemma returns_mono: "returns P m \<Longrightarrow> (\<And>x. P x \<Longrightarrow> Q x) \<Longrightarrow> returns Q m"
  by (auto simp: returns_def)

lemma returns_Some: "returns P (Some r) \<longleftrightarrow> (\<forall>x. r = Inr x \<longrightarrow> P x)"
  by (simp add: returns_def)

lemma returns_exists: "returns P m \<Longrightarrow> \<exists>r. m = Some r"
  by (auto simp: returns_def)

section \<open>The walk along another branch ends\<close>

text \<open>A retarget without the last header of its period was the header looked at last.\<close>

definition pending_at :: "int \<Rightarrow> (int \<times> BlockHeader \<times> BlockHeader option) option \<Rightarrow> bool" where
  "pending_at height retarget \<longleftrightarrow> (\<forall>h b. retarget = Some (h, b, None) \<longrightarrow> h mod DIFFCHANGE_INTERVAL = 0 \<and> height = h)"

lemma pending_next: "h mod DIFFCHANGE_INTERVAL = 0 \<Longrightarrow> (h - 1) mod DIFFCHANGE_INTERVAL = DIFFCHANGE_INTERVAL - 1"
proof -
  assume h: "h mod DIFFCHANGE_INTERVAL = 0"
  have "(h - 1) mod DIFFCHANGE_INTERVAL = (h mod DIFFCHANGE_INTERVAL - 1) mod DIFFCHANGE_INTERVAL" by (rule mod_diff_left_eq[symmetric])
  then show ?thesis by (simp add: h) (simp add: DIFFCHANGE_INTERVAL_def)
qed

lemma fork_retarget_returns:
  assumes p: "pending_at (height + 1) retarget"
  shows "returns (pending_at height) (fork_retarget H height header retarget)"
proof (cases retarget)
  case None
  then show ?thesis by (simp add: fork_retarget_def pending_at_def)
next
  case (Some q)
  obtain h b pl where q: "q = (h, b, pl)" by (cases q) auto
  show ?thesis
  proof (cases pl)
    case None
    with p Some q have "height mod DIFFCHANGE_INTERVAL = DIFFCHANGE_INTERVAL - 1"
      using pending_next[of h] by (auto simp: pending_at_def)
    then show ?thesis using Some q by (simp add: fork_retarget_def pending_at_def)
  next
    case (Some l)
    then show ?thesis using \<open>retarget = Some q\<close> q by (simp add: fork_retarget_def pending_at_def verify_retarget_def)
  qed
qed

lemma fork_header_returns:
  assumes rt: "pending_at (fk_curr_height st) (fk_retarget st)" and h: "0 < fk_curr_height st" "fk_curr_height st < 2 ^ 32"
  shows "returns (\<lambda>(reached, st'). fk_curr_height st' = fk_curr_height st - 1 \<and>
      (\<not> reached \<longrightarrow> pending_at (fk_curr_height st') (fk_retarget st') \<and> limit < fk_curr_height st'))
    (fork_header H chain d tip limit thr header st)"
proof -
  let ?height = "fk_curr_height st - 1"
  have w: "wrap_u32 ?height = ?height" using h by (simp add: wrap_u32_def)
  have "returns (pending_at ?height) (fork_retarget H ?height header (fk_retarget st))"
    by (rule fork_retarget_returns) (use rt in simp)
  then show ?thesis
    unfolding fork_header_def Let_def w
    by (auto simp: returns_Some split: option.split elim: returns_mono)
qed

lemma fork_headers_returns:
  assumes "pending_at (fk_curr_height st) (fk_retarget st)" and "int (length headers) \<le> fk_curr_height st" "fk_curr_height st < 2 ^ 32"
  shows "returns (\<lambda>(reached, st'). 0 \<le> fk_curr_height st' \<and> (\<not> reached \<longrightarrow> pending_at (fk_curr_height st') (fk_retarget st') \<and>
      fk_curr_height st' = fk_curr_height st - int (length headers) \<and> (headers \<noteq> [] \<longrightarrow> limit < fk_curr_height st')))
    (fork_headers (fork_header H chain d tip limit thr) headers st)"
  using assms
proof (induction headers arbitrary: st)
  case Nil
  then show ?case by simp
next
  case (Cons header headers)
  from Cons.prems(2) have "0 < fk_curr_height st" by simp
  from fork_header_returns[OF Cons.prems(1) this Cons.prems(3), of limit H chain d tip thr header] show ?case
  proof (simp, elim returns_mono, clarify)
    fix reached and st1 :: ForkState
    assume h: "fk_curr_height st1 = fk_curr_height st - 1"
      and p: "\<not> reached \<longrightarrow> pending_at (fk_curr_height st1) (fk_retarget st1) \<and> limit < fk_curr_height st1"
    show "returns (\<lambda>(reached, st'). 0 \<le> fk_curr_height st' \<and> (\<not> reached \<longrightarrow> pending_at (fk_curr_height st') (fk_retarget st') \<and>
        fk_curr_height st' = fk_curr_height st - (1 + int (length headers)) \<and> limit < fk_curr_height st'))
      (if reached then Some (Inr (True, st1)) else fork_headers (fork_header H chain d tip limit thr) headers st1)"
    proof (cases reached)
      case True
      then show ?thesis using h Cons.prems(2) by simp
    next
      case False
      then have "returns (\<lambda>(reached, st'). 0 \<le> fk_curr_height st' \<and> (\<not> reached \<longrightarrow> pending_at (fk_curr_height st') (fk_retarget st') \<and>
          fk_curr_height st' = fk_curr_height st1 - int (length headers) \<and> (headers \<noteq> [] \<longrightarrow> limit < fk_curr_height st')))
        (fork_headers (fork_header H chain d tip limit thr) headers st1)"
        using p h Cons.prems by (intro Cons.IH) auto
      with False p h show ?thesis by (auto elim!: returns_mono)
    qed
  qed
qed

lemma fork_chunks_returns:
  assumes "pending_at (fk_curr_height st) (fk_retarget st)" and "0 \<le> limit" "limit < fk_curr_height st" "fk_curr_height st < 2 ^ 32"
    and "2 \<le> chunk_size"
  shows "returns (\<lambda>st'. 0 \<le> fk_curr_height st') (fork_chunks client (fork_header H chain d tip limit thr) limit chunk_size st)"
  using assms
proof (induction "nat (fk_curr_height st)" arbitrary: st chunk_size rule: less_induct)
  case less
  let ?f = "fork_header H chain d tip limit thr"
  define c_start where "c_start = max (max 0 (fk_curr_height st - chunk_size)) limit"
  have c: "limit \<le> c_start" "c_start < fk_curr_height st" "wrap_u32 (fk_curr_height st - c_start) = fk_curr_height st - c_start"
    using less.prems by (auto simp: c_start_def wrap_u32_def)
  show ?case
  proof (cases "fetch_chunk client c_start (fk_curr_height st - c_start)")
    case (Inl e)
    then show ?thesis by (subst fork_chunks.simps) (simp add: c_start_def[symmetric] c(3) Let_def)
  next
    case (Inr chunk)
    then have len: "int (length chunk) = fk_curr_height st - c_start"
      using c(2) by (auto simp: fetch_chunk_def split: sum.splits if_splits)
    then have ne: "rev chunk \<noteq> []" using c(2) by auto
    have "returns (\<lambda>(reached, st'). 0 \<le> fk_curr_height st' \<and> (\<not> reached \<longrightarrow> pending_at (fk_curr_height st') (fk_retarget st') \<and>
        fk_curr_height st' = fk_curr_height st - int (length (rev chunk)) \<and> (rev chunk \<noteq> [] \<longrightarrow> limit < fk_curr_height st')))
      (fork_headers ?f (rev chunk) st)"
      using less.prems c len by (intro fork_headers_returns) auto
    then obtain r where r: "fork_headers ?f (rev chunk) st = Some r"
      and ok: "\<And>reached st'. r = Inr (reached, st') \<Longrightarrow> 0 \<le> fk_curr_height st' \<and> (\<not> reached \<longrightarrow>
        pending_at (fk_curr_height st') (fk_retarget st') \<and> fk_curr_height st' = c_start \<and> limit < c_start)"
      using ne len by (auto simp: returns_def)
    show ?thesis
    proof (cases r)
      case (Inl e)
      then show ?thesis using r Inr by (subst fork_chunks.simps) (simp add: c_start_def[symmetric] c(3) Let_def)
    next
      case (Inr rs)
      obtain reached st' where rs: "rs = (reached, st')" by (cases rs)
      have "returns (\<lambda>st'. 0 \<le> fk_curr_height st') (fork_chunks client ?f limit (min (chunk_size div 2 * 3) MAX_CHUNK_SIZE) st')"
        if "\<not> reached"
        using that ok[of reached st'] Inr rs less.prems c
        by (intro less.hyps) (auto simp: MAX_CHUNK_SIZE_def)
      then show ?thesis using r Inr rs \<open>fetch_chunk client c_start (fk_curr_height st - c_start) = Inr chunk\<close> ok[of reached st']
        by (subst fork_chunks.simps) (simp add: c_start_def[symmetric] c(3) Let_def)
    qed
  qed
qed

lemma get_fork_branch_returns:
  assumes tip: "0 \<le> tip" "tip < 2 ^ 32 - 1" and known: "case known of None \<Rightarrow> True | Some a \<Rightarrow> 0 \<le> a \<and> a \<le> tip"
  shows "returns (\<lambda>fork. 0 \<le> fb_common_ancestor fork) (get_fork_branch H chain d client tip known)"
proof -
  let ?limit = "case known of None \<Rightarrow> 0 | Some a \<Rightarrow> a"
  have w: "wrap_u32 (tip + 1) = tip + 1" using tip by (simp add: wrap_u32_def)
  have *: "returns (\<lambda>st'. 0 \<le> fk_curr_height st') (fork_chunks client (fork_header H chain d tip ?limit thr) ?limit INIT_CHUNK_SIZE
      \<lparr>fk_curr_height = tip + 1, fk_total_work = 0, fk_retarget = None, fk_last_header = None\<rparr>)" for thr
    by (rule fork_chunks_returns) (use tip known in \<open>auto simp: pending_at_def INIT_CHUNK_SIZE_def split: option.splits\<close>)
  show ?thesis
    unfolding get_fork_branch_def Let_def w returns_gtry
    by (rule returns_mono[OF *]) (auto simp: returns_Some verify_retarget_def split: option.split)
qed

section \<open>A round of validation ends\<close>

lemma foldM_total:
  assumes "\<And>x s. x \<in> set xs \<Longrightarrow> \<exists>s'. f x s = Some s'"
  shows "\<exists>t. foldM f xs s = Some t"
  using assms
proof (induction xs arbitrary: s)
  case (Cons x xs)
  obtain s' where "f x s = Some s'" using Cons.prems[of x s] by auto
  with Cons.IH[of s'] Cons.prems show ?case by auto
qed simp

lemma chain_work_total:
  assumes ok: "hdr_ok H" and a: "ahead H g chain d hs []" and from_height: "0 \<le> from_height"
  shows "\<exists>w. chain_work H chain d from_height (hc_height chain) = Some w"
  unfolding chain_work_def
proof (rule foldM_total)
  fix height total
  assume "height \<in> set [from_height..hc_height chain]"
  then have h: "0 \<le> height" "nat height < length hs" using a from_height by (auto simp: ahead_def)
  have f: "d (hc_path chain) = Some (file_of H hs)" using a by (simp add: ahead_def)
  have "headers_wf hs" using a unfolding ahead_def by (auto dest: valid_chain_wf)
  from chain_get_file[of H d chain hs "nat height", OF ok f this] h show "\<exists>s'. (case chain_get H chain height d of
      Inl _ \<Rightarrow> None | Inr h \<Rightarrow> Some (wrap_u256 (total + hl_work H h))) = Some s'" by simp
qed

text \<open>The height that a server reports, as a 32 bit number, is not the largest one.\<close>

definition heights_ok :: "(ElectrumUrl \<Rightarrow> GdkError + Electrum) \<Rightarrow> bool" where
  "heights_ok build_client \<longleftrightarrow> (\<forall>url client h header. build_client url = Inr client \<longrightarrow>
     el_headers_subscribe client = Inr (h, header) \<longrightarrow> wrap_u32 h \<noteq> 2 ^ 32 - 1)"

lemma spv_cross_validate_returns:
  assumes ok: "hdr_ok H" and a: "ahead H g chain d hs []" and heights: "heights_ok build_client"
  shows "returns (\<lambda>_. True) (spv_cross_validate H build_client chain d local_tip_hash url)"
proof (cases "build_client url")
  case (Inl e)
  then show ?thesis by (simp add: spv_cross_validate_def returns_Some)
next
  case (Inr client)
  show ?thesis
  proof (cases "el_headers_subscribe client")
    case Inl': (Inl e)
    then show ?thesis using Inr by (simp add: spv_cross_validate_def returns_Some)
  next
    case Inr': (Inr hh)
    obtain h header where hh: "hh = (h, header)" by (cases hh)
    have tip: "0 \<le> wrap_u32 h" "wrap_u32 h < 2 ^ 32 - 1"
      using heights Inr Inr' hh pos_mod_bound[of "2 ^ 32" h] unfolding heights_ok_def by (fastforce simp: wrap_u32_def)+
    have h0: "0 \<le> hc_height chain" using a by (cases hs) (auto simp: ahead_def)
    have some: "returns (\<lambda>fork. 0 \<le> fb_common_ancestor fork) (get_fork_branch H chain d client (wrap_u32 h) (Some (hc_height chain)))"
      if "hc_height chain < wrap_u32 h" by (rule get_fork_branch_returns[OF tip]) (use that h0 in simp)
    have work: "\<exists>w. chain_work H chain d (wrap_u32 x) (hc_height chain) = Some w" for x
      by (rule chain_work_total[OF ok a]) (simp add: wrap_u32_def)
    have some': "returns (\<lambda>_. True) (get_fork_branch H chain d client (wrap_u32 h) (Some (hc_height chain)))"
      if "hc_height chain < wrap_u32 h" by (rule returns_mono[OF some[OF that]]) simp
    have none: "returns (\<lambda>fork. returns (\<lambda>_. True) (Option.bind (chain_work H chain d (wrap_u32 (F fork)) (hc_height chain)) (\<lambda>w.
        if P fork w then Some (Inr (Q fork w)) else Some (Inr (R fork w))))) (get_fork_branch H chain d client t None)"
      if "0 \<le> t" "t < 2 ^ 32 - 1" for t F P and Q R :: "ForkBranch \<Rightarrow> int \<Rightarrow> CrossValidationResult"
    proof (rule returns_mono[OF get_fork_branch_returns[OF that, of None]])
      fix fork
      show "returns (\<lambda>_. True) (Option.bind (chain_work H chain d (wrap_u32 (F fork)) (hc_height chain)) (\<lambda>w.
        if P fork w then Some (Inr (Q fork w)) else Some (Inr (R fork w))))" using work[of "F fork"] by auto
    qed simp
    show ?thesis
      using tip by (auto simp: spv_cross_validate_def Inr Inr' hh Let_def returns_Some intro: some' none)
  qed
qed

theorem validate_total:
  assumes "hdr_ok H" and "ahead H g chain d hs []" and "heights_ok build_client"
  shows "\<exists>r v'. validate H build_client shuffle chain d v = Some (r, v') \<and> xv_last_result v' = r"
proof -
  let ?step = "\<lambda>server_url current. case spv_cross_validate H build_client chain d (hl_block_hash H (hc_last chain)) server_url of
      None \<Rightarrow> None | Some (Inl _) \<Rightarrow> Some current | Some (Inr r) \<Rightarrow> Some (merge_results current r)"
  have fold: "\<exists>r. foldM ?step servers r0 = Some r" for servers r0
  proof (rule foldM_total)
    fix x s
    obtain q where "spv_cross_validate H build_client chain d (hl_block_hash H (hc_last chain)) x = Some q"
      using spv_cross_validate_returns[OF assms] unfolding returns_def by blast
    then show "\<exists>s'. ?step x s = Some s'" by (cases q) simp_all
  qed
  have res: "\<exists>b. is_resolved H i chain d = Some b" for i
    unfolding is_resolved_def using chain_work_total[OF assms(1,2), of "wrap_u32 (cv_our_height i + 1)"] by (auto simp: wrap_u32_def)
  show ?thesis
  proof (cases "xv_last_result v")
    case Cross_Valid
    then show ?thesis using fold[of "random_servers shuffle v SERVERS_PER_ROUND" Cross_Valid] by (auto simp: validate_def Let_def)
  next
    case (Cross_Invalid i)
    obtain b where b: "is_resolved H i chain d = Some b" using res by blast
    then show ?thesis
      using Cross_Invalid fold[of "cv_origin_server i # random_servers shuffle v SERVERS_PER_ROUND" "if b then Cross_Valid else Cross_Invalid i"]
      by (auto simp: validate_def Let_def simp del: foldM.simps)
  qed
qed

section \<open>What the code does not do as it says\<close>

text \<open>
  A server that reports the height 4294967295 keeps the validation in its loop: the next height
  wraps to 0 and chunks of no headers are asked for again and again.
\<close>

lemma fork_chunks_hangs:
  assumes "el_block_headers client 0 0 = Inr []" and "fk_curr_height st = 0"
    and "0 \<le> chunk_size"
  shows "fork_chunks client f 0 chunk_size st = None"
proof -
  define P where "P client' f' limit cs st' y \<longleftrightarrow> \<not> (client' = client \<and> limit = 0 \<and> fk_curr_height st' = 0 \<and> 0 \<le> cs)"
    for client' and f' :: "BlockHeader \<Rightarrow> ForkState \<Rightarrow> (CrossValidationError + bool \<times> ForkState) option"
    and limit cs :: int and st' :: ForkState and y :: "CrossValidationError + ForkState"
  have "\<not> fork_chunks client f 0 chunk_size st = Some y" for y
  proof
    assume some: "fork_chunks client f 0 chunk_size st = Some y"
    have "P client f 0 chunk_size st y"
    proof (rule fork_chunks.raw_induct[where P = P, OF _ some])
      fix fc client' f' limit cs st' y'
      assume IH: "\<And>c f l cs st y. fc c f l cs st = Some y \<Longrightarrow> P c f l cs st y"
        and body: "(let c_start = max (max 0 (fk_curr_height st' - cs)) limit; c_size = wrap_u32 (fk_curr_height st' - c_start)
          in case fetch_chunk client' c_start c_size of
               Inl e \<Rightarrow> Some (Inl e)
             | Inr chunk \<Rightarrow> Option.bind (fork_headers f' (rev chunk) st') (\<lambda>r. case r of
                 Inl e \<Rightarrow> Some (Inl e)
               | Inr (reached, st) \<Rightarrow> if reached then Some (Inr st) else fc client' f' limit (min (cs div 2 * 3) MAX_CHUNK_SIZE) st)) =
          Some y'"
      show "P client' f' limit cs st' y'"
        unfolding P_def
      proof (rule notI, elim conjE)
        assume e: "client' = client" "limit = 0" "fk_curr_height st' = 0" "0 \<le> cs"
        have "fc client f' 0 (min (cs div 2 * 3) MAX_CHUNK_SIZE) st' = Some y'"
          using body e assms(1) by (simp add: Let_def fetch_chunk_def wrap_u32_def)
        from IH[OF this] e show False by (simp add: P_def MAX_CHUNK_SIZE_def)
      qed
    qed
    then show False using assms by (simp add: P_def)
  qed
  then show ?thesis by (cases "fork_chunks client f 0 chunk_size st") auto
qed

text \<open>Of two results that are not valid the less severe one is kept.\<close>

lemma merge_keeps_least:
  "merge_results (Cross_Invalid a) (Cross_Invalid b) = Cross_Invalid c \<Longrightarrow> cv_work_diff c = min (cv_work_diff a) (cv_work_diff b)"
  by (auto split: if_splits)

text \<open>
  When a branch contains a whole period, its retarget is checked with the second header of the
  period in place of the first, with which a chain of headers is checked.
\<close>

lemma fork_period_first:
  assumes "0 \<le> k"
  shows "fork_retarget H (2016 * k + 1) header (Some (2016 * (k + 1), block, Some l)) =
      gtry (gensure (bh_bits block = hl_compact H (calc_difficulty_retarget H header l)) X_InvalidRetarget) (\<lambda>_. Some (Inr None))"
    and "link_ok H cps hs (2016 * Suc n) \<Longrightarrow>
      bh_bits (hs ! (2016 * Suc n)) = hl_compact H (calc_difficulty_retarget H (hs ! (2016 * n)) (hs ! (2016 * Suc n - 1)))"
proof -
  have "(2016 * k + 1) mod DIFFCHANGE_INTERVAL = 1" by (simp add: DIFFCHANGE_INTERVAL_def mod_add_right_eq[symmetric] algebra_simps)
  then show "fork_retarget H (2016 * k + 1) header (Some (2016 * (k + 1), block, Some l)) =
      gtry (gensure (bh_bits block = hl_compact H (calc_difficulty_retarget H header l)) X_InvalidRetarget) (\<lambda>_. Some (Inr None))"
    by (simp add: fork_retarget_def verify_retarget_def DIFFCHANGE_INTERVAL_def)
qed (simp add: link_ok_def)

end
