(* ===== verification/Gdk_Spv_Demo.thy ===== *)
theory Gdk_Spv_Demo
  imports Gdk_Demo Gdk_Verified Gdk_Spv_Props
begin

text \<open>
  Instances of the parameters of the header checks for the witnesses: headers are encoded in
  their 80 bytes, a chain of two of them, and a Liquid block that two of three signers have
  signed.
\<close>

section \<open>Headers in 80 bytes\<close>

text \<open>Numbers in little endian order.\<close>

fun le_bytes :: "nat \<Rightarrow> int \<Rightarrow> bytes" where
  "le_bytes 0 n = []"
| "le_bytes (Suc k) n = char_of (n mod 256) # le_bytes k (n div 256)"

fun of_le :: "bytes \<Rightarrow> int" where
  "of_le [] = 0"
| "of_le (c # cs) = of_char c + 256 * of_le cs"

lemma length_le_bytes [simp]: "length (le_bytes k n) = k"
  by (induction k arbitrary: n) simp_all

lemma of_le_bytes [simp]: "of_le (le_bytes k n) = n mod 256 ^ k"
  by (induction k arbitrary: n) (simp_all add: zmod_zmult2_eq)

definition signed32 :: "int \<Rightarrow> int" where
  "signed32 n = (if n < 2 ^ 31 then n else n - 2 ^ 32)"

definition demo_ser :: "BlockHeader \<Rightarrow> bytes" where
  "demo_ser h = le_bytes 4 (bh_version h) @ bh_prev_blockhash h @ bh_merkle_root h @ le_bytes 4 (bh_time h) @
     le_bytes 4 (bh_bits h) @ le_bytes 4 (bh_nonce h)"

definition demo_des :: "bytes \<Rightarrow> BlockHeader option" where
  "demo_des b =
     (if length b \<noteq> 80 then None
      else Some \<lparr>bh_version = signed32 (of_le (take 4 b)), bh_prev_blockhash = take 32 (drop 4 b), bh_merkle_root = take 32 (drop 36 b),
        bh_time = of_le (take 4 (drop 68 b)), bh_bits = of_le (take 4 (drop 72 b)), bh_nonce = of_le (drop 76 b)\<rparr>)"

lemma signed32_mod:
  assumes n: "- 2147483648 \<le> n" "n < 2147483648"
  shows "signed32 (n mod 4294967296) = n"
proof (cases "n < 0")
  case True
  have "n mod 4294967296 = (n + 4294967296) mod 4294967296" by simp
  also have "\<dots> = n + 4294967296" using n True by (intro mod_pos_pos_trivial) simp_all
  finally show ?thesis using n by (simp add: signed32_def)
next
  case False
  then have "n mod 4294967296 = n" using n by (intro mod_pos_pos_trivial) simp_all
  then show ?thesis using n by (simp add: signed32_def)
qed

lemma demo_codec: "hdr_wf h \<Longrightarrow> demo_des (demo_ser h) = Some h \<and> length (demo_ser h) = 80"
  by (cases h) (simp add: hdr_wf_def demo_ser_def demo_des_def signed32_mod)

text \<open>Lists of transaction ids: a byte tells the chain, each byte of an id is marked.\<close>

definition demo_mark :: "bytes \<Rightarrow> bytes" where
  "demo_mark t = concat (map (\<lambda>c. [CHR 0x01, c]) t) @ [CHR 0x00]"

fun demo_txid :: "BETxid \<Rightarrow> bytes" where
  "demo_txid (Txid_Bitcoin t) = CHR ''b'' # demo_mark t"
| "demo_txid (Txid_Elements t) = CHR ''e'' # demo_mark t"

definition demo_txids :: "BETxid list \<Rightarrow> bytes" where
  "demo_txids ts = concat (map demo_txid ts)"

fun demo_unmark :: "bytes \<Rightarrow> bytes \<Rightarrow> (bytes \<times> bytes) option" where
  "demo_unmark acc [] = None"
| "demo_unmark acc [c] = Some (acc, [])"
| "demo_unmark acc (c # c' # cs) = (if c = CHR 0x00 then Some (acc, c' # cs) else demo_unmark (acc @ [c']) cs)"

lemma demo_unmark_mark: "demo_unmark acc (demo_mark t @ rest) = Some (acc @ t, rest)"
  by (induction t arbitrary: acc; cases rest) (simp_all add: demo_mark_def)

lemma demo_unmark_shorter: "demo_unmark acc cs = Some (t, rest) \<Longrightarrow> length rest < length cs"
  by (induction acc cs arbitrary: t rest rule: demo_unmark.induct) (auto split: if_splits intro: less_trans)

function demo_parse :: "bytes \<Rightarrow> BETxid list option" where
  "demo_parse [] = Some []"
| "demo_parse (c # cs) =
     (case demo_unmark [] cs of
        None \<Rightarrow> None
      | Some (t, rest) \<Rightarrow> map_option (Cons (if c = CHR ''b'' then Txid_Bitcoin t else Txid_Elements t)) (demo_parse rest))"
  by pat_completeness auto
termination
  by (relation "measure length") (auto dest: demo_unmark_shorter)

lemma demo_parse_txids: "demo_parse (demo_txids ts) = Some ts"
proof (induction ts)
  case (Cons t ts)
  then show ?case by (cases t) (simp_all add: demo_txids_def demo_unmark_mark)
qed (simp add: demo_txids_def)

section \<open>A chain of two headers\<close>

definition demo_genesis :: BlockHeader where
  "demo_genesis = \<lparr>bh_version = 1, bh_prev_blockhash = zero_bytes 32, bh_merkle_root = replicate 32 CHR ''g'', bh_time = 0, bh_bits = 7, bh_nonce = 0\<rparr>"

definition demo_second :: BlockHeader where
  "demo_second = \<lparr>bh_version = 1, bh_prev_blockhash = bh_merkle_root demo_genesis, bh_merkle_root = replicate 32 CHR ''t'', bh_time = 600,
     bh_bits = 7, bh_nonce = 0\<rparr>"

definition demo_elm :: ElmBlockHeader where
  "demo_elm = \<lparr>eh_version = 1, eh_prev_blockhash = [], eh_merkle_root = replicate 32 CHR ''t'', eh_time = 0, eh_height = 1,
     eh_ext = Ext_Proof ''c'' ''s''\<rparr>"

definition demo_instructions :: "bytes \<Rightarrow> (unit + Instruction) list" where
  "demo_instructions script =
     (if script = ''c''
      then Inr (Op 0x52) # map (\<lambda>k. Inr (PushBytes k)) [''k1'', ''k2'', ''k3''] @ [Inr (Op 0x53), Inr (Op OP_CHECKMULTISIG)]
      else [Inr (PushBytes []), Inr (PushBytes ''k1''), Inr (PushBytes ''k3'')])"

definition demo_hdr :: hdr_lib where
  "demo_hdr =
     \<lparr>hl_ser = demo_ser, hl_des = demo_des, hl_block_hash = bh_merkle_root, hl_target = id, hl_compact = id,
      hl_pow_ok = (\<lambda>h t. True), hl_work = (\<lambda>h. 1), hl_max_target = 2 ^ 224, hl_genesis = (\<lambda>n. demo_genesis), hl_hash_hex = id,
      hl_sha256 = id, hl_sha256d = id, hl_elm_des = (\<lambda>b. Some demo_elm), hl_elm_hash = eh_merkle_root,
      hl_script_hex = (\<lambda>s. ''c''), hl_instructions = demo_instructions,
      hl_push_num = (\<lambda>x. if x = 0x52 then Some 2 else if x = 0x53 then Some 3 else None), hl_pubkey = Some, hl_signature = Some,
      hl_verify = (\<lambda>m s k. s = k), hl_txids_ser = demo_txids, hl_txids_des = demo_parse\<rparr>"

lemma demo_hdr_ok: "hdr_ok demo_hdr" and demo_hdr_txids: "txids_ok demo_hdr"
  by (simp_all add: hdr_ok_def txids_ok_def demo_hdr_def demo_codec demo_parse_txids) (simp add: hdr_wf_def demo_genesis_def zero_bytes_def)

definition demo_store :: store_lib where
  "demo_store =
     \<lparr>sl_encrypt = (\<lambda>k n t. t), sl_decrypt = (\<lambda>k n t. Some t), sl_nonce = zero_bytes 12, sl_written = length,
      sl_cache_ser = (\<lambda>r c. []), sl_cache_des = (\<lambda>r b. None), sl_store_ser = (\<lambda>s. []), sl_store_des = (\<lambda>b. None),
      sl_cipher = id, sl_regtest = False\<rparr>"

lemma demo_store_ok: "cipher_ok demo_store"
  by (simp add: cipher_ok_def demo_store_def zero_bytes_def)

definition demo_client :: Electrum where
  "demo_client =
     \<lparr>el_get_merkle = (\<lambda>t h. Inr \<lparr>gm_pos = 0, gm_merkle = []\<rparr>), el_block_headers = (\<lambda>s n. Inr [demo_second]),
      el_block_header = (\<lambda>h. Inr demo_second), el_block_header_raw = (\<lambda>h. Inr []), el_headers_subscribe = Inr (1, demo_second),
      el_headers_subscribe_raw = Inr (1, []), el_batch_block_header_raw = (\<lambda>hs. Inr []), el_batch_history = (\<lambda>ss. Inr []),
      el_batch_transactions = (\<lambda>ts. Inr []), el_script_status = (\<lambda>s. Inr None), el_broadcast = Inr, el_relay_fee = Inr (F_fin 0),
      el_estimate_fee = (\<lambda>ns. Inr [])\<rparr>"

lemma demo_client_ok: "answers_ok demo_client"
  by (simp add: answers_ok_def demo_client_def hdr_wf_def demo_second_def demo_genesis_def)

definition demo_input :: "bool \<Rightarrow> SPVVerifyTx" where
  "demo_input liquid =
     \<lparr>sv_txid = replicate 32 CHR ''t'', sv_height = 1, sv_path = ''d'',
      sv_network = pay_network\<lparr>net_liquid := liquid, net_electrum_url := Some ''u''\<rparr>, sv_tor_proxy = None,
      sv_headers_to_download = None, sv_encryption_key = ''k''\<rparr>"

definition demo_disk :: disk where
  "demo_disk = [headers_chain_path ''d'' Mainnet \<mapsto> demo_ser demo_genesis @ demo_ser demo_second]"

text \<open>The chain is valid, and nothing is remembered yet.\<close>

lemma demo_chain: "valid_chain demo_hdr cps demo_genesis [demo_genesis, demo_second]" if "hm_get cps 1 = None"
proof -
  have "headers_wf [demo_genesis, demo_second]" by (simp add: demo_genesis_def demo_second_def hdr_wf_def zero_bytes_def)
  moreover have "link_ok demo_hdr cps [demo_genesis, demo_second] 1"
    using that by (simp add: link_ok_def checkpoint_ok_def demo_hdr_def demo_genesis_def demo_second_def)
  then have "link_ok demo_hdr cps [demo_genesis, demo_second] n" if "0 < n" "n < 2" for n
    using that by (cases "n = 1") simp_all
  ultimately show ?thesis by (simp add: valid_chain_def numeral_2_eq_2)
qed

lemma demo_verified_ok: "verified_ok L demo_hdr demo_store Mainnet ''d'' key demo_disk"
proof -
  let ?p = "headers_chain_path ''d'' Mainnet"
  have "hm_get (get_checkpoints demo_hdr Mainnet) 1 = None" by (simp add: get_checkpoints_def hm_get_def)
  from demo_chain[OF this] have "valid_chain demo_hdr (get_checkpoints demo_hdr Mainnet) (hl_genesis demo_hdr Mainnet) [demo_genesis, demo_second]"
    by (simp add: demo_hdr_def)
  moreover have "demo_disk ?p = Some (file_of demo_hdr [demo_genesis, demo_second])" by (simp add: demo_disk_def file_of_def demo_hdr_def)
  ultimately have "headers_file_ok demo_hdr Mainnet ''d'' demo_disk" unfolding headers_file_ok_def by blast
  moreover have "demo_disk (verified_cache_path L demo_hdr ''d'' (Net_Bitcoin Mainnet) key) = None"
    using chain_path_not_cache[of "''d''" Mainnet L demo_hdr "''d''" "Net_Bitcoin Mainnet" key] by (auto simp: demo_disk_def)
  then have "remembered L demo_hdr demo_store ''d'' (Net_Bitcoin Mainnet) key demo_disk = {}"
    by (simp add: remembered_def new_verified_cache_def read_and_decrypt_def Let_def)
  ultimately show ?thesis by (simp add: verified_ok_def)
qed

text \<open>Three servers for the rounds of validation, one of them not reachable.\<close>

definition demo_build :: "ElectrumUrl \<Rightarrow> GdkError + Electrum" where
  "demo_build url = (if url = Url_Plaintext ''down'' then Inl G_StdIOError else Inr demo_client)"

definition demo_headers_chain :: HeadersChain where
  "demo_headers_chain = \<lparr>hc_path = headers_chain_path ''d'' Mainnet, hc_height = 1, hc_last = demo_second, hc_checkpoints = []\<rparr>"

definition demo_validator :: SpvCrossValidator where
  "demo_validator = \<lparr>xv_servers = [Url_Plaintext ''a'', Url_Plaintext ''down'', Url_Tls ''b'' True], xv_last_result = Cross_Valid\<rparr>"

lemma demo_ahead: "ahead demo_hdr demo_genesis demo_headers_chain demo_disk [demo_genesis, demo_second] []"
  using demo_chain[of "[]"] by (simp add: ahead_def demo_headers_chain_def demo_disk_def file_of_def hm_get_def) (simp add: demo_hdr_def)

lemma demo_heights: "heights_ok demo_build"
  by (auto simp: heights_ok_def demo_build_def demo_client_def wrap_u32_def split: if_splits)

end
