(* ===== verification/Gdk_Props.thy ===== *)
theory Gdk_Props
  imports Gdk_Session Gdk_Spv_Demo
begin

text \<open>
  The properties of the wallet library: what a payment that it creates is, what it takes for
  verified, and that the validation against other servers ends.
\<close>

section \<open>Payments\<close>



text \<open>C8: A payment that is created from the coins of the account itself is a transaction of the
  account's network, spends no output twice, and spends only outputs of transactions that the
  account knows, to scripts of the account, that no transaction it knows spends.\<close>

theorem created_tx_spends_own_coins:
  assumes "lib_ok L" and "store_wf L store" and "gdk_create_tx L K now account request store = Some (Inr (tx, meta))"
    and "account_cache store (acc_account_num account) = Inr acc" and "network_id (acc_network account) = Some net"
    and "ct_utxos request = None" and "ct_previous_transaction request = None"
  shows "tx_on net tx \<and> distinct (previous_outputs tx) \<and> (\<forall>x \<in> set (previous_outputs tx). \<exists>i. coin_ok L acc (x, i))"
proof -
  have "acc_wf L acc" using assms(2,4) by (simp add: store_wf_def)
  from created_on[OF assms(1,3,5)] created_inputs[OF assms(1,3,4) this assms(6,7)] show ?thesis by blast
qed

theorem created_tx_spends_own_coins_witness:
  "tx_on (Net_Elements Liquid) (Tx_Elements pay_tx) \<and>
   previous_outputs (Tx_Elements pay_tx) = [Out_Elements (''old'', 1), Out_Elements (''old'', 0), Out_Elements (''old'', 2)] \<and>
   (\<exists>i. coin_ok pay_lib pay_cache (Out_Elements (''old'', 1), i)) \<and>
   (\<exists>i. coin_ok pay_lib pay_cache (Out_Elements (''old'', 0), i)) \<and>
   (\<exists>i. coin_ok pay_lib pay_cache (Out_Elements (''old'', 2), i))"
proof -
  obtain meta where c: "gdk_create_tx pay_lib pay_keys 0 pay_account pay_request pay_store = Some (Inr (Tx_Elements pay_tx, meta))"
    using pay_created by blast
  have acc: "account_cache pay_store (acc_account_num pay_account) = Inr pay_cache"
    using pay_steps(5) by (simp add: pay_account_def)
  have "acc_wf pay_lib pay_cache"
    by (simp add: acc_wf_def hm_wf_def pay_cache_def pay_lib_def pay_received_def)
  then have wf: "store_wf pay_lib pay_store"
    by (auto simp: store_wf_def pay_store_def account_cache_def hm_get_def split: option.splits if_splits)
  have net: "network_id (acc_network pay_account) = Some (Net_Elements Liquid)" using pay_steps(1) by (simp add: pay_account_def)
  have "ct_utxos pay_request = None" "ct_previous_transaction pay_request = None" by (simp_all add: pay_request_def)
  from created_tx_spends_own_coins[OF pay_lib_ok wf c acc net this]
  show ?thesis by (simp add: pay_tx_def pay_input_def)
qed

section \<open>Verified transactions\<close>



text \<open>C9: On Liquid, every transaction that \<^verbatim>\<open>spv_verify_tx\<close> takes for verified is included in
  the genesis block or in a block whose hash as many of the federation's keys as its script asks
  for have signed, each signature under a key of its own; the transactions that are remembered
  stay so.\<close>

theorem liquid_verified_is_signed:
  assumes "cipher_ok S" and "txids_ok H" and run: "spv_verify_tx L H S build_client input d = (r, d')"
    and net: "network_id (sv_network input) = Some (Net_Elements Liquid)"
    and script: "multisig_script H (hl_script_hex H CHALLENGE) m keys"
    and inv: "\<forall>t \<in> remembered L H S (sv_path input) (Net_Elements Liquid) (sv_encryption_key input) d.
      signed_in_block H m keys (txid_into_bitcoin t)"
  shows "(\<forall>t \<in> remembered L H S (sv_path input) (Net_Elements Liquid) (sv_encryption_key input) d'.
      signed_in_block H m keys (txid_into_bitcoin t)) \<and>
    (r = Some (Inr Spv_Verified) \<longrightarrow> (\<exists>txid. txid_from_hex L (sv_txid input) (Net_Elements Liquid) = Inr txid \<and>
       signed_in_block H m keys (txid_into_bitcoin txid)))"
  using run net
proof (rule spv_verify_tx_cases)
  fix txid assume "txid_from_hex L (sv_txid input) (Net_Elements Liquid) = Inr txid" "d' = d"
    "txid \<in> remembered L H S (sv_path input) (Net_Elements Liquid) (sv_encryption_key input) d"
  with inv show ?thesis by blast
next
  fix txid url client
  assume t: "txid_from_hex L (sv_txid input) (Net_Elements Liquid) = Inr txid"
    and "(case Net_Elements Liquid of
          Net_Bitcoin network \<Rightarrow> spv_verify_bitcoin H S client input network txid
            (new_verified_cache L H S (sv_path input) (Net_Elements Liquid) (sv_encryption_key input) d) d
        | Net_Elements network \<Rightarrow> spv_verify_elements H S client input network txid
            (new_verified_cache L H S (sv_path input) (Net_Elements Liquid) (sv_encryption_key input) d) d) = (r, d')"
  then have v: "spv_verify_elements H S client input Liquid txid
      (new_verified_cache L H S (sv_path input) (Net_Elements Liquid) (sv_encryption_key input) d) d = (r, d')" by simp
  from spv_verify_elements_signed[OF assms(1,2) v refl script] t inv show ?thesis by auto
qed (use inv in blast)

theorem liquid_verified_is_signed_witness:
  "\<exists>d'. spv_verify_tx pay_lib demo_hdr demo_store (\<lambda>url proxy. Inr demo_client) (demo_input True) Map.empty = (Some (Inr Spv_Verified), d') \<and>
     signed_in_block demo_hdr 2 [''k1'', ''k2'', ''k3''] (replicate 32 CHR ''t'')"
proof -
  let ?run = "spv_verify_tx pay_lib demo_hdr demo_store (\<lambda>url proxy. Inr demo_client) (demo_input True) Map.empty"
  have r: "fst ?run = Some (Inr Spv_Verified)" by code_simp
  then obtain d' where run: "?run = (Some (Inr Spv_Verified), d')" by (metis prod.collapse)
  have i: "network_id (sv_network (demo_input True)) = Some (Net_Elements Liquid)"
    "txid_from_hex pay_lib (sv_txid (demo_input True)) (Net_Elements Liquid) = Inr (Txid_Elements (replicate 32 CHR ''t''))"
    by (simp_all add: demo_input_def pay_network_def network_id_def txid_from_hex_def pay_lib_def)
  have script: "multisig_script demo_hdr (hl_script_hex demo_hdr CHALLENGE) 2 [''k1'', ''k2'', ''k3'']"
    by (simp add: multisig_script_def demo_hdr_def demo_instructions_def OP_CHECKMULTISIG_def)
  have none: "\<forall>t \<in> remembered pay_lib demo_hdr demo_store (sv_path (demo_input True)) (Net_Elements Liquid) (sv_encryption_key (demo_input True)) Map.empty.
      signed_in_block demo_hdr 2 [''k1'', ''k2'', ''k3''] (txid_into_bitcoin t)"
    by (simp add: remembered_def new_verified_cache_def read_and_decrypt_def Let_def)
  from liquid_verified_is_signed[OF demo_store_ok demo_hdr_txids run i(1) script none] run show ?thesis by (auto simp: i)
qed

section \<open>Validation against other servers\<close>

text \<open>C40: A round of cross validation ends with a result, which becomes the last result, whatever
  the other servers answer, provided that no server claims the height \<open>2 ^ 32 - 1\<close>: no answer
  makes the loops over the headers of the servers run forever or panic.\<close>

theorem cross_validation_ends:
  assumes "hdr_ok H" and "ahead H genesis chain d hs []" and "heights_ok build_client"
  shows "\<exists>r v'. validate H build_client shuffle chain d v = Some (r, v') \<and> xv_last_result v' = r \<and> xv_servers v' = xv_servers v"
proof -
  from validate_total[OF assms] obtain r v' where v: "validate H build_client shuffle chain d v = Some (r, v')" "xv_last_result v' = r" by blast
  moreover from v have "xv_servers v' = xv_servers v" by (auto simp: validate_def Let_def elim!: bind_SomeE)
  ultimately show ?thesis by blast
qed

theorem cross_validation_ends_witness:
  "\<exists>r v'. validate demo_hdr demo_build id demo_headers_chain demo_disk demo_validator = Some (r, v') \<and> xv_last_result v' = r"
  using cross_validation_ends[OF demo_hdr_ok demo_ahead demo_heights, of id demo_validator] by blast

end
