(* ===== verification/Spec2Isabelle.thy ===== *)
theory Spec2Isabelle
  imports Dealer_Props Bf_Main_Props Client_Sign_Props Client_Tx_Props Client_Swap_Props Gdk_Props
begin

text \<open>
  A verification development for the Rust code of the SideSwap client, of its wallet library and of
  its dealers.

  \<^bold>\<open>The program.\<close>  SideSwap is a market for assets of the Liquid network.  A server matches orders and
  brokers swaps; the repository holds its counterparts.  The client (\<^verbatim>\<open>sideswap_client\<close>) runs a
  worker between a user interface, the server and a wallet library (\<^verbatim>\<open>gdk_rust\<close>, which keeps
  accounts on Bitcoin or Liquid from what Electrum servers tell it).  The dealer
  (\<^verbatim>\<open>sideswap_dealer\<close>) keeps own orders and takes orders of others with the funds of an
  Elements node.  The market maker (\<^verbatim>\<open>sideswap_dealer_bitfinex\<close>) runs a dealer, quotes swaps, hedges
  what is traded on an exchange and moves funds between wallet and exchange.  All share
  \<^verbatim>\<open>sideswap_common\<close>, \<^verbatim>\<open>sideswap_api\<close> and, for signing, \<^verbatim>\<open>sideswap_libwally\<close>.

  \<^bold>\<open>The theories.\<close>

  \<^item> \<^verbatim>\<open>Prelude\<close>: machine integers with wrap-around, errors and panics (a panic is \<open>None\<close>, an
    \<^verbatim>\<open>Err\<close> is \<open>Inl\<close>), maps as association lists behind the locale \<open>finite_map\<close> and its extension
    \<open>ordered_map\<close>, which are interpreted on \<^verbatim>\<open>BTreeMap\<close> (sorted lists, here) and on \<^verbatim>\<open>HashMap\<close>
    (\<^verbatim>\<open>Gdk_Types\<close>), the fold of fallible steps.
  \<^item> \<^verbatim>\<open>F64\<close>: IEEE 754 binary64 arithmetic on rationals, executable by the kernel, with error bounds.
  \<^item> \<^verbatim>\<open>Common_Types\<close>, \<^verbatim>\<open>Select_Utxo\<close>: \<^verbatim>\<open>sideswap_common/src/types.rs\<close>, that is environments, amounts, fees,
    conversions and coin selection; the locale \<open>coin_selection\<close> is what the callers rely on.
  \<^item> \<^verbatim>\<open>Api\<close>: the messages of \<^verbatim>\<open>sideswap_api/src/lib.rs\<close> and the node requests of
    \<^verbatim>\<open>sideswap_dealer/src/rpc.rs\<close>.
  \<^item> \<^verbatim>\<open>Dealer\<close>: the worker of \<^verbatim>\<open>sideswap_dealer/src/dealer.rs\<close>, one definition per handler and \<open>dealer_step\<close>
    for its loop; \<^verbatim>\<open>Dealer_Correct\<close> and \<^verbatim>\<open>Dealer_Props\<close> hold its invariant and its properties: what is
    signed, which orders are taken, completion, outputs, expiry of prices.
  \<^item> \<^verbatim>\<open>Bf_Balancing\<close>, \<^verbatim>\<open>Bf_Balancing_Props\<close>: \<^verbatim>\<open>balancing.rs\<close> and \<^verbatim>\<open>storage.rs\<close>, the state machine of a
    transfer, with its ledger invariant over restarts.
  \<^item> \<^verbatim>\<open>Bf_Main\<close>, \<^verbatim>\<open>Bf_Main_Props\<close>: the loop of \<^verbatim>\<open>main.rs\<close> of the market maker (quotes, swaps, hedging,
    prices, health, reports, commands).
  \<^item> \<^verbatim>\<open>Libwally\<close>, \<^verbatim>\<open>Libwally_Props\<close>: \<^verbatim>\<open>generate_psbt\<close> and \<^verbatim>\<open>sign_psbt\<close> of \<^verbatim>\<open>sideswap_libwally/src/lib.rs\<close>, and
    that a signature means the agreed trade.
  \<^item> \<^verbatim>\<open>Client_Types\<close> (settings of \<^verbatim>\<open>settings.rs\<close>, messages of \<^verbatim>\<open>sideswap.proto\<close>, the state \<open>Data\<close>),
    \<^verbatim>\<open>Client_Io\<close> (requests, wallet calls, files), \<^verbatim>\<open>Client_Orders\<close> (assets, order list, contacts),
    \<^verbatim>\<open>Client_Tx\<close> (transactions, balances, pegs, addresses), \<^verbatim>\<open>Client_Swap\<close> (swaps, payments),
    \<^verbatim>\<open>Client_Submit\<close> (orders and their signatures) and \<^verbatim>\<open>Client_Main\<close> (connection, login, dispatch, runs):
    \<^verbatim>\<open>sideswap_client/src/worker.rs\<close>, each function of its \<^verbatim>\<open>impl Data\<close> under its own name.
  \<^item> \<^verbatim>\<open>Client_Frame\<close>: locales of observations of the client's state, with one lemma per handler that
    it leaves every observation of the kind unchanged.  They are interpreted on the order list
    (\<^verbatim>\<open>Client_Order_Props\<close>) and on the book of signatures (\<^verbatim>\<open>Client_Sign_Props\<close>), which leaves the few
    handlers that do change them to be proved.
  \<^item> \<^verbatim>\<open>Client_Tx_Props\<close>, \<^verbatim>\<open>Client_Swap_Props\<close>: requests, registration of addresses, what the user interface
    is shown, the settings file, inputs of swaps.  \<^verbatim>\<open>Client_Demo\<close> has the concrete states of the
    witnesses.
  \<^item> \<^verbatim>\<open>Gdk_Types\<close> (the data of \<^verbatim>\<open>gdk_common\<close>: networks, errors, scripts, transactions, coins) and
    \<^verbatim>\<open>Gdk_Tx\<close> (\<^verbatim>\<open>be/transaction.rs\<close>: amounts, fees, what inputs are still needed and what change is left).
  \<^item> \<^verbatim>\<open>Gdk_Store\<close> (\<^verbatim>\<open>store.rs\<close>), \<^verbatim>\<open>Gdk_Account\<close>, \<^verbatim>\<open>Gdk_Create\<close>, \<^verbatim>\<open>Gdk_Sign\<close> (\<^verbatim>\<open>account.rs\<close>: addresses,
    history and coins; payments; blinding and signing); \<^verbatim>\<open>Gdk_Create_Props\<close> shows what a payment is.
  \<^item> \<^verbatim>\<open>Gdk_Headers\<close>, \<^verbatim>\<open>Gdk_Headers_Props\<close>, \<^verbatim>\<open>Gdk_Verified\<close> (\<^verbatim>\<open>headers/*.rs\<close>): the file of headers stays a valid
    chain, and what is remembered as verified is included in it, or is signed by the federation.
  \<^item> \<^verbatim>\<open>Gdk_Spv\<close>, \<^verbatim>\<open>Gdk_Spv_Props\<close> (\<^verbatim>\<open>spv.rs\<close>): the comparison with other servers and that it ends.
  \<^item> \<^verbatim>\<open>Gdk_Sync\<close>, \<^verbatim>\<open>Gdk_Sync_Props\<close>, \<^verbatim>\<open>Gdk_Wallet\<close> (\<^verbatim>\<open>interface.rs\<close>), \<^verbatim>\<open>Gdk_Pin\<close> (\<^verbatim>\<open>pin/mod.rs\<close>), \<^verbatim>\<open>Gdk_Session\<close>
    (\<^verbatim>\<open>lib.rs\<close>): synchronisation with a server, the wallet, the PIN server, login and the calls of a
    session; that a synchronisation keeps the well-formedness on which the theorems on payments
    rest, and that what is stored is read back.
  \<^item> \<^verbatim>\<open>Gdk_Demo\<close>, \<^verbatim>\<open>Gdk_Spv_Demo\<close>: the concrete wallets and headers of the witnesses; \<^verbatim>\<open>Gdk_Props\<close>: the
    properties of the wallet library.

  \<^bold>\<open>State and the outside.\<close>  A handler is a function from the component's record to its new state,
  in an option when it can panic, with its result when it returns one; an early return keeps the
  state that the statements before it made.  Messages that are sent are appended to logs in the
  state.  What the outside will answer (responses of the server, replies of the node and of the
  wallet library, the outcome of file writes, the clock) is part of the state too, so that a theorem
  quantifies over all behaviours of the outside; between two messages of a run it is arbitrary.
  Within one handler the clock is one instant.  Functions of third-party crates are the
  fields of the records \<open>wally\<close> and \<open>libs\<close>; the one hypothesis on them, \<open>adds_signatures_only\<close>, says that
  signing and finalising a PSET keep its inputs and outputs.  Log output and sleeping are omitted.

  In the wallet library third-party code is in the records \<open>gdk_lib\<close> (encodings, addresses,
  weights), \<open>gdk_keys\<close> (keys and signatures), \<open>store_lib\<close> (encryption and serialisation), \<open>hdr_lib\<close>
  (headers, hashes, targets), \<open>sync_lib\<close>, \<open>session_lib\<close>, \<open>pin_lib\<close> and \<open>http_lib\<close>; a server is the
  record \<open>Electrum\<close> of its answers, and files are a map from paths to bytes.  The hypotheses on them
  are \<open>lib_ok\<close> (hexadecimal text reads back, shuffling is a permutation), \<open>hdr_ok\<close> (an encoded
  header has 80 bytes and reads back), \<open>cipher_ok\<close> (decryption inverts encryption, and files are
  written completely), \<open>txids_ok\<close> (the stored sets of identifiers read back), \<open>answers_ok\<close> (the
  fields of received headers have their widths, and an answer has fewer than \<open>2 ^ 31\<close> of them) and
  \<open>heights_ok\<close> (no server claims the height \<open>2 ^ 32 - 1\<close>); each has a concrete instance in the
  witnesses.  The data of the
  wallet and the client's calls to it meet at the wallet's replies: in the client they are
  arbitrary, so its theorems hold whatever the library answers.  The threads of a session are
  the rounds of their loops, each on the store as it is when the round starts.  Arithmetic wraps
  as in a release build.

  \<^bold>\<open>Termination.\<close>  The loops of the client and of the dealers are total functions.  The loop of \<^verbatim>\<open>update_address_registrations\<close> terminates
  because every accepted request consumes a response, the loop of \<^verbatim>\<open>send_request\<close> because the finite
  list of events ends in a time-out; no fuel is used.  Three loops of the wallet library may run
  forever, depending on what a server answers (\<open>fork_chunks\<close>, \<open>sync_chain\<close>, \<open>discover_type\<close>): they are
  partial functions, for which \<open>None\<close> also means not returning.  Cross validation is shown to end,
  \<open>fork_chunks_hangs\<close> being the one exception; the other two go on as long as a server reports
  histories for ever new addresses, and nothing is claimed of their ending.

  \<^bold>\<open>What is shown.\<close>  Safety of money: what dealers and clients sign and how often, which outputs are
  spent, that transfers are not repeated, that a payment neither creates nor loses units of an
  asset and spends only unspent coins of its account, and that what counts as verified is in a
  valid chain or signed by the federation.  Refinement: the order list, the transaction list and the
  balances that the user interface reconstructs from its messages are the client's.  Arithmetic: fees
  and conversions through all roundings.  Liveness and termination of the registration of
  addresses.  Error behaviour: which handlers can panic and when.

  \<^bold>\<open>Not modelled.\<close>  The generated bindings of libwally and the wrappers of \<^verbatim>\<open>gdk_common/src/wally\<close>,
  the C interface of \<^verbatim>\<open>gdk_rust/src/lib.rs\<close> (JSON in and out of the modelled calls), currencies and
  exchange rates, locks and the interleaving of threads within a round, the reconnecting socket of \<^verbatim>\<open>ws.rs\<close> and the other socket servers (asynchronous
  I/O), the byte transport of \<^verbatim>\<open>ffi.rs\<close>, slack notifications, the Go proxy and the Flutter application.
\<close>

end
